(* ===== verification/GW_Prelude.thy ===== *)
theory GW_Prelude
  imports Main "HOL-Library.AList" "HOL-Library.Multiset"
begin

text \<open>
  The shared vocabulary of the development: Go's error values, the three ways a Go call ends
  (a value, an error, a panic), the state-threading form of calls that touch the outside world,
  Go maps (with the difference between a nil and an empty map), byte slices (with the difference
  between nil and empty) and pointers, with the generic lemmas the component theories rewrite with.
  The collection \<open>run_simps\<close> evaluates state-threading code; \<open>go_simps\<close> evaluates the rest.
\<close>

named_theorems run_simps "evaluation of state-threading code"
named_theorems go_simps "evaluation of Go data operations"

section \<open>Errors and outcomes\<close>

text \<open>
  The reasons of a Kubernetes API status error that the code tells apart
  (\<^verbatim>\<open>apierrors.IsNotFound\<close>, \<^verbatim>\<open>apierrors.IsAlreadyExists\<close>); every other reason is kept by name.
\<close>

datatype status_reason = NotFound | AlreadyExists | OtherReason string

text \<open>
  Error values. \<open>StatusError\<close> is a Kubernetes status error with its message, \<open>NoMatchError\<close> and
  \<open>NotRegisteredError\<close> are the REST-mapper's and the scheme's errors, \<open>PlainError\<close> is a text-only
  error (\<^verbatim>\<open>errors.New\<close>, \<^verbatim>\<open>fmt.Errorf\<close> without \<^verbatim>\<open>%w\<close>), \<open>WrapError\<close> is \<^verbatim>\<open>errors.Wrapf\<close> or \<^verbatim>\<open>%w\<close>,
  \<open>AggregateError\<close> is \<^verbatim>\<open>utilerrors.NewAggregate\<close>; \<open>ExecError\<close> and \<open>ExitError\<close> are those of
  \<^verbatim>\<open>os/exec\<close>, \<open>AddrError\<close> is \<^verbatim>\<open>net.AddrError\<close> (its \<^verbatim>\<open>Err\<close> and its \<^verbatim>\<open>Addr\<close>).
\<close>

datatype goerror =
    StatusError status_reason string
  | NoMatchError string
  | NotRegisteredError string
  | PlainError string
  | WrapError string goerror
  | AggregateError "goerror list"
  | ExecError string
  | ExitError int
  | AddrError string string
  | EmptyCredentialTypeClusterSecretError
  | EmptyEndpointClusterSecretError
  | InvalidManagedClusterError

text \<open>How a call ends: with a value, with a non-nil error, or with a panic (and its message).\<close>

datatype 'a res = Ret 'a | Fail goerror | Panic string

definition nil_dereference :: string where
  "nil_dereference = ''invalid memory address or nil pointer dereference''"

definition nil_map_write :: string where
  "nil_map_write = ''assignment to entry in nil map''"

definition bind_res :: "'a res \<Rightarrow> ('a \<Rightarrow> 'b res) \<Rightarrow> 'b res" where
  "bind_res r f = (case r of Ret a \<Rightarrow> f a | Fail e \<Rightarrow> Fail e | Panic s \<Rightarrow> Panic s)"

text \<open>Reading through a pointer panics on nil.\<close>

definition deref :: "'a option \<Rightarrow> 'a res" where
  "deref p = (case p of None \<Rightarrow> Panic nil_dereference | Some a \<Rightarrow> Ret a)"

definition panics :: "'a res \<Rightarrow> bool" where
  "panics r = (case r of Panic _ \<Rightarrow> True | _ \<Rightarrow> False)"

fun status_reason_of :: "goerror \<Rightarrow> status_reason option" where
  "status_reason_of (StatusError r m) = Some r"
| "status_reason_of (WrapError m e) = status_reason_of e"
| "status_reason_of e = None"

text \<open>\<^verbatim>\<open>apierrors.IsNotFound\<close> and \<^verbatim>\<open>apierrors.IsAlreadyExists\<close> look through wrapped errors.\<close>

definition IsNotFound :: "goerror \<Rightarrow> bool" where
  "IsNotFound e \<longleftrightarrow> status_reason_of e = Some NotFound"

definition IsAlreadyExists :: "goerror \<Rightarrow> bool" where
  "IsAlreadyExists e \<longleftrightarrow> status_reason_of e = Some AlreadyExists"

fun IsNoMatchError :: "goerror \<Rightarrow> bool" where
  "IsNoMatchError (NoMatchError m) = True"
| "IsNoMatchError e = False"

fun IsNotRegisteredError :: "goerror \<Rightarrow> bool" where
  "IsNotRegisteredError (NotRegisteredError m) = True"
| "IsNotRegisteredError e = False"

section \<open>State-threading calls\<close>

type_synonym ('w, 'a) gom = "'w \<Rightarrow> 'a res \<times> 'w"

definition ret :: "'a \<Rightarrow> ('w, 'a) gom" where
  "ret a = (\<lambda>w. (Ret a, w))"

definition fail :: "goerror \<Rightarrow> ('w, 'a) gom" where
  "fail e = (\<lambda>w. (Fail e, w))"

definition panic :: "string \<Rightarrow> ('w, 'a) gom" where
  "panic s = (\<lambda>w. (Panic s, w))"

definition bindM :: "('w, 'a) gom \<Rightarrow> ('a \<Rightarrow> ('w, 'b) gom) \<Rightarrow> ('w, 'b) gom" where
  "bindM m f = (\<lambda>w. case m w of (r, w') \<Rightarrow>
     (case r of Ret a \<Rightarrow> f a w' | Fail e \<Rightarrow> (Fail e, w') | Panic s \<Rightarrow> (Panic s, w')))"

text \<open>\<^verbatim>\<open>x, err := call()\<close> where the code goes on and looks at \<^verbatim>\<open>err\<close> itself; a panic still unwinds.\<close>

definition attempt :: "('w, 'a) gom \<Rightarrow> ('w, goerror + 'a) gom" where
  "attempt m = (\<lambda>w. case m w of (r, w') \<Rightarrow>
     (case r of Ret a \<Rightarrow> (Ret (Inr a), w') | Fail e \<Rightarrow> (Ret (Inl e), w') | Panic s \<Rightarrow> (Panic s, w')))"

definition liftR :: "'a res \<Rightarrow> ('w, 'a) gom" where
  "liftR r = (\<lambda>w. (r, w))"

text \<open>\<^verbatim>\<open>if err := call(); err != nil { return f(err) }\<close>, and the same with \<^verbatim>\<open>errors.Wrapf(err, msg)\<close>.\<close>

definition mapErr :: "(goerror \<Rightarrow> goerror) \<Rightarrow> ('w, 'a) gom \<Rightarrow> ('w, 'a) gom" where
  "mapErr f m = bindM (attempt m) (\<lambda>r. case r of Inl e \<Rightarrow> fail (f e) | Inr a \<Rightarrow> ret a)"

abbreviation wrapM :: "string \<Rightarrow> ('w, 'a) gom \<Rightarrow> ('w, 'a) gom" where
  "wrapM msg \<equiv> mapErr (WrapError msg)"

fun forM :: "('a \<Rightarrow> ('w, unit) gom) \<Rightarrow> 'a list \<Rightarrow> ('w, unit) gom" where
  "forM f [] = ret ()"
| "forM f (x # xs) = bindM (f x) (\<lambda>_. forM f xs)"

section \<open>Byte slices and maps\<close>

text \<open>A byte slice is \<open>None\<close> when nil; a nil slice has length 0 and converts to the empty string.\<close>

type_synonym gobytes = "string option"

definition bstr :: "gobytes \<Rightarrow> string" where
  "bstr b = (case b of None \<Rightarrow> '''' | Some s \<Rightarrow> s)"

definition blen :: "gobytes \<Rightarrow> nat" where
  "blen b = length (bstr b)"

definition bytes_Equal :: "gobytes \<Rightarrow> gobytes \<Rightarrow> bool" where
  "bytes_Equal a b \<longleftrightarrow> bstr a = bstr b"

text \<open>
  A Go map is \<open>None\<close> when nil, otherwise its entries in the order a \<^verbatim>\<open>range\<close> loop meets them (Go leaves
  that order open, so a well-formed map only says that no key occurs twice).
\<close>

type_synonym 'v gomap = "(string \<times> 'v) list option"

definition entries :: "'v gomap \<Rightarrow> (string \<times> 'v) list" where
  "entries m = (case m of None \<Rightarrow> [] | Some xs \<Rightarrow> xs)"

definition mget :: "'v gomap \<Rightarrow> string \<Rightarrow> 'v option" where
  "mget m k = map_of (entries m) k"

definition mput :: "string \<Rightarrow> 'v \<Rightarrow> 'v gomap \<Rightarrow> 'v gomap res" where
  "mput k v m = (case m of None \<Rightarrow> Panic nil_map_write | Some xs \<Rightarrow> Ret (Some (AList.update k v xs)))"

definition wf_gomap :: "'v gomap \<Rightarrow> bool" where
  "wf_gomap m \<longleftrightarrow> distinct (map fst (entries m))"

text \<open>\<^verbatim>\<open>m[k]\<close> on a map of strings gives the empty string for a missing key, on a map of slices nil.\<close>

definition sget :: "string gomap \<Rightarrow> string \<Rightarrow> string" where
  "sget m k = (case mget m k of None \<Rightarrow> '''' | Some v \<Rightarrow> v)"

definition dget :: "gobytes gomap \<Rightarrow> string \<Rightarrow> gobytes" where
  "dget m k = (case mget m k of None \<Rightarrow> None | Some v \<Rightarrow> v)"

section \<open>Quoting\<close>

text \<open>\<^verbatim>\<open>%q\<close> (\<^verbatim>\<open>strconv.Quote\<close>): bytes from 0x80 on are kept, as Go keeps printable UTF-8.\<close>

definition hex_lower :: "nat \<Rightarrow> char" where
  "hex_lower n = (if n < 10 then char_of (48 + n) else char_of (87 + n))"

definition quote_byte :: "char \<Rightarrow> string" where
  "quote_byte c =
     (let n = (of_char c :: nat) in
      if n = 0x22 \<or> n = 0x5C then [CHR 0x5C, c]
      else (case map_of (zip [7, 8, 9, 10, 11, 12, 13] ''abtnvfr'') n of
              Some e \<Rightarrow> [CHR 0x5C, e]
            | None \<Rightarrow> if n < 0x20 \<or> n = 0x7F
                      then [CHR 0x5C, CHR ''x'', hex_lower (n div 16), hex_lower (n mod 16)] else [c]))"

definition go_quote :: "string \<Rightarrow> string" where
  "go_quote s = CHR 0x22 # concat (map quote_byte s) @ [CHR 0x22]"

section \<open>Lemmas\<close>

lemma bind_res_simps [simp]:
  "bind_res (Ret a) f = f a" "bind_res (Fail e) f = Fail e" "bind_res (Panic s) f = Panic s"
  by (simp_all add: bind_res_def)

lemma bind_res_Ret_iff: "bind_res r f = Ret b \<longleftrightarrow> (\<exists>a. r = Ret a \<and> f a = Ret b)"
  by (cases r) auto

lemma bind_res_Panic_iff: "bind_res r f = Panic m \<longleftrightarrow> r = Panic m \<or> (\<exists>a. r = Ret a \<and> f a = Panic m)"
  by (cases r) auto

lemma deref_simps [simp]:
  "deref (Some a) = Ret a" "deref None = Panic nil_dereference"
  by (simp_all add: deref_def)

lemma deref_Ret_iff [simp]: "deref p = Ret a \<longleftrightarrow> p = Some a"
  by (cases p) auto

lemma deref_not_Fail [simp]: "deref p \<noteq> Fail e"
  by (cases p) auto

lemma panics_simps [simp]:
  "panics (Panic s)" "\<not> panics (Ret a)" "\<not> panics (Fail e)"
  by (simp_all add: panics_def)

lemma gom_basic [run_simps]:
  "ret a w = (Ret a, w)" "fail e w = (Fail e, w)" "panic s w = (Panic s, w)" "liftR r w = (r, w)"
  by (simp_all add: ret_def fail_def panic_def liftR_def)

lemma bindM_run [run_simps]:
  "bindM m f w = (case m w of (Ret a, w') \<Rightarrow> f a w' | (Fail e, w') \<Rightarrow> (Fail e, w') | (Panic s, w') \<Rightarrow> (Panic s, w'))"
  by (simp add: bindM_def split: prod.splits res.splits)

lemma attempt_run [run_simps]:
  "attempt m w = (case m w of (Ret a, w') \<Rightarrow> (Ret (Inr a), w') | (Fail e, w') \<Rightarrow> (Ret (Inl e), w')
     | (Panic s, w') \<Rightarrow> (Panic s, w'))"
  by (simp add: attempt_def split: prod.splits res.splits)

lemma mapErr_run [run_simps]:
  "mapErr f m w = (case m w of (Ret a, w') \<Rightarrow> (Ret a, w') | (Fail e, w') \<Rightarrow> (Fail (f e), w')
     | (Panic s, w') \<Rightarrow> (Panic s, w'))"
  by (simp add: mapErr_def run_simps split: prod.splits res.splits)

lemma bindM_ret [simp]: "bindM (ret a) f = f a"
  by (rule ext) (simp add: run_simps)

lemma bindM_fail [simp]: "bindM (fail e) f = fail e"
  by (rule ext) (simp add: run_simps)

lemma bindM_panic [simp]: "bindM (panic s) f = panic s"
  by (rule ext) (simp add: run_simps)

lemma liftR_simps [simp]:
  "liftR (Ret a) = ret a" "liftR (Fail e) = fail e" "liftR (Panic s) = panic s"
  by (simp_all add: liftR_def ret_def fail_def panic_def)

lemma attempt_simps [simp]:
  "attempt (ret a) = ret (Inr a)" "attempt (fail e) = ret (Inl e)" "attempt (panic s) = panic s"
  by (rule ext, simp add: run_simps)+

lemma mapErr_Ret_iff: "mapErr f m w = (Ret a, w') \<longleftrightarrow> m w = (Ret a, w')"
  by (auto simp: mapErr_run split: prod.splits res.splits)

lemma mapErr_simps [simp]:
  "mapErr f (ret a) = ret a" "mapErr f (fail e) = fail (f e)" "mapErr f (panic s) = panic s"
  by (rule ext, simp add: run_simps)+

lemma bindM_assoc: "bindM (bindM m f) g = bindM m (\<lambda>a. bindM (f a) g)"
  by (rule ext) (simp add: run_simps split: prod.splits res.splits)

lemma bindM_Ret_iff:
  "bindM m f w = (Ret b, w') \<longleftrightarrow> (\<exists>a w1. m w = (Ret a, w1) \<and> f a w1 = (Ret b, w'))"
  by (simp add: run_simps split: prod.splits res.splits)

lemma forM_Ret_append:
  "forM f (xs @ ys) = bindM (forM f xs) (\<lambda>_. forM f ys)"
  by (induction xs) (simp_all add: bindM_assoc)

lemma bstr_simps [simp]: "bstr None = ''''" "bstr (Some s) = s"
  by (simp_all add: bstr_def)

lemma blen_simps [simp]: "blen None = 0" "blen (Some s) = length s"
  by (simp_all add: blen_def)

lemma bytes_Equal_refl [simp]: "bytes_Equal a a"
  by (simp add: bytes_Equal_def)

lemma entries_simps [simp]: "entries None = []" "entries (Some xs) = xs"
  by (simp_all add: entries_def)

lemma mget_nil [simp]: "mget None k = None"
  by (simp add: mget_def)

lemma mget_Some: "mget (Some xs) k = map_of xs k"
  by (simp add: mget_def)

lemma mput_nil [simp]: "mput k v None = Panic nil_map_write"
  by (simp add: mput_def)

lemma mput_Some [simp]: "mput k v (Some xs) = Ret (Some (AList.update k v xs))"
  by (simp add: mput_def)

lemma mget_mput:
  "mput k v m = Ret m' \<Longrightarrow> mget m' k' = (if k' = k then Some v else mget m k')"
  by (auto simp: mput_def mget_def update_conv' split: option.splits)

lemma wf_gomap_mput: "mput k v m = Ret m' \<Longrightarrow> wf_gomap m \<Longrightarrow> wf_gomap m'"
  by (auto simp: mput_def wf_gomap_def distinct_update split: option.splits)

lemma map_of_update_conv:
  "map_of (AList.update k v xs) k' = (if k' = k then Some v else map_of xs k')"
  by (simp add: update_conv')

end
