(* ===== verification/K8s_Objects.thy ===== *)
theory K8s_Objects
  imports GW_Prelude
begin

text \<open>
  The Kubernetes and Open-Cluster-Management objects the program reads and writes, with the fields its
  code touches. Times are nanoseconds since Go's zero time, so the zero time is 0. Pointers and
  nil slices or maps are \<open>None\<close>.
\<close>

type_synonym gotime = int

record OwnerReference =
  ref_APIVersion :: string
  ref_Kind :: string
  ref_UID :: string
  ref_Name :: string

record ObjectMeta =
  meta_Name :: string
  meta_Namespace :: string
  meta_UID :: string
  meta_ResourceVersion :: string
  meta_Generation :: int
  meta_CreationTimestamp :: gotime
  meta_Labels :: "string gomap"
  meta_Annotations :: "string gomap"
  meta_OwnerReferences :: "OwnerReference list"

definition empty_ObjectMeta :: ObjectMeta where
  "empty_ObjectMeta = \<lparr>meta_Name = '''', meta_Namespace = '''', meta_UID = '''', meta_ResourceVersion = '''',
     meta_Generation = 0, meta_CreationTimestamp = 0, meta_Labels = None, meta_Annotations = None,
     meta_OwnerReferences = []\<rparr>"

record Secret =
  sec_Meta :: ObjectMeta
  sec_Type :: string
  sec_Data :: "gobytes gomap"

abbreviation sec_Name :: "Secret \<Rightarrow> string" where
  "sec_Name s \<equiv> meta_Name (sec_Meta s)"

abbreviation sec_Labels :: "Secret \<Rightarrow> string gomap" where
  "sec_Labels s \<equiv> meta_Labels (sec_Meta s)"

abbreviation sec_Annotations :: "Secret \<Rightarrow> string gomap" where
  "sec_Annotations s \<equiv> meta_Annotations (sec_Meta s)"

record ClientConfig =
  cc_URL :: string
  cc_CABundle :: gobytes

record ManagedCluster =
  mc_Meta :: ObjectMeta
  mc_ClientConfigs :: "ClientConfig list"
  mc_HubAcceptsClient :: bool

abbreviation mc_Name :: "ManagedCluster \<Rightarrow> string" where
  "mc_Name c \<equiv> meta_Name (mc_Meta c)"

text \<open>\<^verbatim>\<open>metav1.HasLabel\<close> and \<^verbatim>\<open>metav1.SetMetaDataLabel\<close> (which makes the map when it is nil).\<close>

definition HasLabel :: "ObjectMeta \<Rightarrow> string \<Rightarrow> bool" where
  "HasLabel m k \<longleftrightarrow> mget (meta_Labels m) k \<noteq> None"

definition SetMetaDataLabel :: "string \<Rightarrow> string \<Rightarrow> ObjectMeta \<Rightarrow> ObjectMeta" where
  "SetMetaDataLabel k v m = m\<lparr>meta_Labels := Some (AList.update k v (entries (meta_Labels m)))\<rparr>"

text \<open>The keys of a service-account or TLS secret's data (\<^verbatim>\<open>corev1.ServiceAccountTokenKey\<close> and friends).\<close>

definition ServiceAccountTokenKey :: string where "ServiceAccountTokenKey = ''token''"
definition ServiceAccountRootCAKey :: string where "ServiceAccountRootCAKey = ''ca.crt''"
definition TLSCertKey :: string where "TLSCertKey = ''tls.crt''"
definition TLSPrivateKeyKey :: string where "TLSPrivateKeyKey = ''tls.key''"

text \<open>\<^verbatim>\<open>apierrors.NewNotFound\<close>: a status error whose message names the resource and the object.\<close>

definition NewNotFound :: "string \<Rightarrow> string \<Rightarrow> string \<Rightarrow> goerror" where
  "NewNotFound grp rsrc name = StatusError NotFound
     (rsrc @ (if grp = '''' then '''' else ''.'' @ grp) @ '' '' @ go_quote name @ '' not found'')"

lemma IsNotFound_NewNotFound [simp]: "IsNotFound (NewNotFound g r n)"
  by (simp add: NewNotFound_def IsNotFound_def)

lemma meta_Labels_SetMetaDataLabel:
  "mget (meta_Labels (SetMetaDataLabel k v m)) k' = (if k' = k then Some v else mget (meta_Labels m) k')"
  by (simp add: SetMetaDataLabel_def mget_def update_conv')

end
