(* ===== verification/Gateway_Types.thy ===== *)
theory Gateway_Types
  imports K8s_Objects
begin

text \<open>
  The data model of the gateway apiserver: the \<^verbatim>\<open>ClusterGateway\<close> resource
  (\<^verbatim>\<open>pkg/apis/cluster/v1alpha1/clustergateway_types.go\<close>), the identity-exchange configuration attached to it
  (\<^verbatim>\<open>clustergateway_proxy_configuration.go\<close>), and the names shared by the packages
  (\<^verbatim>\<open>pkg/common\<close>, \<^verbatim>\<open>pkg/config\<close>, \<^verbatim>\<open>pkg/featuregates\<close>), with the resource's small methods.
  A string type with constants is a HOL string, because the code also carries values outside the constants.
\<close>

section \<open>Names\<close>

definition MetaApiGroupName :: string where "MetaApiGroupName = ''cluster.core.oam.dev''"
definition MetaApiVersionName :: string where "MetaApiVersionName = ''v1alpha1''"
definition MetaApiResourceName :: string where "MetaApiResourceName = ''clustergateways''"

definition AddonName :: string where "AddonName = ''cluster-gateway''"
definition LabelKeyOpenClusterManagementAddon :: string where
  "LabelKeyOpenClusterManagementAddon = ''proxy.open-cluster-management.io/addon-name''"
definition ClusterGatewayConfigurationCRDName :: string where
  "ClusterGatewayConfigurationCRDName = ''clustergatewayconfigurations.proxy.open-cluster-management.io''"
definition ClusterGatewayConfigurationCRName :: string where
  "ClusterGatewayConfigurationCRName = ''cluster-gateway''"
definition InstallNamespace :: string where
  "InstallNamespace = ''open-cluster-management-cluster-gateway''"
definition ClusterGatewayAPIServiceName :: string where
  "ClusterGatewayAPIServiceName = ''v1alpha1.cluster.core.oam.dev''"
definition LabelKeyClusterCredentialType :: string where
  "LabelKeyClusterCredentialType = MetaApiGroupName @ ''/cluster-credential-type''"
definition LabelKeyClusterEndpointType :: string where
  "LabelKeyClusterEndpointType = MetaApiGroupName @ ''/cluster-endpoint-type''"

definition HealthinessCheck :: string where "HealthinessCheck = ''HealthinessCheck''"
definition SecretCache :: string where "SecretCache = ''SecretCache''"
definition ClientIdentityPenetration :: string where "ClientIdentityPenetration = ''ClientIdentityPenetration''"
definition OCMClusterCache :: string where "OCMClusterCache = ''OCMClusterCache''"

text \<open>The default of every feature gate; \<open>None\<close> for a name the gate does not know.\<close>

definition DefaultKubeFedFeatureGates :: "string \<Rightarrow> bool option" where
  "DefaultKubeFedFeatureGates f = map_of [(HealthinessCheck, False), (SecretCache, True),
     (ClientIdentityPenetration, False), (OCMClusterCache, True)] f"

lemmas name_defs =
  MetaApiGroupName_def MetaApiVersionName_def MetaApiResourceName_def AddonName_def
  LabelKeyClusterCredentialType_def LabelKeyClusterEndpointType_def
  HealthinessCheck_def SecretCache_def ClientIdentityPenetration_def OCMClusterCache_def

section \<open>Identity-exchange configuration\<close>

record IdentityExchangerTarget =
  target_User :: string
  target_Groups :: "string list"
  target_UID :: string

record IdentityExchangerSource =
  source_User :: "string option"
  source_Group :: "string option"
  source_UID :: "string option"
  source_Cluster :: "string option"
  source_UserPattern :: "string option"
  source_GroupPattern :: "string option"
  source_ClusterPattern :: "string option"

definition PrivilegedIdentityExchanger :: string where
  "PrivilegedIdentityExchanger = ''PrivilegedIdentityExchanger''"
definition StaticMappingIdentityExchanger :: string where
  "StaticMappingIdentityExchanger = ''StaticMappingIdentityExchanger''"
definition ExternalIdentityExchanger :: string where
  "ExternalIdentityExchanger = ''ExternalIdentityExchanger''"

record ClientIdentityExchangeRule =
  rule_Name :: string
  rule_Type :: string
  rule_Source :: "IdentityExchangerSource option"
  rule_Target :: "IdentityExchangerTarget option"
  rule_URL :: "string option"

record ClientIdentityExchanger =
  exch_Rules :: "ClientIdentityExchangeRule list"

record ClusterGatewayProxyConfiguration =
  pc_Exchanger :: ClientIdentityExchanger

definition AnnotationClusterGatewayProxyConfiguration :: string where
  "AnnotationClusterGatewayProxyConfiguration = ''cluster.core.oam.dev/cluster-gateway-proxy-configuration''"

section \<open>The ClusterGateway resource\<close>

definition CredentialTypeServiceAccountToken :: string where
  "CredentialTypeServiceAccountToken = ''ServiceAccountToken''"
definition CredentialTypeX509Certificate :: string where
  "CredentialTypeX509Certificate = ''X509Certificate''"
definition CredentialTypeDynamic :: string where
  "CredentialTypeDynamic = ''Dynamic''"

definition ClusterEndpointTypeConst :: string where "ClusterEndpointTypeConst = ''Const''"
definition ClusterEndpointTypeClusterProxy :: string where "ClusterEndpointTypeClusterProxy = ''ClusterProxy''"

record ClusterEndpointConst =
  const_Address :: string
  const_CABundle :: gobytes
  const_Insecure :: "bool option"
  const_ProxyURL :: "string option"

record ClusterEndpoint =
  ep_Type :: string
  ep_Const :: "ClusterEndpointConst option"

record X509 =
  x509_Certificate :: gobytes
  x509_PrivateKey :: gobytes

record ClusterAccessCredential =
  cred_Type :: string
  cred_ServiceAccountToken :: string
  cred_X509 :: "X509 option"

record ClusterAccess =
  access_Endpoint :: "ClusterEndpoint option"
  access_Credential :: "ClusterAccessCredential option"

record ClusterGatewaySpec =
  spec_Provider :: string
  spec_Access :: ClusterAccess
  spec_ProxyConfig :: "ClusterGatewayProxyConfiguration option"

record ClusterGatewayStatus =
  st_Healthy :: bool
  st_HealthyReason :: string

record ClusterGateway =
  cg_Meta :: ObjectMeta
  cg_Spec :: ClusterGatewaySpec
  cg_Status :: ClusterGatewayStatus

record ClusterGatewayList =
  cgl_Items :: "ClusterGateway list"

abbreviation cg_Name :: "ClusterGateway \<Rightarrow> string" where
  "cg_Name c \<equiv> meta_Name (cg_Meta c)"

abbreviation cg_Endpoint :: "ClusterGateway \<Rightarrow> ClusterEndpoint option" where
  "cg_Endpoint c \<equiv> access_Endpoint (spec_Access (cg_Spec c))"

abbreviation cg_Credential :: "ClusterGateway \<Rightarrow> ClusterAccessCredential option" where
  "cg_Credential c \<equiv> access_Credential (spec_Access (cg_Spec c))"

definition empty_ClusterAccess :: ClusterAccess where
  "empty_ClusterAccess = \<lparr>access_Endpoint = None, access_Credential = None\<rparr>"

definition empty_ClusterGatewaySpec :: ClusterGatewaySpec where
  "empty_ClusterGatewaySpec = \<lparr>spec_Provider = '''', spec_Access = empty_ClusterAccess, spec_ProxyConfig = None\<rparr>"

definition empty_ClusterGatewayStatus :: ClusterGatewayStatus where
  "empty_ClusterGatewayStatus = \<lparr>st_Healthy = False, st_HealthyReason = ''''\<rparr>"

definition ClusterGateway_New :: ClusterGateway where
  "ClusterGateway_New = \<lparr>cg_Meta = empty_ObjectMeta, cg_Spec = empty_ClusterGatewaySpec,
     cg_Status = empty_ClusterGatewayStatus\<rparr>"

definition ClusterGateway_NewList :: ClusterGatewayList where
  "ClusterGateway_NewList = \<lparr>cgl_Items = []\<rparr>"

definition ClusterGateway_NamespaceScoped :: bool where "ClusterGateway_NamespaceScoped = False"
definition ClusterGateway_IsStorageVersion :: bool where "ClusterGateway_IsStorageVersion = True"
definition ClusterGateway_GetSingularName :: string where "ClusterGateway_GetSingularName = ''clustergateway''"

record GroupVersionResource =
  gvr_Group :: string
  gvr_Version :: string
  gvr_Resource :: string

definition ClusterGateway_GetGroupVersionResource :: GroupVersionResource where
  "ClusterGateway_GetGroupVersionResource =
     \<lparr>gvr_Group = MetaApiGroupName, gvr_Version = MetaApiVersionName, gvr_Resource = MetaApiResourceName\<rparr>"

definition HealthyReasonTypeClusterGatewayNotRegistered :: string where
  "HealthyReasonTypeClusterGatewayNotRegistered = ''ClusterGatewayNotRegistered''"
definition HealthyReasonTypeCertificateMismatch :: string where
  "HealthyReasonTypeCertificateMismatch = ''CertificateMismatch''"
definition HealthyReasonTypeConnectionTimeout :: string where
  "HealthyReasonTypeConnectionTimeout = ''ConnectionTimeout''"
definition HealthyReasonTypeUnknownPrefix :: string where
  "HealthyReasonTypeUnknownPrefix = ''Unknown:''"

lemmas credential_type_defs =
  CredentialTypeServiceAccountToken_def CredentialTypeX509Certificate_def CredentialTypeDynamic_def

lemmas endpoint_type_defs = ClusterEndpointTypeConst_def ClusterEndpointTypeClusterProxy_def

lemmas exchanger_type_defs =
  PrivilegedIdentityExchanger_def StaticMappingIdentityExchanger_def ExternalIdentityExchanger_def

end
