(* ===== verification/Identity_Exchange.thy ===== *)
theory Identity_Exchange
  imports Gateway_Types
begin

text \<open>
  Identity exchange (\<^verbatim>\<open>pkg/apis/cluster/v1alpha1/clustergateway_proxy_configuration.go\<close>): which identity a
  request carries into the managed cluster. A rule matches on the caller and the cluster, literally or
  by regular expression; the first rule that matches decides. The regular-expression engine is an
  argument \<open>engine\<close> (pattern, text; \<open>None\<close> is a pattern that does not compile), so the results hold for
  every pattern language. The caller is \<open>None\<close> when the request context carries no user.
\<close>

section \<open>Callers and projections\<close>

record UserInfo =
  user_Name :: string
  user_UID :: string
  user_Groups :: "string list"
  user_Extra :: "(string \<times> string list) list"

record ImpersonationConfig =
  imp_UserName :: string
  imp_UID :: string
  imp_Groups :: "string list"
  imp_Extra :: "(string \<times> string list) list"

definition no_impersonation :: ImpersonationConfig where
  "no_impersonation = \<lparr>imp_UserName = '''', imp_UID = '''', imp_Groups = [], imp_Extra = []\<rparr>"

type_synonym regexp_engine = "string \<Rightarrow> string \<Rightarrow> bool option"

section \<open>Matching\<close>

definition denyQuery :: "regexp_engine \<Rightarrow> string option \<Rightarrow> string \<Rightarrow> bool" where
  "denyQuery engine pat query =
     (case pat of
        None \<Rightarrow> False
      | Some p \<Rightarrow> (case engine p query of None \<Rightarrow> False | Some matched \<Rightarrow> \<not> matched))"

fun denyGroups_loop :: "regexp_engine \<Rightarrow> string option \<Rightarrow> string list \<Rightarrow> bool" where
  "denyGroups_loop engine pat [] = True"
| "denyGroups_loop engine pat (g # gs) = (if \<not> denyQuery engine pat g then False else denyGroups_loop engine pat gs)"

definition denyGroups :: "regexp_engine \<Rightarrow> string option \<Rightarrow> string list \<Rightarrow> bool" where
  "denyGroups engine pat groups = (case pat of None \<Rightarrow> False | Some _ \<Rightarrow> denyGroups_loop engine pat groups)"

text \<open>
  \<^verbatim>\<open>matchIdentity\<close>: the cases of the switch in their order. The calls on a nil caller panic where the
  code reaches them; the fifth case always asks for the caller's name.
\<close>

definition matchIdentity ::
  "regexp_engine \<Rightarrow> IdentityExchangerSource option \<Rightarrow> UserInfo option \<Rightarrow> string \<Rightarrow> bool res" where
  "matchIdentity engine src userInfo cluster =
     (case src of None \<Rightarrow> Ret False | Some s \<Rightarrow>
       bind_res (case source_User s of None \<Rightarrow> Ret False
                 | Some n \<Rightarrow> bind_res (deref userInfo) (\<lambda>u. Ret (user_Name u \<noteq> n))) (\<lambda>d. if d then Ret False else
       bind_res (case source_Group s of None \<Rightarrow> Ret False
                 | Some g \<Rightarrow> bind_res (deref userInfo) (\<lambda>u. Ret (g \<notin> set (user_Groups u)))) (\<lambda>d. if d then Ret False else
       bind_res (case source_UID s of None \<Rightarrow> Ret False
                 | Some i \<Rightarrow> bind_res (deref userInfo) (\<lambda>u. Ret (user_UID u \<noteq> i))) (\<lambda>d. if d then Ret False else
       if (case source_Cluster s of None \<Rightarrow> False | Some c \<Rightarrow> cluster \<noteq> c) then Ret False else
       bind_res (deref userInfo) (\<lambda>u.
         if denyQuery engine (source_UserPattern s) (user_Name u) then Ret False
         else if denyGroups engine (source_GroupPattern s) (user_Groups u) then Ret False
         else if denyQuery engine (source_ClusterPattern s) cluster then Ret False
         else Ret True)))))"

section \<open>Exchanging\<close>

text \<open>The results of \<^verbatim>\<open>exchangeIdentity\<close>: matched, projected (nil when there is none), err.\<close>

definition exchangeIdentity ::
  "regexp_engine \<Rightarrow> ClientIdentityExchangeRule \<Rightarrow> UserInfo option \<Rightarrow> string \<Rightarrow>
   (bool \<times> ImpersonationConfig option \<times> goerror option) res" where
  "exchangeIdentity engine rule userInfo cluster =
     bind_res (matchIdentity engine (rule_Source rule) userInfo cluster) (\<lambda>m.
       if \<not> m then Ret (False, None, None)
       else if rule_Type rule = PrivilegedIdentityExchanger then Ret (True, Some no_impersonation, None)
       else if rule_Type rule = StaticMappingIdentityExchanger then
         bind_res (deref (rule_Target rule)) (\<lambda>t.
           Ret (True, Some (no_impersonation\<lparr>imp_UserName := target_User t, imp_Groups := target_Groups t,
                                             imp_UID := target_UID t\<rparr>), None))
       else if rule_Type rule = ExternalIdentityExchanger then
         Ret (True, None, Some (PlainError ''ExternalIdentityExchanger is not implemented''))
       else Ret (True, None, Some (PlainError (''unknown exchanger type: '' @ rule_Type rule))))"

fun ExchangeIdentity_loop ::
  "regexp_engine \<Rightarrow> UserInfo option \<Rightarrow> string \<Rightarrow> ClientIdentityExchangeRule list \<Rightarrow>
   (bool \<times> string \<times> ImpersonationConfig option \<times> goerror option) res" where
  "ExchangeIdentity_loop engine userInfo cluster [] = Ret (False, '''', None, None)"
| "ExchangeIdentity_loop engine userInfo cluster (rule # rules) =
     bind_res (exchangeIdentity engine rule userInfo cluster) (\<lambda>(matched, projected, err).
       if matched then Ret (matched, rule_Name rule, projected, err)
       else ExchangeIdentity_loop engine userInfo cluster rules)"

definition ExchangeIdentity ::
  "regexp_engine \<Rightarrow> ClientIdentityExchanger \<Rightarrow> UserInfo option \<Rightarrow> string \<Rightarrow>
   (bool \<times> string \<times> ImpersonationConfig option \<times> goerror option) res" where
  "ExchangeIdentity engine exchanger userInfo cluster =
     ExchangeIdentity_loop engine userInfo cluster (exch_Rules exchanger)"

section \<open>What a rule asks for\<close>

text \<open>
  The reference reading of a source: each condition that is present must hold. A pattern that does not
  compile is no condition, neither for the name nor the cluster; for the groups it still needs
  a group to exist.
\<close>

definition pattern_allows :: "regexp_engine \<Rightarrow> string option \<Rightarrow> string \<Rightarrow> bool" where
  "pattern_allows engine pat text = pred_option (\<lambda>p. engine p text \<noteq> Some False) pat"

definition source_accepts ::
  "regexp_engine \<Rightarrow> IdentityExchangerSource \<Rightarrow> UserInfo \<Rightarrow> string \<Rightarrow> bool" where
  "source_accepts engine s u cluster \<longleftrightarrow>
     pred_option (\<lambda>n. user_Name u = n) (source_User s) \<and>
     pred_option (\<lambda>g. g \<in> set (user_Groups u)) (source_Group s) \<and>
     pred_option (\<lambda>i. user_UID u = i) (source_UID s) \<and>
     pred_option (\<lambda>c. cluster = c) (source_Cluster s) \<and>
     pattern_allows engine (source_UserPattern s) (user_Name u) \<and>
     (source_GroupPattern s \<noteq> None \<longrightarrow>
        (\<exists>g\<in>set (user_Groups u). pattern_allows engine (source_GroupPattern s) g)) \<and>
     pattern_allows engine (source_ClusterPattern s) cluster"

definition rule_accepts ::
  "regexp_engine \<Rightarrow> UserInfo \<Rightarrow> string \<Rightarrow> ClientIdentityExchangeRule \<Rightarrow> bool" where
  "rule_accepts engine u cluster rule = (case rule_Source rule of None \<Rightarrow> False | Some s \<Rightarrow> source_accepts engine s u cluster)"

text \<open>What an accepting rule gives: the projection, an error without one, or the nil-target panic.\<close>

definition rule_outcome ::
  "ClientIdentityExchangeRule \<Rightarrow> (ImpersonationConfig option \<times> goerror option) res" where
  "rule_outcome rule =
     (if rule_Type rule = PrivilegedIdentityExchanger then Ret (Some no_impersonation, None)
      else if rule_Type rule = StaticMappingIdentityExchanger then
        bind_res (deref (rule_Target rule)) (\<lambda>t.
          Ret (Some (no_impersonation\<lparr>imp_UserName := target_User t, imp_Groups := target_Groups t,
                                      imp_UID := target_UID t\<rparr>), None))
      else if rule_Type rule = ExternalIdentityExchanger then
        Ret (None, Some (PlainError ''ExternalIdentityExchanger is not implemented''))
      else Ret (None, Some (PlainError (''unknown exchanger type: '' @ rule_Type rule))))"

section \<open>Lemmas\<close>

lemma denyQuery_iff: "denyQuery engine pat q \<longleftrightarrow> \<not> pattern_allows engine pat q"
  by (auto simp: denyQuery_def pattern_allows_def split: option.splits)

lemma denyGroups_loop_iff: "denyGroups_loop engine pat gs \<longleftrightarrow> (\<forall>g\<in>set gs. denyQuery engine pat g)"
  by (induction gs) auto

lemma denyGroups_iff:
  "denyGroups engine pat gs \<longleftrightarrow> pat \<noteq> None \<and> \<not> (\<exists>g\<in>set gs. pattern_allows engine pat g)"
  by (auto simp: denyGroups_def denyGroups_loop_iff denyQuery_iff split: option.splits)

lemma matchIdentity_spec:
  "matchIdentity engine (Some s) (Some u) cluster = Ret (source_accepts engine s u cluster)"
  by (simp add: matchIdentity_def source_accepts_def denyQuery_iff denyGroups_iff split: option.splits)

lemma exchangeIdentity_spec:
  "exchangeIdentity engine rule (Some u) cluster =
     (if rule_accepts engine u cluster rule
      then bind_res (rule_outcome rule) (\<lambda>(p, e). Ret (True, p, e))
      else Ret (False, None, None))"
proof (cases "rule_Source rule")
  case None
  then show ?thesis by (simp add: exchangeIdentity_def rule_accepts_def matchIdentity_def)
next
  case (Some s)
  then show ?thesis
    by (cases "rule_Target rule")
       (simp_all add: exchangeIdentity_def rule_accepts_def matchIdentity_spec rule_outcome_def)
qed

section \<open>Rule chains\<close>

text \<open>
  The contract of a rule table whose first accepting rule decides. Everything said about the order
  of rules is proved here once, for any such table.
\<close>

locale rule_chain =
  fixes accepts :: "'r \<Rightarrow> bool"
    and outcome :: "'r \<Rightarrow> 'o"
    and default :: 'o
    and run :: "'r list \<Rightarrow> 'o"
  assumes run_Nil: "run [] = default"
    and run_Cons: "run (r # rs) = (if accepts r then outcome r else run rs)"
begin

lemma run_find: "run rs = (case find accepts rs of None \<Rightarrow> default | Some r \<Rightarrow> outcome r)"
  by (induction rs) (auto simp: run_Nil run_Cons)

lemma run_unmatched: "\<forall>r\<in>set rs. \<not> accepts r \<Longrightarrow> run rs = default"
  by (induction rs) (auto simp: run_Nil run_Cons)

lemma run_first:
  "\<forall>r\<in>set pre. \<not> accepts r \<Longrightarrow> accepts r \<Longrightarrow> run (pre @ r # post) = outcome r"
  by (induction pre) (auto simp: run_Cons)

lemma run_append:
  "run (rs @ rs') = (if \<exists>r\<in>set rs. accepts r then run rs else run rs')"
  by (induction rs) (auto simp: run_Cons run_Nil)

end

interpretation exchange: rule_chain
  "rule_accepts engine u cluster"
  "\<lambda>rule. bind_res (rule_outcome rule) (\<lambda>(p, e). Ret (True, rule_Name rule, p, e))"
  "Ret (False, '''', None, None)"
  "ExchangeIdentity_loop engine (Some u) cluster"
  for engine u cluster
proof unfold_locales
  show "ExchangeIdentity_loop engine (Some u) cluster (r # rs) =
      (if rule_accepts engine u cluster r
       then bind_res (rule_outcome r) (\<lambda>(p, e). Ret (True, rule_Name r, p, e))
       else ExchangeIdentity_loop engine (Some u) cluster rs)" for r rs
    by (cases "rule_outcome r") (auto simp: exchangeIdentity_spec)
qed simp

section \<open>Properties\<close>

text \<open>
  C3. Identity exchange is first-match: for an authenticated caller the result is decided by the first rule
  of the list, in order, whose source accepts the caller and the cluster (every condition that is
  present holds), with that rule's name and outcome; when no rule accepts, nothing is matched and there is no error.
\<close>

theorem ExchangeIdentity_first_match:
  "ExchangeIdentity engine exchanger (Some u) cluster =
     (case find (rule_accepts engine u cluster) (exch_Rules exchanger) of
        None \<Rightarrow> Ret (False, '''', None, None)
      | Some rule \<Rightarrow> bind_res (rule_outcome rule) (\<lambda>(p, e). Ret (True, rule_Name rule, p, e)))"
  unfolding ExchangeIdentity_def by (rule exchange.run_find)

text \<open>
  A pattern that does not compile never rejects anybody: dropping the user and cluster patterns that
  the engine refuses leaves the decision of the rule as it was, so a mistyped pattern widens the rule.
\<close>

theorem invalid_pattern_widens:
  assumes "\<And>text. engine p text = None" and "source_UserPattern s = Some p" and "source_ClusterPattern s = Some p"
  shows "matchIdentity engine (Some s) (Some u) cluster =
         matchIdentity engine (Some (s\<lparr>source_UserPattern := None, source_ClusterPattern := None\<rparr>)) (Some u) cluster"
  using assms by (simp add: matchIdentity_spec source_accepts_def pattern_allows_def)

definition demo_source :: IdentityExchangerSource where
  "demo_source = \<lparr>source_User = None, source_Group = Some ''dev'', source_UID = None, source_Cluster = None,
     source_UserPattern = Some ''('', source_GroupPattern = None, source_ClusterPattern = Some ''(''\<rparr>"

definition demo_user :: UserInfo where
  "demo_user = \<lparr>user_Name = ''bob'', user_UID = ''7'', user_Groups = [''dev''], user_Extra = []\<rparr>"

definition demo_engine :: regexp_engine where
  "demo_engine p text = (if p = ''('' then None else Some (p = text))"

theorem invalid_pattern_widens_witness:
  "matchIdentity demo_engine (Some demo_source) (Some demo_user) ''c1'' = Ret True"
proof -
  have "matchIdentity demo_engine (Some demo_source) (Some demo_user) ''c1'' =
    matchIdentity demo_engine (Some (demo_source\<lparr>source_UserPattern := None, source_ClusterPattern := None\<rparr>))
      (Some demo_user) ''c1''"
    by (rule invalid_pattern_widens [of _ "''(''"]) (simp_all add: demo_engine_def demo_source_def)
  also have "\<dots> = Ret True"
    by (simp add: matchIdentity_spec source_accepts_def pattern_allows_def demo_source_def demo_user_def)
  finally show ?thesis .
qed

end
