(* ===== verification/Go_Strings.thy ===== *)
theory Go_Strings
  imports GW_Prelude "HOL-Library.Char_ord" "HOL-Library.List_Lexorder"
begin

text \<open>
  What the program uses of Go's standard library on strings: \<^verbatim>\<open>strings\<close>, \<^verbatim>\<open>strconv\<close>, \<^verbatim>\<open>path\<close>,
  \<^verbatim>\<open>net.SplitHostPort\<close>, \<^verbatim>\<open>net.JoinHostPort\<close>, the success of \<^verbatim>\<open>base64.StdEncoding.DecodeString\<close> and the
  ordering of \<^verbatim>\<open>sort.Slice\<close>. A Go string is a sequence of bytes, which is HOL's \<open>string\<close>. The case
  conversions map ASCII letters only: the program applies them to HTTP verbs and URL schemes.
\<close>

section \<open>strings\<close>

definition HasPrefix :: "string \<Rightarrow> string \<Rightarrow> bool" where
  "HasPrefix s p \<longleftrightarrow> take (length p) s = p"

definition HasSuffix :: "string \<Rightarrow> string \<Rightarrow> bool" where
  "HasSuffix s p \<longleftrightarrow> length p \<le> length s \<and> drop (length s - length p) s = p"

definition TrimPrefix :: "string \<Rightarrow> string \<Rightarrow> string" where
  "TrimPrefix s p = (if HasPrefix s p then drop (length p) s else s)"

definition TrimSuffix :: "string \<Rightarrow> string \<Rightarrow> string" where
  "TrimSuffix s p = (if HasSuffix s p then take (length s - length p) s else s)"

fun strings_Join :: "string list \<Rightarrow> string \<Rightarrow> string" where
  "strings_Join [] sep = ''''"
| "strings_Join [x] sep = x"
| "strings_Join (x # y # ys) sep = x @ sep @ strings_Join (y # ys) sep"

text \<open>\<^verbatim>\<open>strings.IndexByte\<close>, \<^verbatim>\<open>strings.LastIndexByte\<close>: \<open>None\<close> is Go's -1.\<close>

fun IndexByte :: "string \<Rightarrow> char \<Rightarrow> nat option" where
  "IndexByte [] c = None"
| "IndexByte (x # xs) c = (if x = c then Some 0 else map_option Suc (IndexByte xs c))"

fun LastIndexByte :: "string \<Rightarrow> char \<Rightarrow> nat option" where
  "LastIndexByte [] c = None"
| "LastIndexByte (x # xs) c =
     (case LastIndexByte xs c of Some i \<Rightarrow> Some (Suc i) | None \<Rightarrow> if x = c then Some 0 else None)"

text \<open>\<^verbatim>\<open>strings.Cut\<close> at a one-byte separator: before, after, and whether the separator was found.\<close>

definition Cut :: "string \<Rightarrow> char \<Rightarrow> string \<times> string \<times> bool" where
  "Cut s c = (case IndexByte s c of None \<Rightarrow> (s, '''', False) | Some i \<Rightarrow> (take i s, drop (Suc i) s, True))"

fun strings_Index :: "string \<Rightarrow> string \<Rightarrow> nat option" where
  "strings_Index s p = (if HasPrefix s p then Some 0 else
     (case s of [] \<Rightarrow> None | _ # s' \<Rightarrow> map_option Suc (strings_Index s' p)))"

declare strings_Index.simps [simp del]

definition in_range :: "char \<Rightarrow> char \<Rightarrow> char \<Rightarrow> bool" where
  "in_range lo hi c \<longleftrightarrow> of_char lo \<le> (of_char c :: nat) \<and> (of_char c :: nat) \<le> of_char hi"

definition is_lower :: "char \<Rightarrow> bool" where
  "is_lower c \<longleftrightarrow> in_range CHR ''a'' CHR ''z'' c"

definition is_upper :: "char \<Rightarrow> bool" where
  "is_upper c \<longleftrightarrow> in_range CHR ''A'' CHR ''Z'' c"

definition is_digit :: "char \<Rightarrow> bool" where
  "is_digit c \<longleftrightarrow> in_range CHR ''0'' CHR ''9'' c"

definition is_alnum :: "char \<Rightarrow> bool" where
  "is_alnum c \<longleftrightarrow> is_lower c \<or> is_upper c \<or> is_digit c"

definition to_upper_char :: "char \<Rightarrow> char" where
  "to_upper_char c = (if is_lower c then char_of ((of_char c :: nat) - 32) else c)"

definition to_lower_char :: "char \<Rightarrow> char" where
  "to_lower_char c = (if is_upper c then char_of ((of_char c :: nat) + 32) else c)"

definition ToUpper :: "string \<Rightarrow> string" where "ToUpper s = map to_upper_char s"
definition ToLower :: "string \<Rightarrow> string" where "ToLower s = map to_lower_char s"

fun split_on :: "char \<Rightarrow> string \<Rightarrow> string list" where
  "split_on c [] = [[]]"
| "split_on c (x # xs) =
     (if x = c then [] # split_on c xs
      else (case split_on c xs of [] \<Rightarrow> [[x]] | y # ys \<Rightarrow> (x # y) # ys))"

section \<open>strconv\<close>

definition FormatBool :: "bool \<Rightarrow> string" where
  "FormatBool b = (if b then ''true'' else ''false'')"

definition ParseBool :: "string \<Rightarrow> bool option" where
  "ParseBool s =
     (if s \<in> set [''1'', ''t'', ''T'', ''true'', ''TRUE'', ''True''] then Some True
      else if s \<in> set [''0'', ''f'', ''F'', ''false'', ''FALSE'', ''False''] then Some False
      else None)"

definition digit_char :: "nat \<Rightarrow> char" where
  "digit_char n = char_of (48 + n)"

fun nat_digits :: "nat \<Rightarrow> string" where
  "nat_digits n = (if n < 10 then [digit_char n] else nat_digits (n div 10) @ [digit_char (n mod 10)])"

declare nat_digits.simps [simp del]

definition Itoa :: "int \<Rightarrow> string" where
  "Itoa i = (if i < 0 then CHR ''-'' # nat_digits (nat (- i)) else nat_digits (nat i))"

fun digits_value :: "nat \<Rightarrow> string \<Rightarrow> nat" where
  "digits_value acc [] = acc"
| "digits_value acc (c # cs) = digits_value (10 * acc + (of_char c - 48)) cs"

text \<open>\<^verbatim>\<open>strconv.Atoi\<close> on a 64-bit platform: an optional sign, at least one digit, and the value in range.\<close>

definition Atoi :: "string \<Rightarrow> int option" where
  "Atoi s =
     (let neg = (take 1 s = ''-'');
          ds = (if take 1 s \<in> {''-'', ''+''} then drop 1 s else s);
          v = (if neg then - int (digits_value 0 ds) else int (digits_value 0 ds))
      in if ds \<noteq> [] \<and> list_all is_digit ds \<and> - (2 ^ 63) \<le> v \<and> v < 2 ^ 63 then Some v else None)"

text \<open>The text of an error (its \<^verbatim>\<open>Error\<close> method); an aggregate lists each distinct text once.\<close>

fun Error :: "goerror \<Rightarrow> string" where
  "Error (StatusError r m) = m"
| "Error (NoMatchError m) = m"
| "Error (NotRegisteredError m) = m"
| "Error (PlainError m) = m"
| "Error (WrapError m e) = m @ '': '' @ Error e"
| "Error (AggregateError es) =
     (case rev (remdups (rev (map Error es))) of [] \<Rightarrow> '''' | [m] \<Rightarrow> m | ms \<Rightarrow> ''['' @ strings_Join ms '', '' @ '']'')"
| "Error (ExecError m) = m"
| "Error (ExitError n) = ''exit status '' @ Itoa n"
| "Error (AddrError why addr) = ''address '' @ addr @ '': '' @ why"
| "Error EmptyCredentialTypeClusterSecretError = ''secret is not a valid cluster secret, no credential type found''"
| "Error EmptyEndpointClusterSecretError = ''secret is not a valid cluster secret, no credential type found''"
| "Error InvalidManagedClusterError = ''managed cluster has no client config''"

section \<open>path\<close>

text \<open>
  \<^verbatim>\<open>path.Clean\<close>: the elements between slashes, with empty and \<^verbatim>\<open>.\<close> elements dropped and \<^verbatim>\<open>..\<close> cancelling
  the element before it (at the root it vanishes, in a relative path it stays).
\<close>

fun clean_elems :: "bool \<Rightarrow> string list \<Rightarrow> string list \<Rightarrow> string list" where
  "clean_elems rooted acc [] = rev acc"
| "clean_elems rooted acc (e # es) =
     (if e = '''' \<or> e = ''.'' then clean_elems rooted acc es
      else if e = ''..'' then
        (case acc of
           a # acc' \<Rightarrow> if a = ''..'' then clean_elems rooted (e # acc) es else clean_elems rooted acc' es
         | [] \<Rightarrow> clean_elems rooted (if rooted then [] else [e]) es)
      else clean_elems rooted (e # acc) es)"

definition path_Clean :: "string \<Rightarrow> string" where
  "path_Clean p =
     (if p = '''' then ''.''
      else (let rooted = (hd p = CHR ''/'');
                out = strings_Join (clean_elems rooted [] (split_on CHR ''/'' p)) ''/''
            in if rooted then CHR ''/'' # out else if out = '''' then ''.'' else out))"

definition path_Join2 :: "string \<Rightarrow> string \<Rightarrow> string" where
  "path_Join2 a b =
     (if a = '''' \<and> b = '''' then ''''
      else if a = '''' then path_Clean b
      else path_Clean (a @ ''/'' @ b))"

section \<open>net\<close>

definition missingPort :: string where "missingPort = ''missing port in address''"
definition tooManyColons :: string where "tooManyColons = ''too many colons in address''"

definition SplitHostPort :: "string \<Rightarrow> (string \<times> string) res" where
  "SplitHostPort hp =
     (case LastIndexByte hp CHR '':'' of
        None \<Rightarrow> Fail (AddrError missingPort hp)
      | Some i \<Rightarrow>
          if hd hp = CHR ''['' then
            (case IndexByte hp CHR '']'' of
               None \<Rightarrow> Fail (AddrError ''missing ']' in address'' hp)
             | Some e \<Rightarrow>
                 if e + 1 = length hp then Fail (AddrError missingPort hp)
                 else if e + 1 \<noteq> i then
                   Fail (AddrError (if hp ! (e + 1) = CHR '':'' then tooManyColons else missingPort) hp)
                 else if CHR ''['' \<in> set (drop 1 hp) then Fail (AddrError ''unexpected '[' in address'' hp)
                 else if CHR '']'' \<in> set (drop (e + 1) hp) then Fail (AddrError ''unexpected ']' in address'' hp)
                 else Ret (take (e - 1) (drop 1 hp), drop (i + 1) hp))
          else if CHR '':'' \<in> set (take i hp) then Fail (AddrError tooManyColons hp)
          else if CHR ''['' \<in> set hp then Fail (AddrError ''unexpected '[' in address'' hp)
          else if CHR '']'' \<in> set hp then Fail (AddrError ''unexpected ']' in address'' hp)
          else Ret (take i hp, drop (i + 1) hp))"

definition JoinHostPort :: "string \<Rightarrow> string \<Rightarrow> string" where
  "JoinHostPort host port =
     (if CHR '':'' \<in> set host then ''['' @ host @ '']:'' @ port else host @ '':'' @ port)"

section \<open>encoding/base64\<close>

definition is_base64_char :: "char \<Rightarrow> bool" where
  "is_base64_char c \<longleftrightarrow> is_alnum c \<or> c = CHR ''+'' \<or> c = CHR ''/''"

fun base64_quanta :: "string \<Rightarrow> bool" where
  "base64_quanta [] = True"
| "base64_quanta [a, b, c, d] =
     (is_base64_char a \<and> is_base64_char b \<and>
       (is_base64_char c \<and> (is_base64_char d \<or> d = CHR ''='') \<or> c = CHR ''='' \<and> d = CHR ''=''))"
| "base64_quanta (a # b # c # d # rest) =
     (is_base64_char a \<and> is_base64_char b \<and> is_base64_char c \<and> is_base64_char d \<and> base64_quanta rest)"
| "base64_quanta _ = False"

text \<open>Whether \<^verbatim>\<open>base64.StdEncoding.DecodeString\<close> returns a nil error; line breaks are skipped.\<close>

definition base64_decodes :: "string \<Rightarrow> bool" where
  "base64_decodes s \<longleftrightarrow> base64_quanta (filter (\<lambda>c. c \<noteq> CHR 0x0A \<and> c \<noteq> CHR 0x0D) s)"

section \<open>sort\<close>

text \<open>
  \<^verbatim>\<open>sort.Slice\<close> rearranges a slice by a \<^verbatim>\<open>lt\<close> function and does not promise stability. Insertion sort is
  what the library runs on short slices; every theorem about a sorted result goes through the
  contract the locale below states, not through this particular function.
\<close>

fun insert_by :: "('a \<Rightarrow> 'a \<Rightarrow> bool) \<Rightarrow> 'a \<Rightarrow> 'a list \<Rightarrow> 'a list" where
  "insert_by lt x [] = [x]"
| "insert_by lt x (y # ys) = (if lt y x then y # insert_by lt x ys else x # y # ys)"

definition insertion_sort :: "('a \<Rightarrow> 'a \<Rightarrow> bool) \<Rightarrow> 'a list \<Rightarrow> 'a list" where
  "insertion_sort lt xs = foldr (insert_by lt) xs []"

text \<open>
  \<open>strict_weak lt A\<close>: on \<open>A\<close>, the comparison is asymmetric and ties are transitive.
\<close>

definition strict_weak :: "('a \<Rightarrow> 'a \<Rightarrow> bool) \<Rightarrow> 'a set \<Rightarrow> bool" where
  "strict_weak lt A \<longleftrightarrow>
     (\<forall>x\<in>A. \<forall>y\<in>A. lt x y \<longrightarrow> \<not> lt y x) \<and>
     (\<forall>x\<in>A. \<forall>y\<in>A. \<forall>z\<in>A. \<not> lt y x \<longrightarrow> \<not> lt z y \<longrightarrow> \<not> lt z x)"

section \<open>Lemmas\<close>

lemma HasPrefix_iff: "HasPrefix s p \<longleftrightarrow> (\<exists>t. s = p @ t)"
  unfolding HasPrefix_def by (metis append_eq_conv_conj append_take_drop_id)

lemma HasPrefix_append [simp]: "HasPrefix (p @ t) p"
  by (auto simp: HasPrefix_iff)

lemma TrimPrefix_append [simp]: "TrimPrefix (p @ t) p = t"
  by (simp add: TrimPrefix_def)

lemma TrimPrefix_none: "\<not> HasPrefix s p \<Longrightarrow> TrimPrefix s p = s"
  by (simp add: TrimPrefix_def)

lemma TrimPrefix_reassemble: "HasPrefix s p \<Longrightarrow> p @ TrimPrefix s p = s"
  by (auto simp: HasPrefix_iff)

lemma ParseBool_FormatBool [simp]: "ParseBool (FormatBool b) = Some b"
  by (simp add: ParseBool_def FormatBool_def)

lemma mset_insert_by [simp]: "mset (insert_by lt x xs) = add_mset x (mset xs)"
  by (induction xs) auto

lemma mset_insertion_sort [simp]: "mset (insertion_sort lt xs) = mset xs"
  by (induction xs) (simp_all add: insertion_sort_def)

lemma set_insert_by [simp]: "set (insert_by lt x xs) = insert x (set xs)"
  by (induction xs) auto

lemma strict_weak_subset: "strict_weak lt A \<Longrightarrow> B \<subseteq> A \<Longrightarrow> strict_weak lt B"
  unfolding strict_weak_def by blast

lemma strict_weak_asym: "strict_weak lt A \<Longrightarrow> x \<in> A \<Longrightarrow> y \<in> A \<Longrightarrow> lt x y \<Longrightarrow> \<not> lt y x"
  unfolding strict_weak_def by blast

lemma strict_weak_trans:
  "strict_weak lt A \<Longrightarrow> x \<in> A \<Longrightarrow> y \<in> A \<Longrightarrow> z \<in> A \<Longrightarrow> \<not> lt y x \<Longrightarrow> \<not> lt z y \<Longrightarrow> \<not> lt z x"
  unfolding strict_weak_def by blast

lemma sorted_insert_by:
  assumes "strict_weak lt (insert x (set xs))"
    and "sorted_wrt (\<lambda>a b. \<not> lt b a) xs"
  shows "sorted_wrt (\<lambda>a b. \<not> lt b a) (insert_by lt x xs)"
  using assms
proof (induction xs)
  case Nil
  then show ?case by simp
next
  case (Cons y ys)
  have weak: "strict_weak lt (insert x (set ys))"
    using Cons.prems(1) by (rule strict_weak_subset) auto
  show ?case
  proof (cases "lt y x")
    case True
    have "\<not> lt x y" using strict_weak_asym [OF Cons.prems(1) _ _ True] by simp
    then show ?thesis using True Cons.IH [OF weak] Cons.prems(2) by auto
  next
    case False
    have "\<forall>z\<in>set ys. \<not> lt z x"
    proof
      fix z assume z: "z \<in> set ys"
      then have "\<not> lt z y" using Cons.prems(2) by simp
      with z False show "\<not> lt z x"
        using strict_weak_trans [OF Cons.prems(1), of x y z] by simp
    qed
    then show ?thesis using False Cons.prems(2) by simp
  qed
qed

lemma sorted_insertion_sort:
  "strict_weak lt (set xs) \<Longrightarrow> sorted_wrt (\<lambda>a b. \<not> lt b a) (insertion_sort lt xs)"
proof (induction xs)
  case Nil
  then show ?case by (simp add: insertion_sort_def)
next
  case (Cons x xs)
  have same: "set (insertion_sort lt xs) = set xs"
    by (metis mset_insertion_sort set_mset_mset)
  have "strict_weak lt (set xs)"
    using Cons.prems by (rule strict_weak_subset) auto
  then have "sorted_wrt (\<lambda>a b. \<not> lt b a) (insertion_sort lt xs)" by (rule Cons.IH)
  moreover have "strict_weak lt (insert x (set (insertion_sort lt xs)))"
    using Cons.prems by (simp add: same)
  ultimately show ?case using sorted_insert_by by (simp add: insertion_sort_def)
qed

text \<open>Elements at different positions are compared, never one with itself.\<close>

lemma insert_by_cong: "x \<notin> set xs \<Longrightarrow> insert_by (\<lambda>a b. a \<noteq> b \<and> lt a b) x xs = insert_by lt x xs"
  by (induction xs) auto

lemma insertion_sort_cong: "distinct xs \<Longrightarrow> insertion_sort (\<lambda>a b. a \<noteq> b \<and> lt a b) xs = insertion_sort lt xs"
proof (induction xs)
  case (Cons x xs)
  have "set (insertion_sort lt xs) = set xs" by (metis mset_insertion_sort set_mset_mset)
  then show ?case using Cons insert_by_cong [of x "insertion_sort lt xs" lt] by (simp add: insertion_sort_def)
qed (simp add: insertion_sort_def)

lemma sorted_insertion_sort_distinct:
  assumes "distinct xs" and "strict_weak (\<lambda>a b. a \<noteq> b \<and> lt a b) (set xs)"
  shows "sorted_wrt (\<lambda>a b. \<not> lt b a) (insertion_sort lt xs)"
proof -
  have "distinct (insertion_sort lt xs)" using assms(1) by (metis mset_insertion_sort mset_eq_imp_distinct_iff)
  moreover have "sorted_wrt (\<lambda>a b. \<not> (b \<noteq> a \<and> lt b a)) (insertion_sort lt xs)"
    using sorted_insertion_sort [OF assms(2)] insertion_sort_cong [OF assms(1), of lt] by simp
  ultimately show ?thesis by (auto simp: sorted_wrt_iff_nth_less distinct_conv_nth)
qed

section \<open>The contract of a sorting routine\<close>

lemma digit_char_props: "n < 10 \<Longrightarrow> is_digit (digit_char n)" "n < 10 \<Longrightarrow> of_char (digit_char n) = 48 + n"
  by (simp_all add: digit_char_def is_digit_def in_range_def)

lemma nat_digits_all: "list_all is_digit (nat_digits n)" "nat_digits n \<noteq> []"
  by (induction n rule: nat_digits.induct; subst nat_digits.simps; simp add: digit_char_props)+

lemma digits_value_append: "digits_value acc (xs @ [c]) = 10 * digits_value acc xs + (of_char c - 48)"
  by (induction xs arbitrary: acc) auto

lemma digits_value_nat_digits: "digits_value 0 (nat_digits n) = n"
  by (induction n rule: nat_digits.induct; subst nat_digits.simps; simp add: digit_char_props digits_value_append)

lemma digit_not_sign: "is_digit c \<Longrightarrow> c \<noteq> CHR ''-'' \<and> c \<noteq> CHR ''+''"
  by (auto simp: is_digit_def in_range_def)

text \<open>Printing and reading a 64-bit integer are inverse.\<close>

lemma Atoi_Itoa:
  assumes "- (2 ^ 63) \<le> i" and "i < 2 ^ 63" shows "Atoi (Itoa i) = Some i"
proof (cases "i < 0")
  case True
  then show ?thesis using assms nat_digits_all [of "nat (- i)"]
    by (simp add: Atoi_def Itoa_def Let_def digits_value_nat_digits)
next
  case False
  obtain d ds where cons: "nat_digits (nat i) = d # ds" using nat_digits_all(2) by (cases "nat_digits (nat i)") auto
  have "d \<noteq> CHR ''-''" "d \<noteq> CHR ''+''" using nat_digits_all(1) [of "nat i"] digit_not_sign cons by auto
  then show ?thesis using assms False nat_digits_all [of "nat i"] digits_value_nat_digits [of "nat i"] cons
    by (simp add: Atoi_def Itoa_def Let_def)
qed

text \<open>
  What \<^verbatim>\<open>sort.Slice\<close> promises: the result rearranges the input, and it is in order whenever the comparison
  of different elements is a strict weak order. Callers are verified against this contract.
\<close>

locale slice_sorter =
  fixes sort_Slice :: "('a \<Rightarrow> 'a \<Rightarrow> bool) \<Rightarrow> 'a list \<Rightarrow> 'a list"
  assumes sort_permutes: "mset (sort_Slice lt xs) = mset xs"
    and sort_orders: "distinct xs \<Longrightarrow> strict_weak (\<lambda>a b. a \<noteq> b \<and> lt a b) (set xs) \<Longrightarrow>
      sorted_wrt (\<lambda>a b. \<not> lt b a) (sort_Slice lt xs)"
begin

lemma sort_set: "set (sort_Slice lt xs) = set xs"
  by (metis sort_permutes set_mset_mset)

lemma sort_length: "length (sort_Slice lt xs) = length xs"
  by (metis sort_permutes size_mset)

lemma sort_distinct: "distinct (map f (sort_Slice lt xs)) \<longleftrightarrow> distinct (map f xs)"
proof -
  have "mset (map f (sort_Slice lt xs)) = mset (map f xs)" by (simp add: sort_permutes)
  then show ?thesis by (metis mset_eq_imp_distinct_iff)
qed

lemma sort_least_first:
  assumes "distinct xs" and "strict_weak (\<lambda>a b. a \<noteq> b \<and> lt a b) (set xs)" and "x \<in> set xs"
    and "\<forall>y\<in>set xs. y \<noteq> x \<longrightarrow> lt x y"
  shows "\<exists>ys. sort_Slice lt xs = x # ys"
proof (cases "sort_Slice lt xs")
  case Nil
  then show ?thesis using assms(3) sort_set [of lt xs] by simp
next
  case (Cons y ys)
  have "y = x"
  proof (rule ccontr)
    assume "y \<noteq> x"
    moreover have "y \<in> set xs" and "x \<in> set (y # ys)"
      using assms(3) sort_set [of lt xs] Cons by auto
    ultimately have "lt x y" and "x \<in> set ys" using assms(4) by auto
    moreover have "\<forall>z\<in>set ys. \<not> lt z y"
      using sort_orders [OF assms(1,2)] Cons by simp
    ultimately show False by blast
  qed
  then show ?thesis using Cons by simp
qed

end

interpretation insertion: slice_sorter insertion_sort
  by unfold_locales (simp_all add: sorted_insertion_sort_distinct)

end
