(* ===== verification/Exec_Credential.thy ===== *)
theory Exec_Credential
  imports Gateway_Types Go_Strings
begin

text \<open>
  Dynamic credentials (\<^verbatim>\<open>pkg/util/exec/exec.go\<close>): an external command issues a credential for a cluster,
  and a process-wide \<^verbatim>\<open>sync.Map\<close> keeps it until a minute before it expires. The operating system (finding
  and running the command, the clock) and the Kubernetes codec are the record \<open>exec_env\<close>. The process
  state \<open>gwstate\<close> is the credential cache and the outside world; \<open>outside\<close> runs an external call, which cannot
  touch the cache. After the sequential code the theory has the same operation as a step relation
  over any number of goroutines that interleave on the shared cache.
\<close>

section \<open>Data\<close>

record ExecEnvVar =
  var_Name :: string
  var_Value :: string

record ExecConfig =
  ec_Command :: string
  ec_Args :: "string list"
  ec_Env :: "ExecEnvVar list"
  ec_APIVersion :: string

record ExecCredentialStatus =
  es_Token :: string
  es_ClientCertificateData :: string
  es_ClientKeyData :: string
  es_ExpirationTimestamp :: "gotime option"

record ExecCredential =
  ecr_APIVersion :: string
  ecr_Status :: "ExecCredentialStatus option"

record 'x exec_env =
  LookPath :: "string \<Rightarrow> ('x, string) gom"
  Environ :: "('x, string list) gom"
  RunCommand :: "string \<Rightarrow> string list \<Rightarrow> string list \<Rightarrow> ('x, string) gom"
  ParseGroupVersion :: "string \<Rightarrow> (string \<times> string) res"
  DecodeCredential :: "string \<times> string \<Rightarrow> string \<Rightarrow> ExecCredential \<Rightarrow> ((string \<times> string) \<times> ExecCredential) res"
  Now :: "'x \<Rightarrow> gotime \<times> 'x"

record 'x gwstate =
  gw_credentials :: "(string \<times> ExecCredential) list"
  gw_world :: 'x

definition outside :: "('x, 'a) gom \<Rightarrow> ('x gwstate, 'a) gom" where
  "outside m w = (case m (gw_world w) of (r, x) \<Rightarrow> (r, w\<lparr>gw_world := x\<rparr>))"

definition apiVersions :: "string \<Rightarrow> (string \<times> string) option" where
  "apiVersions v = map_of
     [(''client.authentication.k8s.io/v1beta1'', (''client.authentication.k8s.io'', ''v1beta1'')),
      (''client.authentication.k8s.io/v1'', (''client.authentication.k8s.io'', ''v1''))] v"

section \<open>Issuing\<close>

fun unwrapExecCommandError :: "string \<Rightarrow> goerror \<Rightarrow> goerror" where
  "unwrapExecCommandError path (ExecError m) = PlainError (''exec: executable '' @ path @ '' not found'')"
| "unwrapExecCommandError path (ExitError n) =
     PlainError (''exec: executable '' @ path @ '' failed with exit code '' @ Itoa n)"
| "unwrapExecCommandError path e = PlainError (''exec: '' @ Error e)"

text \<open>The checks on what the plugin printed, after decoding.\<close>

definition GroupVersion_String :: "string \<times> string \<Rightarrow> string" where
  "GroupVersion_String gv = (if fst gv = '''' then snd gv else fst gv @ ''/'' @ snd gv)"

definition check_credential :: "string \<times> string \<Rightarrow> string \<times> string \<Rightarrow> ExecCredential \<Rightarrow> ExecCredential res" where
  "check_credential ecgv gvk cred =
     (if fst gvk \<noteq> fst ecgv \<or> snd gvk \<noteq> snd ecgv then
        Fail (PlainError (''exec plugin is configured to use API version '' @ GroupVersion_String ecgv
          @ '', plugin returned version '' @ GroupVersion_String gvk))
      else (case ecr_Status cred of
        None \<Rightarrow> Fail (PlainError ''exec plugin didn't return a status field'')
      | Some st \<Rightarrow>
          if es_Token st = '''' \<and> es_ClientCertificateData st = '''' \<and> es_ClientKeyData st = '''' then
            Fail (PlainError ''exec plugin didn't return a token or cert/key pair'')
          else if (es_ClientCertificateData st = '''') \<noteq> (es_ClientKeyData st = '''') then
            Fail (PlainError ''exec plugin returned only certificate or key, not both'')
          else Ret cred))"

definition issueClusterCredential :: "'x exec_env \<Rightarrow> ExecConfig option \<Rightarrow> ('x, ExecCredential) gom" where
  "issueClusterCredential env ec =
     (case ec of
        None \<Rightarrow> fail (PlainError ''exec config not provided'')
      | Some c \<Rightarrow>
          if ec_Command c = '''' then
            fail (PlainError (''missing '' @ go_quote ''command'' @ '' property on exec config object''))
          else
            bindM (mapErr (unwrapExecCommandError (ec_Command c)) (LookPath env (ec_Command c))) (\<lambda>command.
            bindM (Environ env) (\<lambda>base.
            bindM (mapErr (unwrapExecCommandError command)
                    (RunCommand env command (ec_Args c)
                       (base @ map (\<lambda>v. var_Name v @ ''='' @ var_Value v) (ec_Env c)))) (\<lambda>stdout.
            bindM (mapErr (\<lambda>e. PlainError (''failed to parse exec config API version: '' @ Error e))
                    (liftR (ParseGroupVersion env (ec_APIVersion c)))) (\<lambda>ecgv.
            (case apiVersions (ec_APIVersion c) of
               None \<Rightarrow> fail (PlainError (''exec plugin: invalid apiVersion '' @ go_quote (ec_APIVersion c)))
             | Some gv \<Rightarrow>
                 bindM (mapErr (\<lambda>e. PlainError (''decoding stdout: '' @ Error e))
                         (liftR (DecodeCredential env gv stdout
                            \<lparr>ecr_APIVersion = ec_APIVersion c, ecr_Status = None\<rparr>))) (\<lambda>(gvk, cred).
                 liftR (check_credential ecgv gvk cred))))))))"

definition time_Minute :: int where "time_Minute = 60000000000"

definition expired_at :: "gotime \<Rightarrow> ExecCredential \<Rightarrow> bool" where
  "expired_at now cred =
     (case ecr_Status cred of None \<Rightarrow> False
      | Some st \<Rightarrow> (case es_ExpirationTimestamp st of None \<Rightarrow> False | Some t \<Rightarrow> t < now + time_Minute))"

definition cacheable :: "ExecCredential \<Rightarrow> bool" where
  "cacheable cred =
     (case ecr_Status cred of None \<Rightarrow> False
      | Some st \<Rightarrow> (case es_ExpirationTimestamp st of None \<Rightarrow> False | Some t \<Rightarrow> t \<noteq> 0))"

definition read_clock :: "'x exec_env \<Rightarrow> 'x gwstate \<Rightarrow> gotime \<times> 'x gwstate" where
  "read_clock env w = (case Now env (gw_world w) of (t, x) \<Rightarrow> (t, w\<lparr>gw_world := x\<rparr>))"

function IssueClusterCredential ::
  "'x exec_env \<Rightarrow> string \<Rightarrow> ExecConfig option \<Rightarrow> 'x gwstate \<Rightarrow> ExecCredential res \<times> 'x gwstate" where
  "IssueClusterCredential env name ec w =
     (if name = '''' then (Fail (PlainError ''cluster name not provided''), w)
      else (case map_of (gw_credentials w) name of
        Some cred \<Rightarrow>
          (case read_clock env w of (now, w1) \<Rightarrow>
             if expired_at now cred
             then IssueClusterCredential env name ec (w1\<lparr>gw_credentials := AList.delete name (gw_credentials w1)\<rparr>)
             else (Ret cred, w1))
      | None \<Rightarrow>
          (case outside (issueClusterCredential env ec) w of
             (Ret cred, w1) \<Rightarrow>
               (Ret cred, if cacheable cred
                          then w1\<lparr>gw_credentials := AList.update name cred (gw_credentials w1)\<rparr> else w1)
           | (Fail e, w1) \<Rightarrow> (Fail e, w1)
           | (Panic s, w1) \<Rightarrow> (Panic s, w1))))"
  by pat_completeness auto
termination
  by (relation "measure (\<lambda>(env, name, ec, w). if map_of (gw_credentials w) name = None then 0 else 1)")
     (auto simp: delete_conv')

declare IssueClusterCredential.simps [simp del]

section \<open>Lemmas\<close>

definition usable :: "ExecCredential \<Rightarrow> bool" where
  "usable cred =
     (case ecr_Status cred of None \<Rightarrow> False
      | Some st \<Rightarrow> es_Token st \<noteq> '''' \<or> es_ClientCertificateData st \<noteq> '''' \<and> es_ClientKeyData st \<noteq> '''')"

definition cache_ok :: "(string \<times> ExecCredential) list \<Rightarrow> bool" where
  "cache_ok cache \<longleftrightarrow> (\<forall>(n, cred)\<in>set cache. n \<noteq> '''' \<and> usable cred \<and> cacheable cred)"

lemma check_credential_usable: "check_credential ecgv gvk cred = Ret c \<Longrightarrow> c = cred \<and> usable c"
  by (auto simp: check_credential_def usable_def split: if_splits option.splits)

lemma issueClusterCredential_usable:
  "issueClusterCredential env ec x = (Ret cred, x') \<Longrightarrow> usable cred"
  by (auto simp: issueClusterCredential_def run_simps
        split: option.splits if_splits prod.splits res.splits sum.splits
        dest: check_credential_usable)

lemma outside_cache: "outside m w = (r, w') \<Longrightarrow> gw_credentials w' = gw_credentials w"
  by (auto simp: outside_def split: prod.splits)

lemma outside_inner: "outside m w = (r, w') \<Longrightarrow> m (gw_world w) = (r, gw_world w')"
  by (cases "m (gw_world w)") (auto simp: outside_def)

lemma read_clock_cache: "read_clock env w = (t, w') \<Longrightarrow> gw_credentials w' = gw_credentials w"
  by (auto simp: read_clock_def split: prod.splits)

lemma cache_ok_delete: "cache_ok cache \<Longrightarrow> cache_ok (AList.delete n cache)"
  by (auto simp: cache_ok_def AList.delete_eq)

lemma set_update_cases: "p \<in> set (AList.update n c cache) \<Longrightarrow> p = (n, c) \<or> p \<in> set cache"
  by (induction cache) (auto split: if_splits)

lemma cache_ok_update: "cache_ok cache \<Longrightarrow> n \<noteq> '''' \<Longrightarrow> usable c \<Longrightarrow> cacheable c \<Longrightarrow> cache_ok (AList.update n c cache)"
  by (auto simp: cache_ok_def dest!: set_update_cases)

lemma cache_ok_lookup: "cache_ok cache \<Longrightarrow> map_of cache n = Some c \<Longrightarrow> usable c \<and> cacheable c"
  by (auto simp: cache_ok_def dest: map_of_SomeD)

lemma Issue_noname: "IssueClusterCredential env '''' ec w = (Fail (PlainError ''cluster name not provided''), w)"
  by (simp add: IssueClusterCredential.simps)

lemma Issue_hit:
  assumes "name \<noteq> ''''" "map_of (gw_credentials w) name = Some cred"
    and "read_clock env w = (now, w1)" "\<not> expired_at now cred"
  shows "IssueClusterCredential env name ec w = (Ret cred, w1)"
  using assms by (simp add: IssueClusterCredential.simps)

lemma Issue_expired:
  assumes "name \<noteq> ''''" "map_of (gw_credentials w) name = Some cred"
    and "read_clock env w = (now, w1)" "expired_at now cred"
  shows "IssueClusterCredential env name ec w =
     IssueClusterCredential env name ec (w1\<lparr>gw_credentials := AList.delete name (gw_credentials w1)\<rparr>)"
  using assms by (simp add: IssueClusterCredential.simps [of env name ec w])

lemma Issue_miss:
  assumes "name \<noteq> ''''" "map_of (gw_credentials w) name = None"
  shows "IssueClusterCredential env name ec w =
     (case outside (issueClusterCredential env ec) w of
        (Ret cred, w1) \<Rightarrow>
          (Ret cred, if cacheable cred
                     then w1\<lparr>gw_credentials := AList.update name cred (gw_credentials w1)\<rparr> else w1)
      | (Fail e, w1) \<Rightarrow> (Fail e, w1)
      | (Panic s, w1) \<Rightarrow> (Panic s, w1))"
  using assms by (simp add: IssueClusterCredential.simps)

lemma Issue_usable_cache:
  assumes "cache_ok (gw_credentials w)" and "IssueClusterCredential env name ec w = (r, w')"
  shows "cache_ok (gw_credentials w') \<and> (\<forall>cred. r = Ret cred \<longrightarrow> usable cred)"
  using assms
proof (induction env name ec w arbitrary: r w' rule: IssueClusterCredential.induct)
  case (1 env name ec w)
  show ?case
  proof (cases "name = '''' \<or> map_of (gw_credentials w) name = None")
    case True
    then show ?thesis
    proof (cases "name = ''''")
      case True
      with 1(2,3) show ?thesis by (auto simp: Issue_noname)
    next
      case False
      with True have "map_of (gw_credentials w) name = None" by simp
      note miss = Issue_miss [OF False this, of env ec]
      obtain r1 w1 where out: "outside (issueClusterCredential env ec) w = (r1, w1)" by fastforce
      have same: "gw_credentials w1 = gw_credentials w" using out by (rule outside_cache)
      show ?thesis
      proof (cases r1)
        case (Ret cred)
        have us: "usable cred" using outside_inner [OF out] Ret issueClusterCredential_usable by metis
        have res: "r = Ret cred"
          "w' = (if cacheable cred then w1\<lparr>gw_credentials := AList.update name cred (gw_credentials w)\<rparr> else w1)"
          using miss out Ret 1(3) same by simp_all
        have "cache_ok (gw_credentials w')"
          using res(2) same 1(2) cache_ok_update [OF 1(2) False us] by (cases "cacheable cred") simp_all
        then show ?thesis using res(1) us by simp
      qed (use miss out same 1(2,3) in simp_all)
    qed
  next
    case False
    then obtain cred where name: "name \<noteq> ''''" and hit: "map_of (gw_credentials w) name = Some cred" by auto
    obtain now w1 where clock: "read_clock env w = (now, w1)" by fastforce
    show ?thesis
    proof (cases "expired_at now cred")
      case True
      have "cache_ok (AList.delete name (gw_credentials w1))"
        using 1(2) read_clock_cache [OF clock] cache_ok_delete by metis
      then show ?thesis
        using 1(1) [OF name hit clock [symmetric] True] 1(3) Issue_expired [OF name hit clock True] by simp
    next
      case False
      then show ?thesis
        using 1(2,3) Issue_hit [OF name hit clock False] read_clock_cache [OF clock]
          cache_ok_lookup [OF 1(2) hit] by auto
    qed
  qed
qed

section \<open>Goroutines sharing the cache\<close>

text \<open>
  Requests run in their own goroutines and meet in the \<^verbatim>\<open>sync.Map\<close>; one operation on the map is atomic, the
  function as a whole is not. A goroutine is in one of the phases below; \<open>conc_step plugin\<close> is one
  atomic action of one goroutine, or the passing of time. \<open>plugin i r\<close> says that running the command of
  goroutine \<open>i\<close> may end with \<open>r\<close>.
\<close>

datatype phase =
    Start
  | Loaded ExecCredential
  | Expired
  | Issuing
  | Issued ExecCredential
  | Done "ExecCredential res"

record conc =
  c_cache :: "(string \<times> ExecCredential) list"
  c_clock :: gotime
  c_phase :: "nat \<Rightarrow> phase"
  c_name :: "nat \<Rightarrow> string"

abbreviation goto :: "nat \<Rightarrow> phase \<Rightarrow> conc \<Rightarrow> conc" where
  "goto i p s \<equiv> s\<lparr>c_phase := (c_phase s)(i := p)\<rparr>"

inductive conc_step :: "(nat \<Rightarrow> ExecCredential res \<Rightarrow> bool) \<Rightarrow> conc \<Rightarrow> conc \<Rightarrow> bool"
  for plugin where
  noname: "c_phase s i = Start \<Longrightarrow> c_name s i = '''' \<Longrightarrow>
     conc_step plugin s (goto i (Done (Fail (PlainError ''cluster name not provided''))) s)"
| load_hit: "c_phase s i = Start \<Longrightarrow> c_name s i \<noteq> '''' \<Longrightarrow> map_of (c_cache s) (c_name s i) = Some cred \<Longrightarrow>
     conc_step plugin s (goto i (Loaded cred) s)"
| load_miss: "c_phase s i = Start \<Longrightarrow> c_name s i \<noteq> '''' \<Longrightarrow> map_of (c_cache s) (c_name s i) = None \<Longrightarrow>
     conc_step plugin s (goto i Issuing s)"
| still_valid: "c_phase s i = Loaded cred \<Longrightarrow> \<not> expired_at (c_clock s) cred \<Longrightarrow>
     conc_step plugin s (goto i (Done (Ret cred)) s)"
| stale: "c_phase s i = Loaded cred \<Longrightarrow> expired_at (c_clock s) cred \<Longrightarrow>
     conc_step plugin s (goto i Expired s)"
| delete: "c_phase s i = Expired \<Longrightarrow>
     conc_step plugin s (goto i Start (s\<lparr>c_cache := AList.delete (c_name s i) (c_cache s)\<rparr>))"
| issue: "c_phase s i = Issuing \<Longrightarrow> plugin i (Ret cred) \<Longrightarrow>
     conc_step plugin s (goto i (Issued cred) s)"
| issue_fails: "c_phase s i = Issuing \<Longrightarrow> plugin i r \<Longrightarrow> (\<forall>cred. r \<noteq> Ret cred) \<Longrightarrow>
     conc_step plugin s (goto i (Done r) s)"
| store: "c_phase s i = Issued cred \<Longrightarrow> cacheable cred \<Longrightarrow>
     conc_step plugin s (goto i (Done (Ret cred)) (s\<lparr>c_cache := AList.update (c_name s i) cred (c_cache s)\<rparr>))"
| no_store: "c_phase s i = Issued cred \<Longrightarrow> \<not> cacheable cred \<Longrightarrow>
     conc_step plugin s (goto i (Done (Ret cred)) s)"
| tick: "t \<ge> c_clock s \<Longrightarrow> conc_step plugin s (s\<lparr>c_clock := t\<rparr>)"

inductive conc_reachable :: "(nat \<Rightarrow> ExecCredential res \<Rightarrow> bool) \<Rightarrow> conc \<Rightarrow> bool" for plugin where
  conc_init: "c_cache s = [] \<Longrightarrow> \<forall>i. c_phase s i = Start \<Longrightarrow> conc_reachable plugin s"
| conc_next: "conc_reachable plugin s \<Longrightarrow> conc_step plugin s s' \<Longrightarrow> conc_reachable plugin s'"

inductive_simps conc_step_simps: "conc_step plugin s s'"

fun phase_ok :: "string \<Rightarrow> phase \<Rightarrow> bool" where
  "phase_ok n (Loaded cred) = (n \<noteq> '''' \<and> usable cred \<and> cacheable cred)"
| "phase_ok n (Issued cred) = (n \<noteq> '''' \<and> usable cred)"
| "phase_ok n (Done (Ret cred)) = (n \<noteq> '''' \<and> usable cred)"
| "phase_ok n Issuing = (n \<noteq> '''')"
| "phase_ok n Expired = (n \<noteq> '''')"
| "phase_ok n p = True"

definition conc_inv :: "conc \<Rightarrow> bool" where
  "conc_inv s \<longleftrightarrow> cache_ok (c_cache s) \<and> (\<forall>i. phase_ok (c_name s i) (c_phase s i))"

lemma conc_inv_goto:
  "conc_inv s \<Longrightarrow> phase_ok (c_name s i) p \<Longrightarrow> conc_inv (goto i p s)"
  by (simp add: conc_inv_def)

lemma conc_inv_phase: "conc_inv s \<Longrightarrow> c_phase s i = p \<Longrightarrow> phase_ok (c_name s i) p"
  by (auto simp: conc_inv_def)

lemma conc_inv_cache: "conc_inv s \<Longrightarrow> cache_ok cache \<Longrightarrow> conc_inv (s\<lparr>c_cache := cache\<rparr>)"
  by (simp add: conc_inv_def)

lemma conc_step_inv:
  assumes "conc_step plugin s s'" and plugin: "\<And>i cred. plugin i (Ret cred) \<Longrightarrow> usable cred" and "conc_inv s"
  shows "conc_inv s'"
  using assms(1,3)
proof (cases rule: conc_step.cases)
  case (load_hit i cred)
  moreover have "usable cred \<and> cacheable cred"
    using load_hit(4) assms(3) cache_ok_lookup by (auto simp: conc_inv_def)
  ultimately show ?thesis using assms(3) by (auto intro: conc_inv_goto)
next
  case (still_valid i cred)
  then show ?thesis
    using assms(3) conc_inv_phase [OF assms(3), of i] by (auto intro!: conc_inv_goto)
next
  case (stale i cred)
  then show ?thesis
    using assms(3) conc_inv_phase [OF assms(3), of i] by (auto intro!: conc_inv_goto)
next
  case (delete i)
  have "cache_ok (AList.delete (c_name s i) (c_cache s))"
    using assms(3) by (simp add: conc_inv_def cache_ok_delete)
  then have "conc_inv (s\<lparr>c_cache := AList.delete (c_name s i) (c_cache s)\<rparr>)"
    by (rule conc_inv_cache [OF assms(3)])
  then show ?thesis using delete by (simp add: conc_inv_def)
next
  case (issue i cred)
  then show ?thesis
    using assms(3) plugin conc_inv_phase [OF assms(3), of i] by (auto intro!: conc_inv_goto)
next
  case (store i cred)
  then have ok: "phase_ok (c_name s i) (Issued cred)" using conc_inv_phase [OF assms(3)] by blast
  then have "cache_ok (AList.update (c_name s i) cred (c_cache s))"
    using assms(3) store by (auto simp: conc_inv_def intro: cache_ok_update)
  moreover have "phase_ok (c_name s i) (Done (Ret cred))" using ok by simp
  ultimately show ?thesis using assms(3) ok unfolding store(1) by (simp add: conc_inv_def)
next
  case (no_store i cred)
  then show ?thesis
    using assms(3) conc_inv_phase [OF assms(3), of i] by (auto intro!: conc_inv_goto)
next
  case (issue_fails i r)
  then have "phase_ok (c_name s i) (Done r)" by (cases r) auto
  then show ?thesis using issue_fails assms(3) by (auto intro: conc_inv_goto)
qed (auto simp: conc_inv_def)

lemma conc_reachable_inv:
  assumes "conc_reachable plugin s" and "\<And>i cred. plugin i (Ret cred) \<Longrightarrow> usable cred"
  shows "conc_inv s"
  using assms(1)
proof (induction rule: conc_reachable.induct)
  case (conc_init s)
  then show ?case by (simp add: conc_inv_def cache_ok_def)
next
  case (conc_next s s')
  then show ?case using conc_step_inv assms(2) by blast
qed

section \<open>Properties\<close>

text \<open>
  How often the command runs, as a counter on the outside world that only running the command moves.
\<close>

definition counts_runs :: "'x exec_env \<Rightarrow> ('x \<Rightarrow> nat) \<Rightarrow> bool" where
  "counts_runs env runs \<longleftrightarrow>
     (\<forall>p x. runs (snd (LookPath env p x)) = runs x) \<and> (\<forall>x. runs (snd (Environ env x)) = runs x) \<and>
     (\<forall>c a e x. runs (snd (RunCommand env c a e x)) = Suc (runs x)) \<and> (\<forall>x. runs (snd (Now env x)) = runs x)"

lemma issueClusterCredential_runs:
  assumes "counts_runs env runs" shows "runs (snd (issueClusterCredential env ec x)) \<le> Suc (runs x)"
proof (cases ec)
  case None
  then show ?thesis by (simp add: issueClusterCredential_def run_simps)
next
  case (Some c)
  obtain r1 x1 where a: "LookPath env (ec_Command c) x = (r1, x1)" by fastforce
  obtain r2 x2 where b: "Environ env x1 = (r2, x2)" by fastforce
  have r1: "runs x1 = runs x" and r2: "runs x2 = runs x"
    using assms a b unfolding counts_runs_def by (metis snd_conv)+
  have r3: "RunCommand env p q e x2 = (r3, x3) \<Longrightarrow> runs x3 = Suc (runs x)" for p q e r3 x3
    using assms r2 unfolding counts_runs_def by (metis snd_conv)
  show ?thesis
    using Some a b r1 r2 r3
    by (auto simp: issueClusterCredential_def run_simps split: res.splits prod.splits option.splits if_splits)
qed

lemma read_clock_runs: "counts_runs env runs \<Longrightarrow> runs (gw_world (snd (read_clock env w))) = runs (gw_world w)"
  by (auto simp: read_clock_def counts_runs_def split: prod.splits) (metis snd_conv)

lemma gw_world_outside: "gw_world (snd (outside m w)) = snd (m (gw_world w))"
  by (simp add: outside_def split: prod.splits)

lemma Issue_miss_world:
  assumes "name \<noteq> ''''" "map_of (gw_credentials w) name = None"
  shows "gw_world (snd (IssueClusterCredential env name ec w)) = snd (issueClusterCredential env ec (gw_world w))"
  unfolding Issue_miss [OF assms] gw_world_outside [symmetric]
  by (auto split: res.splits prod.splits)

text \<open>
  C10. Issuing a credential always returns, runs the external command at most once, and not at all
  when the cache holds a credential for the cluster that is still valid for a minute.
\<close>

theorem IssueClusterCredential_runs_once:
  assumes "counts_runs env runs"
  shows "runs (gw_world (snd (IssueClusterCredential env name ec w))) \<le>
    runs (gw_world w) +
      (case map_of (gw_credentials w) name of
         Some cred \<Rightarrow> if expired_at (fst (read_clock env w)) cred then 1 else 0 | None \<Rightarrow> 1)"
proof (cases "name = ''''")
  case True
  then show ?thesis by (simp add: Issue_noname)
next
  case name: False
  obtain now w1 where clock: "read_clock env w = (now, w1)" by fastforce
  have same: "runs (gw_world w1) = runs (gw_world w)" using read_clock_runs [OF assms, of w] clock by simp
  show ?thesis
  proof (cases "map_of (gw_credentials w) name")
    case None
    then show ?thesis
      using Issue_miss_world [OF name None, of env ec] issueClusterCredential_runs [OF assms, of ec "gw_world w"] by simp
  next
    case (Some cred)
    let ?w2 = "w1\<lparr>gw_credentials := AList.delete name (gw_credentials w1)\<rparr>"
    have gone: "map_of (gw_credentials ?w2) name = None" by (simp add: delete_conv')
    show ?thesis
      using Some clock same Issue_hit [OF name Some clock, of ec] Issue_expired [OF name Some clock, of ec]
        Issue_miss_world [OF name gone, of env ec] issueClusterCredential_runs [OF assms, of ec "gw_world w1"]
      by (cases "expired_at now cred") simp_all
  qed
qed

definition demo_status :: ExecCredentialStatus where
  "demo_status = \<lparr>es_Token = ''tok'', es_ClientCertificateData = '''', es_ClientKeyData = '''',
     es_ExpirationTimestamp = Some 100000000000\<rparr>"

definition demo_ExecCredential :: ExecCredential where
  "demo_ExecCredential = \<lparr>ecr_APIVersion = ''client.authentication.k8s.io/v1'', ecr_Status = Some demo_status\<rparr>"

text \<open>A world that counts command runs and whose clock stands still.\<close>

definition demo_exec_env :: "nat exec_env" where
  "demo_exec_env = \<lparr>LookPath = ret, Environ = ret [], RunCommand = (\<lambda>c a e n. (Ret ''out'', Suc n)),
     ParseGroupVersion = (\<lambda>s. Ret (''client.authentication.k8s.io'', ''v1'')),
     DecodeCredential = (\<lambda>gv out c. Ret (gv, demo_ExecCredential)), Now = (\<lambda>n. (0, n))\<rparr>"

definition demo_ExecConfig :: ExecConfig where
  "demo_ExecConfig = \<lparr>ec_Command = ''get-token'', ec_Args = [], ec_Env = [],
     ec_APIVersion = ''client.authentication.k8s.io/v1''\<rparr>"

lemmas demo_exec_defs = demo_status_def demo_ExecCredential_def demo_exec_env_def demo_ExecConfig_def

lemma demo_counts_runs: "counts_runs demo_exec_env id"
  by (simp add: counts_runs_def demo_exec_env_def run_simps)

theorem IssueClusterCredential_runs_once_witness:
  "gw_world (snd (IssueClusterCredential demo_exec_env ''c1'' (Some demo_ExecConfig)
     \<lparr>gw_credentials = [(''c1'', demo_ExecCredential)], gw_world = 5\<rparr>)) \<le> 5"
  using IssueClusterCredential_runs_once [OF demo_counts_runs, of "''c1''" "Some demo_ExecConfig"
      "\<lparr>gw_credentials = [(''c1'', demo_ExecCredential)], gw_world = 5\<rparr>"]
  by (simp add: expired_at_def read_clock_def demo_exec_defs time_Minute_def)

text \<open>
  C11. What one call caches the next call returns: after a call that issued a credential with an expiry time,
  any call for the same cluster made while the clock stays a minute before the expiry gives that very
  credential, whatever exec configuration the second call carries, and leaves the cache as it is.
\<close>

theorem IssueClusterCredential_cached:
  assumes "map_of (gw_credentials w) name = None"
    and "IssueClusterCredential env name ec w = (Ret cred, w1)"
    and "ecr_Status cred = Some st" and "es_ExpirationTimestamp st = Some t" and "t \<noteq> 0"
    and "read_clock env w1 = (now, w2)" and "now + 60 * 1000000000 \<le> t"
  shows "IssueClusterCredential env name ec' w1 = (Ret cred, w2) \<and> gw_credentials w2 = gw_credentials w1"
proof -
  have name: "name \<noteq> ''''" using assms(2) by (auto simp: Issue_noname)
  have cred: "cacheable cred" "\<not> expired_at now cred"
    using assms(3-5,7) by (simp_all add: cacheable_def expired_at_def time_Minute_def)
  have "map_of (gw_credentials w1) name = Some cred"
    using assms(2) cred(1) unfolding Issue_miss [OF name assms(1)]
    by (auto simp: map_of_update_conv split: prod.splits res.splits)
  then show ?thesis using Issue_hit [OF name _ assms(6) cred(2)] read_clock_cache [OF assms(6)] by simp
qed

definition demo_issued :: "nat gwstate" where
  "demo_issued = \<lparr>gw_credentials = [(''c1'', demo_ExecCredential)], gw_world = 1\<rparr>"

theorem IssueClusterCredential_cached_witness:
  "IssueClusterCredential demo_exec_env ''c1'' None demo_issued = (Ret demo_ExecCredential, demo_issued)"
proof -
  have "IssueClusterCredential demo_exec_env ''c1'' (Some demo_ExecConfig)
      \<lparr>gw_credentials = [], gw_world = 0\<rparr> = (Ret demo_ExecCredential, demo_issued)"
    by (simp add: Issue_miss outside_def issueClusterCredential_def run_simps demo_exec_defs apiVersions_def
          check_credential_def cacheable_def demo_issued_def)
  then show ?thesis
    using IssueClusterCredential_cached [of "\<lparr>gw_credentials = [], gw_world = 0\<rparr>" "''c1''" demo_exec_env
        "Some demo_ExecConfig" demo_ExecCredential demo_issued demo_status _ 0 demo_issued None]
    by (simp add: read_clock_def demo_exec_defs demo_issued_def)
qed

text \<open>
  C9. Under any interleaving of any number of goroutines on the shared cache, started from the empty cache,
  every goroutine that has returned a credential returned one with a token or a complete
  certificate and key pair, and the cache only ever holds such credentials, each with an expiry time and a
  cluster name.
\<close>

theorem concurrent_issue_safe:
  assumes "conc_reachable (\<lambda>i r. \<exists>env ec x x'. issueClusterCredential (env :: 'x exec_env) ec x = (r, x')) s"
  shows "cache_ok (c_cache s) \<and> (\<forall>i cred. c_phase s i = Done (Ret cred) \<longrightarrow> usable cred)"
proof -
  have "conc_inv s"
    by (rule conc_reachable_inv [OF assms]) (elim exE, rule issueClusterCredential_usable)
  then show ?thesis using conc_inv_phase by (fastforce simp: conc_inv_def)
qed

definition demo_conc0 :: conc where
  "demo_conc0 = \<lparr>c_cache = [], c_clock = 0, c_phase = (\<lambda>_. Start), c_name = (\<lambda>_. ''c1'')\<rparr>"

definition demo_conc :: conc where
  "demo_conc = demo_conc0\<lparr>c_cache := [(''c1'', demo_ExecCredential)],
     c_phase := (\<lambda>_. Start)(3 := Done (Ret demo_ExecCredential))\<rparr>"

lemma demo_issue:
  "\<exists>env ec x x'. issueClusterCredential (env :: nat exec_env) ec x = (Ret demo_ExecCredential, x')"
proof -
  have "issueClusterCredential demo_exec_env (Some demo_ExecConfig) 0 = (Ret demo_ExecCredential, 1)"
    by (simp add: issueClusterCredential_def run_simps demo_exec_defs apiVersions_def check_credential_def)
  then show ?thesis by blast
qed

theorem concurrent_issue_safe_witness:
  "c_phase demo_conc 3 = Done (Ret demo_ExecCredential) \<and> usable demo_ExecCredential"
proof -
  let ?plugin = "\<lambda>(i :: nat) r. \<exists>env ec x x'. issueClusterCredential (env :: nat exec_env) ec x = (r, x')"
  let ?s1 = "goto 3 Issuing demo_conc0" and ?s2 = "goto 3 (Issued demo_ExecCredential) (goto 3 Issuing demo_conc0)"
  have "conc_reachable ?plugin demo_conc0" by (rule conc_init) (simp_all add: demo_conc0_def)
  moreover have "conc_step ?plugin demo_conc0 ?s1" by (rule load_miss) (simp_all add: demo_conc0_def)
  moreover have "conc_step ?plugin ?s1 ?s2" by (rule issue) (use demo_issue in simp_all)
  moreover have "conc_step ?plugin ?s2 demo_conc"
    using store [of ?s2 3 demo_ExecCredential ?plugin]
    by (simp add: cacheable_def demo_conc_def demo_conc0_def demo_exec_defs)
  ultimately have "conc_reachable ?plugin demo_conc" by (blast intro: conc_next)
  from concurrent_issue_safe [OF this] show ?thesis by (simp add: demo_conc_def)
qed

end
