(* ===== verification/Secret_Control.thy ===== *)
theory Secret_Control
  imports Gateway_Types Go_Strings
begin

text \<open>
  Access to the hub's secrets and managed clusters: \<^verbatim>\<open>pkg/util/cert/secret.go\<close> (copying a secret, the direct
  and the cached \<^verbatim>\<open>SecretControl\<close>), \<^verbatim>\<open>pkg/util/cert/cert.go\<close> (the CA pair kept in a secret),
  \<^verbatim>\<open>pkg/util/cluster/cluster.go\<close> (the direct and the cached \<^verbatim>\<open>OCMClusterControl\<close>). The Kubernetes and the
  Open-Cluster-Management clients and their listers are records of calls over the outside world \<open>'x\<close>;
  what a theorem needs of them is the named hypothesis \<open>secret_api\<close>.
\<close>

section \<open>Clients\<close>

record 'x kube_client =
  secrets_Get :: "string \<Rightarrow> string \<Rightarrow> ('x, Secret) gom"
  secrets_List :: "string \<Rightarrow> string \<Rightarrow> ('x, Secret list) gom"
  secrets_Create :: "string \<Rightarrow> Secret \<Rightarrow> ('x, Secret) gom"
  secrets_Update :: "string \<Rightarrow> Secret \<Rightarrow> ('x, Secret) gom"
  labels_Exists :: "string \<Rightarrow> string res"

record 'x secret_lister =
  lister_Get :: "string \<Rightarrow> string \<Rightarrow> ('x, Secret) gom"
  lister_List :: "string \<Rightarrow> string \<Rightarrow> ('x, Secret list) gom"
  lister_Exists :: "string \<Rightarrow> string res"

record APIResourceList =
  arl_GroupVersion :: string
  arl_Kinds :: "string list"

record 'x ocm_client =
  clusters_Get :: "string \<Rightarrow> ('x, ManagedCluster) gom"
  clusters_List :: "('x, ManagedCluster list) gom"
  ServerGroupsAndResources :: "('x, APIResourceList list) gom"

record 'x cluster_lister =
  cluster_lister_Get :: "string \<Rightarrow> ('x, ManagedCluster) gom"
  cluster_lister_List :: "('x, ManagedCluster option list) gom"

section \<open>Copying secrets\<close>

definition IsSubset :: "gobytes gomap \<Rightarrow> gobytes gomap \<Rightarrow> bool" where
  "IsSubset sub superset = list_all (\<lambda>(k, v). bytes_Equal v (dget superset k)) (entries sub)"

fun Merge_loop :: "(string \<times> gobytes) list \<Rightarrow> gobytes gomap \<Rightarrow> gobytes gomap res" where
  "Merge_loop [] r = Ret r"
| "Merge_loop ((k, v) # l) r = bind_res (mput k v r) (Merge_loop l)"

definition Merge :: "gobytes gomap \<Rightarrow> gobytes gomap \<Rightarrow> gobytes gomap res" where
  "Merge l r = Merge_loop (entries l) r"

definition copied_secret :: "Secret \<Rightarrow> string \<Rightarrow> string \<Rightarrow> Secret" where
  "copied_secret source targetNamespace targetName =
     source\<lparr>sec_Meta := (sec_Meta source)\<lparr>meta_Namespace := targetNamespace, meta_Name := targetName,
                                          meta_UID := '''', meta_ResourceVersion := ''''\<rparr>\<rparr>"

definition CopySecret ::
  "'x kube_client \<Rightarrow> string \<Rightarrow> string \<Rightarrow> string \<Rightarrow> string \<Rightarrow> ('x, unit) gom" where
  "CopySecret kube sourceNamespace sourceName targetNamespace targetName =
     bindM (mapErr (\<lambda>e. WrapError (''failed getting source secret '' @ sourceNamespace @ ''/'' @ sourceName @ '': '' @ Error e) e)
             (secrets_Get kube sourceNamespace sourceName)) (\<lambda>source.
     bindM (attempt (secrets_Get kube targetNamespace targetName)) (\<lambda>r.
     case r of
       Inl e \<Rightarrow>
         if \<not> IsNotFound e then
           fail (WrapError (''failed getting target secret '' @ targetNamespace @ ''/'' @ targetName @ '': '' @ Error e) e)
         else
           bindM (attempt (secrets_Create kube targetNamespace (copied_secret source targetNamespace targetName))) (\<lambda>c.
             case c of
               Inl ce \<Rightarrow> if \<not> IsAlreadyExists ce then fail (WrapError ''failed creating CA secret'' ce) else ret ()
             | Inr _ \<Rightarrow> ret ())
     | Inr target \<Rightarrow>
         if IsSubset (sec_Data source) (sec_Data target) then ret ()
         else
           bindM (liftR (Merge (sec_Data source) (sec_Data target))) (\<lambda>d.
           bindM (secrets_Update kube targetNamespace (target\<lparr>sec_Data := d\<rparr>)) (\<lambda>_. ret ()))))"

section \<open>SecretControl\<close>

datatype 'x SecretControl =
    directApiSecretControl string "'x kube_client"
  | cachedSecretControl string "'x secret_lister"

definition direct_Get :: "string \<Rightarrow> 'x kube_client \<Rightarrow> string \<Rightarrow> ('x, Secret) gom" where
  "direct_Get secretNamespace kube name = secrets_Get kube secretNamespace name"

definition direct_List :: "string \<Rightarrow> 'x kube_client \<Rightarrow> ('x, Secret list) gom" where
  "direct_List secretNamespace kube =
     bindM (liftR (labels_Exists kube LabelKeyClusterCredentialType)) (\<lambda>selector.
     bindM (secrets_List kube secretNamespace selector) ret)"

definition cached_Get :: "string \<Rightarrow> 'x secret_lister \<Rightarrow> string \<Rightarrow> ('x, Secret) gom" where
  "cached_Get secretNamespace lister name = lister_Get lister secretNamespace name"

definition cached_List :: "string \<Rightarrow> 'x secret_lister \<Rightarrow> ('x, Secret list) gom" where
  "cached_List secretNamespace lister =
     bindM (liftR (lister_Exists lister LabelKeyClusterCredentialType)) (\<lambda>selector.
     lister_List lister secretNamespace selector)"

fun SecretControl_Get :: "'x SecretControl \<Rightarrow> string \<Rightarrow> ('x, Secret) gom" where
  "SecretControl_Get (directApiSecretControl ns kube) name = direct_Get ns kube name"
| "SecretControl_Get (cachedSecretControl ns lister) name = cached_Get ns lister name"

fun SecretControl_List :: "'x SecretControl \<Rightarrow> ('x, Secret list) gom" where
  "SecretControl_List (directApiSecretControl ns kube) = direct_List ns kube"
| "SecretControl_List (cachedSecretControl ns lister) = cached_List ns lister"

section \<open>OCMClusterControl\<close>

text \<open>The cached control is built on whatever lister variable holds, which may be nil.\<close>

datatype 'x OCMClusterControl =
    directOCMClusterControl "'x ocm_client"
  | cacheOCMClusterControl "'x cluster_lister option"

text \<open>
  \<^verbatim>\<open>List\<close> makes a slice of as many nil pointers as there are clusters, then ranges over that slice (fixed
  when the loop starts) and appends its elements to it.
\<close>

definition directOCM_List :: "'x ocm_client \<Rightarrow> ('x, ManagedCluster option list) gom" where
  "directOCM_List ocm =
     bindM (clusters_List ocm) (\<lambda>items.
       let clusters = replicate (length items) None
       in ret (fold (\<lambda>item acc. acc @ [item]) clusters clusters))"

fun OCMClusterControl_Get :: "'x OCMClusterControl \<Rightarrow> string \<Rightarrow> ('x, ManagedCluster) gom" where
  "OCMClusterControl_Get (directOCMClusterControl ocm) name = clusters_Get ocm name"
| "OCMClusterControl_Get (cacheOCMClusterControl lister) name =
     bindM (liftR (deref lister)) (\<lambda>l. cluster_lister_Get l name)"

fun OCMClusterControl_List :: "'x OCMClusterControl \<Rightarrow> ('x, ManagedCluster option list) gom" where
  "OCMClusterControl_List (directOCMClusterControl ocm) = directOCM_List ocm"
| "OCMClusterControl_List (cacheOCMClusterControl lister) =
     bindM (liftR (deref lister)) cluster_lister_List"

text \<open>
  \<^verbatim>\<open>schema.ParseGroupVersion\<close>: none for the empty string and \<^verbatim>\<open>/\<close>, a version alone, or group and version;
  two or more slashes are an error, whose (ignored) value is the empty group and version.
\<close>

definition GroupVersion_group :: "string \<Rightarrow> string" where
  "GroupVersion_group gv =
     (case split_on CHR ''/'' gv of [g, v] \<Rightarrow> g | _ \<Rightarrow> '''')"

definition IsOCMManagedClusterInstalled :: "'x ocm_client \<Rightarrow> ('x, bool) gom" where
  "IsOCMManagedClusterInstalled ocm =
     bindM (wrapM ''unable to get api-resources'' (ServerGroupsAndResources ocm)) (\<lambda>resources.
       ret (\<exists>rl\<in>set resources. GroupVersion_group (arl_GroupVersion rl) = ''cluster.open-cluster-management.io''
              \<and> (\<exists>k\<in>set (arl_Kinds rl). k = ''ManagedCluster'')))"

section \<open>The CA pair\<close>

record ('x, 'c, 'k) pki =
  pem_Decode :: "gobytes \<Rightarrow> string option"
  pem_EncodeToMemory :: "string \<Rightarrow> string \<Rightarrow> string"
  ParseCertificate :: "string \<Rightarrow> 'c res"
  ParsePKCS8PrivateKey :: "string \<Rightarrow> 'k res"
  rsa_GenerateKey :: "int \<Rightarrow> ('x, 'k) gom"
  NewSelfSignedCACert :: "string \<Rightarrow> 'k \<Rightarrow> ('x, 'c) gom"
  MarshalPKCS8PrivateKey :: "'k \<Rightarrow> string res"
  cert_Raw :: "'c \<Rightarrow> string"

record ('c, 'k) CA =
  ca_Certs :: "'c list"
  ca_Key :: 'k

definition rsaKeySize :: int where "rsaKeySize = 2048"

definition load_ca :: "('x, 'c, 'k) pki \<Rightarrow> Secret \<Rightarrow> ('c, 'k) CA res" where
  "load_ca pki current =
     bind_res (deref (pem_Decode pki (dget (sec_Data current) ''ca.crt''))) (\<lambda>certBlock.
     case ParseCertificate pki certBlock of
       Fail e \<Rightarrow> Fail (WrapError ''failed to parse ca certificate'' e)
     | Panic s \<Rightarrow> Panic s
     | Ret caCert \<Rightarrow>
         bind_res (deref (pem_Decode pki (dget (sec_Data current) ''ca.key''))) (\<lambda>keyBlock.
         case ParsePKCS8PrivateKey pki keyBlock of
           Fail e \<Rightarrow> Fail (WrapError ''failed to parse ca key'' e)
         | Panic s \<Rightarrow> Panic s
         | Ret caKey \<Rightarrow> Ret \<lparr>ca_Certs = [caCert], ca_Key = caKey\<rparr>))"

definition ca_secret :: "('x, 'c, 'k) pki \<Rightarrow> string \<Rightarrow> string \<Rightarrow> 'c \<Rightarrow> string \<Rightarrow> Secret" where
  "ca_secret pki namespace name caCert rawKeyData =
     \<lparr>sec_Meta = empty_ObjectMeta\<lparr>meta_Namespace := namespace, meta_Name := name\<rparr>, sec_Type = '''',
      sec_Data = Some [(''ca.crt'', Some (pem_EncodeToMemory pki ''CERTIFICATE'' (cert_Raw pki caCert))),
                       (''ca.key'', Some (pem_EncodeToMemory pki ''PRIVATE KEY'' rawKeyData))]\<rparr>"

definition EnsureCAPair ::
  "('x, 'c, 'k) pki \<Rightarrow> 'x kube_client res \<Rightarrow> string \<Rightarrow> string \<Rightarrow> ('x, ('c, 'k) CA) gom" where
  "EnsureCAPair pki newForConfig namespace name =
     bindM (liftR newForConfig) (\<lambda>c.
     bindM (attempt (secrets_Get c namespace name)) (\<lambda>r.
     case r of
       Inr current \<Rightarrow> liftR (load_ca pki current)
     | Inl e \<Rightarrow>
         if \<not> IsNotFound e then fail e
         else
           bindM (rsa_GenerateKey pki rsaKeySize) (\<lambda>privateKey.
           bindM (NewSelfSignedCACert pki AddonName privateKey) (\<lambda>caCert.
           bindM (liftR (MarshalPKCS8PrivateKey pki privateKey)) (\<lambda>rawKeyData.
           bindM (secrets_Create c namespace (ca_secret pki namespace name caCert rawKeyData)) (\<lambda>_.
             ret \<lparr>ca_Certs = [caCert], ca_Key = privateKey\<rparr>))))))"

section \<open>What the Kubernetes API promises\<close>

text \<open>
  \<open>secret_api kube look\<close>: reading gives the stored secret or a not-found error and changes nothing; creating
  a secret that is not there, and updating one that is, store the data, labels and annotations given for it under that name
  and leave every other secret alone. Server-side metadata (UID, resource version, times) is left open.
\<close>

definition stored_as :: "Secret \<Rightarrow> Secret \<Rightarrow> bool" where
  "stored_as s s' \<longleftrightarrow> sec_Data s' = sec_Data s \<and> sec_Name s' = sec_Name s \<and> sec_Labels s' = sec_Labels s \<and>
     sec_Annotations s' = sec_Annotations s"

definition secret_api :: "'x kube_client \<Rightarrow> ('x \<Rightarrow> string \<Rightarrow> string \<Rightarrow> Secret option) \<Rightarrow> bool" where
  "secret_api kube look \<longleftrightarrow>
     (\<forall>ns n x. (case look x ns n of
        Some s \<Rightarrow> secrets_Get kube ns n x = (Ret s, x)
      | None \<Rightarrow> \<exists>e. IsNotFound e \<and> secrets_Get kube ns n x = (Fail e, x))) \<and>
     (\<forall>ns s x. look x ns (sec_Name s) = None \<longrightarrow>
        (\<exists>s' x'. secrets_Create kube ns s x = (Ret s', x') \<and> stored_as s s' \<and>
           (\<forall>ns' n'. look x' ns' n' = (if ns' = ns \<and> n' = sec_Name s then Some s' else look x ns' n')))) \<and>
     (\<forall>ns s x. look x ns (sec_Name s) \<noteq> None \<longrightarrow>
        (\<exists>s' x'. secrets_Update kube ns s x = (Ret s', x') \<and> stored_as s s' \<and>
           (\<forall>ns' n'. look x' ns' n' = (if ns' = ns \<and> n' = sec_Name s then Some s' else look x ns' n'))))"

text \<open>
  An in-memory client that keeps the secrets of all namespaces in a list, the way client-go's object
  tracker does: the API promise holds of it, and concrete runs are evaluated on it.
\<close>

type_synonym store = "((string \<times> string) \<times> Secret) list"

definition tracker_client :: "store kube_client" where
  "tracker_client = \<lparr>
     secrets_Get = (\<lambda>ns n x. case map_of x (ns, n) of
        Some s \<Rightarrow> (Ret s, x) | None \<Rightarrow> (Fail (NewNotFound '''' ''secrets'' n), x)),
     secrets_List = (\<lambda>ns key x. (Ret (map snd (filter (\<lambda>((ns', n), s). ns' = ns \<and> mget (sec_Labels s) key \<noteq> None) x)), x)),
     secrets_Create = (\<lambda>ns s x. if map_of x (ns, sec_Name s) = None
        then (Ret s, AList.update (ns, sec_Name s) s x)
        else (Fail (StatusError AlreadyExists (''secrets '' @ go_quote (sec_Name s) @ '' already exists'')), x)),
     secrets_Update = (\<lambda>ns s x. if map_of x (ns, sec_Name s) = None
        then (Fail (NewNotFound '''' ''secrets'' (sec_Name s)), x)
        else (Ret s, AList.update (ns, sec_Name s) s x)),
     labels_Exists = Ret\<rparr>"

definition tracker_lookup :: "store \<Rightarrow> string \<Rightarrow> string \<Rightarrow> Secret option" where
  "tracker_lookup x ns n = map_of x (ns, n)"

section \<open>Lemmas\<close>

lemma tracker_secret_api: "secret_api tracker_client tracker_lookup"
  by (auto simp: secret_api_def tracker_client_def tracker_lookup_def update_conv' stored_as_def split: option.splits)

lemma fold_snoc: "fold (\<lambda>item acc. acc @ [item]) xs ys = ys @ xs"
  by (induction xs arbitrary: ys) auto

lemma directOCM_List_run:
  "clusters_List ocm x = (Ret cs, x') \<Longrightarrow> directOCM_List ocm x = (Ret (replicate (2 * length cs) None), x')"
  unfolding directOCM_List_def Let_def fold_snoc by (simp add: run_simps replicate_add [symmetric] mult_2)

lemma secret_api_Get_Some:
  assumes "secret_api kube look" "look x ns n = Some s" shows "secrets_Get kube ns n x = (Ret s, x)"
  using assms(1) [unfolded secret_api_def, THEN conjunct1, THEN spec [of _ ns], THEN spec [of _ n], THEN spec [of _ x]]
    assms(2) by simp

lemma secret_api_Get_None:
  assumes "secret_api kube look" "look x ns n = None"
  shows "\<exists>e. IsNotFound e \<and> secrets_Get kube ns n x = (Fail e, x)"
  using assms(1) [unfolded secret_api_def, THEN conjunct1, THEN spec [of _ ns], THEN spec [of _ n], THEN spec [of _ x]]
    assms(2) by simp

lemma secret_api_Create:
  "secret_api kube look \<Longrightarrow> look x ns (sec_Name s) = None \<Longrightarrow>
     \<exists>s' x'. secrets_Create kube ns s x = (Ret s', x') \<and> stored_as s s' \<and>
       (\<forall>ns' n'. look x' ns' n' = (if ns' = ns \<and> n' = sec_Name s then Some s' else look x ns' n'))"
  unfolding secret_api_def by blast

lemma secret_api_Update:
  "secret_api kube look \<Longrightarrow> look x ns (sec_Name s) \<noteq> None \<Longrightarrow>
     \<exists>s' x'. secrets_Update kube ns s x = (Ret s', x') \<and> stored_as s s' \<and>
       (\<forall>ns' n'. look x' ns' n' = (if ns' = ns \<and> n' = sec_Name s then Some s' else look x ns' n'))"
  unfolding secret_api_def by blast

lemma IsSubset_refl: "wf_gomap d \<Longrightarrow> IsSubset d d"
  by (auto simp: IsSubset_def list_all_iff wf_gomap_def dget_def mget_def)

lemma IsSubset_iff:
  "wf_gomap l \<Longrightarrow> IsSubset l r \<longleftrightarrow> (\<forall>k v. mget l k = Some v \<longrightarrow> bytes_Equal v (dget r k))"
  unfolding IsSubset_def list_all_iff wf_gomap_def mget_def
  by (auto dest: map_of_SomeD)

lemma Merge_loop_Some: "Merge_loop l (Some r) = Ret (Some (foldl (\<lambda>m (k, v). AList.update k v m) r l))"
  by (induction l arbitrary: r) auto

lemma map_of_foldl_update:
  "map_of (foldl (\<lambda>m (k, v). AList.update k v m) r l) k =
     (case map_of (rev l) k of Some v \<Rightarrow> Some v | None \<Rightarrow> map_of r k)"
  by (induction l rule: rev_induct) (auto simp: update_conv' split: option.splits)

lemma map_of_rev: "distinct (map fst l) \<Longrightarrow> map_of (rev l) = map_of l"
  by (subst map_of_inject_set) (auto simp: rev_map [symmetric])

lemma Merge_mget:
  assumes "wf_gomap l"
  shows "\<exists>d. Merge l (Some r) = Ret d \<and> (\<forall>k. mget d k = (case mget l k of Some v \<Rightarrow> Some v | None \<Rightarrow> map_of r k))"
  using assms by (simp add: Merge_def Merge_loop_Some mget_def map_of_foldl_update map_of_rev wf_gomap_def)

lemma Merge_nil_target: "Merge l None = (if entries l = [] then Ret None else Panic nil_map_write)"
  by (cases "entries l") (auto simp: Merge_def)

lemma IsSubset_Merge:
  assumes "wf_gomap l" and "Merge l (Some r) = Ret d" shows "IsSubset l d"
  using Merge_mget [OF assms(1), of r] assms by (auto simp: IsSubset_iff dget_def)

section \<open>Properties\<close>

text \<open>
  C19. Copying a secret succeeds when the source exists and the target, if it exists, has a data map. Afterwards
  the target holds every key of the source with the source's value, a target that existed keeps its
  other keys, no other secret changed, and copying again changes nothing.
\<close>

theorem CopySecret_covers:
  assumes api: "secret_api kube look"
    and source: "look x ns n = Some s" "wf_gomap (sec_Data s)"
    and target: "\<forall>t. look x tns tn = Some t \<longrightarrow> sec_Name t = tn \<and> sec_Data t \<noteq> None"
  shows "\<exists>x' t'. CopySecret kube ns n tns tn x = (Ret (), x') \<and> look x' tns tn = Some t' \<and>
     IsSubset (sec_Data s) (sec_Data t') \<and>
     (\<forall>t k. look x tns tn = Some t \<longrightarrow> mget (sec_Data s) k = None \<longrightarrow> mget (sec_Data t') k = mget (sec_Data t) k) \<and>
     (\<forall>ns' n'. (ns', n') \<noteq> (tns, tn) \<longrightarrow> look x' ns' n' = look x ns' n') \<and>
     CopySecret kube ns n tns tn x' = (Ret (), x')"
proof -
  note get = secret_api_Get_Some [OF api]
  have again: "CopySecret kube ns n tns tn x' = (Ret (), x')"
    if "look x' ns n = Some s'" "look x' tns tn = Some t'" "IsSubset (sec_Data s') (sec_Data t')" for x' s' t'
    by (simp add: CopySecret_def run_simps get [OF that(1)] get [OF that(2)] that(3))
  show ?thesis
  proof (cases "look x tns tn")
    case None
    let ?c = "copied_secret s tns tn"
    have name: "sec_Name ?c = tn" and data: "sec_Data ?c = sec_Data s" by (simp_all add: copied_secret_def)
    obtain e where e: "IsNotFound e" "secrets_Get kube tns tn x = (Fail e, x)"
      using secret_api_Get_None [OF api None] by blast
    obtain t' x' where cr: "secrets_Create kube tns ?c x = (Ret t', x')" "sec_Data t' = sec_Data ?c"
      "\<forall>ns' n'. look x' ns' n' = (if ns' = tns \<and> n' = tn then Some t' else look x ns' n')"
      using secret_api_Create [OF api, of x tns ?c] None name by (auto simp: stored_as_def)
    have run: "CopySecret kube ns n tns tn x = (Ret (), x')"
      by (simp add: CopySecret_def run_simps get [OF source(1)] e cr(1))
    have sub: "IsSubset (sec_Data s) (sec_Data t')" using cr(2) data IsSubset_refl [OF source(2)] by simp
    have "look x' ns n = Some s" using cr(3) None source(1) by auto
    then have "CopySecret kube ns n tns tn x' = (Ret (), x')" using again [OF _ _ sub] cr(3) by simp
    then show ?thesis using run sub cr(3) None by auto
  next
    case (Some t)
    with target obtain r where t: "sec_Name t = tn" "sec_Data t = Some r" by auto
    show ?thesis
    proof (cases "IsSubset (sec_Data s) (sec_Data t)")
      case True
      then show ?thesis using again [OF source(1) Some True] Some by auto
    next
      case False
      obtain d where d: "Merge (sec_Data s) (Some r) = Ret d"
        "\<forall>k. mget d k = (case mget (sec_Data s) k of Some v \<Rightarrow> Some v | None \<Rightarrow> map_of r k)"
        using Merge_mget [OF source(2), of r] by blast
      obtain t' x' where up: "secrets_Update kube tns (t\<lparr>sec_Data := d\<rparr>) x = (Ret t', x')" "sec_Data t' = d"
        "\<forall>ns' n'. look x' ns' n' = (if ns' = tns \<and> n' = tn then Some t' else look x ns' n')"
        using secret_api_Update [OF api, of x tns "t\<lparr>sec_Data := d\<rparr>"] Some t by (auto simp: stored_as_def)
      have run: "CopySecret kube ns n tns tn x = (Ret (), x')"
        using False d(1) t by (simp add: CopySecret_def run_simps get [OF source(1)] get [OF Some] up(1))
      have sub: "IsSubset (sec_Data s) (sec_Data t')" using IsSubset_Merge [OF source(2) d(1)] up(2) by simp
      have keep: "mget (sec_Data s) k = None \<Longrightarrow> mget (sec_Data t') k = mget (sec_Data t) k" for k
        using d(2) up(2) t(2) by (simp add: mget_Some)
      have "\<not> (ns = tns \<and> n = tn)" using False source Some IsSubset_refl by auto
      then have "look x' ns n = Some s" using up(3) source(1) by auto
      then have "CopySecret kube ns n tns tn x' = (Ret (), x')" using again [OF _ _ sub] up(3) by simp
      then show ?thesis using run sub keep up(3) Some by auto
    qed
  qed
qed

definition demo_secret :: "string \<Rightarrow> gobytes gomap \<Rightarrow> Secret" where
  "demo_secret n d = \<lparr>sec_Meta = empty_ObjectMeta\<lparr>meta_Name := n\<rparr>, sec_Type = '''', sec_Data = d\<rparr>"

definition demo_src :: Secret where "demo_src = demo_secret ''src'' (Some [(''ca.crt'', Some ''new'')])"

definition demo_dst :: Secret where
  "demo_dst = demo_secret ''dst'' (Some [(''ca.crt'', Some ''old''), (''keep'', Some ''v'')])"

definition demo_store :: store where
  "demo_store = [((''a'', ''src''), demo_src), ((''b'', ''dst''), demo_dst)]"

theorem CopySecret_covers_witness:
  "\<exists>x' t'. CopySecret tracker_client ''a'' ''src'' ''b'' ''dst'' demo_store = (Ret (), x') \<and>
     tracker_lookup x' ''b'' ''dst'' = Some t' \<and> mget (sec_Data t') ''keep'' = Some (Some ''v'')"
proof -
  have s: "tracker_lookup demo_store ''a'' ''src'' = Some demo_src"
    and t: "tracker_lookup demo_store ''b'' ''dst'' = Some demo_dst"
    by (simp_all add: tracker_lookup_def demo_store_def)
  have wf: "wf_gomap (sec_Data demo_src)" and gone: "mget (sec_Data demo_src) ''keep'' = None"
    and kept: "mget (sec_Data demo_dst) ''keep'' = Some (Some ''v'')"
    by (simp_all add: demo_src_def demo_dst_def demo_secret_def wf_gomap_def mget_def)
  have tgt: "\<forall>u. tracker_lookup demo_store ''b'' ''dst'' = Some u \<longrightarrow> sec_Name u = ''dst'' \<and> sec_Data u \<noteq> None"
    unfolding t by (simp add: demo_dst_def demo_secret_def)
  show ?thesis
    using CopySecret_covers [OF tracker_secret_api, OF s wf tgt]
  proof (elim exE conjE)
    fix x' t'
    assume run: "CopySecret tracker_client ''a'' ''src'' ''b'' ''dst'' demo_store = (Ret (), x')"
      "tracker_lookup x' ''b'' ''dst'' = Some t'"
      and keep: "\<forall>t k. tracker_lookup demo_store ''b'' ''dst'' = Some t \<longrightarrow> mget (sec_Data demo_src) k = None \<longrightarrow>
        mget (sec_Data t') k = mget (sec_Data t) k"
    have "mget (sec_Data t') ''keep'' = Some (Some ''v'')"
      using keep [rule_format, OF t gone] kept by (rule trans)
    with run show ?thesis by (intro exI conjI)
  qed
qed

text \<open>
  A target secret without a data map cannot be copied into: when the source has a value the target lacks,
  the merge writes into a nil map and the call panics.
\<close>

theorem CopySecret_nil_target_panics:
  assumes "secret_api kube look" and "look x ns n = Some s" and "look x tns tn = Some t"
    and "sec_Data t = None" and "\<not> IsSubset (sec_Data s) None"
  shows "CopySecret kube ns n tns tn x = (Panic nil_map_write, x)"
proof -
  have "entries (sec_Data s) \<noteq> []" using assms(5) by (auto simp: IsSubset_def)
  then show ?thesis
    using assms(4,5) secret_api_Get_Some [OF assms(1,2)] secret_api_Get_Some [OF assms(1,3)]
    by (simp add: CopySecret_def run_simps Merge_nil_target)
qed

theorem CopySecret_nil_target_panics_witness:
  "CopySecret tracker_client ''a'' ''src'' ''b'' ''dst''
     [((''a'', ''src''), demo_secret ''src'' (Some [(''k'', Some ''v'')])), ((''b'', ''dst''), demo_secret ''dst'' None)] =
   (Panic nil_map_write,
     [((''a'', ''src''), demo_secret ''src'' (Some [(''k'', Some ''v'')])), ((''b'', ''dst''), demo_secret ''dst'' None)])"
  by (rule CopySecret_nil_target_panics [OF tracker_secret_api])
     (auto simp: tracker_lookup_def demo_secret_def IsSubset_def bytes_Equal_def dget_def)

text \<open>
  C20. The CA pair is stable: once a first call has generated the pair and stored it, every later call loads
  the same certificate and key from the secret and writes nothing.
\<close>

theorem EnsureCAPair_stable:
  assumes api: "secret_api kube look" and absent: "\<And>y. look y ns n = None \<longleftrightarrow> y \<in> before"
    and pem: "\<And>ty b. pem_Decode pki (Some (pem_EncodeToMemory pki ty b)) = Some b"
    and cert: "\<And>c. ParseCertificate pki (cert_Raw pki c) = Ret c"
    and key: "\<And>k b. MarshalPKCS8PrivateKey pki k = Ret b \<Longrightarrow> ParsePKCS8PrivateKey pki b = Ret k"
    and pure: "\<And>b y r y'. y \<in> before \<Longrightarrow> rsa_GenerateKey pki b y = (r, y') \<Longrightarrow> y' \<in> before"
      "\<And>cn k y r y'. y \<in> before \<Longrightarrow> NewSelfSignedCACert pki cn k y = (r, y') \<Longrightarrow> y' \<in> before"
    and x: "x \<in> before" and run: "EnsureCAPair pki (Ret kube) ns n x = (Ret ca, x1)"
  shows "EnsureCAPair pki (Ret kube) ns n x1 = (Ret ca, x1)"
proof -
  obtain e where e: "IsNotFound e" "secrets_Get kube ns n x = (Fail e, x)"
    using secret_api_Get_None [OF api] absent x by blast
  obtain k x2 c x3 raw s' where g: "rsa_GenerateKey pki rsaKeySize x = (Ret k, x2)"
    "NewSelfSignedCACert pki AddonName k x2 = (Ret c, x3)" "MarshalPKCS8PrivateKey pki k = Ret raw"
    "secrets_Create kube ns (ca_secret pki ns n c raw) x3 = (Ret s', x1)" "ca = \<lparr>ca_Certs = [c], ca_Key = k\<rparr>"
    using run e by (auto simp: EnsureCAPair_def run_simps split: prod.splits res.splits)
  have "look x3 ns n = None" using absent pure(2) [OF pure(1) [OF x g(1)] g(2)] by blast
  then have "look x1 ns n = Some s'" "sec_Data s' = sec_Data (ca_secret pki ns n c raw)"
    using secret_api_Create [OF api, of x3 ns "ca_secret pki ns n c raw"] g(4) by (auto simp: ca_secret_def stored_as_def)
  then show ?thesis
    using secret_api_Get_Some [OF api] g(3,5) key [OF g(3)]
    by (simp add: EnsureCAPair_def run_simps load_ca_def ca_secret_def dget_def mget_def pem cert)
qed

definition demo_pki :: "(store, string, string) pki" where
  "demo_pki = \<lparr>pem_Decode = map_option id, pem_EncodeToMemory = (\<lambda>ty b. b), ParseCertificate = Ret,
     ParsePKCS8PrivateKey = Ret, rsa_GenerateKey = (\<lambda>b. ret ''key''), NewSelfSignedCACert = (\<lambda>cn k. ret cn),
     MarshalPKCS8PrivateKey = Ret, cert_Raw = id\<rparr>"

theorem EnsureCAPair_stable_witness:
  "EnsureCAPair demo_pki (Ret tracker_client) ''ns'' ''ca''
     [((''ns'', ''ca''), ca_secret demo_pki ''ns'' ''ca'' AddonName ''key'')] =
   (Ret \<lparr>ca_Certs = [AddonName], ca_Key = ''key''\<rparr>,
     [((''ns'', ''ca''), ca_secret demo_pki ''ns'' ''ca'' AddonName ''key'')])"
  by (rule EnsureCAPair_stable [OF tracker_secret_api, where before = "{y. tracker_lookup y ''ns'' ''ca'' = None}" and x = "[]"])
     (auto simp: demo_pki_def run_simps tracker_lookup_def EnsureCAPair_def tracker_client_def ca_secret_def)

end
