(* ===== verification/Singleton.thy ===== *)
theory Singleton
  imports Secret_Control
begin

text \<open>
  The process-wide clients (\<^verbatim>\<open>pkg/util/singleton/loopback.go\<close>): the package's variables as a record whose
  fields are \<open>None\<close> while nil, their accessors, and the post-start hook that fills them. What the
  hook calls (configuration lookup, client constructors, informers) is the record \<open>boot\<close>.
\<close>

section \<open>The controller-runtime client\<close>

record requirement =
  req_Key :: string
  req_Matches :: "string gomap \<Rightarrow> bool"

type_synonym selector = "requirement list"

definition selector_Matches :: "selector \<Rightarrow> string gomap \<Rightarrow> bool" where
  "selector_Matches sel ls = list_all (\<lambda>r. req_Matches r ls) sel"

record ListOptions =
  lo_LabelSelector :: "selector option"
  lo_Namespace :: string

record 'x ctrl_client =
  ctrl_Get_Secret :: "string \<Rightarrow> string \<Rightarrow> ('x, Secret) gom"
  ctrl_Get_ManagedCluster :: "string \<Rightarrow> string \<Rightarrow> ('x, ManagedCluster) gom"
  ctrl_List_Secret :: "ListOptions \<Rightarrow> ('x, Secret list) gom"
  ctrl_List_ManagedCluster :: "ListOptions \<Rightarrow> ('x, ManagedCluster list) gom"

section \<open>The package's variables\<close>

record 'x singletons =
  sg_kubeClient :: "'x kube_client option"
  sg_ocmClient :: "'x ocm_client option"
  sg_ctrlClient :: "'x ctrl_client option"
  sg_secretLister :: "'x secret_lister option"
  sg_secretControl :: "'x SecretControl option"
  sg_clusterLister :: "'x cluster_lister option"
  sg_clusterControl :: "'x OCMClusterControl option"

definition no_singletons :: "'x singletons" where
  "no_singletons = \<lparr>sg_kubeClient = None, sg_ocmClient = None, sg_ctrlClient = None, sg_secretLister = None,
     sg_secretControl = None, sg_clusterLister = None, sg_clusterControl = None\<rparr>"

definition GetSecretControl :: "'x singletons \<Rightarrow> 'x SecretControl option" where
  "GetSecretControl sg = sg_secretControl sg"

definition GetOCMClient :: "'x singletons \<Rightarrow> 'x ocm_client option" where
  "GetOCMClient sg = sg_ocmClient sg"

definition GetKubeClient :: "'x singletons \<Rightarrow> 'x kube_client option" where
  "GetKubeClient sg = sg_kubeClient sg"

definition GetCtrlClient :: "'x singletons \<Rightarrow> 'x ctrl_client option" where
  "GetCtrlClient sg = sg_ctrlClient sg"

definition GetClusterControl :: "'x singletons \<Rightarrow> 'x OCMClusterControl option" where
  "GetClusterControl sg = sg_clusterControl sg"

definition SetCtrlClient :: "'x ctrl_client option \<Rightarrow> 'x singletons \<Rightarrow> 'x singletons" where
  "SetCtrlClient cli sg = sg\<lparr>sg_ctrlClient := cli\<rparr>"

definition SetSecretControl :: "'x SecretControl option \<Rightarrow> 'x singletons \<Rightarrow> 'x singletons" where
  "SetSecretControl ctrl sg = sg\<lparr>sg_secretControl := ctrl\<rparr>"

definition SetOCMClient :: "'x ocm_client option \<Rightarrow> 'x singletons \<Rightarrow> 'x singletons" where
  "SetOCMClient c sg = sg\<lparr>sg_ocmClient := c\<rparr>"

definition SetKubeClient :: "'x kube_client option \<Rightarrow> 'x singletons \<Rightarrow> 'x singletons" where
  "SetKubeClient k sg = sg\<lparr>sg_kubeClient := k\<rparr>"

section \<open>Start-up\<close>

record ('c, 'x) boot =
  GetLoopbackMasterClientConfig :: "'c option"
  GetConfig :: "'c res"
  without_RateLimiter :: "'c \<Rightarrow> 'c"
  kubernetes_NewForConfig :: "'c \<Rightarrow> 'x kube_client res"
  ocmclient_NewForConfig :: "'c \<Rightarrow> 'x ocm_client res"
  client_New :: "'c \<Rightarrow> 'x ctrl_client res"
  NewSecretLister :: "'x kube_client \<Rightarrow> string \<Rightarrow> 'x secret_lister"
  secret_HasSynced :: "('x, unit) gom"
  NewClusterLister :: "'x ocm_client \<Rightarrow> 'x cluster_lister"
  cluster_HasSynced :: "('x, unit) gom"

type_synonym 'x process = "'x singletons \<times> 'x"

definition assign :: "('x singletons \<Rightarrow> 'x singletons) \<Rightarrow> ('x process, unit) gom" where
  "assign f = (\<lambda>(sg, x). (Ret (), (f sg, x)))"

definition on_world :: "('x, 'a) gom \<Rightarrow> ('x process, 'a) gom" where
  "on_world m = (\<lambda>(sg, x). case m x of (r, x') \<Rightarrow> (r, (sg, x')))"

text \<open>\<^verbatim>\<open>setInformer\<close> and \<^verbatim>\<open>setOCMClusterInformer\<close>: the lister is assigned before the wait for the first sync.\<close>

definition setInformer :: "('c, 'x) boot \<Rightarrow> string \<Rightarrow> 'x kube_client \<Rightarrow> ('x process, unit) gom" where
  "setInformer boot secretNamespace k =
     bindM (assign (\<lambda>sg. sg\<lparr>sg_secretLister := Some (NewSecretLister boot k secretNamespace)\<rparr>)) (\<lambda>_.
     on_world (secret_HasSynced boot))"

definition setOCMClusterInformer :: "('c, 'x) boot \<Rightarrow> 'x ocm_client \<Rightarrow> ('x process, unit) gom" where
  "setOCMClusterInformer boot c =
     bindM (assign (\<lambda>sg. sg\<lparr>sg_clusterLister := Some (NewClusterLister boot c)\<rparr>)) (\<lambda>_.
     on_world (cluster_HasSynced boot))"

definition init_secretControl ::
  "('c, 'x) boot \<Rightarrow> (string \<Rightarrow> bool) \<Rightarrow> string \<Rightarrow> 'x kube_client \<Rightarrow> ('x process, unit) gom" where
  "init_secretControl boot enabled secretNamespace kube =
     bindM (if enabled SecretCache then
              bindM (setInformer boot secretNamespace kube) (\<lambda>_.
              bindM (\<lambda>(sg, x). (deref (sg_secretLister sg), (sg, x))) (\<lambda>lister.
              assign (\<lambda>sg. sg\<lparr>sg_secretControl := Some (cachedSecretControl secretNamespace lister)\<rparr>)))
            else ret ()) (\<lambda>_.
     assign (\<lambda>sg. if sg_secretControl sg = None
                  then sg\<lparr>sg_secretControl := Some (directApiSecretControl secretNamespace kube)\<rparr> else sg))"

definition init_clusterControl ::
  "('c, 'x) boot \<Rightarrow> (string \<Rightarrow> bool) \<Rightarrow> 'x ocm_client \<Rightarrow> ('x process, unit) gom" where
  "init_clusterControl boot enabled ocm =
     bindM (if enabled OCMClusterCache then
              bindM (attempt (on_world (IsOCMManagedClusterInstalled ocm))) (\<lambda>installed.
              bindM (if installed = Inr True then setOCMClusterInformer boot ocm else ret ()) (\<lambda>_.
              assign (\<lambda>sg. sg\<lparr>sg_clusterControl := Some (cacheOCMClusterControl (sg_clusterLister sg))\<rparr>)))
            else ret ()) (\<lambda>_.
     assign (\<lambda>sg. if sg_clusterControl sg = None
                  then sg\<lparr>sg_clusterControl := Some (directOCMClusterControl ocm)\<rparr> else sg))"

definition InitLoopbackClient ::
  "('c, 'x) boot \<Rightarrow> (string \<Rightarrow> bool) \<Rightarrow> string \<Rightarrow> ('x process, unit) gom" where
  "InitLoopbackClient boot enabled secretNamespace =
     bindM (liftR (case GetLoopbackMasterClientConfig boot of Some cfg \<Rightarrow> Ret cfg | None \<Rightarrow> GetConfig boot)) (\<lambda>cfg.
     bindM (liftR (kubernetes_NewForConfig boot (without_RateLimiter boot cfg))) (\<lambda>kube.
     bindM (assign (\<lambda>sg. sg\<lparr>sg_kubeClient := Some kube\<rparr>)) (\<lambda>_.
     bindM (liftR (ocmclient_NewForConfig boot (without_RateLimiter boot cfg))) (\<lambda>ocm.
     bindM (assign (\<lambda>sg. sg\<lparr>sg_ocmClient := Some ocm\<rparr>)) (\<lambda>_.
     bindM (liftR (client_New boot (without_RateLimiter boot cfg))) (\<lambda>ctrl.
     bindM (assign (\<lambda>sg. sg\<lparr>sg_ctrlClient := Some ctrl\<rparr>)) (\<lambda>_.
     bindM (init_secretControl boot enabled secretNamespace kube) (\<lambda>_.
     init_clusterControl boot enabled ocm))))))))"

section \<open>Lemmas\<close>

lemmas singleton_defs = GetSecretControl_def GetOCMClient_def GetKubeClient_def GetCtrlClient_def GetClusterControl_def
  SetCtrlClient_def SetSecretControl_def SetOCMClient_def SetKubeClient_def

lemma assign_run [run_simps]: "assign f (sg, x) = (Ret (), (f sg, x))"
  by (simp add: assign_def)

lemma on_world_run [run_simps]: "on_world m (sg, x) = (case m x of (r, x') \<Rightarrow> (r, (sg, x')))"
  by (simp add: on_world_def)

lemma init_secretControl_run:
  "init_secretControl boot enabled ns kube (sg, x) =
     (if enabled SecretCache then
        (case secret_HasSynced boot x of
           (Ret u, x') \<Rightarrow> (Ret (), (sg\<lparr>sg_secretLister := Some (NewSecretLister boot kube ns),
              sg_secretControl := Some (cachedSecretControl ns (NewSecretLister boot kube ns))\<rparr>, x'))
         | (Fail e, x') \<Rightarrow> (Fail e, (sg\<lparr>sg_secretLister := Some (NewSecretLister boot kube ns)\<rparr>, x'))
         | (Panic m, x') \<Rightarrow> (Panic m, (sg\<lparr>sg_secretLister := Some (NewSecretLister boot kube ns)\<rparr>, x')))
      else (Ret (), (if sg_secretControl sg = None
                     then sg\<lparr>sg_secretControl := Some (directApiSecretControl ns kube)\<rparr> else sg, x)))"
  by (simp add: init_secretControl_def setInformer_def run_simps split: prod.split res.split)

lemma init_secretControl_Ret:
  assumes "init_secretControl boot enabled ns kube (sg, x) = (Ret (), (sg', x'))"
  shows "sg_secretControl sg' = (if enabled SecretCache then Some (cachedSecretControl ns (NewSecretLister boot kube ns))
           else if sg_secretControl sg = None then Some (directApiSecretControl ns kube) else sg_secretControl sg)
         \<and> sg_clusterControl sg' = sg_clusterControl sg \<and> sg_clusterLister sg' = sg_clusterLister sg"
proof (cases "secret_HasSynced boot x")
  case (Pair r y)
  show ?thesis using assms unfolding init_secretControl_run Pair by (cases r) (auto split: if_splits)
qed

lemma init_clusterControl_Ret:
  assumes "init_clusterControl boot enabled ocm (sg, x) = (Ret (), (sg', x'))"
  shows "sg_clusterControl sg' = (if enabled OCMClusterCache then Some (cacheOCMClusterControl (sg_clusterLister sg'))
           else if sg_clusterControl sg = None then Some (directOCMClusterControl ocm) else sg_clusterControl sg)
         \<and> sg_secretControl sg' = sg_secretControl sg"
  using assms
  by (cases "enabled OCMClusterCache")
     (auto simp: init_clusterControl_def setOCMClusterInformer_def run_simps split: prod.splits res.splits sum.splits if_splits)

lemma InitLoopbackClient_Ret:
  assumes "InitLoopbackClient boot enabled ns (sg, x) = (Ret (), (sg', x'))"
  obtains kube ocm sg1 sg2 x2 cfg where
    "init_secretControl boot enabled ns kube (sg1, x) = (Ret (), (sg2, x2))"
    "init_clusterControl boot enabled ocm (sg2, x2) = (Ret (), (sg', x'))"
    "sg_secretControl sg1 = sg_secretControl sg" "sg_clusterControl sg1 = sg_clusterControl sg"
    "sg_clusterLister sg1 = sg_clusterLister sg" "ocmclient_NewForConfig boot cfg = Ret ocm"
  using assms unfolding InitLoopbackClient_def bindM_Ret_iff
  by (auto simp: run_simps)

lemma InitLoopbackClient_cached:
  assumes "InitLoopbackClient boot enabled ns (sg0, x) = (Ret (), (sg, x'))" and "enabled SecretCache" "enabled OCMClusterCache"
  shows "(\<exists>l. GetSecretControl sg = Some (cachedSecretControl ns l)) \<and> (\<exists>l. GetClusterControl sg = Some (cacheOCMClusterControl l))"
  using assms(1)
proof (cases rule: InitLoopbackClient_Ret)
  case (1 kube ocm sg1 sg2 x2 cfg)
  show ?thesis using init_secretControl_Ret [OF 1(1)] init_clusterControl_Ret [OF 1(2)] assms(2,3) by (simp add: singleton_defs)
qed

section \<open>Properties\<close>

text \<open>
  A start-up hook that succeeds leaves both controls set, so the nil checks of the resource handlers pass,
  and from fresh variables the secret control is the cached one exactly when the \<^verbatim>\<open>SecretCache\<close> gate is on.
\<close>

theorem InitLoopbackClient_controls:
  assumes "InitLoopbackClient boot enabled ns (no_singletons, x) = (Ret (), (sg, x'))"
  shows "GetSecretControl sg \<noteq> None \<and> GetClusterControl sg \<noteq> None \<and>
    ((\<exists>l. GetSecretControl sg = Some (cachedSecretControl ns l)) \<longleftrightarrow> enabled SecretCache) \<and>
    ((\<exists>l. GetClusterControl sg = Some (cacheOCMClusterControl l)) \<longleftrightarrow> enabled OCMClusterCache)"
  using assms
proof (cases rule: InitLoopbackClient_Ret)
  case (1 kube ocm sg1 sg2 x2 cfg)
  show ?thesis
    using init_secretControl_Ret [OF 1(1)] init_clusterControl_Ret [OF 1(2)] 1(3,4)
    by (simp add: singleton_defs no_singletons_def)
qed

definition demo_lister :: "store secret_lister" where
  "demo_lister = \<lparr>lister_Get = secrets_Get tracker_client, lister_List = secrets_List tracker_client, lister_Exists = Ret\<rparr>"

definition demo_ocm :: "ManagedCluster list \<Rightarrow> 'x ocm_client" where
  "demo_ocm cs = \<lparr>clusters_Get = (\<lambda>n. case find (\<lambda>c. mc_Name c = n) cs of
       Some c \<Rightarrow> ret c | None \<Rightarrow> fail (NewNotFound ''cluster.open-cluster-management.io'' ''managedclusters'' n)),
     clusters_List = ret cs, ServerGroupsAndResources = ret []\<rparr>"

definition demo_ctrl :: "'x ctrl_client" where
  "demo_ctrl = \<lparr>ctrl_Get_Secret = (\<lambda>ns n. fail (NewNotFound '''' ''secrets'' n)),
     ctrl_Get_ManagedCluster = (\<lambda>ns n. fail (NoMatchError ''no match'')),
     ctrl_List_Secret = (\<lambda>opts. ret []), ctrl_List_ManagedCluster = (\<lambda>opts. fail (NoMatchError ''no match''))\<rparr>"

definition demo_boot :: "(unit, store) boot" where
  "demo_boot = \<lparr>GetLoopbackMasterClientConfig = None, GetConfig = Ret (), without_RateLimiter = id,
     kubernetes_NewForConfig = (\<lambda>_. Ret tracker_client), ocmclient_NewForConfig = (\<lambda>_. Ret (demo_ocm [])),
     client_New = (\<lambda>_. Ret demo_ctrl), NewSecretLister = (\<lambda>k ns. demo_lister), secret_HasSynced = ret (),
     NewClusterLister = (\<lambda>c. \<lparr>cluster_lister_Get = clusters_Get c, cluster_lister_List = ret []\<rparr>), cluster_HasSynced = ret ()\<rparr>"

lemma demo_boot_runs: "\<exists>sg. InitLoopbackClient demo_boot enabled ns (no_singletons, []) = (Ret (), (sg, []))"
  by (cases "enabled SecretCache"; cases "enabled OCMClusterCache")
     (simp_all add: InitLoopbackClient_def init_secretControl_run init_clusterControl_def run_simps demo_boot_def demo_ocm_def
        IsOCMManagedClusterInstalled_def)

theorem InitLoopbackClient_controls_witness:
  "\<exists>sg. GetSecretControl (sg :: store singletons) \<noteq> None \<and> GetClusterControl sg \<noteq> None"
  using demo_boot_runs InitLoopbackClient_controls [of demo_boot _ "''ns''" "[]"] by blast

text \<open>
  With the \<^verbatim>\<open>OCMClusterCache\<close> gate on and the ManagedCluster CRD not installed (or discovery failing),
  start-up still succeeds, but the cluster control it installs sits on a nil lister: every lookup of a
  managed cluster through it panics.
\<close>

theorem InitLoopbackClient_without_OCM:
  assumes "InitLoopbackClient boot enabled ns (no_singletons, x :: 'x) = (Ret (), (sg, x'))"
    and "enabled OCMClusterCache"
    and "\<And>cfg ocm z. ocmclient_NewForConfig boot cfg = Ret ocm \<Longrightarrow> fst (IsOCMManagedClusterInstalled ocm z) \<noteq> Ret True"
  shows "\<exists>ctrl. GetClusterControl sg = Some ctrl \<and>
    OCMClusterControl_Get ctrl name (y :: 'x) = (Panic nil_dereference, y) \<and>
    OCMClusterControl_List ctrl y = (Panic nil_dereference, y)"
  using assms(1)
proof (cases rule: InitLoopbackClient_Ret)
  case (1 kube ocm sg1 sg2 x2 cfg)
  have "sg_clusterLister sg2 = None"
    using init_secretControl_Ret [OF 1(1)] 1(5) by (simp add: no_singletons_def)
  then have "sg_clusterControl sg = Some (cacheOCMClusterControl None)"
    using 1(2,6) assms(2) assms(3) [of _ ocm x2]
    by (auto simp: init_clusterControl_def run_simps split: prod.splits res.splits sum.splits if_splits)
  then show ?thesis by (simp add: singleton_defs run_simps)
qed

theorem InitLoopbackClient_without_OCM_witness:
  "\<exists>ctrl. OCMClusterControl_Get ctrl ''c1'' ([] :: store) = (Panic nil_dereference, [])"
proof -
  obtain sg where run: "InitLoopbackClient demo_boot (\<lambda>f. DefaultKubeFedFeatureGates f = Some True) ''ns''
      (no_singletons, []) = (Ret (), (sg, []))"
    using demo_boot_runs by blast
  have "DefaultKubeFedFeatureGates OCMClusterCache = Some True"
    by (simp add: DefaultKubeFedFeatureGates_def name_defs)
  moreover have "ocmclient_NewForConfig demo_boot cfg = Ret ocm \<Longrightarrow> fst (IsOCMManagedClusterInstalled ocm z) \<noteq> Ret True"
    for cfg ocm z by (auto simp: demo_boot_def demo_ocm_def IsOCMManagedClusterInstalled_def run_simps)
  ultimately show ?thesis using InitLoopbackClient_without_OCM [OF run, of "''c1''" "[]"] by blast
qed

end
