(* ===== verification/Gateway_Secret.thy ===== *)
theory Gateway_Secret
  imports Singleton Exec_Credential "HOL-Library.Sublist"
begin

text \<open>
  The \<^verbatim>\<open>ClusterGateway\<close> resource backed by secrets
  (\<^verbatim>\<open>pkg/apis/cluster/v1alpha1/clustergateway_types_secret.go\<close>): a secret, and with OCM integration a
  managed cluster, is converted into a gateway when it is read; get and list are built on that. The
  environment \<open>gw_env\<close> has the singletons, the options, the feature gates and the YAML and JSON decoders.
\<close>

section \<open>Environment\<close>

record 'x gw_env =
  env_singleton :: "'x singletons"
  env_exec :: "'x exec_env"
  env_OCMIntegration :: bool
  env_SecretNamespace :: string
  env_Enabled :: "string \<Rightarrow> bool"
  env_yaml :: "string \<Rightarrow> ClusterGatewayProxyConfiguration res"
  env_json :: "string \<Rightarrow> ExecConfig res"

definition AnnotationKeyClusterGatewayStatusHealthy :: string where
  "AnnotationKeyClusterGatewayStatusHealthy = ''status.cluster.core.oam.dev/healthy''"

definition AnnotationKeyClusterGatewayStatusHealthyReason :: string where
  "AnnotationKeyClusterGatewayStatusHealthyReason = ''status.cluster.core.oam.dev/healthy-reason''"

section \<open>Conversion\<close>

definition buildCredentialFromExecConfig :: "'x gw_env \<Rightarrow> Secret \<Rightarrow> ('x gwstate, ClusterAccessCredential) gom" where
  "buildCredentialFromExecConfig env secret =
     (let execConfigRaw = dget (sec_Data secret) ''exec'' in
      if blen execConfigRaw = 0 then fail (PlainError ''missing secret data key: exec'')
      else
        bindM (mapErr (\<lambda>e. PlainError (''failed to decode exec config JSON from secret data: '' @ Error e))
                (liftR (env_json env (bstr execConfigRaw)))) (\<lambda>ec.
        bindM (IssueClusterCredential (env_exec env) (sec_Name secret) (Some ec)) (\<lambda>cred.
        bindM (liftR (deref (ecr_Status cred))) (\<lambda>st.
        if es_Token st \<noteq> '''' then
          ret \<lparr>cred_Type = CredentialTypeDynamic, cred_ServiceAccountToken = es_Token st, cred_X509 = None\<rparr>
        else if es_ClientCertificateData st \<noteq> '''' \<and> es_ClientKeyData st \<noteq> '''' then
          ret \<lparr>cred_Type = CredentialTypeDynamic, cred_ServiceAccountToken = '''',
               cred_X509 = Some \<lparr>x509_Certificate = Some (es_ClientCertificateData st),
                                 x509_PrivateKey = Some (es_ClientKeyData st)\<rparr>\<rparr>
        else fail (PlainError ''no credential type available'')))))"

definition convert_endpoint :: "gobytes \<Rightarrow> string \<Rightarrow> bool \<Rightarrow> Secret \<Rightarrow> ClusterEndpoint res" where
  "convert_endpoint caData apiServerEndpoint insecure secret =
     (let endpointType = (case mget (sec_Labels secret) LabelKeyClusterEndpointType of
                            Some t \<Rightarrow> t | None \<Rightarrow> ClusterEndpointTypeConst);
          url = dget (sec_Data secret) ''proxy-url'';
          proxyURL = (if blen url > 0 then Some (bstr url) else None)
      in if endpointType = ClusterEndpointTypeClusterProxy then Ret \<lparr>ep_Type = endpointType, ep_Const = None\<rparr>
         else if apiServerEndpoint = '''' then Fail (PlainError ''missing label key: api-endpoint'')
         else if insecure then
           Ret \<lparr>ep_Type = endpointType,
                ep_Const = Some \<lparr>const_Address = apiServerEndpoint, const_CABundle = None,
                                 const_Insecure = Some insecure, const_ProxyURL = proxyURL\<rparr>\<rparr>
         else
           Ret \<lparr>ep_Type = endpointType,
                ep_Const = Some \<lparr>const_Address = apiServerEndpoint, const_CABundle = caData,
                                 const_Insecure = None, const_ProxyURL = proxyURL\<rparr>\<rparr>)"

definition convert_credential :: "'x gw_env \<Rightarrow> Secret \<Rightarrow> ('x gwstate, ClusterAccessCredential) gom" where
  "convert_credential env secret =
     (case mget (sec_Labels secret) LabelKeyClusterCredentialType of
        None \<Rightarrow> fail (NewNotFound MetaApiGroupName MetaApiResourceName (sec_Name secret))
      | Some credentialType \<Rightarrow>
          if credentialType = CredentialTypeX509Certificate then
            ret \<lparr>cred_Type = CredentialTypeX509Certificate, cred_ServiceAccountToken = '''',
                 cred_X509 = Some \<lparr>x509_Certificate = dget (sec_Data secret) TLSCertKey,
                                   x509_PrivateKey = dget (sec_Data secret) TLSPrivateKeyKey\<rparr>\<rparr>
          else if credentialType = CredentialTypeServiceAccountToken then
            ret \<lparr>cred_Type = CredentialTypeServiceAccountToken,
                 cred_ServiceAccountToken = bstr (dget (sec_Data secret) ServiceAccountTokenKey), cred_X509 = None\<rparr>
          else if credentialType = CredentialTypeDynamic then
            mapErr (\<lambda>e. PlainError (''failed to issue credential from external command: '' @ Error e))
              (buildCredentialFromExecConfig env secret)
          else fail (PlainError (''unrecognized secret credential type '' @ credentialType)))"

definition convert_status :: "'x gw_env \<Rightarrow> Secret \<Rightarrow> ClusterGatewayStatus res" where
  "convert_status env secret =
     (if \<not> env_Enabled env HealthinessCheck then Ret empty_ClusterGatewayStatus
      else
        bind_res (case mget (sec_Annotations secret) AnnotationKeyClusterGatewayStatusHealthy of
                    None \<Rightarrow> Ret False
                  | Some healthyRaw \<Rightarrow>
                      (case ParseBool healthyRaw of
                         None \<Rightarrow> Fail (PlainError (''unrecogized healthiness status: '' @ healthyRaw))
                       | Some healthy \<Rightarrow> Ret healthy)) (\<lambda>healthy.
        Ret \<lparr>st_Healthy = healthy,
             st_HealthyReason = (case mget (sec_Annotations secret) AnnotationKeyClusterGatewayStatusHealthyReason of
                                   None \<Rightarrow> '''' | Some r \<Rightarrow> r)\<rparr>))"

text \<open>Every rule of the annotation is pinned to the cluster itself; a rule without a source is a nil pointer.\<close>

fun pin_rules :: "string \<Rightarrow> ClientIdentityExchangeRule list \<Rightarrow> ClientIdentityExchangeRule list res" where
  "pin_rules name [] = Ret []"
| "pin_rules name (rule # rules) =
     bind_res (deref (rule_Source rule)) (\<lambda>src.
     bind_res (pin_rules name rules) (\<lambda>rest.
     Ret (rule\<lparr>rule_Source := Some (src\<lparr>source_Cluster := Some name\<rparr>)\<rparr> # rest)))"

definition convert_proxyConfig ::
  "'x gw_env \<Rightarrow> Secret \<Rightarrow> ClusterGatewayProxyConfiguration option res" where
  "convert_proxyConfig env secret =
     (if \<not> env_Enabled env ClientIdentityPenetration then Ret None
      else case mget (sec_Annotations secret) AnnotationClusterGatewayProxyConfiguration of
        None \<Rightarrow> Ret None
      | Some proxyConfigRaw \<Rightarrow>
          (case env_yaml env proxyConfigRaw of
             Ret proxyConfig \<Rightarrow>
               bind_res (pin_rules (sec_Name secret) (exch_Rules (pc_Exchanger proxyConfig))) (\<lambda>rules.
               Ret (Some \<lparr>pc_Exchanger = \<lparr>exch_Rules = rules\<rparr>\<rparr>))
           | Fail e \<Rightarrow> Ret None
           | Panic s \<Rightarrow> Panic s))"

definition convert :: "'x gw_env \<Rightarrow> gobytes \<Rightarrow> string \<Rightarrow> bool \<Rightarrow> Secret \<Rightarrow> ('x gwstate, ClusterGateway) gom" where
  "convert env caData apiServerEndpoint insecure secret =
     bindM (liftR (convert_endpoint caData apiServerEndpoint insecure secret)) (\<lambda>endpoint.
     bindM (convert_credential env secret) (\<lambda>credential.
     bindM (liftR (convert_status env secret)) (\<lambda>status.
     bindM (liftR (convert_proxyConfig env secret)) (\<lambda>proxyConfig.
     ret \<lparr>cg_Meta = empty_ObjectMeta\<lparr>meta_Name := sec_Name secret,
                                      meta_CreationTimestamp := meta_CreationTimestamp (sec_Meta secret)\<rparr>,
          cg_Spec = \<lparr>spec_Provider = '''',
                     spec_Access = \<lparr>access_Endpoint = Some endpoint, access_Credential = Some credential\<rparr>,
                     spec_ProxyConfig = proxyConfig\<rparr>,
          cg_Status = status\<rparr>))))"

definition getEndpointFromSecret :: "Secret \<Rightarrow> (gobytes \<times> string) res" where
  "getEndpointFromSecret secret =
     (let endpointStr = TrimSuffix (bstr (dget (sec_Data secret) ''endpoint'')) [CHR 0x0A];
          caData = (case mget (sec_Data secret) ''ca.crt'' of
                      Some caCrt \<Rightarrow> caCrt
                    | None \<Rightarrow> (case mget (sec_Data secret) ''ca'' of Some ca \<Rightarrow> ca | None \<Rightarrow> None))
      in Ret (caData, endpointStr))"

definition getEndpointFromManagedCluster :: "ManagedCluster \<Rightarrow> (gobytes \<times> string) res" where
  "getEndpointFromManagedCluster managedCluster =
     (case mc_ClientConfigs managedCluster of
        [] \<Rightarrow> Ret (None, '''')
      | cfg # _ \<Rightarrow> Ret (cc_CABundle cfg, cc_URL cfg))"

definition convertFromSecret :: "'x gw_env \<Rightarrow> Secret \<Rightarrow> ('x gwstate, ClusterGateway) gom" where
  "convertFromSecret env secret =
     bindM (liftR (getEndpointFromSecret secret)) (\<lambda>(caData, endpoint).
     convert env caData endpoint (caData = None) secret)"

definition convertFromManagedClusterAndSecret ::
  "'x gw_env \<Rightarrow> ManagedCluster \<Rightarrow> Secret \<Rightarrow> ('x gwstate, ClusterGateway) gom" where
  "convertFromManagedClusterAndSecret env managedCluster secret =
     bindM (liftR (getEndpointFromManagedCluster managedCluster)) (\<lambda>(caData, endpoint).
     convert env caData endpoint False secret)"

section \<open>Get and List\<close>

definition ClusterGateway_Get :: "'x gw_env \<Rightarrow> string \<Rightarrow> ('x gwstate, ClusterGateway) gom" where
  "ClusterGateway_Get env name =
     (case GetSecretControl (env_singleton env) of
        None \<Rightarrow> fail (PlainError ''loopback secret client are not inited'')
      | Some ctrl \<Rightarrow>
          bindM (outside (SecretControl_Get ctrl name)) (\<lambda>clusterSecret.
          if env_OCMIntegration env then
            (case GetClusterControl (env_singleton env) of
               None \<Rightarrow> fail (PlainError ''loopback cluster client are not inited'')
             | Some clusters \<Rightarrow>
                 bindM (attempt (outside (OCMClusterControl_Get clusters name))) (\<lambda>r.
                 case r of
                   Inl _ \<Rightarrow> convertFromSecret env clusterSecret
                 | Inr managedCluster \<Rightarrow> convertFromManagedClusterAndSecret env managedCluster clusterSecret))
          else convertFromSecret env clusterSecret))"

fun index_clusters ::
  "ManagedCluster option list \<Rightarrow> (string \<times> ManagedCluster) list \<Rightarrow> (string \<times> ManagedCluster) list res" where
  "index_clusters [] m = Ret m"
| "index_clusters (c # cs) m = bind_res (deref c) (\<lambda>mc. index_clusters cs (AList.update (mc_Name mc) mc m))"

text \<open>The loop that converts each secret and skips those that do not convert.\<close>

fun list_loop :: "(Secret \<Rightarrow> ('w, ClusterGateway) gom) \<Rightarrow> Secret list \<Rightarrow> ClusterGateway list \<Rightarrow> ('w, ClusterGateway list) gom" where
  "list_loop conv [] items = ret items"
| "list_loop conv (secret # secrets) items =
     bindM (attempt (conv secret)) (\<lambda>r.
     list_loop conv secrets (case r of Inl _ \<Rightarrow> items | Inr gw \<Rightarrow> items @ [gw]))"

definition convert_either ::
  "'x gw_env \<Rightarrow> (string \<times> ManagedCluster) list \<Rightarrow> Secret \<Rightarrow> ('x gwstate, ClusterGateway) gom" where
  "convert_either env clustersByName secret =
     (case map_of clustersByName (sec_Name secret) of
        Some cluster \<Rightarrow> convertFromManagedClusterAndSecret env cluster secret
      | None \<Rightarrow> convertFromSecret env secret)"

definition ClusterGateway_List :: "'x gw_env \<Rightarrow> bool \<Rightarrow> ('x gwstate, ClusterGatewayList) gom" where
  "ClusterGateway_List env watch =
     (if watch then fail (PlainError ''watch not supported'')
      else
        bindM (liftR (deref (GetSecretControl (env_singleton env)))) (\<lambda>ctrl.
        bindM (outside (SecretControl_List ctrl)) (\<lambda>clusterSecrets.
        if env_OCMIntegration env then
          bindM (liftR (deref (GetClusterControl (env_singleton env)))) (\<lambda>clusterCtrl.
          bindM (outside (OCMClusterControl_List clusterCtrl)) (\<lambda>clusters.
          bindM (liftR (index_clusters clusters [])) (\<lambda>clustersByName.
          bindM (list_loop (convert_either env clustersByName) clusterSecrets []) (\<lambda>items.
          ret \<lparr>cgl_Items = items\<rparr>))))
        else
          bindM (list_loop (convertFromSecret env) clusterSecrets []) (\<lambda>items.
          ret \<lparr>cgl_Items = items\<rparr>))))"

section \<open>Well-formed gateways\<close>

text \<open>
  What every converted gateway satisfies: an endpoint that is either a tunnel or an address (never both a
  CA bundle and the insecure flag), and a credential whose contents fit its type.
\<close>

definition wf_endpoint :: "ClusterEndpoint \<Rightarrow> bool" where
  "wf_endpoint e \<longleftrightarrow>
     (case ep_Const e of
        None \<Rightarrow> ep_Type e = ClusterEndpointTypeClusterProxy
      | Some k \<Rightarrow> ep_Type e \<noteq> ClusterEndpointTypeClusterProxy \<and> const_Address k \<noteq> '''' \<and>
          (const_Insecure k = None \<or> const_Insecure k = Some True \<and> const_CABundle k = None))"

definition wf_credential :: "ClusterAccessCredential \<Rightarrow> bool" where
  "wf_credential c \<longleftrightarrow>
     cred_Type c = CredentialTypeX509Certificate \<and> cred_X509 c \<noteq> None \<and> cred_ServiceAccountToken c = '''' \<or>
     cred_Type c = CredentialTypeServiceAccountToken \<and> cred_X509 c = None \<or>
     cred_Type c = CredentialTypeDynamic \<and>
       (case cred_X509 c of
          None \<Rightarrow> cred_ServiceAccountToken c \<noteq> ''''
        | Some x \<Rightarrow> cred_ServiceAccountToken c = '''' \<and> bstr (x509_Certificate x) \<noteq> '''' \<and> bstr (x509_PrivateKey x) \<noteq> '''')"

definition wf_gateway :: "Secret \<Rightarrow> ClusterGateway \<Rightarrow> bool" where
  "wf_gateway s gw \<longleftrightarrow>
     cg_Name gw = sec_Name s \<and> spec_Provider (cg_Spec gw) = '''' \<and>
     (\<exists>e c. cg_Endpoint gw = Some e \<and> wf_endpoint e \<and> cg_Credential gw = Some c \<and> wf_credential c)"

section \<open>Lemmas\<close>

lemma convert_endpoint_wf:
  "convert_endpoint caData addr insecure s = Ret e \<Longrightarrow> wf_endpoint e"
  by (auto simp: convert_endpoint_def wf_endpoint_def Let_def endpoint_type_defs split: if_splits option.splits)

lemma build_step:
  "buildCredentialFromExecConfig env s w = (r, w') \<Longrightarrow> w' = w \<and> (\<forall>c. r \<noteq> Ret c) \<or>
     (\<exists>ec r1. IssueClusterCredential (env_exec env) (sec_Name s) (Some ec) w = (r1, w') \<and>
        (\<forall>c. r = Ret c \<longrightarrow> (\<exists>cred st. r1 = Ret cred \<and> ecr_Status cred = Some st \<and>
           (if es_Token st \<noteq> '''' then c = \<lparr>cred_Type = CredentialTypeDynamic, cred_ServiceAccountToken = es_Token st, cred_X509 = None\<rparr>
            else es_ClientCertificateData st \<noteq> '''' \<and> es_ClientKeyData st \<noteq> '''' \<and>
              c = \<lparr>cred_Type = CredentialTypeDynamic, cred_ServiceAccountToken = '''',
               cred_X509 = Some \<lparr>x509_Certificate = Some (es_ClientCertificateData st),
                                 x509_PrivateKey = Some (es_ClientKeyData st)\<rparr>\<rparr>))))"
  unfolding buildCredentialFromExecConfig_def Let_def
  by (auto simp: run_simps split: if_splits res.splits prod.splits option.splits)

lemma build_wf:
  assumes "cache_ok (gw_credentials w)" and "buildCredentialFromExecConfig env s w = (r, w')"
  shows "cache_ok (gw_credentials w') \<and> (\<forall>c. r = Ret c \<longrightarrow> wf_credential c)"
  using build_step [OF assms(2)] assms(1) Issue_usable_cache [OF assms(1)]
  by (auto simp: wf_credential_def split: if_splits)

lemma convert_credential_wf:
  assumes "cache_ok (gw_credentials w)" and "convert_credential env s w = (r, w')"
  shows "cache_ok (gw_credentials w') \<and> (\<forall>c. r = Ret c \<longrightarrow> wf_credential c)"
proof (cases "mget (sec_Labels s) LabelKeyClusterCredentialType = Some CredentialTypeDynamic")
  case True
  obtain r1 w1 where b: "buildCredentialFromExecConfig env s w = (r1, w1)" by fastforce
  have d: "CredentialTypeDynamic \<noteq> CredentialTypeX509Certificate" "CredentialTypeDynamic \<noteq> CredentialTypeServiceAccountToken"
    by (simp_all add: credential_type_defs)
  show ?thesis
    using assms(2) True d build_wf [OF assms(1) b] unfolding convert_credential_def
    by (cases r1) (auto simp: run_simps b)
next
  case False
  then show ?thesis
    using assms unfolding convert_credential_def
    by (auto simp: run_simps wf_credential_def split: option.splits if_splits)
qed

lemma convert_Ret_iff:
  "convert env caData addr insecure s w = (Ret gw, w') \<longleftrightarrow>
     (\<exists>e c st pc. convert_endpoint caData addr insecure s = Ret e \<and> convert_credential env s w = (Ret c, w') \<and>
        convert_status env s = Ret st \<and> convert_proxyConfig env s = Ret pc \<and>
        gw = \<lparr>cg_Meta = empty_ObjectMeta\<lparr>meta_Name := sec_Name s, meta_CreationTimestamp := meta_CreationTimestamp (sec_Meta s)\<rparr>,
              cg_Spec = \<lparr>spec_Provider = '''', spec_Access = \<lparr>access_Endpoint = Some e, access_Credential = Some c\<rparr>,
                         spec_ProxyConfig = pc\<rparr>, cg_Status = st\<rparr>)"
  unfolding convert_def by (auto simp: bindM_Ret_iff gom_basic)

lemma convert_state:
  "convert env caData addr insecure s w = (r, w') \<Longrightarrow> w' = w \<or> (\<exists>r1. convert_credential env s w = (r1, w'))"
  unfolding convert_def by (auto simp: run_simps split: prod.splits res.splits)

lemma convert_wf:
  assumes "cache_ok (gw_credentials w)" and "convert env caData addr insecure s w = (r, w')"
  shows "cache_ok (gw_credentials w') \<and> (\<forall>gw. r = Ret gw \<longrightarrow> wf_gateway s gw)"
proof -
  have "cache_ok (gw_credentials w')"
    using convert_state [OF assms(2)] assms(1) convert_credential_wf by blast
  moreover have "wf_gateway s gw" if "r = Ret gw" for gw
    using assms(2) convert_endpoint_wf convert_credential_wf [OF assms(1)] unfolding that convert_Ret_iff
    by (fastforce simp: wf_gateway_def)
  ultimately show ?thesis by simp
qed

section \<open>Converters\<close>

text \<open>
  The contract of a conversion used by the list handler: it keeps the credential cache sound and
  produces well-formed gateways named after the secret. The loop's result is described once.
\<close>

locale gateway_converter =
  fixes conv :: "Secret \<Rightarrow> ('x gwstate, ClusterGateway) gom"
  assumes conv_cache: "cache_ok (gw_credentials w) \<Longrightarrow> conv s w = (r, w') \<Longrightarrow> cache_ok (gw_credentials w')"
    and conv_wf: "cache_ok (gw_credentials w) \<Longrightarrow> conv s w = (Ret gw, w') \<Longrightarrow> wf_gateway s gw"
begin

lemma conv_name: "cache_ok (gw_credentials w) \<Longrightarrow> conv s w = (Ret gw, w') \<Longrightarrow> cg_Name gw = sec_Name s"
  using conv_wf by (auto simp: wf_gateway_def)

lemma loop_wf:
  assumes "cache_ok (gw_credentials w)" and "list_loop conv secrets items w = (Ret gws, w')"
  shows "cache_ok (gw_credentials w') \<and> (\<exists>new. gws = items @ new \<and> subseq (map cg_Name new) (map sec_Name secrets) \<and>
     (\<forall>gw\<in>set new. \<exists>s\<in>set secrets. wf_gateway s gw))"
  using assms
proof (induction secrets arbitrary: items w)
  case Nil
  then show ?case by (auto simp: run_simps)
next
  case (Cons s secrets)
  obtain r w1 where one: "conv s w = (r, w1)" by fastforce
  have ok: "cache_ok (gw_credentials w1)" by (rule conv_cache [OF Cons.prems(1) one])
  show ?case
  proof (cases r)
    case (Ret gw)
    have run: "list_loop conv secrets (items @ [gw]) w1 = (Ret gws, w')"
      using Cons.prems(2) one Ret by (simp add: run_simps)
    obtain new where new: "gws = items @ gw # new" "subseq (map cg_Name new) (map sec_Name secrets)"
      "\<forall>g\<in>set new. \<exists>s\<in>set secrets. wf_gateway s g" and c: "cache_ok (gw_credentials w')"
      using Cons.IH [OF ok run] by auto
    have wf: "wf_gateway s gw" using conv_wf [OF Cons.prems(1)] one Ret by blast
    have "subseq (map cg_Name (gw # new)) (map sec_Name (s # secrets))"
      using new(2) conv_name [OF Cons.prems(1)] one Ret by auto
    then show ?thesis using new wf c by (intro conjI exI [of _ "gw # new"]) auto
  next
    case (Fail e)
    then have "list_loop conv secrets items w1 = (Ret gws, w')" using Cons.prems(2) one by (simp add: run_simps)
    from Cons.IH [OF ok this] show ?thesis by auto
  next
    case (Panic m)
    then show ?thesis using Cons.prems(2) one by (simp add: run_simps)
  qed
qed

end

interpretation from_secret: gateway_converter "convertFromSecret env" for env
proof unfold_locales
  fix w s r w' assume ok: "cache_ok (gw_credentials w)" and "convertFromSecret env s w = (r, w')"
  then obtain ca ep where "convert env ca ep (ca = None) s w = (r, w')"
    by (auto simp: convertFromSecret_def getEndpointFromSecret_def Let_def run_simps)
  from convert_wf [OF ok this] show "cache_ok (gw_credentials w')" by blast
next
  fix w s gw w' assume ok: "cache_ok (gw_credentials w)" and "convertFromSecret env s w = (Ret gw, w')"
  then obtain ca ep where "convert env ca ep (ca = None) s w = (Ret gw, w')"
    by (auto simp: convertFromSecret_def getEndpointFromSecret_def Let_def run_simps)
  from convert_wf [OF ok this] show "wf_gateway s gw" by blast
qed

interpretation from_cluster: gateway_converter "convertFromManagedClusterAndSecret env mc" for env mc
proof unfold_locales
  fix w s r w' assume ok: "cache_ok (gw_credentials w)" and "convertFromManagedClusterAndSecret env mc s w = (r, w')"
  then obtain ca ep where "convert env ca ep False s w = (r, w')"
    by (auto simp: convertFromManagedClusterAndSecret_def getEndpointFromManagedCluster_def run_simps split: list.splits)
  from convert_wf [OF ok this] show "cache_ok (gw_credentials w')" by blast
next
  fix w s gw w' assume ok: "cache_ok (gw_credentials w)" and "convertFromManagedClusterAndSecret env mc s w = (Ret gw, w')"
  then obtain ca ep where "convert env ca ep False s w = (Ret gw, w')"
    by (auto simp: convertFromManagedClusterAndSecret_def getEndpointFromManagedCluster_def run_simps split: list.splits)
  from convert_wf [OF ok this] show "wf_gateway s gw" by blast
qed

interpretation from_either: gateway_converter "convert_either env m" for env m
proof unfold_locales
  show "cache_ok (gw_credentials w) \<Longrightarrow> convert_either env m s w = (r, w') \<Longrightarrow> cache_ok (gw_credentials w')" for w s r w'
    using from_secret.conv_cache from_cluster.conv_cache by (fastforce simp: convert_either_def split: option.splits)
  show "cache_ok (gw_credentials w) \<Longrightarrow> convert_either env m s w = (Ret gw, w') \<Longrightarrow> wf_gateway s gw" for w s gw w'
    using from_secret.conv_wf from_cluster.conv_wf by (fastforce simp: convert_either_def split: option.splits)
qed

text \<open>A successful get is one conversion of the secret of that name; the cache is only touched by that conversion.\<close>

lemma Get_Ret_cases:
  assumes "ClusterGateway_Get env name w = (Ret gw, w')"
  obtains ctrl s x ca addr ins w1 where "GetSecretControl (env_singleton env) = Some ctrl"
    "SecretControl_Get ctrl name (gw_world w) = (Ret s, x)" "gw_credentials w1 = gw_credentials w"
    "convert env ca addr ins s w1 = (Ret gw, w')"
proof -
  have conv: "\<exists>ca addr ins. convert env ca addr ins s v = (Ret gw, w')"
    if "convertFromSecret env s v = (Ret gw, w') \<or> convertFromManagedClusterAndSecret env mc s v = (Ret gw, w')" for s v mc
    using that by (auto simp: convertFromSecret_def getEndpointFromSecret_def Let_def gom_basic
        convertFromManagedClusterAndSecret_def getEndpointFromManagedCluster_def split: list.splits)
  obtain ctrl where ctrl: "GetSecretControl (env_singleton env) = Some ctrl"
    using assms unfolding ClusterGateway_Get_def by (cases "GetSecretControl (env_singleton env)") (auto simp: run_simps)
  obtain s w1 where first: "outside (SecretControl_Get ctrl name) w = (Ret s, w1)"
    using assms ctrl by (auto simp: ClusterGateway_Get_def bindM_Ret_iff)
  have "\<exists>w2. gw_credentials w2 = gw_credentials w \<and> (\<exists>mc. convertFromSecret env s w2 = (Ret gw, w') \<or>
    convertFromManagedClusterAndSecret env mc s w2 = (Ret gw, w'))"
  proof (cases "env_OCMIntegration env")
    case False
    then have "convertFromSecret env s w1 = (Ret gw, w')"
      using assms ctrl first by (auto simp: ClusterGateway_Get_def bindM_Ret_iff)
    then show ?thesis using outside_cache [OF first] by blast
  next
    case True
    then obtain cc where cc: "GetClusterControl (env_singleton env) = Some cc"
      using assms ctrl first unfolding ClusterGateway_Get_def
      by (cases "GetClusterControl (env_singleton env)") (auto simp: run_simps)
    obtain r2 w2 where second: "outside (OCMClusterControl_Get cc name) w1 = (r2, w2)" by fastforce
    have "gw_credentials w2 = gw_credentials w" using outside_cache [OF first] outside_cache [OF second] by simp
    then show ?thesis
      using assms True ctrl first cc second unfolding ClusterGateway_Get_def by (cases r2) (auto simp: run_simps)
  qed
  then show ?thesis using that [OF ctrl outside_inner [OF first]] conv by blast
qed

section \<open>Static credentials\<close>






lemma pin_rules_pinned:
  "pin_rules name rules = Ret pinned \<Longrightarrow>
     \<forall>rule\<in>set pinned. \<exists>src. rule_Source rule = Some src \<and> source_Cluster src = Some name"
  by (induction rules arbitrary: pinned) (auto simp: bind_res_Ret_iff)

lemma pin_rules_nil_source: "rule \<in> set rules \<Longrightarrow> rule_Source rule = None \<Longrightarrow> pin_rules name rules = Panic nil_dereference"
proof (induction rules)
  case (Cons r rules)
  then show ?case by (cases "rule_Source r") auto
qed simp

lemma List_Ret:
  assumes "cache_ok (gw_credentials w)" and "ClusterGateway_List env False w = (Ret l, w')"
  shows "cache_ok (gw_credentials w') \<and>
    (\<exists>ctrl secrets x. GetSecretControl (env_singleton env) = Some ctrl \<and>
       SecretControl_List ctrl (gw_world w) = (Ret secrets, x) \<and>
       subseq (map cg_Name (cgl_Items l)) (map sec_Name secrets) \<and>
       (\<forall>gw\<in>set (cgl_Items l). \<exists>s\<in>set secrets. wf_gateway s gw))"
proof -
  obtain ctrl secrets w1 where c: "GetSecretControl (env_singleton env) = Some ctrl"
    "outside (SecretControl_List ctrl) w = (Ret secrets, w1)"
    using assms(2) by (auto simp: ClusterGateway_List_def bindM_Ret_iff gom_basic)
  have ok1: "cache_ok (gw_credentials w1)" using assms(1) outside_cache [OF c(2)] by simp
  have "\<exists>m w2. cache_ok (gw_credentials w2) \<and>
    (list_loop (convertFromSecret env) secrets [] w2 = (Ret (cgl_Items l), w') \<or>
     list_loop (convert_either env m) secrets [] w2 = (Ret (cgl_Items l), w'))"
  proof (cases "env_OCMIntegration env")
    case False
    then have "list_loop (convertFromSecret env) secrets [] w1 = (Ret (cgl_Items l), w')"
      using assms(2) c by (auto simp: ClusterGateway_List_def bindM_Ret_iff gom_basic)
    then show ?thesis using ok1 by blast
  next
    case True
    then obtain cc clusters w2 m where "outside (OCMClusterControl_List cc) w1 = (Ret clusters, w2)"
      "list_loop (convert_either env m) secrets [] w2 = (Ret (cgl_Items l), w')"
      using assms(2) c by (auto simp: ClusterGateway_List_def bindM_Ret_iff gom_basic)
    then show ?thesis using ok1 outside_cache by metis
  qed
  then obtain m w2 where ok2: "cache_ok (gw_credentials w2)" and loop:
    "list_loop (convertFromSecret env) secrets [] w2 = (Ret (cgl_Items l), w') \<or>
     list_loop (convert_either env m) secrets [] w2 = (Ret (cgl_Items l), w')" by blast
  have "cache_ok (gw_credentials w') \<and> subseq (map cg_Name (cgl_Items l)) (map sec_Name secrets) \<and>
      (\<forall>gw\<in>set (cgl_Items l). \<exists>s\<in>set secrets. wf_gateway s gw)"
    using loop from_secret.loop_wf [OF ok2, where secrets = secrets and items = "[]"]
      from_either.loop_wf [OF ok2, where secrets = secrets and items = "[]"] by (elim disjE) fastforce+
  then show ?thesis using c(1) outside_inner [OF c(2)] by blast
qed

lemma List_endpoints:
  assumes "cache_ok (gw_credentials w)" and "ClusterGateway_List env False w = (Ret l, w')"
  shows "\<forall>gw\<in>set (cgl_Items l). cg_Endpoint gw \<noteq> None"
  using List_Ret [OF assms] by (auto simp: wf_gateway_def)

section \<open>Properties\<close>

text \<open>
  C4. Whatever \<^verbatim>\<open>Get\<close> returns is well formed and comes from the secret of that name: its name is the
  secret's, the endpoint is a tunnel or a non-empty address that is never both insecure and with a CA bundle, and the
  credential's contents fit its type (a dynamic one has a token or a complete key pair). The credential
  cache stays sound.
\<close>

theorem Get_well_formed:
  assumes "cache_ok (gw_credentials w)" and "ClusterGateway_Get env name w = (Ret gw, w')"
  shows "cache_ok (gw_credentials w') \<and>
    (\<exists>ctrl s x. GetSecretControl (env_singleton env) = Some ctrl \<and>
       SecretControl_Get ctrl name (gw_world w) = (Ret s, x) \<and> wf_gateway s gw)"
  using assms(2)
proof (cases rule: Get_Ret_cases)
  case (1 ctrl s x ca addr ins w1)
  then show ?thesis using convert_wf [of w1 env ca addr ins s "Ret gw" w'] assms(1) by auto
qed

definition demo_exec_any :: "'x exec_env" where
  "demo_exec_any = \<lparr>LookPath = ret, Environ = ret [], RunCommand = (\<lambda>c a e. ret ''out''),
     ParseGroupVersion = (\<lambda>s. Ret (''client.authentication.k8s.io'', ''v1'')),
     DecodeCredential = (\<lambda>gv out c. Ret (gv, demo_ExecCredential)), Now = (\<lambda>x. (0, x))\<rparr>"

definition demo_singletons :: "ManagedCluster list \<Rightarrow> store singletons" where
  "demo_singletons cs = no_singletons\<lparr>sg_kubeClient := Some tracker_client,
     sg_secretControl := Some (directApiSecretControl ''vela-system'' tracker_client),
     sg_clusterControl := Some (directOCMClusterControl (demo_ocm cs))\<rparr>"

definition demo_env :: "bool \<Rightarrow> ManagedCluster list \<Rightarrow> store gw_env" where
  "demo_env ocm cs = \<lparr>env_singleton = demo_singletons cs, env_exec = demo_exec_any, env_OCMIntegration = ocm,
     env_SecretNamespace = ''vela-system'', env_Enabled = (\<lambda>f. f = HealthinessCheck),
     env_yaml = (\<lambda>s. Fail (PlainError ''yaml'')), env_json = (\<lambda>s. Fail (PlainError ''json''))\<rparr>"

definition demo_cluster_secret :: Secret where
  "demo_cluster_secret =
     \<lparr>sec_Meta = empty_ObjectMeta\<lparr>meta_Name := ''c1'', meta_Namespace := ''vela-system'',
        meta_Labels := Some [(LabelKeyClusterCredentialType, CredentialTypeServiceAccountToken)]\<rparr>,
      sec_Type = ''Opaque'',
      sec_Data = Some [(''endpoint'', Some ''https://c1:6443''), (''token'', Some ''tok'')]\<rparr>"

definition demo_gateway :: ClusterGateway where
  "demo_gateway =
     \<lparr>cg_Meta = empty_ObjectMeta\<lparr>meta_Name := ''c1''\<rparr>,
      cg_Spec = \<lparr>spec_Provider = '''',
        spec_Access = \<lparr>
          access_Endpoint = Some \<lparr>ep_Type = ClusterEndpointTypeConst,
            ep_Const = Some \<lparr>const_Address = ''https://c1:6443'', const_CABundle = None,
                             const_Insecure = Some True, const_ProxyURL = None\<rparr>\<rparr>,
          access_Credential = Some \<lparr>cred_Type = CredentialTypeServiceAccountToken,
            cred_ServiceAccountToken = ''tok'', cred_X509 = None\<rparr>\<rparr>,
        spec_ProxyConfig = None\<rparr>,
      cg_Status = empty_ClusterGatewayStatus\<rparr>"

definition demo_state :: "store gwstate" where
  "demo_state = \<lparr>gw_credentials = [], gw_world = [((''vela-system'', ''c1''), demo_cluster_secret)]\<rparr>"

lemmas demo_env_defs = demo_env_def demo_singletons_def demo_cluster_secret_def demo_state_def demo_gateway_def
  tracker_client_def no_singletons_def

lemma demo_convert: "convertFromSecret (demo_env ocm cs) demo_cluster_secret w = (Ret demo_gateway, w)"
  by (simp add: convertFromSecret_def getEndpointFromSecret_def convert_def convert_endpoint_def convert_credential_def
        convert_status_def convert_proxyConfig_def run_simps demo_env_defs mget_def dget_def blen_def TrimSuffix_def HasSuffix_def
        name_defs credential_type_defs endpoint_type_defs ServiceAccountTokenKey_def empty_ObjectMeta_def
        empty_ClusterGatewayStatus_def AnnotationKeyClusterGatewayStatusHealthy_def)

lemma demo_secret_reads:
  "secrets_Get tracker_client ''vela-system'' ''c1'' (gw_world demo_state) = (Ret demo_cluster_secret, gw_world demo_state)"
  "secrets_List tracker_client ''vela-system'' LabelKeyClusterCredentialType (gw_world demo_state) =
     (Ret [demo_cluster_secret], gw_world demo_state)"
  by (simp_all add: demo_env_defs mget_def)

lemma tracker_Exists: "labels_Exists tracker_client k = Ret k"
  by (simp add: tracker_client_def)

lemma demo_Get: "ClusterGateway_Get (demo_env False cs) ''c1'' demo_state = (Ret demo_gateway, demo_state)"
  using demo_secret_reads demo_convert [of False cs]
  by (simp add: ClusterGateway_Get_def run_simps outside_def singleton_defs direct_Get_def demo_env_def demo_singletons_def)

theorem Get_well_formed_witness:
  "ClusterGateway_Get (demo_env False []) ''c1'' demo_state = (Ret demo_gateway, demo_state) \<and>
   (\<exists>s. wf_gateway s demo_gateway)"
proof -
  have "cache_ok (gw_credentials demo_state)" by (simp add: cache_ok_def demo_state_def)
  from Get_well_formed [OF this demo_Get] show ?thesis using demo_Get by blast
qed

text \<open>
  C5. A listing is faithful: its gateways are well formed, and their names, in order, are a subsequence of
  the names of the labelled secrets, so that a secret that does not convert is left out and nothing is invented,
  repeated or reordered.
\<close>

theorem List_subsequence:
  assumes "cache_ok (gw_credentials w)" and "ClusterGateway_List env False w = (Ret l, w')"
  shows "cache_ok (gw_credentials w') \<and>
    (\<exists>ctrl secrets x. GetSecretControl (env_singleton env) = Some ctrl \<and>
       SecretControl_List ctrl (gw_world w) = (Ret secrets, x) \<and>
       subseq (map cg_Name (cgl_Items l)) (map sec_Name secrets) \<and>
       (\<forall>gw\<in>set (cgl_Items l). \<exists>s\<in>set secrets. wf_gateway s gw))"
  using assms by (rule List_Ret)

lemma demo_List: "ClusterGateway_List (demo_env False cs) False demo_state = (Ret \<lparr>cgl_Items = [demo_gateway]\<rparr>, demo_state)"
  using demo_secret_reads demo_convert [of False cs]
  by (simp add: ClusterGateway_List_def run_simps outside_def singleton_defs direct_List_def demo_env_def demo_singletons_def
        tracker_client_def)

theorem List_subsequence_witness:
  "\<exists>secrets. subseq (map cg_Name [demo_gateway]) (map sec_Name secrets) \<and> (\<exists>s\<in>set secrets. wf_gateway s demo_gateway)"
proof -
  have "cache_ok (gw_credentials demo_state)" by (simp add: cache_ok_def demo_state_def)
  from List_subsequence [OF this demo_List [of "[]"]] show ?thesis by auto
qed




definition demo_managed :: ManagedCluster where
  "demo_managed = \<lparr>mc_Meta = empty_ObjectMeta\<lparr>meta_Name := ''c1''\<rparr>,
     mc_ClientConfigs = [\<lparr>cc_URL = ''https://mc1:6443'', cc_CABundle = Some ''ca''\<rparr>], mc_HubAcceptsClient = True\<rparr>"



text \<open>
  With OCM integration a secret whose managed cluster cannot be read is not filtered out: get falls back
  to the secret's own endpoint, whatever the error of the lookup was.
\<close>

theorem OCM_dangling_kept:
  assumes "GetSecretControl (env_singleton env) = Some ctrl" and "GetClusterControl (env_singleton env) = Some clusters"
    and "SecretControl_Get ctrl name (gw_world w) = (Ret s, xa)" and "OCMClusterControl_Get clusters name xa = (Fail e, xb)"
  shows "ClusterGateway_Get (env\<lparr>env_OCMIntegration := True\<rparr>) name w =
         convertFromSecret (env\<lparr>env_OCMIntegration := True\<rparr>) s (w\<lparr>gw_world := xb\<rparr>)"
  using assms by (simp add: ClusterGateway_Get_def run_simps outside_def)

theorem OCM_dangling_kept_witness:
  "ClusterGateway_Get (demo_env True []) ''c1'' demo_state = (Ret demo_gateway, demo_state)"
proof -
  let ?e = "demo_env False []"
  have env: "demo_env True [] = ?e\<lparr>env_OCMIntegration := True\<rparr>" by (simp add: demo_env_def)
  have "ClusterGateway_Get (?e\<lparr>env_OCMIntegration := True\<rparr>) ''c1'' demo_state =
    convertFromSecret (?e\<lparr>env_OCMIntegration := True\<rparr>) demo_cluster_secret (demo_state\<lparr>gw_world := gw_world demo_state\<rparr>)"
    by (rule OCM_dangling_kept [where xa = "gw_world demo_state" and ctrl = "directApiSecretControl ''vela-system'' tracker_client"
          and clusters = "directOCMClusterControl (demo_ocm [])"])
       (simp_all add: demo_env_def demo_singletons_def singleton_defs direct_Get_def demo_secret_reads demo_ocm_def run_simps)
  then show ?thesis using demo_convert [of True "[]"] by (simp add: env)
qed

text \<open>
  C39. With OCM integration and the uncached cluster control, a listing panics as soon as the hub has one
  managed cluster: the control's list consists of nil pointers, and the handler reads the first one's name.
\<close>

theorem List_direct_OCM_panics:
  assumes "env_OCMIntegration env" and "GetSecretControl (env_singleton env) = Some ctrl"
    and "GetClusterControl (env_singleton env) = Some (directOCMClusterControl ocm)"
    and "SecretControl_List ctrl (gw_world w) = (Ret secrets, xa)" and "clusters_List ocm xa = (Ret (c # cs), xb)"
  shows "ClusterGateway_List env False w = (Panic nil_dereference, w\<lparr>gw_world := xb\<rparr>)"
  using assms directOCM_List_run [OF assms(5)]
  by (simp add: ClusterGateway_List_def run_simps outside_def)

theorem List_direct_OCM_panics_witness:
  "fst (ClusterGateway_List (demo_env True [demo_managed]) False demo_state) = Panic nil_dereference"
proof -
  have "ClusterGateway_List (demo_env True [demo_managed]) False demo_state =
      (Panic nil_dereference, demo_state\<lparr>gw_world := gw_world demo_state\<rparr>)"
    by (rule List_direct_OCM_panics [where ctrl = "directApiSecretControl ''vela-system'' tracker_client" and
          ocm = "demo_ocm [demo_managed]" and xa = "gw_world demo_state" and secrets = "[demo_cluster_secret]"])
       (simp_all add: demo_env_def demo_singletons_def singleton_defs direct_List_def demo_secret_reads tracker_Exists
          demo_ocm_def run_simps)
  then show ?thesis by simp
qed

text \<open>
  C7. A proxy configuration attached to a cluster only ever speaks about that cluster: in a converted gateway
  every exchange rule carries a source, and the source names the gateway itself.
\<close>

theorem proxy_rules_pinned:
  assumes "convert env ca addr insecure s w = (Ret gw, w')" and "spec_ProxyConfig (cg_Spec gw) = Some pc"
    and "rule \<in> set (exch_Rules (pc_Exchanger pc))"
  shows "\<exists>src. rule_Source rule = Some src \<and> source_Cluster src = Some (cg_Name gw)"
proof -
  have "convert_proxyConfig env s = Ret (Some pc)" "cg_Name gw = sec_Name s"
    using assms(1,2) by (auto simp: convert_Ret_iff)
  then obtain rules where "pin_rules (sec_Name s) rules = Ret (exch_Rules (pc_Exchanger pc))"
    by (auto simp: convert_proxyConfig_def bind_res_Ret_iff split: if_splits option.splits res.splits)
  from pin_rules_pinned [OF this] assms(3) \<open>cg_Name gw = sec_Name s\<close> show ?thesis by simp
qed

definition demo_rule :: ClientIdentityExchangeRule where
  "demo_rule = \<lparr>rule_Name = ''r'', rule_Type = PrivilegedIdentityExchanger,
     rule_Source = Some \<lparr>source_User = Some ''bob'', source_Group = None, source_UID = None, source_Cluster = None,
       source_UserPattern = None, source_GroupPattern = None, source_ClusterPattern = None\<rparr>,
     rule_Target = None, rule_URL = None\<rparr>"

definition demo_penetration_env :: "ClientIdentityExchangeRule list \<Rightarrow> store gw_env" where
  "demo_penetration_env rules = (demo_env False [])\<lparr>env_Enabled := (\<lambda>f. f = ClientIdentityPenetration),
     env_yaml := (\<lambda>s. Ret \<lparr>pc_Exchanger = \<lparr>exch_Rules = rules\<rparr>\<rparr>)\<rparr>"

definition demo_annotated_secret :: Secret where
  "demo_annotated_secret = demo_cluster_secret\<lparr>sec_Meta := (sec_Meta demo_cluster_secret)\<lparr>
     meta_Annotations := Some [(AnnotationClusterGatewayProxyConfiguration, ''...'')]\<rparr>\<rparr>"

lemma demo_convert_annotated:
  "convert (demo_penetration_env rules) None ''https://c1'' True demo_annotated_secret w =
     (case pin_rules ''c1'' rules of
        Ret rs \<Rightarrow> (Ret (demo_gateway\<lparr>cg_Spec := (cg_Spec demo_gateway)\<lparr>
            spec_Access := (spec_Access (cg_Spec demo_gateway))\<lparr>access_Endpoint := Some \<lparr>ep_Type = ClusterEndpointTypeConst,
              ep_Const = Some \<lparr>const_Address = ''https://c1'', const_CABundle = None, const_Insecure = Some True, const_ProxyURL = None\<rparr>\<rparr>\<rparr>,
            spec_ProxyConfig := Some \<lparr>pc_Exchanger = \<lparr>exch_Rules = rs\<rparr>\<rparr>\<rparr>\<rparr>), w)
      | Fail e \<Rightarrow> (Fail e, w) | Panic m \<Rightarrow> (Panic m, w))"
  by (simp add: convert_def convert_endpoint_def convert_credential_def convert_status_def convert_proxyConfig_def run_simps
        demo_env_defs demo_penetration_env_def demo_annotated_secret_def mget_def dget_def blen_def
        name_defs credential_type_defs endpoint_type_defs ServiceAccountTokenKey_def empty_ObjectMeta_def split: res.split)

theorem proxy_rules_pinned_witness:
  "\<exists>gw pc. convert (demo_penetration_env [demo_rule]) None ''https://c1'' True demo_annotated_secret demo_state = (Ret gw, demo_state) \<and>
     spec_ProxyConfig (cg_Spec gw) = Some pc \<and>
     (\<forall>rule\<in>set (exch_Rules (pc_Exchanger pc)). \<exists>src. rule_Source rule = Some src \<and> source_Cluster src = Some (cg_Name gw))"
proof -
  obtain gw pc where g: "convert (demo_penetration_env [demo_rule]) None ''https://c1'' True demo_annotated_secret demo_state = (Ret gw, demo_state)"
    "spec_ProxyConfig (cg_Spec gw) = Some pc"
    by (simp add: demo_convert_annotated demo_rule_def)
  with proxy_rules_pinned [OF g] show ?thesis by blast
qed

text \<open>
  A cluster annotation with an exchange rule that has no source makes the conversion panic (with identity
  penetration enabled): such a secret takes down every read of it instead of being reported.
\<close>

theorem rule_without_source_panics:
  assumes "convert_endpoint ca addr insecure s = Ret e" and "convert_credential env s w = (Ret c, w1)"
    and "convert_status env s = Ret st" and "env_Enabled env ClientIdentityPenetration"
    and "mget (sec_Annotations s) AnnotationClusterGatewayProxyConfiguration = Some raw"
    and "env_yaml env raw = Ret pc" and "rule \<in> set (exch_Rules (pc_Exchanger pc))" and "rule_Source rule = None"
  shows "convert env ca addr insecure s w = (Panic nil_dereference, w1)"
  using assms pin_rules_nil_source [OF assms(7,8)]
  by (simp add: convert_def run_simps convert_proxyConfig_def)

theorem rule_without_source_panics_witness:
  "fst (convert (demo_penetration_env [demo_rule\<lparr>rule_Source := None\<rparr>]) None ''https://c1'' True demo_annotated_secret demo_state) =
     Panic nil_dereference"
proof -
  let ?env = "demo_penetration_env [demo_rule\<lparr>rule_Source := None\<rparr>]"
  obtain e where "convert_endpoint None ''https://c1'' True demo_annotated_secret = Ret e"
    by (simp add: convert_endpoint_def demo_annotated_secret_def demo_cluster_secret_def mget_def dget_def name_defs endpoint_type_defs)
  moreover obtain c where "convert_credential ?env demo_annotated_secret demo_state = (Ret c, demo_state)"
    by (simp add: convert_credential_def demo_annotated_secret_def demo_cluster_secret_def mget_def credential_type_defs run_simps)
  moreover obtain st where "convert_status ?env demo_annotated_secret = Ret st"
    by (simp add: convert_status_def demo_penetration_env_def name_defs)
  ultimately have "convert ?env None ''https://c1'' True demo_annotated_secret demo_state = (Panic nil_dereference, demo_state)"
    by (rule rule_without_source_panics [where raw = "''...''" and rule = "demo_rule\<lparr>rule_Source := None\<rparr>" and
          pc = "\<lparr>pc_Exchanger = \<lparr>exch_Rules = [demo_rule\<lparr>rule_Source := None\<rparr>]\<rparr>\<rparr>"])
       (simp_all add: demo_penetration_env_def demo_annotated_secret_def mget_def)
  then show ?thesis by simp
qed

end
