(* ===== verification/Go_URL.thy ===== *)
theory Go_URL
  imports Go_Strings
begin

text \<open>
  What the program uses of Go's \<^verbatim>\<open>net/url\<close>: percent-encoding, \<^verbatim>\<open>url.Parse\<close> and \<^verbatim>\<open>url.ParseRequestURI\<close>,
  \<^verbatim>\<open>URL.Query\<close>, \<^verbatim>\<open>URL.RequestURI\<close> and the operations of \<^verbatim>\<open>url.Values\<close>. The main result is that encoding a
  query and parsing it back gives every key the values it had (\<open>ParseQuery_Encode\<close>).
  Error texts leave out the quoting of the offending URL.
\<close>

section \<open>Percent-encoding\<close>

datatype encoding = encodePath | encodeHost | encodeZone | encodeUserPassword | encodeQueryComponent | encodeFragment

definition ishex :: "char \<Rightarrow> bool" where
  "ishex c \<longleftrightarrow> is_digit c \<or> in_range CHR ''a'' CHR ''f'' c \<or> in_range CHR ''A'' CHR ''F'' c"

definition unhex :: "char \<Rightarrow> nat" where
  "unhex c = (if is_digit c then of_char c - 48
     else if in_range CHR ''a'' CHR ''f'' c then of_char c - 97 + 10
     else if in_range CHR ''A'' CHR ''F'' c then of_char c - 65 + 10 else 0)"

definition hexdigit :: "nat \<Rightarrow> char" where
  "hexdigit n = ''0123456789ABCDEF'' ! n"

definition shouldEscape :: "encoding \<Rightarrow> char \<Rightarrow> bool" where
  "shouldEscape mode c =
     (if is_alnum c then False
      else if mode \<in> set [encodeHost, encodeZone] \<and> c \<in> set ''!$&()*+,;=:[]<>'' \<union> {CHR 0x27, CHR 0x22} then False
      else if c \<in> set ''-_.~'' then False
      else if c \<in> set ''$&+,/:;=?@'' then
        (case mode of
           encodePath \<Rightarrow> c = CHR ''?''
         | encodeUserPassword \<Rightarrow> c \<in> set ''@/?:''
         | encodeQueryComponent \<Rightarrow> True
         | encodeFragment \<Rightarrow> False
         | _ \<Rightarrow> True)
      else if mode = encodeFragment \<and> c \<in> set ''!()*'' then False
      else True)"

fun url_unescape :: "encoding \<Rightarrow> string \<Rightarrow> string res" where
  "url_unescape mode [] = Ret []"
| "url_unescape mode (c # cs) =
     (if c = CHR ''%'' then
        (case cs of
           a # b # rest \<Rightarrow>
             (if \<not> ishex a \<or> \<not> ishex b then Fail (PlainError (''invalid URL escape '' @ [c, a, b]))
              else if mode = encodeHost \<and> unhex a < 8 \<and> [a, b] \<noteq> ''25'' then
                Fail (PlainError (''invalid URL escape '' @ [c, a, b]))
              else if mode = encodeZone \<and> [a, b] \<noteq> ''25'' \<and> char_of (16 * unhex a + unhex b) \<noteq> CHR '' '' \<and>
                      shouldEscape encodeHost (char_of (16 * unhex a + unhex b)) then
                Fail (PlainError (''invalid URL escape '' @ [c, a, b]))
              else bind_res (url_unescape mode rest) (\<lambda>t. Ret (char_of (16 * unhex a + unhex b) # t)))
         | _ \<Rightarrow> Fail (PlainError (''invalid URL escape '' @ c # cs)))
      else if mode \<in> set [encodeHost, encodeZone] \<and> (of_char c :: nat) < 128 \<and> shouldEscape mode c then
        Fail (PlainError (''invalid character '' @ [c] @ '' in host name''))
      else bind_res (url_unescape mode cs)
        (\<lambda>t. Ret ((if c = CHR ''+'' \<and> mode = encodeQueryComponent then CHR '' '' else c) # t)))"

fun url_escape :: "encoding \<Rightarrow> string \<Rightarrow> string" where
  "url_escape mode [] = []"
| "url_escape mode (c # cs) =
     (if c = CHR '' '' \<and> mode = encodeQueryComponent then [CHR ''+'']
      else if shouldEscape mode c then
        [CHR ''%'', hexdigit (of_char c div 16), hexdigit (of_char c mod 16)]
      else [c]) @ url_escape mode cs"

section \<open>Parsing\<close>

record URL =
  url_Scheme :: string
  url_Opaque :: string
  url_User :: "(string \<times> string option) option"
  url_Host :: string
  url_Path :: string
  url_RawPath :: string
  url_ForceQuery :: bool
  url_RawQuery :: string
  url_Fragment :: string

definition empty_URL :: URL where
  "empty_URL = \<lparr>url_Scheme = '''', url_Opaque = '''', url_User = None, url_Host = '''', url_Path = '''',
     url_RawPath = '''', url_ForceQuery = False, url_RawQuery = '''', url_Fragment = ''''\<rparr>"

fun getScheme_at :: "nat \<Rightarrow> string \<Rightarrow> string \<Rightarrow> (string \<times> string) res" where
  "getScheme_at i raw [] = Ret ('''', raw)"
| "getScheme_at i raw (c # cs) =
     (if is_lower c \<or> is_upper c then getScheme_at (Suc i) raw cs
      else if is_digit c \<or> c \<in> set ''+-.'' then
        (if i = 0 then Ret ('''', raw) else getScheme_at (Suc i) raw cs)
      else if c = CHR '':'' then
        (if i = 0 then Fail (PlainError ''missing protocol scheme'') else Ret (take i raw, cs))
      else Ret ('''', raw))"

definition validOptionalPort :: "string \<Rightarrow> bool" where
  "validOptionalPort port = (case port of [] \<Rightarrow> True | c # cs \<Rightarrow> c = CHR '':'' \<and> list_all is_digit cs)"

definition validUserinfo :: "string \<Rightarrow> bool" where
  "validUserinfo s = list_all (\<lambda>c. is_alnum c \<or> c \<in> set ''-._:~!$&()*+,;=%@'' \<union> {CHR 0x27}) s"

definition parseHost :: "string \<Rightarrow> string res" where
  "parseHost host =
     (case host of
        CHR ''['' # _ \<Rightarrow>
          (case LastIndexByte host CHR '']'' of
             None \<Rightarrow> Fail (PlainError ''missing ']' in host'')
           | Some i \<Rightarrow>
               if \<not> validOptionalPort (drop (i + 1) host) then
                 Fail (PlainError (''invalid port '' @ drop (i + 1) host @ '' after host''))
               else (case strings_Index (take i host) ''%25'' of
                  Some zone \<Rightarrow>
                    bind_res (url_unescape encodeHost (take zone host)) (\<lambda>h1.
                    bind_res (url_unescape encodeZone (drop zone (take i host))) (\<lambda>h2.
                    bind_res (url_unescape encodeHost (drop i host)) (\<lambda>h3. Ret (h1 @ h2 @ h3))))
                | None \<Rightarrow> url_unescape encodeHost host))
      | _ \<Rightarrow>
          (case LastIndexByte host CHR '':'' of
             Some i \<Rightarrow>
               if \<not> validOptionalPort (drop i host) then
                 Fail (PlainError (''invalid port '' @ drop i host @ '' after host''))
               else url_unescape encodeHost host
           | None \<Rightarrow> url_unescape encodeHost host))"

definition parseAuthority :: "string \<Rightarrow> ((string \<times> string option) option \<times> string) res" where
  "parseAuthority authority =
     (case LastIndexByte authority CHR ''@'' of
        None \<Rightarrow> bind_res (parseHost authority) (\<lambda>host. Ret (None, host))
      | Some i \<Rightarrow>
          bind_res (parseHost (drop (i + 1) authority)) (\<lambda>host.
            (let userinfo = take i authority in
             if \<not> validUserinfo userinfo then Fail (PlainError ''net/url: invalid userinfo'')
             else if CHR '':'' \<notin> set userinfo then
               bind_res (url_unescape encodeUserPassword userinfo) (\<lambda>u. Ret (Some (u, None), host))
             else (case Cut userinfo CHR '':'' of (username, password, _) \<Rightarrow>
               bind_res (url_unescape encodeUserPassword username) (\<lambda>u.
               bind_res (url_unescape encodeUserPassword password) (\<lambda>p. Ret (Some (u, Some p), host)))))))"

definition setPath :: "string \<Rightarrow> URL \<Rightarrow> URL res" where
  "setPath p u = bind_res (url_unescape encodePath p) (\<lambda>path.
     Ret (u\<lparr>url_Path := path, url_RawPath := (if p = url_escape encodePath path then '''' else p)\<rparr>))"

text \<open>The part of \<^verbatim>\<open>parse\<close> after the scheme and the query have been split off.\<close>

definition parse_rest :: "bool \<Rightarrow> URL \<Rightarrow> string \<Rightarrow> URL res" where
  "parse_rest viaRequest u rest =
     (if (url_Scheme u \<noteq> '''' \<or> \<not> viaRequest \<and> \<not> HasPrefix rest ''///'') \<and> HasPrefix rest ''//'' then
        (let a = drop 2 rest;
             (authority, tail) = (case IndexByte a CHR ''/'' of Some i \<Rightarrow> (take i a, drop i a) | None \<Rightarrow> (a, ''''))
         in bind_res (parseAuthority authority) (\<lambda>(user, host).
              setPath tail (u\<lparr>url_User := user, url_Host := host\<rparr>)))
      else setPath rest u)"

definition url_parse :: "string \<Rightarrow> bool \<Rightarrow> URL res" where
  "url_parse raw viaRequest =
     (if \<not> list_all (\<lambda>c. 32 \<le> (of_char c :: nat) \<and> (of_char c :: nat) \<noteq> 127) raw then
        Fail (PlainError ''net/url: invalid control character in URL'')
      else if raw = '''' \<and> viaRequest then Fail (PlainError ''empty url'')
      else if raw = ''*'' then Ret (empty_URL\<lparr>url_Path := ''*''\<rparr>)
      else bind_res (getScheme_at 0 raw raw) (\<lambda>(scheme, rest0).
        (let force = (HasSuffix rest0 ''?'' \<and> count_list rest0 CHR ''?'' = 1);
             rest = (if force then take (length rest0 - 1) rest0 else fst (Cut rest0 CHR ''?''));
             rawq = (if force then '''' else fst (snd (Cut rest0 CHR ''?'')));
             u = empty_URL\<lparr>url_Scheme := ToLower scheme, url_ForceQuery := force, url_RawQuery := rawq\<rparr>
         in if \<not> HasPrefix rest ''/'' \<and> url_Scheme u \<noteq> '''' then Ret (u\<lparr>url_Opaque := rest\<rparr>)
            else if \<not> HasPrefix rest ''/'' \<and> viaRequest then Fail (PlainError ''invalid URI for request'')
            else if \<not> HasPrefix rest ''/'' \<and> CHR '':'' \<in> set (fst (Cut rest CHR ''/'')) then
              Fail (PlainError ''first path segment in URL cannot contain colon'')
            else parse_rest viaRequest u rest)))"

definition url_Parse :: "string \<Rightarrow> URL res" where
  "url_Parse raw =
     (case Cut raw CHR ''#'' of (u, frag, _) \<Rightarrow>
        (case url_parse u False of
           Fail e \<Rightarrow> Fail (WrapError (''parse '' @ u) e)
         | Panic s \<Rightarrow> Panic s
         | Ret url \<Rightarrow>
             if frag = '''' then Ret url
             else (case url_unescape encodeFragment frag of
                     Ret f \<Rightarrow> Ret (url\<lparr>url_Fragment := f\<rparr>)
                   | Fail e \<Rightarrow> Fail (WrapError (''parse '' @ raw) e)
                   | Panic s \<Rightarrow> Panic s)))"

definition ParseRequestURI :: "string \<Rightarrow> URL res" where
  "ParseRequestURI raw =
     (case url_parse raw True of
        Fail e \<Rightarrow> Fail (WrapError (''parse '' @ raw) e)
      | r \<Rightarrow> r)"

definition EscapedPath :: "URL \<Rightarrow> string" where
  "EscapedPath u =
     (if url_RawPath u \<noteq> '''' \<and>
         list_all (\<lambda>c. c \<in> set ''!$&()*+,;=:@[]%'' \<union> {CHR 0x27} \<or> \<not> shouldEscape encodePath c) (url_RawPath u) \<and>
         url_unescape encodePath (url_RawPath u) = Ret (url_Path u)
      then url_RawPath u
      else if url_Path u = ''*'' then ''*''
      else url_escape encodePath (url_Path u))"

definition RequestURI :: "URL \<Rightarrow> string" where
  "RequestURI u =
     (let base = (if url_Opaque u = '''' then (if EscapedPath u = '''' then ''/'' else EscapedPath u)
                  else if HasPrefix (url_Opaque u) ''//'' then url_Scheme u @ '':'' @ url_Opaque u
                  else url_Opaque u)
      in if url_ForceQuery u \<or> url_RawQuery u \<noteq> '''' then base @ ''?'' @ url_RawQuery u else base)"

section \<open>Values\<close>

text \<open>\<^verbatim>\<open>url.Values\<close> is a map from keys to lists of values, held in the order \<^verbatim>\<open>range\<close> meets the keys.\<close>

type_synonym url_Values = "(string \<times> string list) list"

definition vals_of :: "url_Values \<Rightarrow> string \<Rightarrow> string list" where
  "vals_of v k = (case map_of v k of None \<Rightarrow> [] | Some xs \<Rightarrow> xs)"

definition Values_Get :: "url_Values \<Rightarrow> string \<Rightarrow> string" where
  "Values_Get v k = (case vals_of v k of [] \<Rightarrow> '''' | x # _ \<Rightarrow> x)"

definition Values_Has :: "url_Values \<Rightarrow> string \<Rightarrow> bool" where
  "Values_Has v k \<longleftrightarrow> map_of v k \<noteq> None"

definition Values_Set :: "string \<Rightarrow> string \<Rightarrow> url_Values \<Rightarrow> url_Values" where
  "Values_Set k x v = AList.update k [x] v"

definition Values_Del :: "string \<Rightarrow> url_Values \<Rightarrow> url_Values" where
  "Values_Del k v = AList.delete k v"

definition Values_Add :: "string \<Rightarrow> string \<Rightarrow> url_Values \<Rightarrow> url_Values" where
  "Values_Add k x v = AList.update k (vals_of v k @ [x]) v"

definition query_pair :: "string \<Rightarrow> string \<Rightarrow> string" where
  "query_pair k x = url_escape encodeQueryComponent k @ ''='' @ url_escape encodeQueryComponent x"

definition Values_pairs :: "url_Values \<Rightarrow> (string \<times> string) list" where
  "Values_pairs v = concat (map (\<lambda>k. map (Pair k) (vals_of v k)) (sort (map fst v)))"

definition Values_Encode :: "url_Values \<Rightarrow> string" where
  "Values_Encode v = strings_Join (map (\<lambda>(k, x). query_pair k x) (Values_pairs v)) ''&''"

text \<open>One \<^verbatim>\<open>&\<close>-separated piece of a query; a malformed piece is dropped, as \<^verbatim>\<open>URL.Query\<close> does.\<close>

definition parse_piece :: "string \<Rightarrow> (string \<times> string) option" where
  "parse_piece piece =
     (if CHR '';'' \<in> set piece \<or> piece = '''' then None
      else (case Cut piece CHR ''='' of (k, x, _) \<Rightarrow>
        (case (url_unescape encodeQueryComponent k, url_unescape encodeQueryComponent x) of
           (Ret k', Ret x') \<Rightarrow> Some (k', x')
         | _ \<Rightarrow> None)))"

definition ParseQuery :: "string \<Rightarrow> url_Values" where
  "ParseQuery q =
     foldl (\<lambda>m piece. case parse_piece piece of None \<Rightarrow> m | Some (k, x) \<Rightarrow> Values_Add k x m)
       [] (split_on CHR ''&'' q)"

definition URL_Query :: "URL \<Rightarrow> url_Values" where
  "URL_Query u = ParseQuery (url_RawQuery u)"

text \<open>A query as parsing produces it: no key twice, no key without a value.\<close>

definition wf_values :: "url_Values \<Rightarrow> bool" where
  "wf_values v \<longleftrightarrow> distinct (map fst v) \<and> (\<forall>xs\<in>set (map snd v). xs \<noteq> [])"

section \<open>Encoding and parsing back\<close>

lemma hexdigit_ok: "n < 16 \<Longrightarrow> ishex (hexdigit n) \<and> unhex (hexdigit n) = n"
proof -
  assume "n < 16"
  then have "n \<in> set [0..<16]" by simp
  moreover have "\<forall>n\<in>set [0..<16]. ishex (hexdigit n) \<and> unhex (hexdigit n) = n"
    by (simp add: upt_rec hexdigit_def ishex_def unhex_def is_digit_def in_range_def)
  ultimately show ?thesis by blast
qed

lemma char_nibbles: "char_of (16 * ((of_char c :: nat) div 16) + of_char c mod 16) = c"
  by simp

lemma of_char_div16_less: "(of_char c :: nat) div 16 < 16"
proof -
  have "(of_char c :: nat) < 256" by (rule nat_of_char_less_256)
  then show ?thesis by arith
qed

lemma query_unescaped_char: "\<not> shouldEscape encodeQueryComponent c \<Longrightarrow> is_alnum c \<or> c \<in> set ''-_.~''"
  by (auto simp: shouldEscape_def split: if_splits)

lemma not_alnum_specials:
  "\<not> is_alnum CHR ''%''" "\<not> is_alnum CHR ''+''" "\<not> is_alnum CHR ''&''" "\<not> is_alnum CHR ''=''"
  "\<not> is_alnum CHR '';''" "\<not> is_alnum CHR ''/''"
  by (simp_all add: is_alnum_def is_lower_def is_upper_def is_digit_def in_range_def)

lemma unescape_escape_query [simp]:
  "url_unescape encodeQueryComponent (url_escape encodeQueryComponent s) = Ret s"
proof (induction s)
  case Nil
  then show ?case by simp
next
  case (Cons c cs)
  consider (space) "c = CHR '' ''" | (esc) "c \<noteq> CHR '' ''" "shouldEscape encodeQueryComponent c"
    | (plain) "c \<noteq> CHR '' ''" "\<not> shouldEscape encodeQueryComponent c" by blast
  then show ?case
  proof cases
    case space
    with Cons.IH show ?thesis by simp
  next
    case esc
    have "of_char c mod 16 < (16::nat)" by simp
    with Cons.IH esc show ?thesis
      using hexdigit_ok [OF of_char_div16_less, of c] hexdigit_ok [of "of_char c mod 16"]
      by (simp add: char_nibbles)
  next
    case plain
    then have "c \<noteq> CHR ''%''" "c \<noteq> CHR ''+''"
      using query_unescaped_char not_alnum_specials by fastforce+
    with Cons.IH plain show ?thesis by simp
  qed
qed

lemma ishex_alnum: "ishex c \<Longrightarrow> is_alnum c"
  by (auto simp: ishex_def is_alnum_def is_lower_def is_upper_def is_digit_def in_range_def)

lemma escape_query_chars:
  "c \<in> set (url_escape encodeQueryComponent s) \<Longrightarrow> is_alnum c \<or> c \<in> set ''-_.~%+''"
proof (induction s)
  case Nil
  then show ?case by simp
next
  case (Cons d ds)
  have "is_alnum (hexdigit (of_char d div 16))" "is_alnum (hexdigit (of_char d mod 16))"
    using hexdigit_ok [OF of_char_div16_less, of d] hexdigit_ok [of "of_char d mod 16"]
    by (auto intro: ishex_alnum)
  with Cons show ?case by (auto split: if_splits dest: query_unescaped_char)
qed

lemma escape_query_no_separator:
  "CHR ''&'' \<notin> set (url_escape encodeQueryComponent s)"
  "CHR ''='' \<notin> set (url_escape encodeQueryComponent s)"
  "CHR '';'' \<notin> set (url_escape encodeQueryComponent s)"
  using escape_query_chars not_alnum_specials by fastforce+

lemma IndexByte_append: "c \<notin> set xs \<Longrightarrow> IndexByte (xs @ c # ys) c = Some (length xs)"
  by (induction xs) auto

lemma Cut_append: "c \<notin> set xs \<Longrightarrow> Cut (xs @ c # ys) c = (xs, ys, True)"
  by (simp add: Cut_def IndexByte_append)

lemma parse_piece_query_pair [simp]: "parse_piece (query_pair k x) = Some (k, x)"
proof -
  have "Cut (query_pair k x) CHR ''='' =
      (url_escape encodeQueryComponent k, url_escape encodeQueryComponent x, True)"
    using Cut_append [of "CHR ''=''" "url_escape encodeQueryComponent k"]
    by (simp add: query_pair_def escape_query_no_separator)
  then show ?thesis
    by (simp add: parse_piece_def) (simp add: query_pair_def escape_query_no_separator)
qed

lemma split_on_none: "c \<notin> set xs \<Longrightarrow> split_on c xs = [xs]"
  by (induction xs) auto

lemma split_on_append: "c \<notin> set xs \<Longrightarrow> split_on c (xs @ c # ys) = xs # split_on c ys"
  by (induction xs) auto

lemma split_on_Join:
  "xs \<noteq> [] \<Longrightarrow> \<forall>x\<in>set xs. c \<notin> set x \<Longrightarrow> split_on c (strings_Join xs [c]) = xs"
proof (induction xs "[c]" rule: strings_Join.induct)
  case (3 x y ys)
  then show ?case using split_on_append [of c x] by simp
qed (simp_all add: split_on_none)

definition add_pair :: "url_Values \<Rightarrow> string \<times> string \<Rightarrow> url_Values" where
  "add_pair m p = Values_Add (fst p) (snd p) m"

lemma query_pair_no_amp: "CHR ''&'' \<notin> set (query_pair k x)"
  by (simp add: query_pair_def escape_query_no_separator)

lemma ParseQuery_Join:
  "ParseQuery (strings_Join (map (\<lambda>(k, x). query_pair k x) ps) ''&'') = foldl add_pair [] ps"
proof (cases ps)
  case Nil
  then show ?thesis by (simp add: ParseQuery_def parse_piece_def)
next
  case (Cons p qs)
  have fold: "foldl (\<lambda>m piece. case parse_piece piece of None \<Rightarrow> m | Some (k, x) \<Rightarrow> Values_Add k x m)
      m (map (\<lambda>(k, x). query_pair k x) qs) = foldl add_pair m qs" for m qs
    by (induction qs arbitrary: m) (auto simp: add_pair_def)
  have "split_on CHR ''&'' (strings_Join (map (\<lambda>(k, x). query_pair k x) ps) ''&'')
      = map (\<lambda>(k, x). query_pair k x) ps"
    using Cons by (intro split_on_Join) (auto simp: query_pair_no_amp)
  then show ?thesis by (simp add: ParseQuery_def fold)
qed

lemma vals_of_Add: "vals_of (Values_Add k x m) k' = (if k' = k then vals_of m k @ [x] else vals_of m k')"
  by (simp add: vals_of_def Values_Add_def update_conv')

lemma vals_of_add_pairs:
  "vals_of (foldl add_pair m ps) k = vals_of m k @ map snd (filter (\<lambda>p. fst p = k) ps)"
  by (induction ps arbitrary: m) (auto simp: add_pair_def vals_of_Add)

lemma pairs_of_key:
  "distinct ks \<Longrightarrow>
   map snd (filter (\<lambda>p. fst p = k) (concat (map (\<lambda>k. map (Pair k) (vals_of v k)) ks)))
     = (if k \<in> set ks then vals_of v k else [])"
proof (induction ks)
  case Nil
  then show ?case by simp
next
  case (Cons a ks)
  have "filter (\<lambda>p. fst p = k) (map (Pair a) (vals_of v a)) = (if a = k then map (Pair a) (vals_of v a) else [])"
    by (auto simp: filter_map o_def)
  with Cons show ?case by (auto simp: o_def)
qed

lemma vals_of_no_key: "k \<notin> set (map fst v) \<Longrightarrow> vals_of v k = []"
proof -
  assume "k \<notin> set (map fst v)"
  then have "map_of v k = None" by (simp add: map_of_eq_None_iff)
  then show ?thesis by (simp add: vals_of_def)
qed

text \<open>Parsing an encoded query gives every key back the values it had, in their order.\<close>

lemma ParseQuery_Encode:
  assumes "distinct (map fst v)"
  shows "vals_of (ParseQuery (Values_Encode v)) k = vals_of v k"
proof -
  have "distinct (sort (map fst v))" using assms by simp
  then have "map snd (filter (\<lambda>p. fst p = k) (Values_pairs v)) = vals_of v k"
    using vals_of_no_key [of k v] by (auto simp: Values_pairs_def pairs_of_key)
  then show ?thesis
    by (simp add: Values_Encode_def ParseQuery_Join vals_of_add_pairs) (simp add: vals_of_def)
qed

lemma set_update_subset: "set (AList.update k y v) \<subseteq> insert (k, y) (set v)"
  by (induction v) auto

lemma wf_values_Add: "wf_values v \<Longrightarrow> wf_values (Values_Add k x v)"
  using set_update_subset [of k "vals_of v k @ [x]" v]
  by (auto simp: wf_values_def Values_Add_def distinct_update)

lemma wf_values_ParseQuery: "wf_values (ParseQuery q)"
proof -
  have "wf_values m \<Longrightarrow> wf_values (foldl (\<lambda>m piece. case parse_piece piece of None \<Rightarrow> m
      | Some (k, x) \<Rightarrow> Values_Add k x m) m pieces)" for m pieces
    by (induction pieces arbitrary: m) (auto simp: wf_values_Add split: option.splits)
  moreover have "wf_values []" by (simp add: wf_values_def)
  ultimately show ?thesis unfolding ParseQuery_def by blast
qed

end
