(* ===== verification/Gateway_Validation.thy ===== *)
theory Gateway_Validation
  imports Gateway_Secret Go_URL
begin

text \<open>
  Validation and printing of gateways: \<^verbatim>\<open>pkg/apis/cluster/v1alpha1/validation.go\<close> and \<^verbatim>\<open>printer.go\<close>, with the
  resource's \<^verbatim>\<open>Validate\<close> and \<^verbatim>\<open>ConvertToTable\<close>. A nil endpoint, or a \<^verbatim>\<open>Const\<close> endpoint without its contents, is a panic.
\<close>

section \<open>Validation\<close>

datatype bad_value = EndpointValue "ClusterEndpoint option" | StringValue string

datatype field_error =
    Required string string
  | Invalid string bad_value string
  | NotSupported string string "string list"

definition Child :: "string \<Rightarrow> string \<Rightarrow> string" where
  "Child path name = path @ ''.'' @ name"

definition supportedCredTypes :: "string list" where
  "supportedCredTypes = [CredentialTypeServiceAccountToken, CredentialTypeX509Certificate]"

definition ValidateClusterGatewaySpecAccessCredential :: "ClusterAccessCredential \<Rightarrow> string \<Rightarrow> field_error list" where
  "ValidateClusterGatewaySpecAccessCredential c path =
     (if cred_Type c \<notin> set supportedCredTypes
      then [NotSupported (Child path ''type'') (cred_Type c) supportedCredTypes] else []) @
     (if cred_Type c = CredentialTypeServiceAccountToken then
        (if base64_decodes (cred_ServiceAccountToken c)
         then [Invalid (Child path ''serviceAccountToken'') (StringValue (cred_ServiceAccountToken c)) ''should not be base64 encoded'']
         else []) @
        (if cred_ServiceAccountToken c = ''''
         then [Required (Child path ''serviceAccountToken'') ''should provide service-account token''] else [])
      else if cred_Type c = CredentialTypeX509Certificate then
        (case cred_X509 c of
           None \<Rightarrow> [Required (Child path ''x509'') ''should provide x509 certificate and private-key'']
         | Some x \<Rightarrow>
             (if blen (x509_Certificate x) = 0
              then [Required (Child (Child path ''x509'') ''certificate'') ''should provide x509 certificate''] else []) @
             (if blen (x509_PrivateKey x) = 0
              then [Required (Child (Child path ''x509'') ''privateKey'') ''should provide x509 private key''] else []))
      else [])"

definition ValidateClusterGatewaySpecAccess :: "ClusterAccess \<Rightarrow> string \<Rightarrow> field_error list res" where
  "ValidateClusterGatewaySpecAccess c path =
     bind_res (deref (access_Endpoint c)) (\<lambda>endpoint.
     let credentialErrs = (case access_Credential c of
           None \<Rightarrow> [] | Some cred \<Rightarrow> ValidateClusterGatewaySpecAccessCredential cred (Child path ''credential''))
     in if ep_Type endpoint = ClusterEndpointTypeConst then
          bind_res (deref (ep_Const endpoint)) (\<lambda>k.
          let errs = (if const_Address k = '''' then [Required (Child path ''endpoint'') ''should provide cluster endpoint''] else [])
          in case url_Parse (const_Address k) of
               Panic s \<Rightarrow> Panic s
             | Fail e \<Rightarrow> Ret (errs @ [Invalid (Child path ''endpoint'') (EndpointValue (access_Endpoint c)) (''failed parsing as URL: '' @ Error e)])
             | Ret u \<Rightarrow>
                 Ret (errs @
                   (if url_Scheme u \<noteq> ''https''
                    then [Invalid (Child path ''endpoint'') (EndpointValue (access_Endpoint c)) ''scheme must be https''] else []) @
                   (if blen (const_CABundle k) = 0 \<and> (const_Insecure k = None \<or> const_Insecure k = Some False)
                    then [Required (Child path ''caBundle'') ''required for non-insecure endpoint''] else []) @
                   credentialErrs))
        else Ret credentialErrs)"

definition ValidateClusterGatewaySpec :: "ClusterGatewaySpec \<Rightarrow> string \<Rightarrow> field_error list res" where
  "ValidateClusterGatewaySpec c path =
     bind_res (ValidateClusterGatewaySpecAccess (spec_Access c) (Child path ''access'')) (\<lambda>accessErrs.
     Ret ((if spec_Provider c = '''' then [Required (Child path ''provider'') ''should set provider''] else []) @ accessErrs))"

definition ValidateClusterGateway :: "ClusterGateway \<Rightarrow> field_error list res" where
  "ValidateClusterGateway c = ValidateClusterGatewaySpec (cg_Spec c) ''spec''"

definition ClusterGateway_Validate :: "ClusterGateway \<Rightarrow> field_error list res" where
  "ClusterGateway_Validate c = ValidateClusterGateway c"

section \<open>Tables\<close>

record TableColumnDefinition =
  col_Name :: string
  col_Type :: string
  col_Format :: string
  col_Description :: string
  col_Priority :: int

datatype cell = StringCell string | BoolCell bool | TimeCell gotime

record 'o TableRow =
  row_Cells :: "cell list"
  row_Object :: 'o

record 'o Table =
  table_ColumnDefinitions :: "TableColumnDefinition list"
  table_Rows :: "'o TableRow list"

definition column :: "string \<Rightarrow> string \<Rightarrow> string \<Rightarrow> string \<Rightarrow> int \<Rightarrow> TableColumnDefinition" where
  "column n t f d p = \<lparr>col_Name = n, col_Type = t, col_Format = f, col_Description = d, col_Priority = p\<rparr>"

definition definitions :: "TableColumnDefinition list" where
  "definitions =
     [column ''Name'' ''string'' ''name'' ''the name of the cluster'' 0,
      column ''Provider'' ''string'' '''' ''the cluster provider type'' 0,
      column ''Credential-Type'' ''string'' '''' ''the credential type'' 0,
      column ''Endpoint-Type'' ''string'' '''' ''the endpoint type'' 0,
      column ''Healthy'' ''string'' '''' ''the healthiness of the gateway'' 0]"

definition printClusterGatewayRow :: "ClusterGateway \<Rightarrow> ClusterGateway TableRow res" where
  "printClusterGatewayRow c =
     (let credType = (case cg_Credential c of None \<Rightarrow> ''<none>'' | Some cred \<Rightarrow> cred_Type cred)
      in bind_res (deref (cg_Endpoint c)) (\<lambda>endpoint.
         Ret \<lparr>row_Cells = [StringCell (cg_Name c), StringCell (spec_Provider (cg_Spec c)), StringCell credType,
                           StringCell (ep_Type endpoint), StringCell (FormatBool (st_Healthy (cg_Status c)))],
              row_Object = c\<rparr>))"

definition printClusterGateway :: "ClusterGateway \<Rightarrow> ClusterGateway Table res" where
  "printClusterGateway c =
     bind_res (printClusterGatewayRow c) (\<lambda>row. Ret \<lparr>table_ColumnDefinitions = definitions, table_Rows = [row]\<rparr>)"

fun print_rows :: "ClusterGateway list \<Rightarrow> ClusterGateway TableRow list \<Rightarrow> ClusterGateway TableRow list res" where
  "print_rows [] rows = Ret rows"
| "print_rows (c # cs) rows = bind_res (printClusterGatewayRow c) (\<lambda>row. print_rows cs (rows @ [row]))"

definition printClusterGatewayList :: "ClusterGatewayList \<Rightarrow> ClusterGateway Table res" where
  "printClusterGatewayList l =
     bind_res (print_rows (cgl_Items l) []) (\<lambda>rows. Ret \<lparr>table_ColumnDefinitions = definitions, table_Rows = rows\<rparr>)"

datatype gateway_object = GatewayObject ClusterGateway | GatewayListObject ClusterGatewayList | OtherObject string

fun ClusterGateway_ConvertToTable :: "gateway_object \<Rightarrow> ClusterGateway Table res" where
  "ClusterGateway_ConvertToTable (GatewayObject c) = printClusterGateway c"
| "ClusterGateway_ConvertToTable (GatewayListObject l) = printClusterGatewayList l"
| "ClusterGateway_ConvertToTable (OtherObject t) = Fail (PlainError (''unknown type '' @ t))"

section \<open>Lemmas\<close>

text \<open>The reference reading of validation: what an accepted gateway looks like.\<close>

definition valid_credential :: "ClusterAccessCredential \<Rightarrow> bool" where
  "valid_credential c \<longleftrightarrow>
     cred_Type c = CredentialTypeServiceAccountToken \<and> cred_ServiceAccountToken c \<noteq> '''' \<and>
       \<not> base64_decodes (cred_ServiceAccountToken c) \<or>
     cred_Type c = CredentialTypeX509Certificate \<and>
       (\<exists>x. cred_X509 c = Some x \<and> bstr (x509_Certificate x) \<noteq> '''' \<and> bstr (x509_PrivateKey x) \<noteq> '''')"

definition valid_const :: "ClusterEndpointConst \<Rightarrow> bool" where
  "valid_const k \<longleftrightarrow> (\<exists>u. url_Parse (const_Address k) = Ret u \<and> url_Scheme u = ''https'') \<and> const_Address k \<noteq> '''' \<and>
     (bstr (const_CABundle k) \<noteq> '''' \<or> const_Insecure k = Some True)"

definition valid_gateway :: "ClusterGateway \<Rightarrow> bool" where
  "valid_gateway c \<longleftrightarrow> spec_Provider (cg_Spec c) \<noteq> '''' \<and>
     (\<exists>e. cg_Endpoint c = Some e \<and>
        (ep_Type e = ClusterEndpointTypeConst \<longrightarrow> (\<exists>k. ep_Const e = Some k \<and> valid_const k))) \<and>
     pred_option valid_credential (cg_Credential c)"

lemma credential_errors:
  "ValidateClusterGatewaySpecAccessCredential c path = [] \<longleftrightarrow> valid_credential c"
  by (auto simp: ValidateClusterGatewaySpecAccessCredential_def valid_credential_def supportedCredTypes_def
        credential_type_defs blen_def split: option.splits)

lemma access_errors:
  "ValidateClusterGatewaySpecAccess a path = Ret [] \<longleftrightarrow>
     (\<exists>e. access_Endpoint a = Some e \<and>
        (ep_Type e = ClusterEndpointTypeConst \<longrightarrow> (\<exists>k. ep_Const e = Some k \<and> valid_const k))) \<and>
     pred_option valid_credential (access_Credential a)"
proof (cases "access_Endpoint a")
  case None
  then show ?thesis by (simp add: ValidateClusterGatewaySpecAccess_def)
next
  case e: (Some e)
  have cred: "(case access_Credential a of None \<Rightarrow> [] | Some cred \<Rightarrow>
      ValidateClusterGatewaySpecAccessCredential cred (Child path ''credential'')) = [] \<longleftrightarrow>
    pred_option valid_credential (access_Credential a)"
    by (cases "access_Credential a") (simp_all add: credential_errors)
  show ?thesis
  proof (cases "ep_Type e = ClusterEndpointTypeConst")
    case False
    then show ?thesis using e cred by (simp add: ValidateClusterGatewaySpecAccess_def Let_def)
  next
    case True
    show ?thesis
    proof (cases "ep_Const e")
      case None
      then show ?thesis using e True by (simp add: ValidateClusterGatewaySpecAccess_def Let_def)
    next
      case (Some k)
      have ins: "const_Insecure k = Some True \<longleftrightarrow> \<not> (const_Insecure k = None \<or> const_Insecure k = Some False)" by auto
      show ?thesis
        using e True Some cred
        by (cases "url_Parse (const_Address k)")
           (simp_all add: ValidateClusterGatewaySpecAccess_def Let_def valid_const_def blen_def ins, blast)
    qed
  qed
qed

lemma print_rows_Ret:
  "\<forall>c\<in>set cs. cg_Endpoint c \<noteq> None \<Longrightarrow>
     \<exists>new. print_rows cs rows = Ret (rows @ new) \<and> map row_Object new = cs \<and>
       (\<forall>row\<in>set new. length (row_Cells row) = length definitions)"
proof (induction cs arbitrary: rows)
  case (Cons c cs)
  obtain e where "cg_Endpoint c = Some e" using Cons.prems by auto
  then obtain row where row: "printClusterGatewayRow c = Ret row" "row_Object row = c" "length (row_Cells row) = length definitions"
    by (simp add: printClusterGatewayRow_def Let_def definitions_def)
  obtain new where "print_rows cs (rows @ [row]) = Ret ((rows @ [row]) @ new)" "map row_Object new = cs"
    "\<forall>row\<in>set new. length (row_Cells row) = length definitions"
    using Cons.IH [of "rows @ [row]"] Cons.prems by auto
  then show ?case using row by (intro exI [of _ "row # new"]) auto
qed simp

section \<open>Properties\<close>

text \<open>
  C21. Validation accepts exactly the gateways with a provider, an endpoint (a \<^verbatim>\<open>Const\<close> one with an https URL and
  either a CA bundle or the insecure flag) and, if a credential is set, a service-account token that is not
  itself base64 text or a complete X.509 pair. In particular a dynamic credential is never accepted.
\<close>

theorem Validate_iff:
  "ClusterGateway_Validate c = Ret [] \<longleftrightarrow> valid_gateway c"
  by (auto simp: ClusterGateway_Validate_def ValidateClusterGateway_def ValidateClusterGatewaySpec_def
        valid_gateway_def access_errors bind_res_Ret_iff)

text \<open>
  What the server hands out never passes its own validation: every gateway converted from a secret lacks a
  provider, and validation reports it without panicking unless the endpoint URL parser does.
\<close>

theorem converted_never_valid:
  assumes "cache_ok (gw_credentials w)" and "ClusterGateway_Get env name w = (Ret gw, w')"
  shows "\<not> valid_gateway gw \<and>
    (\<forall>errs. ClusterGateway_Validate gw = Ret errs \<longrightarrow> Required ''spec.provider'' ''should set provider'' \<in> set errs)"
  using assms(2)
proof (cases rule: Get_Ret_cases)
  case (1 ctrl s x ca addr ins w1)
  then have "spec_Provider (cg_Spec gw) = ''''" using convert_wf [of w1 env ca addr ins s "Ret gw" w'] assms(1)
    by (auto simp: wf_gateway_def)
  then show ?thesis
    by (auto simp: valid_gateway_def ClusterGateway_Validate_def ValidateClusterGateway_def ValidateClusterGatewaySpec_def
          bind_res_Ret_iff Child_def)
qed

theorem converted_never_valid_witness: "\<not> valid_gateway demo_gateway"
proof -
  have "cache_ok (gw_credentials demo_state)" by (simp add: cache_ok_def demo_state_def)
  from converted_never_valid [OF this demo_Get [of "[]"]] show ?thesis by blast
qed

text \<open>
  Printing what a listing returned never fails: the table has one row per gateway, in order, each with
  one cell per column.
\<close>

theorem ConvertToTable_rows:
  assumes "cache_ok (gw_credentials w)" and "ClusterGateway_List env False w = (Ret l, w')"
  shows "\<exists>t. ClusterGateway_ConvertToTable (GatewayListObject l) = Ret t \<and>
    map row_Object (table_Rows t) = cgl_Items l \<and>
    (\<forall>row\<in>set (table_Rows t). length (row_Cells row) = length (table_ColumnDefinitions t))"
proof -
  have "\<forall>c\<in>set (cgl_Items l). cg_Endpoint c \<noteq> None"
    using List_endpoints [OF assms] by auto
  from print_rows_Ret [OF this, of "[]"] show ?thesis by (auto simp: printClusterGatewayList_def)
qed

theorem ConvertToTable_rows_witness:
  "\<exists>t. ClusterGateway_ConvertToTable (GatewayListObject \<lparr>cgl_Items = [demo_gateway]\<rparr>) = Ret t \<and>
    map row_Object (table_Rows t) = [demo_gateway]"
proof -
  have "cache_ok (gw_credentials demo_state)" by (simp add: cache_ok_def demo_state_def)
  from ConvertToTable_rows [OF this demo_List [of "[]"]] show ?thesis by auto
qed

end
