(* ===== verification/Gateway_Health.thy ===== *)
theory Gateway_Health
  imports Gateway_Secret
begin

text \<open>
  The health subresource (\<^verbatim>\<open>pkg/apis/cluster/v1alpha1/clustergateway_health.go\<close>): reading goes through the parent
  resource, updating writes the status into two annotations of the cluster's secret. \<open>parent\<close> is the parent
  storage found in the request context (\<open>None\<close> when there is none), \<open>objInfo\<close> the call that yields the object of the update.
\<close>

definition ClusterGatewayHealth_New :: ClusterGateway where
  "ClusterGatewayHealth_New = ClusterGateway_New"

definition ClusterGatewayHealth_SubResourceName :: string where
  "ClusterGatewayHealth_SubResourceName = ''health''"

definition ClusterGatewayHealth_Get ::
  "(string \<Rightarrow> ('w, ClusterGateway) gom) option \<Rightarrow> string \<Rightarrow> ('w, ClusterGateway) gom" where
  "ClusterGatewayHealth_Get parent name =
     (case parent of
        None \<Rightarrow> fail (PlainError ''no parent storage found'')
      | Some get \<Rightarrow> mapErr (\<lambda>_. PlainError (''no such cluster '' @ name)) (get name))"

definition health_annotations :: "ClusterGatewayStatus \<Rightarrow> Secret \<Rightarrow> Secret" where
  "health_annotations st s =
     s\<lparr>sec_Meta := (sec_Meta s)\<lparr>meta_Annotations := Some
         (AList.update AnnotationKeyClusterGatewayStatusHealthyReason (st_HealthyReason st)
         (AList.update AnnotationKeyClusterGatewayStatusHealthy (FormatBool (st_Healthy st)) (entries (sec_Annotations s))))\<rparr>\<rparr>"

definition ClusterGatewayHealth_Update ::
  "'x gw_env \<Rightarrow> string \<Rightarrow> ('x gwstate, ClusterGateway) gom \<Rightarrow> ('x gwstate, ClusterGateway \<times> bool) gom" where
  "ClusterGatewayHealth_Update env name objInfo =
     (case GetSecretControl (env_singleton env) of
        None \<Rightarrow> fail (PlainError ''loopback clients are not inited'')
      | Some ctrl \<Rightarrow>
          bindM (outside (SecretControl_Get ctrl name)) (\<lambda>latestSecret.
          bindM objInfo (\<lambda>updatingClusterGateway.
          bindM (liftR (deref (GetKubeClient (env_singleton env)))) (\<lambda>kube.
          bindM (outside (secrets_Update kube (env_SecretNamespace env)
                   (health_annotations (cg_Status updatingClusterGateway) latestSecret))) (\<lambda>updated.
          bindM (convertFromSecret env updated) (\<lambda>clusterGateway.
          ret (clusterGateway, False)))))))"

section \<open>Lemmas\<close>

lemma health_annotations_fields [simp]:
  "sec_Name (health_annotations st s) = sec_Name s" "sec_Data (health_annotations st s) = sec_Data s"
  "sec_Labels (health_annotations st s) = sec_Labels s"
  by (simp_all add: health_annotations_def)

lemma health_annotation_keys: "AnnotationKeyClusterGatewayStatusHealthy \<noteq> AnnotationKeyClusterGatewayStatusHealthyReason"
  by (simp add: AnnotationKeyClusterGatewayStatusHealthy_def AnnotationKeyClusterGatewayStatusHealthyReason_def)

lemma health_annotations_read:
  "mget (sec_Annotations (health_annotations st s)) k =
     (if k = AnnotationKeyClusterGatewayStatusHealthyReason then Some (st_HealthyReason st)
      else if k = AnnotationKeyClusterGatewayStatusHealthy then Some (FormatBool (st_Healthy st))
      else mget (sec_Annotations s) k)"
  by (simp add: health_annotations_def mget_def update_conv')






section \<open>Properties\<close>


definition demo_unhealthy :: ClusterGateway where
  "demo_unhealthy = ClusterGateway_New\<lparr>cg_Status := \<lparr>st_Healthy = False, st_HealthyReason = HealthyReasonTypeConnectionTimeout\<rparr>\<rparr>"





text \<open>
  The update always converts from the secret alone. With OCM integration, where the secret needs no
  endpoint, a report is stored and yet answered with an error: the call fails although the secret changed.
\<close>

theorem Health_Update_OCM_error:
  assumes "secret_api kube look" and "look (gw_world w) (env_SecretNamespace env) name = Some s" and "sec_Name s = name"
    and "GetSecretControl (env_singleton env) = Some (directApiSecretControl (env_SecretNamespace env) kube)"
    and "GetKubeClient (env_singleton env) = Some kube"
    and "mget (sec_Data s) ''endpoint'' = None" and "mget (sec_Labels s) LabelKeyClusterEndpointType = None"
  shows "\<exists>w1 s'. ClusterGatewayHealth_Update env name (ret new) w = (Fail (PlainError ''missing label key: api-endpoint''), w1) \<and>
    look (gw_world w1) (env_SecretNamespace env) name = Some s' \<and>
    mget (sec_Annotations s') AnnotationKeyClusterGatewayStatusHealthy = Some (FormatBool (st_Healthy (cg_Status new)))"
proof -
  let ?ns = "env_SecretNamespace env"
  obtain s' x' where u: "secrets_Update kube ?ns (health_annotations (cg_Status new) s) (gw_world w) = (Ret s', x')"
    "stored_as (health_annotations (cg_Status new) s) s'" "look x' ?ns name = Some s'"
    using secret_api_Update [OF assms(1), of "gw_world w" ?ns "health_annotations (cg_Status new) s"] assms(2,3) by auto
  have "convertFromSecret env s' v = (Fail (PlainError ''missing label key: api-endpoint''), v)" for v
    using u(2) assms(6,7)
    by (simp add: convertFromSecret_def getEndpointFromSecret_def Let_def convert_def convert_endpoint_def run_simps
          stored_as_def dget_def TrimSuffix_def HasSuffix_def endpoint_type_defs)
  then have "ClusterGatewayHealth_Update env name (ret new) w =
      (Fail (PlainError ''missing label key: api-endpoint''), w\<lparr>gw_world := x'\<rparr>)"
    using assms(4,5) u(1) secret_api_Get_Some [OF assms(1,2)]
    by (simp add: ClusterGatewayHealth_Update_def run_simps outside_def direct_Get_def)
  then show ?thesis
    using u(2,3) health_annotation_keys by (simp add: stored_as_def health_annotations_read)
qed

definition demo_bare_secret :: Secret where
  "demo_bare_secret = demo_cluster_secret\<lparr>sec_Data := Some [(''token'', Some ''tok'')]\<rparr>"

theorem Health_Update_OCM_error_witness:
  "\<exists>w1. ClusterGatewayHealth_Update (demo_env True []) ''c1'' (ret demo_unhealthy)
      (demo_state\<lparr>gw_world := [((''vela-system'', ''c1''), demo_bare_secret)]\<rparr>) =
    (Fail (PlainError ''missing label key: api-endpoint''), w1)"
proof -
  have "\<exists>w1 s'. ClusterGatewayHealth_Update (demo_env True []) ''c1'' (ret demo_unhealthy)
      (demo_state\<lparr>gw_world := [((''vela-system'', ''c1''), demo_bare_secret)]\<rparr>) =
      (Fail (PlainError ''missing label key: api-endpoint''), w1) \<and>
    tracker_lookup (gw_world w1) (env_SecretNamespace (demo_env True [])) ''c1'' = Some s' \<and>
    mget (sec_Annotations s') AnnotationKeyClusterGatewayStatusHealthy = Some (FormatBool (st_Healthy (cg_Status demo_unhealthy)))"
    by (rule Health_Update_OCM_error [OF tracker_secret_api, where s = demo_bare_secret])
       (simp_all add: tracker_lookup_def demo_env_def demo_singletons_def singleton_defs demo_bare_secret_def
          demo_cluster_secret_def mget_def LabelKeyClusterEndpointType_def LabelKeyClusterCredentialType_def)
  then show ?thesis by blast
qed

end
