(* ===== verification/Gateway_Transport.thy ===== *)
theory Gateway_Transport
  imports Gateway_Secret Identity_Exchange Go_URL
begin

text \<open>
  How the gateway reaches a cluster (\<^verbatim>\<open>pkg/apis/cluster/v1alpha1/transport.go\<close>), with the cluster-proxy and other
  command-line settings it depends on (\<^verbatim>\<open>pkg/config\<close>). The gRPC tunnel and TLS libraries are the
  record \<open>tunnel_env\<close>; \<open>'h\<close> is the type of the opaque handles they return.
\<close>

section \<open>Settings\<close>

record settings =
  ClusterProxyHost :: string
  ClusterProxyPort :: int
  ClusterProxyCAFile :: string
  ClusterProxyCertFile :: string
  ClusterProxyKeyFile :: string
  SecretNamespace :: string
  AuthorizateProxySubpath :: bool
  ClusterGatewayProxyConfigPath :: string
  UserAgent :: string
  VirtualClusterWithControlPlane :: bool
  OCMIntegration :: bool

text \<open>The values before any flag is given, as the flag definitions and variable initialisers set them.\<close>

definition default_settings :: settings where
  "default_settings = \<lparr>ClusterProxyHost = '''', ClusterProxyPort = 8090, ClusterProxyCAFile = '''', ClusterProxyCertFile = '''',
     ClusterProxyKeyFile = '''', SecretNamespace = ''vela-system'', AuthorizateProxySubpath = False,
     ClusterGatewayProxyConfigPath = '''', UserAgent = '''', VirtualClusterWithControlPlane = True, OCMIntegration = False\<rparr>"

definition ValidateClusterProxy :: "settings \<Rightarrow> unit res" where
  "ValidateClusterProxy c =
     (if ClusterProxyHost c = '''' then Ret ()
      else if ClusterProxyPort c = 0 then Fail (PlainError ''--proxy-port must be greater than 0'')
      else if ClusterProxyCAFile c = '''' then Fail (PlainError ''--proxy-ca-cert must be specified'')
      else if ClusterProxyCertFile c = '''' then Fail (PlainError ''--proxy-cert must be specified'')
      else if ClusterProxyKeyFile c = '''' then Fail (PlainError ''--proxy-key must be specified'')
      else Ret ())"

definition ValidateSecret :: "settings \<Rightarrow> unit res" where
  "ValidateSecret c = (if SecretNamespace c = '''' then Fail (PlainError ''must specify --secret-namespace'') else Ret ())"

text \<open>Each flag-registering function as the flags it adds: name, the setting as text and the way a value is stored.\<close>

datatype flag_value = FlagString string | FlagInt int | FlagBool bool

record flag =
  flag_Name :: string
  flag_Default :: flag_value
  flag_Usage :: string

definition string_flag :: "string \<Rightarrow> string \<Rightarrow> string \<Rightarrow> flag" where
  "string_flag n d u = \<lparr>flag_Name = n, flag_Default = FlagString d, flag_Usage = u\<rparr>"

definition AddProxyAuthorizationFlags :: "flag list \<Rightarrow> flag list" where
  "AddProxyAuthorizationFlags fs = fs @ [\<lparr>flag_Name = ''authorize-proxy-subpath'', flag_Default = FlagBool False,
     flag_Usage = ''perform an additional delegated authorization against the hub cluster for the target proxying path when invoking clustergateway/proxy subresource''\<rparr>]"

definition AddClusterProxyFlags :: "flag list \<Rightarrow> flag list" where
  "AddClusterProxyFlags fs = fs @
     [string_flag ''proxy-host'' '''' ''the host of the cluster proxy endpoint'',
      \<lparr>flag_Name = ''proxy-port'', flag_Default = FlagInt 8090, flag_Usage = ''the port of the cluster proxy endpoint''\<rparr>,
      string_flag ''proxy-ca-cert'' '''' ''the path to ca file for connecting cluster proxy'',
      string_flag ''proxy-cert'' '''' ''the path to tls cert for connecting cluster proxy'',
      string_flag ''proxy-key'' '''' ''the path to tls key for connecting cluster proxy'']"

definition AddClusterGatewayProxyConfig :: "flag list \<Rightarrow> flag list" where
  "AddClusterGatewayProxyConfig fs = fs @
     [string_flag ''cluster-gateway-proxy-config'' '''' ''the path for cluster-gateway proxy configuration'']"

definition AddSecretFlags :: "settings \<Rightarrow> flag list \<Rightarrow> flag list" where
  "AddSecretFlags c fs = fs @ [string_flag ''secret-namespace'' (SecretNamespace c) ''the namespace to reading secrets'']"

definition AddUserAgentFlags :: "flag list \<Rightarrow> flag list" where
  "AddUserAgentFlags fs = fs @
     [string_flag ''user-agent'' '''' ''Specifying the UserAgent for communicating with the host cluster.'']"

definition AddVirtualClusterFlags :: "settings \<Rightarrow> flag list \<Rightarrow> flag list" where
  "AddVirtualClusterFlags c fs = fs @
     [\<lparr>flag_Name = ''virtual-clutser-with-control-plane'', flag_Default = FlagBool (VirtualClusterWithControlPlane c),
       flag_Usage = ''if the control plane should be treated as one default virtual clusters''\<rparr>]"

text \<open>\<^verbatim>\<open>WithUserAgent\<close> on the client configuration's user agent.\<close>

definition WithUserAgent :: "settings \<Rightarrow> string \<Rightarrow> string" where
  "WithUserAgent c configured = (if UserAgent c \<noteq> '''' then UserAgent c else configured)"

section \<open>Dialing through the cluster proxy\<close>

record ('x, 'h) tunnel_env =
  GetClientTLSConfig :: "string \<Rightarrow> string \<Rightarrow> string \<Rightarrow> string \<Rightarrow> ('x, 'h) gom"
  CreateSingleUseGrpcTunnel :: "string \<Rightarrow> 'h \<Rightarrow> int \<Rightarrow> ('x, 'h) gom"

definition DialerGetter :: "settings \<Rightarrow> ('x, 'h) tunnel_env \<Rightarrow> ('x, 'h) gom" where
  "DialerGetter c env =
     bindM (GetClientTLSConfig env (ClusterProxyCAFile c) (ClusterProxyCertFile c) (ClusterProxyKeyFile c) (ClusterProxyHost c)) (\<lambda>tlsCfg.
     bindM (CreateSingleUseGrpcTunnel env (JoinHostPort (ClusterProxyHost c) (Itoa (ClusterProxyPort c))) tlsCfg (20 * 1000000000)) (\<lambda>dialerTunnel.
     ret dialerTunnel))"

section \<open>Client configuration\<close>

record 'h RestConfig =
  rc_Host :: string
  rc_Timeout :: int
  rc_Insecure :: bool
  rc_ServerName :: string
  rc_CAData :: gobytes
  rc_CertData :: gobytes
  rc_KeyData :: gobytes
  rc_BearerToken :: string
  rc_Proxy :: "URL option"
  rc_Dial :: "'h option"
  rc_Impersonate :: ImpersonationConfig

definition new_RestConfig :: "'h RestConfig" where
  "new_RestConfig = \<lparr>rc_Host = '''', rc_Timeout = 40 * 1000000000, rc_Insecure = False, rc_ServerName = '''', rc_CAData = None,
     rc_CertData = None, rc_KeyData = None, rc_BearerToken = '''', rc_Proxy = None, rc_Dial = None, rc_Impersonate = no_impersonation\<rparr>"

text \<open>The host name for SNI: the address without its port; only a missing port is forgiven.\<close>

definition server_name :: "string \<Rightarrow> string res" where
  "server_name host =
     (case SplitHostPort host of
        Ret (h, _) \<Rightarrow> Ret h
      | Panic s \<Rightarrow> Panic s
      | Fail e \<Rightarrow> (case e of AddrError why _ \<Rightarrow> if why \<noteq> missingPort then Fail e else Ret host | _ \<Rightarrow> Fail e))"

definition const_config :: "ClusterEndpointConst \<Rightarrow> 'h RestConfig res" where
  "const_config k =
     (let cfg0 = new_RestConfig\<lparr>rc_Host := const_Address k, rc_CAData := const_CABundle k\<rparr>;
          cfg = (if const_Insecure k = Some True
                 then cfg0\<lparr>rc_Insecure := True, rc_ServerName := '''', rc_CAData := None, rc_CertData := None, rc_KeyData := None\<rparr>
                 else cfg0)
      in bind_res (url_Parse (const_Address k)) (\<lambda>u.
         bind_res (server_name (url_Host u)) (\<lambda>host.
         case const_ProxyURL k of
           None \<Rightarrow> Ret (cfg\<lparr>rc_ServerName := host\<rparr>)
         | Some p \<Rightarrow> bind_res (url_Parse p) (\<lambda>purl. Ret (cfg\<lparr>rc_ServerName := host, rc_Proxy := Some purl\<rparr>)))))"

definition set_credentials :: "ClusterAccessCredential \<Rightarrow> 'h RestConfig \<Rightarrow> 'h RestConfig res" where
  "set_credentials c cfg =
     (if cred_Type c = CredentialTypeDynamic then
        (let cfg1 = (if cred_ServiceAccountToken c \<noteq> '''' then cfg\<lparr>rc_BearerToken := cred_ServiceAccountToken c\<rparr> else cfg)
         in case cred_X509 c of
              Some x \<Rightarrow> Ret (if blen (x509_Certificate x) > 0 \<and> blen (x509_PrivateKey x) > 0
                             then cfg1\<lparr>rc_CertData := x509_Certificate x, rc_KeyData := x509_PrivateKey x\<rparr> else cfg1)
            | None \<Rightarrow> Ret cfg1)
      else if cred_Type c = CredentialTypeServiceAccountToken then Ret (cfg\<lparr>rc_BearerToken := cred_ServiceAccountToken c\<rparr>)
      else if cred_Type c = CredentialTypeX509Certificate then
        bind_res (deref (cred_X509 c)) (\<lambda>x.
        Ret (cfg\<lparr>rc_CertData := x509_Certificate x, rc_KeyData := x509_PrivateKey x\<rparr>))
      else Ret cfg)"

definition NewConfigFromCluster :: "('x, 'h) gom \<Rightarrow> ClusterGateway \<Rightarrow> ('x, 'h RestConfig) gom" where
  "NewConfigFromCluster dialer c =
     bindM (liftR (deref (cg_Endpoint c))) (\<lambda>endpoint.
     bindM (if ep_Type endpoint = ClusterEndpointTypeConst then
              liftR (bind_res (deref (ep_Const endpoint)) const_config)
            else if ep_Type endpoint = ClusterEndpointTypeClusterProxy then
              bindM dialer (\<lambda>dial.
              ret (new_RestConfig\<lparr>rc_Host := cg_Name c, rc_Insecure := True, rc_CAData := None, rc_Dial := Some dial\<rparr>))
            else ret new_RestConfig) (\<lambda>cfg.
     bindM (liftR (deref (cg_Credential c))) (\<lambda>credential.
     liftR (set_credentials credential cfg))))"

definition GetEndpointURL :: "ClusterGateway \<Rightarrow> URL res" where
  "GetEndpointURL c =
     bind_res (deref (cg_Endpoint c)) (\<lambda>endpoint.
     if ep_Type endpoint = ClusterEndpointTypeConst then
       bind_res (deref (ep_Const endpoint)) (\<lambda>k.
       case url_Parse (const_Address k) of
         Fail e \<Rightarrow> Fail (WrapError (''failed parsing url from cluster '' @ cg_Name c @ '' invalid value '' @ const_Address k) e)
       | r \<Rightarrow> r)
     else if ep_Type endpoint = ClusterEndpointTypeClusterProxy then
       Ret (empty_URL\<lparr>url_Scheme := ''https'', url_Host := cg_Name c\<rparr>)
     else Fail (PlainError ''unsupported cluster gateway endpoint type''))"

section \<open>Lemmas\<close>

lemma unescape_no_panic [simp]: "url_unescape mode s \<noteq> Panic m"
proof (induction s rule: length_induct)
  case (1 s)
  show ?case
  proof (cases s)
    case (Cons c cs)
    then have ih: "length t \<le> length cs \<Longrightarrow> url_unescape mode t \<noteq> Panic m" for t using 1 by auto
    then show ?thesis
      using Cons ih [of cs] ih [of "drop 2 cs"]
      by (cases cs rule: remdups_adj.cases) (simp_all add: bind_res_Panic_iff)
  qed simp
qed

lemma getScheme_no_panic [simp]: "getScheme_at i raw s \<noteq> Panic m"
  by (induction i raw s rule: getScheme_at.induct) auto

lemma parseHost_no_panic [simp]: "parseHost h \<noteq> Panic m"
proof -
  let ?rest = "case LastIndexByte h CHR '':'' of
      Some i \<Rightarrow> if \<not> validOptionalPort (drop i h) then Fail (PlainError (''invalid port '' @ drop i h @ '' after host''))
        else url_unescape encodeHost h
    | None \<Rightarrow> url_unescape encodeHost h"
  have "?rest \<noteq> Panic m" by (simp split: option.split)
  moreover have "parseHost h = ?rest" if "\<forall>t. h \<noteq> CHR ''['' # t"
    using that unfolding parseHost_def by (simp split: list.split char.split bool.split)
  moreover have "parseHost (CHR ''['' # t) \<noteq> Panic m" for t
    by (simp add: parseHost_def bind_res_Panic_iff split: option.split)
  ultimately show ?thesis by metis
qed

lemma parseAuthority_no_panic [simp]: "parseAuthority a \<noteq> Panic m"
  by (auto simp: parseAuthority_def Let_def bind_res_Panic_iff split: option.splits prod.splits)

lemma parse_rest_no_panic [simp]: "parse_rest v u r \<noteq> Panic m"
  by (auto simp: parse_rest_def setPath_def Let_def bind_res_Panic_iff split: option.splits)

lemma url_parse_no_panic [simp]: "url_parse raw v \<noteq> Panic m"
  by (auto simp: url_parse_def Let_def bind_res_Panic_iff)

lemma url_Parse_no_panic [simp]: "url_Parse raw \<noteq> Panic m"
  by (auto simp: url_Parse_def split: res.splits prod.splits if_splits)

lemma server_name_no_panic [simp]: "server_name h \<noteq> Panic m"
  by (auto simp: server_name_def SplitHostPort_def split: option.splits if_splits)

lemma const_config_no_panic [simp]: "const_config k \<noteq> Panic m"
  by (auto simp: const_config_def Let_def bind_res_Panic_iff split: option.splits)

lemma const_config_tls:
  "const_config k = Ret cfg \<Longrightarrow> const_Insecure k = None \<or> const_Insecure k = Some True \<and> const_CABundle k = None \<Longrightarrow>
     rc_Dial cfg = None \<and> rc_Host cfg = const_Address k \<and> rc_Insecure cfg = (const_Insecure k = Some True) \<and>
     rc_CAData cfg = const_CABundle k \<and> rc_BearerToken cfg = '''' \<and> rc_CertData cfg = None \<and> rc_KeyData cfg = None"
  by (auto simp: const_config_def Let_def bind_res_Ret_iff new_RestConfig_def split: option.splits if_splits)

text \<open>The credential as it ends up in a client configuration.\<close>

definition presents :: "ClusterAccessCredential \<Rightarrow> 'h RestConfig \<Rightarrow> bool" where
  "presents c cfg \<longleftrightarrow> rc_BearerToken cfg = cred_ServiceAccountToken c \<and>
     rc_CertData cfg = (case cred_X509 c of None \<Rightarrow> None | Some x \<Rightarrow> x509_Certificate x) \<and>
     rc_KeyData cfg = (case cred_X509 c of None \<Rightarrow> None | Some x \<Rightarrow> x509_PrivateKey x)"

lemma set_credentials_wf:
  assumes "wf_credential c" and "rc_BearerToken cfg = ''''" "rc_CertData cfg = None" "rc_KeyData cfg = None"
  shows "\<exists>cfg'. set_credentials c cfg = Ret cfg' \<and> presents c cfg' \<and> rc_Host cfg' = rc_Host cfg \<and>
    rc_Insecure cfg' = rc_Insecure cfg \<and> rc_CAData cfg' = rc_CAData cfg \<and> rc_Dial cfg' = rc_Dial cfg"
  using assms unfolding wf_credential_def
  by (auto simp: set_credentials_def presents_def credential_type_defs blen_def split: option.splits)

section \<open>Properties\<close>

text \<open>
  C12. A client configuration is always made from a well-formed gateway without a nil dereference, and its TLS
  settings say what the gateway says: certificate checking is off only for an insecure or tunnelled endpoint, a CA
  bundle is never combined with that, the tunnel's dialer is used exactly for \<^verbatim>\<open>ClusterProxy\<close> endpoints, and the
  configuration presents exactly the gateway's token or key pair.
\<close>

theorem NewConfigFromCluster_tls:
  fixes dialer :: "('x, 'h) gom"
  assumes "wf_gateway s gw" and "cg_Endpoint gw = Some e" and "cg_Credential gw = Some c"
    and "ep_Type e = ClusterEndpointTypeConst \<or> ep_Type e = ClusterEndpointTypeClusterProxy" and "\<forall>m. fst (dialer x) \<noteq> Panic m"
  shows "case fst (NewConfigFromCluster dialer gw x) of
      Panic m \<Rightarrow> False | Fail err \<Rightarrow> True
    | Ret cfg \<Rightarrow> \<not> (rc_Insecure cfg \<and> rc_CAData cfg \<noteq> None) \<and> presents c cfg \<and>
        (rc_Dial cfg \<noteq> None \<longleftrightarrow> ep_Type e = ClusterEndpointTypeClusterProxy) \<and>
        (case ep_Const e of
           Some k \<Rightarrow> rc_Host cfg = const_Address k \<and> rc_Insecure cfg = (const_Insecure k = Some True) \<and> rc_CAData cfg = const_CABundle k
         | None \<Rightarrow> rc_Host cfg = cg_Name gw \<and> rc_Insecure cfg)"
proof -
  have we: "wf_endpoint e" and wc: "wf_credential c" using assms(1-3) by (auto simp: wf_gateway_def)
  have differ: "ClusterEndpointTypeConst \<noteq> ClusterEndpointTypeClusterProxy" by (simp add: endpoint_type_defs)
  show ?thesis
  proof (cases "ep_Const e")
    case None
    then have ty: "ep_Type e = ClusterEndpointTypeClusterProxy" using we by (simp add: wf_endpoint_def)
    obtain r x' where d: "dialer x = (r, x')" by fastforce
    show ?thesis
    proof (cases r)
      case (Ret dial)
      let ?cfg = "new_RestConfig\<lparr>rc_Host := cg_Name gw, rc_Insecure := True, rc_CAData := None, rc_Dial := Some dial\<rparr>"
      obtain cfg' where "set_credentials c ?cfg = Ret cfg'" "presents c cfg'" "rc_Host cfg' = cg_Name gw" "rc_Insecure cfg'"
        "rc_CAData cfg' = None" "rc_Dial cfg' = Some dial"
        using set_credentials_wf [OF wc, of ?cfg] by (auto simp: new_RestConfig_def)
      then show ?thesis using None Ret d ty differ assms(2,3) by (simp add: NewConfigFromCluster_def run_simps)
    qed (use None d ty differ assms in \<open>simp_all add: NewConfigFromCluster_def run_simps\<close>)
  next
    case (Some k)
    then have ty: "ep_Type e = ClusterEndpointTypeConst" using we assms(4) by (auto simp: wf_endpoint_def)
    show ?thesis
    proof (cases "const_config k :: 'h RestConfig res")
      case (Ret cfg)
      have ins: "const_Insecure k = None \<or> const_Insecure k = Some True \<and> const_CABundle k = None"
        using we Some by (simp add: wf_endpoint_def)
      note tls = const_config_tls [OF Ret ins]
      obtain cfg' where "set_credentials c cfg = Ret cfg'" "presents c cfg'" "rc_Host cfg' = rc_Host cfg"
        "rc_Insecure cfg' = rc_Insecure cfg" "rc_CAData cfg' = rc_CAData cfg" "rc_Dial cfg' = rc_Dial cfg"
        using set_credentials_wf [OF wc, of cfg] tls by auto
      then show ?thesis
        using Some Ret ty differ assms(2,3) tls ins by (auto simp: NewConfigFromCluster_def run_simps)
    qed (use Some ty differ assms in \<open>simp_all add: NewConfigFromCluster_def run_simps\<close>)
  qed
qed

lemma demo_gateway_wf: "wf_gateway demo_cluster_secret demo_gateway"
  using from_secret.conv_wf [OF _ demo_convert [of False "[]" demo_state]] by (simp add: cache_ok_def demo_state_def)

lemma demo_url: "url_Parse ''https://c1:6443'' = Ret (empty_URL\<lparr>url_Scheme := ''https'', url_Host := ''c1:6443''\<rparr>)"
  by code_simp

lemma demo_server_name: "server_name ''c1:6443'' = Ret ''c1''"
  by code_simp

theorem NewConfigFromCluster_tls_witness:
  "\<exists>cfg. fst (NewConfigFromCluster (ret ''dial'') demo_gateway ()) = Ret cfg \<and> rc_Insecure cfg \<and> rc_BearerToken cfg = ''tok''"
proof -
  let ?r = "NewConfigFromCluster (ret ''dial'') demo_gateway ()"
  obtain e k c where g: "cg_Endpoint demo_gateway = Some e" "cg_Credential demo_gateway = Some c" "ep_Const e = Some k"
    "ep_Type e = ClusterEndpointTypeConst" "const_Insecure k = Some True" "cred_ServiceAccountToken c = ''tok''"
    by (simp add: demo_gateway_def)
  have "\<exists>cfg. fst ?r = Ret cfg"
    by (simp add: demo_gateway_def NewConfigFromCluster_def run_simps const_config_def demo_url demo_server_name
          set_credentials_def credential_type_defs endpoint_type_defs)
  moreover note NewConfigFromCluster_tls [OF demo_gateway_wf g(1,2), of "ret ''dial''" "()"]
  ultimately show ?thesis using g by (auto simp: presents_def run_simps)
qed

text \<open>
  An endpoint type other than the two known ones is accepted when a secret is converted (the branch the code
  keeps for backward compatibility) but the gateway it yields cannot be reached: there is no
  endpoint URL for it.
\<close>

theorem unknown_endpoint_type_unreachable:
  assumes "mget (sec_Labels s) LabelKeyClusterEndpointType = Some t"
    and "t \<noteq> ClusterEndpointTypeConst" and "t \<noteq> ClusterEndpointTypeClusterProxy"
    and "convertFromSecret env s w = (Ret gw, w')"
  shows "GetEndpointURL gw = Fail (PlainError ''unsupported cluster gateway endpoint type'')"
proof -
  obtain ca addr ins where "convert env ca addr ins s w = (Ret gw, w')"
    using assms(4) by (auto simp: convertFromSecret_def getEndpointFromSecret_def Let_def)
  then obtain e where "convert_endpoint ca addr ins s = Ret e" "cg_Endpoint gw = Some e"
    by (auto simp: convert_Ret_iff)
  moreover from this(1) have "ep_Type e = t"
    using assms(1,3) by (auto simp: convert_endpoint_def Let_def split: if_splits)
  ultimately show ?thesis using assms(2,3) by (simp add: GetEndpointURL_def)
qed

definition demo_odd_secret :: Secret where
  "demo_odd_secret = demo_cluster_secret\<lparr>sec_Meta := (sec_Meta demo_cluster_secret)\<lparr>meta_Labels :=
     Some [(LabelKeyClusterCredentialType, CredentialTypeServiceAccountToken), (LabelKeyClusterEndpointType, ''Legacy'')]\<rparr>\<rparr>"

theorem unknown_endpoint_type_unreachable_witness:
  "\<exists>gw. convertFromSecret (demo_env False []) demo_odd_secret demo_state = (Ret gw, demo_state) \<and>
     GetEndpointURL gw = Fail (PlainError ''unsupported cluster gateway endpoint type'')"
proof -
  obtain gw where conv: "convertFromSecret (demo_env False []) demo_odd_secret demo_state = (Ret gw, demo_state)"
    by (simp add: convertFromSecret_def getEndpointFromSecret_def convert_def convert_endpoint_def convert_credential_def
        convert_status_def convert_proxyConfig_def run_simps demo_env_defs demo_odd_secret_def mget_def dget_def blen_def TrimSuffix_def
        HasSuffix_def name_defs credential_type_defs endpoint_type_defs empty_ObjectMeta_def AnnotationKeyClusterGatewayStatusHealthy_def)
  moreover have "mget (sec_Labels demo_odd_secret) LabelKeyClusterEndpointType = Some ''Legacy''"
    by (simp add: demo_odd_secret_def mget_def LabelKeyClusterCredentialType_def LabelKeyClusterEndpointType_def)
  ultimately show ?thesis
    using unknown_endpoint_type_unreachable [of demo_odd_secret "''Legacy''", OF _ _ _ conv] by (simp add: endpoint_type_defs)
qed

text \<open>
  Start-up validation of the cluster proxy settings accepts exactly: no proxy host, or a host with all three
  files given and any port but zero, so that a negative port passes although the message asks for one above zero.
\<close>

theorem ValidateClusterProxy_iff:
  "ValidateClusterProxy c = Ret () \<longleftrightarrow>
     ClusterProxyHost c = '''' \<or>
     ClusterProxyPort c \<noteq> 0 \<and> ClusterProxyCAFile c \<noteq> '''' \<and> ClusterProxyCertFile c \<noteq> '''' \<and> ClusterProxyKeyFile c \<noteq> ''''"
  by (simp add: ValidateClusterProxy_def)

end
