(* ===== verification/Proxy_Metrics.thy ===== *)
theory Proxy_Metrics
  imports Gateway_Types Go_Strings
begin

text \<open>
  The metrics of proxied requests (\<^verbatim>\<open>pkg/metrics\<close>): each vector is a map from label values to its samples (a
  counter's count, a histogram's observations). The names and labels of the vectors and the list that is
  registered once are kept as data.
\<close>

definition metrics_namespace :: string where "metrics_namespace = ''ocm''"
definition metrics_subsystem :: string where "metrics_subsystem = ''proxy''"

record vector_opts =
  vec_Name :: string
  vec_Help :: string
  vec_Buckets :: "int list"
  vec_Labels :: "string list"

text \<open>Bucket bounds in milliseconds.\<close>

definition requestDurationSecondsBuckets :: "int list" where
  "requestDurationSecondsBuckets = [0, 5, 20, 50, 100, 200, 500, 1000, 2000, 5000, 10000, 30000]"

definition ocmProxiedRequestsByResourceTotal :: vector_opts where
  "ocmProxiedRequestsByResourceTotal = \<lparr>vec_Name = ''proxied_resource_requests_by_resource_total'',
     vec_Help = ''Number of requests proxied requests'', vec_Buckets = [], vec_Labels = [''resource'', ''verb'', ''code'']\<rparr>"

definition ocmProxiedRequestsByClusterTotal :: vector_opts where
  "ocmProxiedRequestsByClusterTotal = \<lparr>vec_Name = ''proxied_requests_by_cluster_total'',
     vec_Help = ''Number of requests proxied requests'', vec_Buckets = [], vec_Labels = [''cluster'', ''code'']\<rparr>"

definition ocmProxiedRequestsDurationHistogram :: vector_opts where
  "ocmProxiedRequestsDurationHistogram = \<lparr>vec_Name = ''proxied_request_duration_seconds'',
     vec_Help = ''Cluster proxy request time cost'', vec_Buckets = requestDurationSecondsBuckets,
     vec_Labels = [''resource'', ''verb'', ''cluster'', ''code'']\<rparr>"

definition ocmProxiedClusterEscalationRequestDurationHistogram :: vector_opts where
  "ocmProxiedClusterEscalationRequestDurationHistogram = \<lparr>vec_Name = ''cluster_escalation_access_review_duration_seconds'',
     vec_Help = ''Cluster escalation access review time cost'', vec_Buckets = requestDurationSecondsBuckets, vec_Labels = [''success'']\<rparr>"

definition metrics_vectors :: "vector_opts list" where
  "metrics_vectors = [ocmProxiedRequestsByResourceTotal, ocmProxiedRequestsByClusterTotal,
     ocmProxiedRequestsDurationHistogram, ocmProxiedClusterEscalationRequestDurationHistogram]"

record proxy_metrics =
  m_byResource :: "(string list \<times> nat) list"
  m_byCluster :: "(string list \<times> nat) list"
  m_duration :: "(string list \<times> int list) list"
  m_registered :: "vector_opts list"
  m_once :: bool

definition no_metrics :: proxy_metrics where
  "no_metrics = \<lparr>m_byResource = [], m_byCluster = [], m_duration = [], m_registered = [], m_once = False\<rparr>"

definition count_of :: "(string list \<times> nat) list \<Rightarrow> string list \<Rightarrow> nat" where
  "count_of v ls = (case map_of v ls of None \<Rightarrow> 0 | Some n \<Rightarrow> n)"

definition vector_Inc :: "string list \<Rightarrow> (string list \<times> nat) list \<Rightarrow> (string list \<times> nat) list" where
  "vector_Inc ls v = AList.update ls (Suc (count_of v ls)) v"

definition RecordProxiedRequestsByResource :: "string \<Rightarrow> string \<Rightarrow> int \<Rightarrow> proxy_metrics \<Rightarrow> proxy_metrics" where
  "RecordProxiedRequestsByResource resource verb code m =
     m\<lparr>m_byResource := vector_Inc [resource, verb, Itoa code] (m_byResource m)\<rparr>"

definition RecordProxiedRequestsByCluster :: "string \<Rightarrow> int \<Rightarrow> proxy_metrics \<Rightarrow> proxy_metrics" where
  "RecordProxiedRequestsByCluster cluster code m =
     m\<lparr>m_byCluster := vector_Inc [cluster, Itoa code] (m_byCluster m)\<rparr>"

definition RecordProxiedRequestsDuration :: "string \<Rightarrow> string \<Rightarrow> string \<Rightarrow> int \<Rightarrow> int \<Rightarrow> proxy_metrics \<Rightarrow> proxy_metrics" where
  "RecordProxiedRequestsDuration resource verb cluster code ts m =
     (let ls = [resource, verb, cluster, Itoa code]
      in m\<lparr>m_duration := AList.update ls ((case map_of (m_duration m) ls of None \<Rightarrow> [] | Some os \<Rightarrow> os) @ [ts]) (m_duration m)\<rparr>)"

text \<open>\<^verbatim>\<open>Register\<close> runs its body once per process.\<close>

definition Register :: "proxy_metrics \<Rightarrow> proxy_metrics" where
  "Register m = (if m_once m then m else m\<lparr>m_once := True, m_registered := m_registered m @ metrics_vectors\<rparr>)"

lemma count_of_Inc: "count_of (vector_Inc ls v) ls' = (if ls' = ls then Suc (count_of v ls) else count_of v ls')"
  by (simp add: count_of_def vector_Inc_def update_conv')

lemma Register_idempotent: "Register (Register m) = Register m"
  by (simp add: Register_def)

end
