(* ===== verification/Go_Regexp.thy ===== *)
theory Go_Regexp
  imports Go_Strings
begin

text \<open>
  What the program uses of Go's \<^verbatim>\<open>regexp\<close> for its one fixed pattern (the path pattern of the request
  escaper): regular expressions over bytes, their languages, an executable matcher by derivatives, and
  the unanchored search \<^verbatim>\<open>MatchString\<close>. \<open>Byte\<close> is a byte range; \<open>dot\<close> spells out what \<^verbatim>\<open>.\<close> accepts on UTF-8
  text: one byte other than a newline, or one multi-byte character. The patterns a user writes into
  identity-exchange rules are not parsed: there the engine is an argument of the model.
\<close>

datatype re = Zero | One | Byte nat nat | Alt re re | Seq re re | Star re

section \<open>Languages\<close>

definition conc :: "string set \<Rightarrow> string set \<Rightarrow> string set" where
  "conc A B = {u @ v | u v. u \<in> A \<and> v \<in> B}"

inductive_set star :: "string set \<Rightarrow> string set" for A where
  star_Nil: "[] \<in> star A"
| star_app: "u \<in> A \<Longrightarrow> v \<in> star A \<Longrightarrow> u @ v \<in> star A"

fun lang :: "re \<Rightarrow> string set" where
  "lang Zero = {}"
| "lang One = {[]}"
| "lang (Byte lo hi) = {[c] | c. lo \<le> of_char c \<and> of_char c \<le> hi}"
| "lang (Alt r s) = lang r \<union> lang s"
| "lang (Seq r s) = conc (lang r) (lang s)"
| "lang (Star r) = star (lang r)"

section \<open>Matching by derivatives\<close>

fun nullable :: "re \<Rightarrow> bool" where
  "nullable Zero = False"
| "nullable One = True"
| "nullable (Byte lo hi) = False"
| "nullable (Alt r s) = (nullable r \<or> nullable s)"
| "nullable (Seq r s) = (nullable r \<and> nullable s)"
| "nullable (Star r) = True"

text \<open>Alternation and sequence that drop dead branches, so that derivatives stay small.\<close>

definition alt :: "re \<Rightarrow> re \<Rightarrow> re" where
  "alt r s = (if r = Zero then s else if s = Zero then r else if r = s then r else Alt r s)"

definition seq :: "re \<Rightarrow> re \<Rightarrow> re" where
  "seq r s = (if r = Zero then Zero else if r = One then s else Seq r s)"

fun deriv :: "char \<Rightarrow> re \<Rightarrow> re" where
  "deriv c Zero = Zero"
| "deriv c One = Zero"
| "deriv c (Byte lo hi) = (if lo \<le> of_char c \<and> of_char c \<le> hi then One else Zero)"
| "deriv c (Alt r s) = alt (deriv c r) (deriv c s)"
| "deriv c (Seq r s) = (if nullable r then alt (seq (deriv c r) s) (deriv c s) else seq (deriv c r) s)"
| "deriv c (Star r) = seq (deriv c r) (Star r)"

fun re_matches :: "re \<Rightarrow> string \<Rightarrow> bool" where
  "re_matches r [] = nullable r"
| "re_matches r (c # cs) = re_matches (deriv c r) cs"

definition any_bytes :: re where
  "any_bytes = Star (Byte 0 255)"

text \<open>\<^verbatim>\<open>Regexp.MatchString\<close>: the text contains a match.\<close>

definition MatchString :: "re \<Rightarrow> string \<Rightarrow> bool" where
  "MatchString r s = re_matches (Seq any_bytes (Seq r any_bytes)) s"

fun lit :: "string \<Rightarrow> re" where
  "lit [] = One"
| "lit (c # cs) = Seq (Byte (of_char c) (of_char c)) (lit cs)"

definition cont_byte :: re where "cont_byte = Byte 0x80 0xBF"

definition dot :: re where
  "dot = Alt (Byte 0 9) (Alt (Byte 11 255)
     (Alt (Seq (Byte 0xC2 0xDF) cont_byte)
     (Alt (Seq (Byte 0xE0 0xE0) (Seq (Byte 0xA0 0xBF) cont_byte))
     (Alt (Seq (Byte 0xE1 0xEC) (Seq cont_byte cont_byte))
     (Alt (Seq (Byte 0xED 0xED) (Seq (Byte 0x80 0x9F) cont_byte))
     (Alt (Seq (Byte 0xEE 0xEF) (Seq cont_byte cont_byte))
     (Alt (Seq (Byte 0xF0 0xF0) (Seq (Byte 0x90 0xBF) (Seq cont_byte cont_byte)))
     (Alt (Seq (Byte 0xF1 0xF3) (Seq cont_byte (Seq cont_byte cont_byte)))
          (Seq (Byte 0xF4 0xF4) (Seq (Byte 0x80 0x8F) (Seq cont_byte cont_byte)))))))))))"

text \<open>A string spliced into a pattern unquoted: its \<^verbatim>\<open>.\<close> bytes become wildcards.\<close>

fun unquoted :: "string \<Rightarrow> re" where
  "unquoted [] = One"
| "unquoted (c # cs) = Seq (if c = CHR ''.'' then dot else Byte (of_char c) (of_char c)) (unquoted cs)"

section \<open>Correctness of the matcher\<close>

lemma conc_Nil [simp]: "conc {[]} A = A" "conc {} A = {}"
  by (auto simp: conc_def)

lemma lang_alt [simp]: "lang (alt r s) = lang r \<union> lang s"
  by (auto simp: alt_def)

lemma lang_seq [simp]: "lang (seq r s) = conc (lang r) (lang s)"
  by (auto simp: seq_def)

lemma nullable_iff: "nullable r \<longleftrightarrow> [] \<in> lang r"
  by (induction r) (auto simp: conc_def intro: star_Nil)

lemma star_Cons: "c # s \<in> star A \<longleftrightarrow> (\<exists>u v. s = u @ v \<and> c # u \<in> A \<and> v \<in> star A)"
proof
  assume "c # s \<in> star A"
  then show "\<exists>u v. s = u @ v \<and> c # u \<in> A \<and> v \<in> star A"
  proof (induction "c # s" rule: star.induct)
    case (star_app u v)
    then show ?case by (cases u) auto
  qed
next
  assume "\<exists>u v. s = u @ v \<and> c # u \<in> A \<and> v \<in> star A"
  then show "c # s \<in> star A" by (metis append_Cons star_app)
qed

lemma lang_deriv: "s \<in> lang (deriv c r) \<longleftrightarrow> c # s \<in> lang r"
proof (induction r arbitrary: s)
  case (Seq r1 r2)
  have "c # s \<in> conc (lang r1) (lang r2) \<longleftrightarrow>
      (\<exists>u v. s = u @ v \<and> c # u \<in> lang r1 \<and> v \<in> lang r2) \<or> ([] \<in> lang r1 \<and> c # s \<in> lang r2)"
    by (auto simp: conc_def Cons_eq_append_conv)
  with Seq show ?case by (auto simp: conc_def nullable_iff)
next
  case (Star r)
  then show ?case by (simp add: star_Cons) (auto simp: conc_def)
qed auto

theorem re_matches_lang: "re_matches r s \<longleftrightarrow> s \<in> lang r"
  by (induction s arbitrary: r) (auto simp: nullable_iff lang_deriv)

lemma any_bytes_all: "lang any_bytes = UNIV"
proof -
  have "s \<in> lang any_bytes" for s
  proof (induction s)
    case Nil
    then show ?case by (simp add: any_bytes_def star_Nil)
  next
    case (Cons c s)
    have "(of_char c :: nat) < 256" by (rule nat_of_char_less_256)
    then have "[c] \<in> lang (Byte 0 255)" by (simp add: less_Suc_eq_le [symmetric])
    then have "[c] @ s \<in> star (lang (Byte 0 255))"
      by (rule star_app) (use Cons in \<open>simp add: any_bytes_def\<close>)
    then show ?case by (simp only: any_bytes_def lang.simps append_Cons append_Nil)
  qed
  then show ?thesis by blast
qed

text \<open>The search finds exactly the texts that contain a word of the pattern's language.\<close>

theorem MatchString_iff: "MatchString r s \<longleftrightarrow> (\<exists>a b c. s = a @ b @ c \<and> b \<in> lang r)"
proof -
  have "MatchString r s \<longleftrightarrow> s \<in> conc UNIV (conc (lang r) UNIV)"
    by (simp only: MatchString_def re_matches_lang lang.simps any_bytes_all)
  then show ?thesis by (simp add: conc_def) blast
qed

lemma lang_Byte_single [simp]: "lang (Byte (of_char c) (of_char c)) = {[c]}"
proof -
  have "of_char c \<le> (of_char d :: nat) \<and> of_char d \<le> (of_char c :: nat) \<longleftrightarrow> d = c" for d
    by (metis antisym of_char_eq_iff order_refl)
  then show ?thesis by simp
qed

lemma conc_singleton: "conc {u} {v} = {u @ v}"
  by (auto simp: conc_def)

lemma lang_lit [simp]: "lang (lit s) = {s}"
  by (induction s) (simp_all del: lang.simps(3) add: conc_singleton)

lemma concI: "u \<in> A \<Longrightarrow> v \<in> B \<Longrightarrow> u @ v \<in> conc A B"
  by (auto simp: conc_def)

lemma dot_self: "c \<noteq> CHR 0x0A \<Longrightarrow> [c] \<in> lang dot"
proof -
  assume c: "c \<noteq> CHR 0x0A"
  have "of_char c \<noteq> (of_char CHR 0x0A :: nat)" using c by (simp only: of_char_eq_iff) simp
  then have "of_char c \<noteq> (10::nat)" by simp
  moreover have "(of_char c :: nat) < 256" by (rule nat_of_char_less_256)
  ultimately have "[c] \<in> lang (Byte 0 9) \<or> [c] \<in> lang (Byte 11 255)" by (simp, arith)
  then show ?thesis unfolding dot_def lang.simps(4) by blast
qed

lemma unquoted_self: "CHR 0x0A \<notin> set s \<Longrightarrow> s \<in> lang (unquoted s)"
proof (induction s)
  case Nil
  then show ?case by simp
next
  case (Cons c s)
  have "[c] \<in> lang (if c = CHR ''.'' then dot else Byte (of_char c) (of_char c))"
    using dot_self [of "CHR ''.''"] by (simp del: lang.simps(3))
  moreover have "s \<in> lang (unquoted s)" using Cons by simp
  ultimately have "[c] @ s \<in> lang (unquoted (c # s))"
    unfolding unquoted.simps lang.simps(5) by (rule concI)
  then show ?case by simp
qed

end
