(* ===== verification/Gateway_Proxy.thy ===== *)
theory Gateway_Proxy
  imports Gateway_Transport Proxy_Metrics Go_Regexp
begin

text \<open>
  The proxy subresource (\<^verbatim>\<open>pkg/apis/cluster/v1alpha1/clustergateway_proxy.go\<close>): connecting (lookup of the gateway and
  authorization of the target path), serving (rewriting the request and forwarding it with the
  cluster's credentials and the exchanged identity), and the query escaper in front of the server. The
  request context is part of the request (\<open>req_User\<close>, \<open>req_Info\<close>). The apiserver's libraries are parameters:
  the request-info factory and the authorizer (\<open>connect_env\<close>), the transport constructors and the
  upgrade-aware handler (\<open>proxy_env\<close>). The handler's result is the response codes it wrote and how it ended.
\<close>

section \<open>Requests\<close>

record RequestInfo =
  ri_IsResourceRequest :: bool
  ri_Path :: string
  ri_Verb :: string
  ri_APIGroup :: string
  ri_APIVersion :: string
  ri_Resource :: string
  ri_Subresource :: string
  ri_Namespace :: string
  ri_Name :: string

record http_request =
  req_Method :: string
  req_URL :: URL
  req_Host :: string
  req_RequestURI :: string
  req_Header :: "(string \<times> string list) list"
  req_User :: "UserInfo option"
  req_Info :: "RequestInfo option"

record ClusterGatewayProxyOptions =
  opts_Path :: string
  opts_Impersonate :: bool

definition proxyMethods :: "string list" where
  "proxyMethods = [''GET'', ''POST'', ''PUT'', ''PATCH'', ''DELETE'', ''HEAD'', ''OPTIONS'']"

definition ClusterGatewayProxy_SubResourceName :: string where "ClusterGatewayProxy_SubResourceName = ''proxy''"

definition ClusterGatewayProxy_New :: ClusterGatewayProxyOptions where
  "ClusterGatewayProxy_New = \<lparr>opts_Path = '''', opts_Impersonate = False\<rparr>"

definition NewConnectOptions :: "ClusterGatewayProxyOptions \<times> bool \<times> string" where
  "NewConnectOptions = (ClusterGatewayProxy_New, True, ''path'')"

definition ConnectMethods :: "string list" where
  "ConnectMethods = proxyMethods"

definition ConvertFromUrlValues :: "url_Values \<Rightarrow> ClusterGatewayProxyOptions" where
  "ConvertFromUrlValues values =
     \<lparr>opts_Path = Values_Get values ''path'', opts_Impersonate = (Values_Get values ''impersonate'' = ''true'')\<rparr>"

section \<open>Connecting\<close>

datatype decision = DecisionDeny | DecisionAllow | DecisionNoOpinion

record AttributesRecord =
  at_User :: "UserInfo option"
  at_Verb :: string
  at_Namespace :: string
  at_APIGroup :: string
  at_APIVersion :: string
  at_Resource :: string
  at_Subresource :: string
  at_Name :: string
  at_Path :: string

record 'w connect_env =
  Clock :: "'w \<Rightarrow> gotime \<times> 'w"
  ParentStorage :: "(string \<Rightarrow> ('w, ClusterGateway) gom) option"
  NewRequestInfo :: "string \<Rightarrow> string \<Rightarrow> RequestInfo"
  Authorize :: "AttributesRecord \<Rightarrow> 'w \<Rightarrow> (decision \<times> string \<times> goerror option) \<times> 'w"
  authorize_subpath :: bool

record proxyHandler =
  ph_parentName :: string
  ph_path :: string
  ph_impersonate :: bool
  ph_clusterGateway :: ClusterGateway
  ph_start :: gotime
  ph_reqInfo :: RequestInfo

definition proxy_attributes :: "UserInfo option \<Rightarrow> RequestInfo \<Rightarrow> AttributesRecord res" where
  "proxy_attributes user info =
     (if ri_IsResourceRequest info then
        Ret \<lparr>at_User = user, at_Verb = ri_Verb info, at_Namespace = ri_Namespace info, at_APIGroup = ri_APIGroup info,
             at_APIVersion = ri_APIVersion info, at_Resource = ri_Resource info, at_Subresource = ri_Subresource info,
             at_Name = ri_Name info, at_Path = ''''\<rparr>
      else
        bind_res (case ParseRequestURI (ri_Path info) of Ret u \<Rightarrow> Ret (Some u) | Fail _ \<Rightarrow> Ret None | Panic s \<Rightarrow> Panic s) (\<lambda>path.
        bind_res (deref path) (\<lambda>u.
        Ret \<lparr>at_User = user, at_Verb = ri_Verb info, at_Namespace = '''', at_APIGroup = '''', at_APIVersion = '''',
             at_Resource = '''', at_Subresource = '''', at_Name = '''', at_Path = url_Path u\<rparr>)))"

definition authorize_request :: "'w connect_env \<Rightarrow> UserInfo option \<Rightarrow> RequestInfo \<Rightarrow> ('w, unit) gom" where
  "authorize_request env user info =
     (if \<not> authorize_subpath env then ret ()
      else
        bindM (liftR (proxy_attributes user info)) (\<lambda>attr w.
        case Authorize env attr w of ((decision, reason, err), w') \<Rightarrow>
          (case err of
             Some e \<Rightarrow> (Fail (WrapError (''authorization failed due to '' @ reason) e), w')
           | None \<Rightarrow>
               if decision \<noteq> DecisionAllow then
                 (bind_res (deref user) (\<lambda>u.
                    Fail (PlainError (''proxying by user '' @ user_Name u @ '' is forbidden authorization failed''))), w')
               else (Ret (), w'))))"

definition Connect ::
  "'w connect_env \<Rightarrow> http_request \<Rightarrow> string \<Rightarrow> ClusterGatewayProxyOptions option \<Rightarrow> ('w, proxyHandler) gom" where
  "Connect env req name options = (\<lambda>w0. case Clock env w0 of (ts, w1) \<Rightarrow>
     (case options of
        None \<Rightarrow> (Fail (PlainError ''invalid options object''), w1)
      | Some proxyOpts \<Rightarrow>
          (case ParentStorage env of
             None \<Rightarrow> (Fail (PlainError ''no parent storage found''), w1)
           | Some get \<Rightarrow>
               bindM (mapErr (\<lambda>_. PlainError (''no such cluster '' @ name)) (get name)) (\<lambda>clusterGateway.
               bindM (liftR (deref (req_Info req))) (\<lambda>reqInfo.
               let proxyReqInfo = (NewRequestInfo env (opts_Path proxyOpts) (ToUpper (ri_Verb reqInfo)))\<lparr>ri_Verb := ri_Verb reqInfo\<rparr>
               in bindM (authorize_request env (req_User req) proxyReqInfo) (\<lambda>_.
                  ret \<lparr>ph_parentName = name, ph_path = opts_Path proxyOpts, ph_impersonate = opts_Impersonate proxyOpts,
                       ph_clusterGateway = clusterGateway, ph_start = ts, ph_reqInfo = proxyReqInfo\<rparr>))) w1)))"

section \<open>Identity of the proxied request\<close>

definition getImpersonationConfig ::
  "regexp_engine \<Rightarrow> ClusterGatewayProxyConfiguration \<Rightarrow> proxyHandler \<Rightarrow> UserInfo option \<Rightarrow> ImpersonationConfig res" where
  "getImpersonationConfig engine global p user =
     bind_res (case spec_ProxyConfig (cg_Spec (ph_clusterGateway p)) of
                 None \<Rightarrow> Ret (False, '''', None, None)
               | Some pc \<Rightarrow> ExchangeIdentity engine (pc_Exchanger pc) user (ph_parentName p)) (\<lambda>(matched, ruleName, projected, err).
     if matched then deref projected
     else
       bind_res (ExchangeIdentity engine (pc_Exchanger global) user (ph_parentName p)) (\<lambda>(matched, ruleName, projected, err).
       if matched then deref projected
       else
         bind_res (deref user) (\<lambda>u.
         Ret \<lparr>imp_UserName = user_Name u, imp_UID = '''', imp_Groups = user_Groups u, imp_Extra = user_Extra u\<rparr>)))"

text \<open>\<^verbatim>\<open>LoadGlobalClusterGatewayProxyConfig\<close>: reads the file named by the setting, when one is named.\<close>

definition LoadGlobalClusterGatewayProxyConfig ::
  "(string \<Rightarrow> ('x, string) gom) \<Rightarrow> (string \<Rightarrow> ClusterGatewayProxyConfiguration res) \<Rightarrow> settings \<Rightarrow>
   ClusterGatewayProxyConfiguration \<Rightarrow> ('x, ClusterGatewayProxyConfiguration) gom" where
  "LoadGlobalClusterGatewayProxyConfig readFile yaml c global =
     (if ClusterGatewayProxyConfigPath c = '''' then ret global
      else bindM (readFile (ClusterGatewayProxyConfigPath c)) (\<lambda>bs. liftR (yaml bs)))"

section \<open>The query escaper\<close>

definition clusterGatewayProxyQueryKeysToEscape :: "string list" where
  "clusterGatewayProxyQueryKeysToEscape = [''dryRun'']"

definition clusterGatewayProxyEscaperPrefix :: string where
  "clusterGatewayProxyEscaperPrefix = ''__''"

definition label_edge :: re where "label_edge = Alt (Byte 97 122) (Byte 48 57)"
definition label_inner :: re where "label_inner = Alt (Byte 45 45) label_edge"

definition cluster_label :: re where
  "cluster_label = Seq label_edge (Alt One (Seq (Star label_inner) label_edge))"

definition clusterGatewayProxyPathPattern :: re where
  "clusterGatewayProxyPathPattern =
     Seq (unquoted (strings_Join [''/apis'', MetaApiGroupName, MetaApiVersionName, ''clustergateways''] ''/'' @ ''/''))
       (Seq cluster_label (unquoted ''/proxy''))"

fun escape_keys :: "string list \<Rightarrow> url_Values \<Rightarrow> url_Values" where
  "escape_keys [] q = q"
| "escape_keys (k # ks) q =
     escape_keys ks (if Values_Has q k
       then Values_Del k (Values_Set (clusterGatewayProxyEscaperPrefix @ k) (Values_Get q k) q) else q)"

definition clusterGatewayProxyRequestEscaper_ServeHTTP :: "(http_request \<Rightarrow> 'a) \<Rightarrow> http_request \<Rightarrow> 'a" where
  "clusterGatewayProxyRequestEscaper_ServeHTTP delegate req =
     (if MatchString clusterGatewayProxyPathPattern (url_Path (req_URL req)) then
        (let q = escape_keys clusterGatewayProxyQueryKeysToEscape (URL_Query (req_URL req))
         in delegate (req\<lparr>req_URL := (req_URL req)\<lparr>url_RawQuery := Values_Encode q\<rparr>\<rparr>))
      else delegate req)"

definition unescape_key :: "string \<Rightarrow> string" where
  "unescape_key k =
     (if HasPrefix k clusterGatewayProxyEscaperPrefix \<and>
         TrimPrefix k clusterGatewayProxyEscaperPrefix \<in> set clusterGatewayProxyQueryKeysToEscape
      then TrimPrefix k clusterGatewayProxyEscaperPrefix else k)"

definition unescapeQueryValues :: "url_Values \<Rightarrow> url_Values" where
  "unescapeQueryValues values = foldl (\<lambda>unescaped (k, vs). AList.update (unescape_key k) vs unescaped) [] values"

section \<open>Serving\<close>

definition apiPrefix :: string where
  "apiPrefix = ''/apis/'' @ MetaApiGroupName @ ''/'' @ MetaApiVersionName @ ''/clustergateways/''"

definition apiSuffix :: string where "apiSuffix = ''/proxy''"






definition proxied_request :: "proxyHandler \<Rightarrow> URL \<Rightarrow> http_request \<Rightarrow> http_request" where
  "proxied_request p urlAddr request =
     (let host = (case SplitHostPort (url_Host urlAddr) of Ret (h, _) \<Rightarrow> h | _ \<Rightarrow> '''');
          path = TrimPrefix (url_Path (req_URL request)) (apiPrefix @ ph_parentName p @ apiSuffix);
          url = (req_URL request)\<lparr>url_Path := path_Join2 (url_Path urlAddr) path,
                  url_RawQuery := Values_Encode (unescapeQueryValues (URL_Query (req_URL request)))\<rparr>
      in request\<lparr>req_URL := url, req_Host := host, req_RequestURI := RequestURI url\<rparr>)"




section \<open>Lemmas\<close>

lemma unescape_key_eq: "unescape_key k = (if k = ''__dryRun'' then ''dryRun'' else k)"
proof (cases "HasPrefix k ''__''")
  case True
  then obtain t where "k = ''__'' @ t" by (auto simp: HasPrefix_iff)
  then show ?thesis
    using TrimPrefix_append [of "''__''" t] HasPrefix_append [of "''__''" t]
    by (auto simp: unescape_key_def clusterGatewayProxyEscaperPrefix_def clusterGatewayProxyQueryKeysToEscape_def)
next
  case False
  then have "k \<noteq> ''__dryRun''" using HasPrefix_append [of "''__''" "''dryRun''"] by auto
  then show ?thesis using False by (simp add: unescape_key_def clusterGatewayProxyEscaperPrefix_def)
qed

lemma unescapeQueryValues_map_of:
  assumes "distinct (map (\<lambda>(k, vs). unescape_key k) r)"
  shows "map_of (unescapeQueryValues r) j = map_of (map (\<lambda>(k, vs). (unescape_key k, vs)) r) j"
proof -
  let ?l = "map (\<lambda>(k, vs). (unescape_key k, vs)) r"
  have "foldl (\<lambda>m (k, vs). AList.update (unescape_key k) vs m) m r = foldl (\<lambda>m (k, v). AList.update k v m) m ?l" for m
    by (induction r arbitrary: m) auto
  moreover have "distinct (map fst ?l)" using assms by (simp add: comp_def case_prod_unfold)
  ultimately show ?thesis
    by (simp add: unescapeQueryValues_def map_of_foldl_update map_of_rev split: option.split)
qed

lemma map_of_wf_values: "wf_values r \<Longrightarrow> map_of r k = Some vs \<longleftrightarrow> (k, vs) \<in> set r"
  by (auto simp: wf_values_def dest: map_of_SomeD)

lemma vals_of_nil_iff: "wf_values r \<Longrightarrow> vals_of r k = [] \<longleftrightarrow> map_of r k = None"
  by (auto simp: vals_of_def wf_values_def dest: map_of_SomeD split: option.splits)

lemma option_eqI: "(\<And>v. a = Some v \<longleftrightarrow> b = Some v) \<Longrightarrow> a = b"
  by (cases a; cases b) auto

text \<open>Unescaping a query in which the plain and the escaped key do not meet.\<close>

lemma unescape_vals:
  assumes wf: "wf_values r" and apart: "vals_of r ''dryRun'' = [] \<or> vals_of r ''__dryRun'' = []"
  shows "vals_of (unescapeQueryValues r) j =
    (if j = ''dryRun'' then vals_of r ''dryRun'' @ vals_of r ''__dryRun'' else if j = ''__dryRun'' then [] else vals_of r j)"
proof -
  obtain dry esc :: string where d: "dry = ''dryRun''" "esc = ''__dryRun''" and ne: "dry \<noteq> esc" by simp
  have key: "unescape_key k = (if k = esc then dry else k)" for k by (simp add: unescape_key_eq d)
  have apart': "map_of r dry = None \<or> map_of r esc = None" using apart vals_of_nil_iff [OF wf] d by auto
  have dist: "distinct (map fst r)" using wf by (simp add: wf_values_def)
  have "inj_on unescape_key (set (map fst r))"
    using apart' by (auto simp: inj_on_def key map_of_eq_None_iff split: if_splits)
  with dist have "distinct (map unescape_key (map fst r))" by (simp only: distinct_map simp_thms)
  then have distinct_keys: "distinct (map (\<lambda>(k, vs). unescape_key k) r)" by (simp add: comp_def case_prod_unfold)
  have mem: "map_of (unescapeQueryValues r) j = Some vs \<longleftrightarrow> (\<exists>k. unescape_key k = j \<and> map_of r k = Some vs)" for j vs
    unfolding unescapeQueryValues_map_of [OF distinct_keys] using distinct_keys
    by (subst map_of_eq_Some_iff) (auto simp: comp_def case_prod_unfold map_of_wf_values [OF wf] intro: rev_image_eqI)
  have "map_of (unescapeQueryValues r) j =
    (if j = dry then (case map_of r dry of None \<Rightarrow> map_of r esc | Some vs \<Rightarrow> Some vs) else if j = esc then None else map_of r j)"
  proof (rule option_eqI)
    fix vs
    have "(\<exists>k. unescape_key k = j \<and> map_of r k = Some vs) \<longleftrightarrow>
      (if j = dry then map_of r dry = Some vs \<or> map_of r esc = Some vs else if j = esc then False else map_of r j = Some vs)"
      using ne unfolding key by (auto split: if_splits)
    then show "map_of (unescapeQueryValues r) j = Some vs \<longleftrightarrow> (if j = dry
        then (case map_of r dry of None \<Rightarrow> map_of r esc | Some vs \<Rightarrow> Some vs) else if j = esc then None else map_of r j) = Some vs"
      using apart' unfolding mem by (auto split: option.splits if_splits)
  qed
  then show ?thesis using apart' ne unfolding d(2) [symmetric] unfolding d(1) [symmetric] vals_of_def by (auto split: option.splits)
qed

lemma unescape_distinct: "distinct (map fst (unescapeQueryValues r))"
proof -
  have "distinct (map fst m) \<Longrightarrow> distinct (map fst (foldl (\<lambda>m (k, vs). AList.update (unescape_key k) vs m) m r))" for m
    by (induction r arbitrary: m) (auto simp: distinct_update)
  then show ?thesis by (simp add: unescapeQueryValues_def)
qed

lemma escape_keys_vals:
  assumes "wf_values q" and "vals_of q ''__dryRun'' = []"
  shows "vals_of (escape_keys clusterGatewayProxyQueryKeysToEscape q) k =
      (if k = ''dryRun'' then [] else if k = ''__dryRun'' then take 1 (vals_of q ''dryRun'') else vals_of q k)"
    and "distinct (map fst (escape_keys clusterGatewayProxyQueryKeysToEscape q))"
proof -
  have dist: "distinct (map fst q)" using assms(1) by (simp add: wf_values_def)
  show "vals_of (escape_keys clusterGatewayProxyQueryKeysToEscape q) k =
      (if k = ''dryRun'' then [] else if k = ''__dryRun'' then take 1 (vals_of q ''dryRun'') else vals_of q k)"
  proof (cases "map_of q ''dryRun''")
    case None
    then have "vals_of q ''dryRun'' = []" by (simp add: vals_of_def)
    then show ?thesis
      using None assms(2) by (simp add: clusterGatewayProxyQueryKeysToEscape_def Values_Has_def)
  next
    case (Some vs)
    then obtain v vs' where "vals_of q ''dryRun'' = v # vs'"
      using vals_of_nil_iff [OF assms(1), of "''dryRun''"] by (cases "vals_of q ''dryRun''") auto
    then show ?thesis
      using Some
      by (simp add: clusterGatewayProxyQueryKeysToEscape_def clusterGatewayProxyEscaperPrefix_def Values_Has_def
            Values_Del_def Values_Set_def Values_Get_def vals_of_def delete_conv' update_conv')
  qed
  show "distinct (map fst (escape_keys clusterGatewayProxyQueryKeysToEscape q))"
    using dist by (simp add: clusterGatewayProxyQueryKeysToEscape_def Values_Del_def Values_Set_def distinct_update distinct_delete)
qed

text \<open>Cluster names the way a DNS label spells them.\<close>

definition dns_label :: "string \<Rightarrow> bool" where
  "dns_label n \<longleftrightarrow> n \<noteq> '''' \<and> (is_lower (hd n) \<or> is_digit (hd n)) \<and> (is_lower (last n) \<or> is_digit (last n)) \<and>
     list_all (\<lambda>c. is_lower c \<or> is_digit c \<or> c = CHR ''-'') n"

lemma lang_label_edge: "[c] \<in> lang label_edge \<longleftrightarrow> is_lower c \<or> is_digit c"
  by (auto simp: label_edge_def is_lower_def is_digit_def in_range_def)

lemma lang_label_inner: "[c] \<in> lang label_inner \<longleftrightarrow> is_lower c \<or> is_digit c \<or> c = CHR ''-''"
proof -
  have "[c] \<in> lang (Byte 45 45) \<longleftrightarrow> c = CHR ''-''"
    using lang_Byte_single [of "CHR ''-''"] by simp
  then show ?thesis using lang_label_edge by (auto simp: label_inner_def)
qed

lemma star_chars: "list_all (\<lambda>c. [c] \<in> A) s \<Longrightarrow> s \<in> star A"
proof (induction s)
  case (Cons c s)
  then have "[c] @ s \<in> star A" by (intro star_app) auto
  then show ?case by simp
qed (rule star_Nil)

lemma dns_label_matches:
  assumes "dns_label n" shows "n \<in> lang cluster_label"
proof -
  obtain c t where n: "n = c # t" using assms by (cases n) (auto simp: dns_label_def)
  have c: "[c] \<in> lang label_edge" using assms n by (simp add: dns_label_def lang_label_edge)
  have "t \<in> lang (Alt One (Seq (Star label_inner) label_edge))"
  proof (cases t rule: rev_cases)
    case Nil
    then show ?thesis by simp
  next
    case (snoc mid d)
    have "list_all (\<lambda>c. [c] \<in> lang label_inner) mid"
      using assms n snoc by (auto simp: dns_label_def lang_label_inner list_all_iff)
    then have "mid \<in> lang (Star label_inner)" by (simp add: star_chars)
    moreover have "[d] \<in> lang label_edge" using assms n snoc by (simp add: dns_label_def lang_label_edge)
    ultimately show ?thesis unfolding snoc lang.simps(4,5) by (blast intro: concI)
  qed
  with c have "[c] @ t \<in> conc (lang label_edge) (lang (Alt One (Seq (Star label_inner) label_edge)))" by (rule concI)
  then show ?thesis unfolding cluster_label_def lang.simps(5) n by simp
qed

lemma apiPrefix_join:
  "strings_Join [''/apis'', MetaApiGroupName, MetaApiVersionName, ''clustergateways''] ''/'' @ ''/'' = apiPrefix"
  by (simp add: apiPrefix_def name_defs)

lemma pattern_matches:
  assumes "dns_label n" shows "MatchString clusterGatewayProxyPathPattern (apiPrefix @ n @ apiSuffix @ rest)"
proof -
  have "apiPrefix \<in> lang (unquoted apiPrefix)" "''/proxy'' \<in> lang (unquoted ''/proxy'')"
    by (rule unquoted_self, simp add: apiPrefix_def name_defs)+
  then have "apiPrefix @ n @ ''/proxy'' \<in> lang clusterGatewayProxyPathPattern"
    unfolding clusterGatewayProxyPathPattern_def apiPrefix_join lang.simps(5)
    by (intro concI dns_label_matches assms)
  then show ?thesis
    unfolding MatchString_iff by (intro exI [of _ "[]"] exI [of _ "apiPrefix @ n @ ''/proxy''"] exI [of _ rest]) (simp add: apiSuffix_def)
qed


section \<open>Properties\<close>

text \<open>
  C2. The identity a proxied request carries is decided by one rule table: the rules of the cluster's own
  configuration followed by the global ones. The first rule that accepts the caller and the cluster gives
  the identity; without one the caller's own name, groups and extra fields are passed on (not the UID). An
  accepting rule that projects nothing is a nil dereference.
\<close>

theorem getImpersonationConfig_chain:
  "getImpersonationConfig engine global p (Some u) =
     (case find (rule_accepts engine u (ph_parentName p))
             ((case spec_ProxyConfig (cg_Spec (ph_clusterGateway p)) of None \<Rightarrow> [] | Some pc \<Rightarrow> exch_Rules (pc_Exchanger pc)) @
              exch_Rules (pc_Exchanger global)) of
        Some rule \<Rightarrow> bind_res (rule_outcome rule) (\<lambda>(projected, err). deref projected)
      | None \<Rightarrow> Ret \<lparr>imp_UserName = user_Name u, imp_UID = '''', imp_Groups = user_Groups u, imp_Extra = user_Extra u\<rparr>)"
proof -
  let ?acc = "rule_accepts engine u (ph_parentName p)"
  have step: "bind_res (ExchangeIdentity engine ex (Some u) (ph_parentName p)) (\<lambda>(matched, ruleName, projected, err).
      if matched then deref projected else k) =
    (case find ?acc (exch_Rules ex) of Some rule \<Rightarrow> bind_res (rule_outcome rule) (\<lambda>(projected, err). deref projected) | None \<Rightarrow> k)" for ex k
    unfolding ExchangeIdentity_def exchange.run_find
    by (auto simp: bind_res_def split: option.split res.split)
  have append: "find ?acc (xs @ ys) = (case find ?acc xs of None \<Rightarrow> find ?acc ys | Some r \<Rightarrow> Some r)" for xs ys
    by (induction xs) auto
  show ?thesis
    unfolding getImpersonationConfig_def step append
    by (cases "spec_ProxyConfig (cg_Spec (ph_clusterGateway p))") (auto simp: step split: option.split)
qed


definition demo_info :: RequestInfo where
  "demo_info = \<lparr>ri_IsResourceRequest = False, ri_Path = ''/healthz'', ri_Verb = ''get'', ri_APIGroup = '''', ri_APIVersion = '''',
     ri_Resource = '''', ri_Subresource = '''', ri_Namespace = '''', ri_Name = ''''\<rparr>"

definition demo_handler :: proxyHandler where
  "demo_handler = \<lparr>ph_parentName = ''c1'', ph_path = ''/healthz'', ph_impersonate = True, ph_clusterGateway = demo_gateway,
     ph_start = 0, ph_reqInfo = demo_info\<rparr>"



text \<open>
  C1. With subpath authorization on, a handler is only handed out after the hub's authorizer allowed the caller the
  requested verb on the target path or resource; the handler is for the gateway the parent storage returned.
\<close>

theorem Connect_authorized:
  assumes "authorize_subpath env" and "Connect env req name (Some opts) w = (Ret h, w')"
  shows "\<exists>get info attr w1 w2 w3 reason. ParentStorage env = Some get \<and> get name w1 = (Ret (ph_clusterGateway h), w2) \<and>
    req_Info req = Some info \<and>
    ph_reqInfo h = (NewRequestInfo env (opts_Path opts) (ToUpper (ri_Verb info)))\<lparr>ri_Verb := ri_Verb info\<rparr> \<and>
    proxy_attributes (req_User req) (ph_reqInfo h) = Ret attr \<and> at_User attr = req_User req \<and> at_Verb attr = ri_Verb info \<and>
    Authorize env attr w3 = ((DecisionAllow, reason, None), w') \<and> ph_path h = opts_Path opts \<and> ph_parentName h = name"
proof -
  obtain ts w1 where clock: "Clock env w = (ts, w1)" by fastforce
  obtain get where get: "ParentStorage env = Some get"
    using assms(2) clock by (cases "ParentStorage env") (auto simp: Connect_def)
  obtain gw w2 info where g: "mapErr (\<lambda>_. PlainError (''no such cluster '' @ name)) (get name) w1 = (Ret gw, w2)"
    "req_Info req = Some info"
    using assms(2) clock get by (auto simp: Connect_def bindM_Ret_iff gom_basic)
  then have parent: "get name w1 = (Ret gw, w2)" by (auto simp: run_simps split: prod.splits res.splits)
  let ?info = "(NewRequestInfo env (opts_Path opts) (ToUpper (ri_Verb info)))\<lparr>ri_Verb := ri_Verb info\<rparr>"
  have auth: "authorize_request env (req_User req) ?info w2 = (Ret (), w')" and
    h: "h = \<lparr>ph_parentName = name, ph_path = opts_Path opts, ph_impersonate = opts_Impersonate opts,
             ph_clusterGateway = gw, ph_start = ts, ph_reqInfo = ?info\<rparr>"
    using assms(2) clock get g by (auto simp: Connect_def bindM_Ret_iff gom_basic Let_def)
  obtain attr where attr: "proxy_attributes (req_User req) ?info = Ret attr"
    using auth assms(1) by (cases "proxy_attributes (req_User req) ?info") (auto simp: authorize_request_def run_simps)
  obtain d reason err w4 where decided: "Authorize env attr w2 = ((d, reason, err), w4)" by (metis prod.collapse)
  have "Authorize env attr w2 = ((DecisionAllow, reason, None), w')"
    using auth assms(1) attr decided
    by (cases err; cases "d = DecisionAllow"; cases "req_User req") (simp_all add: authorize_request_def run_simps)
  moreover from attr have "at_User attr = req_User req" "at_Verb attr = ri_Verb info"
    by (auto simp: proxy_attributes_def bind_res_Ret_iff split: if_splits)
  ultimately show ?thesis using parent h g(2) get attr by force
qed

definition demo_connect_env :: "unit connect_env" where
  "demo_connect_env = \<lparr>Clock = (\<lambda>w. (0, w)), ParentStorage = Some (\<lambda>n. ret demo_gateway),
     NewRequestInfo = (\<lambda>path m. demo_info\<lparr>ri_Path := path\<rparr>),
     Authorize = (\<lambda>attr w. ((if at_Path attr = ''/healthz'' then DecisionAllow else DecisionDeny, '''', None), w)), authorize_subpath = True\<rparr>"

definition demo_request :: "string \<Rightarrow> http_request" where
  "demo_request path = \<lparr>req_Method = ''GET'', req_URL = empty_URL\<lparr>url_Path := path\<rparr>, req_Host = ''hub'', req_RequestURI = path,
     req_Header = [], req_User = Some demo_user, req_Info = Some demo_info\<rparr>"

lemma demo_parse: "ParseRequestURI ''/healthz'' = Ret (empty_URL\<lparr>url_Path := ''/healthz''\<rparr>)"
  by code_simp

theorem Connect_authorized_witness:
  "\<exists>h attr w3 reason. Connect demo_connect_env (demo_request ''/p'') ''c1'' (Some \<lparr>opts_Path = ''/healthz'', opts_Impersonate = False\<rparr>) () = (Ret h, ()) \<and>
     Authorize demo_connect_env attr w3 = ((DecisionAllow, reason, None), ())"
proof -
  obtain h where c: "Connect demo_connect_env (demo_request ''/p'') ''c1'' (Some \<lparr>opts_Path = ''/healthz'', opts_Impersonate = False\<rparr>) () = (Ret h, ())"
    by (simp add: Connect_def demo_connect_env_def demo_request_def run_simps authorize_request_def proxy_attributes_def demo_info_def
          demo_parse Let_def)
  moreover have "authorize_subpath demo_connect_env" by (simp add: demo_connect_env_def)
  ultimately show ?thesis using Connect_authorized [OF _ c] by blast
qed

text \<open>
  With subpath authorization on, connecting to a bare proxy subresource (an empty target path, which is no
  resource request) panics before anything is authorized: the path does not parse as a request URI.
\<close>

theorem Connect_bare_path_panics:
  assumes "authorize_subpath env" and "opts_Path opts = ''''" and "req_Info req = Some info"
    and "ParentStorage env = Some get" and "Clock env w = (ts, w1)" and "get name w1 = (Ret gw, w2)"
    and "\<not> ri_IsResourceRequest (NewRequestInfo env '''' (ToUpper (ri_Verb info)))"
    and "ri_Path (NewRequestInfo env '''' (ToUpper (ri_Verb info))) = ''''"
  shows "Connect env req name (Some opts) w = (Panic nil_dereference, w2)"
  using assms
  by (simp add: Connect_def run_simps Let_def authorize_request_def proxy_attributes_def ParseRequestURI_def url_parse_def)

theorem Connect_bare_path_panics_witness:
  "Connect demo_connect_env (demo_request ''/p'') ''c1'' (Some \<lparr>opts_Path = '''', opts_Impersonate = False\<rparr>) () = (Panic nil_dereference, ())"
  by (rule Connect_bare_path_panics [where info = demo_info and get = "\<lambda>n. ret demo_gateway" and ts = 0 and gw = demo_gateway])
     (simp_all add: demo_connect_env_def demo_request_def demo_info_def run_simps)

text \<open>
  What is authorized is not what is proxied: the authorizer is asked about the target path as it was
  sent, while the forwarded path is cleaned. A path that climbs out with dots is authorized under one name and
  reaches the cluster under another.
\<close>

theorem authorized_path_differs:
  "proxy_attributes u (demo_info\<lparr>ri_Path := ''/healthz/../api/v1/secrets''\<rparr>) =
     Ret \<lparr>at_User = u, at_Verb = ''get'', at_Namespace = '''', at_APIGroup = '''', at_APIVersion = '''', at_Resource = '''',
          at_Subresource = '''', at_Name = '''', at_Path = ''/healthz/../api/v1/secrets''\<rparr> \<and>
   url_Path (req_URL (proxied_request (demo_handler\<lparr>ph_path := ''/healthz/../api/v1/secrets''\<rparr>)
     (empty_URL\<lparr>url_Scheme := ''https'', url_Host := ''c1:6443''\<rparr>)
     (demo_request (apiPrefix @ ''c1/proxy/healthz/../api/v1/secrets'')))) = ''/api/v1/secrets''"
proof -
  have "ParseRequestURI ''/healthz/../api/v1/secrets'' = Ret (empty_URL\<lparr>url_Path := ''/healthz/../api/v1/secrets''\<rparr>)"
    by code_simp
  moreover have "TrimPrefix (apiPrefix @ ''c1/proxy/healthz/../api/v1/secrets'') (apiPrefix @ ''c1'' @ apiSuffix) = ''/healthz/../api/v1/secrets''"
    using TrimPrefix_append [of "apiPrefix @ ''c1/proxy''" "''/healthz/../api/v1/secrets''"] by (simp add: apiSuffix_def)
  moreover have "path_Join2 '''' ''/healthz/../api/v1/secrets'' = ''/api/v1/secrets''" by code_simp
  ultimately show ?thesis
    by (simp add: proxy_attributes_def demo_info_def proxied_request_def Let_def demo_request_def demo_handler_def empty_URL_def)
qed




text \<open>
  C14. The escaper and the gateway undo each other: for a request to a proxied cluster whose query does not already use the
  escaped name, the query the gateway forwards gives every key the values the client sent, except that of several
  \<^verbatim>\<open>dryRun\<close> values only the first survives.
\<close>

theorem escape_unescape_query:
  assumes "dns_label name" and "url_Path (req_URL req) = apiPrefix @ name @ apiSuffix @ rest"
    and "vals_of (URL_Query (req_URL req)) ''__dryRun'' = []"
  shows "vals_of (ParseQuery (url_RawQuery (req_URL (clusterGatewayProxyRequestEscaper_ServeHTTP (proxied_request p urlAddr) req)))) k =
    (if k = ''dryRun'' then take 1 (vals_of (URL_Query (req_URL req)) k) else vals_of (URL_Query (req_URL req)) k)"
proof -
  let ?q = "URL_Query (req_URL req)" and ?e = "escape_keys clusterGatewayProxyQueryKeysToEscape (URL_Query (req_URL req))"
  let ?r = "ParseQuery (Values_Encode ?e)"
  have wf: "wf_values ?q" by (simp add: URL_Query_def wf_values_ParseQuery)
  note e = escape_keys_vals [OF wf assms(3)]
  have r: "vals_of ?r j = vals_of ?e j" for j by (rule ParseQuery_Encode [OF e(2)])
  have "wf_values ?r" by (rule wf_values_ParseQuery)
  then have u: "vals_of (unescapeQueryValues ?r) j = (if j = ''dryRun'' then vals_of ?r ''dryRun'' @ vals_of ?r ''__dryRun''
      else if j = ''__dryRun'' then [] else vals_of ?r j)" for j
    by (rule unescape_vals) (simp add: r e(1))
  have "distinct (map fst (unescapeQueryValues ?r))" by (rule unescape_distinct)
  from ParseQuery_Encode [OF this] have "vals_of (ParseQuery (Values_Encode (unescapeQueryValues ?r))) k = vals_of (unescapeQueryValues ?r) k" .
  moreover have "url_RawQuery (req_URL (clusterGatewayProxyRequestEscaper_ServeHTTP (proxied_request p urlAddr) req)) =
      Values_Encode (unescapeQueryValues ?r)"
    using pattern_matches [OF assms(1), of rest] assms(2)
    by (simp add: clusterGatewayProxyRequestEscaper_ServeHTTP_def proxied_request_def Let_def URL_Query_def)
  ultimately show ?thesis using u assms(3) by (simp add: r e(1))
qed

definition demo_dry_request :: http_request where
  "demo_dry_request = (demo_request '''')\<lparr>req_URL :=
     empty_URL\<lparr>url_Path := apiPrefix @ ''c1'' @ apiSuffix @ ''/api/v1/pods'', url_RawQuery := ''dryRun=All''\<rparr>\<rparr>"

theorem escape_unescape_query_witness:
  "vals_of (ParseQuery (url_RawQuery (req_URL (clusterGatewayProxyRequestEscaper_ServeHTTP
     (proxied_request demo_handler empty_URL) demo_dry_request)))) ''dryRun'' = [''All'']"
proof -
  have "ParseQuery ''dryRun=All'' = [(''dryRun'', [''All''])]" by code_simp
  then have q: "URL_Query (req_URL demo_dry_request) = [(''dryRun'', [''All''])]"
    by (simp add: URL_Query_def demo_dry_request_def)
  have lab: "dns_label ''c1''" by code_simp
  have path: "url_Path (req_URL demo_dry_request) = apiPrefix @ ''c1'' @ apiSuffix @ ''/api/v1/pods''"
    by (simp add: demo_dry_request_def)
  have none: "vals_of (URL_Query (req_URL demo_dry_request)) ''__dryRun'' = []"
    by (simp add: q vals_of_def)
  show ?thesis
    unfolding escape_unescape_query [OF lab path none] by (simp add: q vals_of_def)
qed

text \<open>
  Cluster names that are valid secret names but contain a dot are missed by the escaper's pattern, so that a
  dry-run request to such a cluster reaches the apiserver's own dry-run handling unescaped.
\<close>

theorem dotted_name_not_escaped:
  "\<not> MatchString clusterGatewayProxyPathPattern (apiPrefix @ ''a.b'' @ apiSuffix) \<and>
   MatchString clusterGatewayProxyPathPattern (apiPrefix @ ''a-b'' @ apiSuffix)"
proof
  show "\<not> MatchString clusterGatewayProxyPathPattern (apiPrefix @ ''a.b'' @ apiSuffix)"
    by (simp add: MatchString_def clusterGatewayProxyPathPattern_def apiPrefix_def apiSuffix_def name_defs any_bytes_def
          cluster_label_def label_edge_def label_inner_def dot_def cont_byte_def alt_def seq_def)
  have "dns_label ''a-b''" by code_simp
  then show "MatchString clusterGatewayProxyPathPattern (apiPrefix @ ''a-b'' @ apiSuffix)"
    using pattern_matches [of "''a-b''" "''''"] by simp
qed

end
