(* ===== verification/MultiCluster_Transport.thy ===== *)
theory MultiCluster_Transport
  imports Gateway_Proxy
begin

text \<open>
  The client side: the round trippers that route a request through the gateway
  (\<^verbatim>\<open>pkg/apis/cluster/transport\<close>, \<^verbatim>\<open>clustergateway_expansion.go\<close>), the context keys they read (\<^verbatim>\<open>pkg/util/context\<close>), and
  the requests the typed client sends (\<^verbatim>\<open>pkg/generated/clientset\<close>). A round tripper is a call that takes
  the request; the locale \<open>path_prefixer\<close> is what the gateway expects of the path a client sends.
\<close>

section \<open>Contexts\<close>

record client_context =
  ctx_MultiCluster :: "string option"
  ctx_ClusterName :: "string option"

definition empty_context :: client_context where
  "empty_context = \<lparr>ctx_MultiCluster = None, ctx_ClusterName = None\<rparr>"

definition WithMultiClusterContext :: "string \<Rightarrow> client_context \<Rightarrow> client_context" where
  "WithMultiClusterContext clusterName ctx = ctx\<lparr>ctx_MultiCluster := Some clusterName\<rparr>"

definition GetMultiClusterContext :: "client_context \<Rightarrow> string \<times> bool" where
  "GetMultiClusterContext ctx = (case ctx_MultiCluster ctx of Some n \<Rightarrow> (n, True) | None \<Rightarrow> ('''', False))"

definition WithClusterName :: "string \<Rightarrow> client_context \<Rightarrow> client_context" where
  "WithClusterName clusterName ctx = ctx\<lparr>ctx_ClusterName := Some clusterName\<rparr>"

text \<open>The type assertion has no second result, so a context without a name panics.\<close>

definition GetClusterName :: "client_context \<Rightarrow> string res" where
  "GetClusterName ctx = (case ctx_ClusterName ctx of
     Some n \<Rightarrow> Ret n | None \<Rightarrow> Panic ''interface conversion: interface {} is nil, not string'')"

record client_request =
  cr_Path :: string
  cr_Context :: client_context

type_synonym ('x, 'r) roundtripper = "client_request \<Rightarrow> ('x, 'r) gom"

section \<open>Round trippers\<close>

definition formatProxyURL :: "string \<Rightarrow> string \<Rightarrow> string" where
  "formatProxyURL clusterName originalPath =
     strings_Join [''/apis'', MetaApiGroupName, MetaApiVersionName, ''clustergateways'', clusterName, ''proxy'',
                   TrimPrefix originalPath ''/''] ''/''"

record ('x, 'r) clusterGatewayRoundTripper =
  rt_delegate :: "('x, 'r) roundtripper"
  rt_fallback :: bool

definition NewClusterGatewayRoundTripper :: "('x, 'r) roundtripper \<Rightarrow> ('x, 'r) clusterGatewayRoundTripper" where
  "NewClusterGatewayRoundTripper delegate = \<lparr>rt_delegate = delegate, rt_fallback = True\<rparr>"

definition NewStrictClusterGatewayRoundTripper :: "('x, 'r) roundtripper \<Rightarrow> bool \<Rightarrow> ('x, 'r) clusterGatewayRoundTripper" where
  "NewStrictClusterGatewayRoundTripper delegate fallback = \<lparr>rt_delegate = delegate, rt_fallback = False\<rparr>"

definition clusterGateway_RoundTrip :: "('x, 'r) clusterGatewayRoundTripper \<Rightarrow> ('x, 'r) roundtripper" where
  "clusterGateway_RoundTrip c request =
     (case GetMultiClusterContext (cr_Context request) of (clusterName, exists) \<Rightarrow>
        if \<not> exists then
          (if \<not> rt_fallback c then fail (PlainError ''missing cluster name in the request context'')
           else rt_delegate c request)
        else rt_delegate c (request\<lparr>cr_Path := formatProxyURL clusterName (cr_Path request)\<rparr>))"

text \<open>
  The path-prepending round tripper is an object with a delegate set later; the objects live in a list, and a
  pointer is an index. \<^verbatim>\<open>NewRoundTripper\<close> changes the object it is called on and returns that same pointer.
\<close>

record ('x, 'r) prepending =
  pp_clusterName :: string
  pp_delegate :: "('x, 'r) roundtripper option"

definition NewProxyPathPrepending ::
  "string \<Rightarrow> ('x, 'r) prepending list \<Rightarrow> nat \<times> ('x, 'r) prepending list" where
  "NewProxyPathPrepending clusterName heap = (length heap, heap @ [\<lparr>pp_clusterName = clusterName, pp_delegate = None\<rparr>])"

definition prepending_NewRoundTripper ::
  "nat \<Rightarrow> ('x, 'r) roundtripper \<Rightarrow> ('x, 'r) prepending list \<Rightarrow> nat \<times> ('x, 'r) prepending list" where
  "prepending_NewRoundTripper p delegate heap = (p, heap[p := (heap ! p)\<lparr>pp_delegate := Some delegate\<rparr>])"

definition prepending_RoundTrip :: "nat \<Rightarrow> ('x, 'r) prepending list \<Rightarrow> ('x, 'r) roundtripper" where
  "prepending_RoundTrip p heap request =
     bindM (liftR (deref (pp_delegate (heap ! p)))) (\<lambda>d.
     d (request\<lparr>cr_Path := formatProxyURL (pp_clusterName (heap ! p)) (cr_Path request)\<rparr>))"

section \<open>The typed client's expansion\<close>

definition prepended_path :: "string \<Rightarrow> string \<Rightarrow> string" where
  "prepended_path clusterName path =
     (let prefix = ''/apis/'' @ MetaApiGroupName @ ''/'' @ MetaApiVersionName @ ''/clustergateways/'';
          originalPath = (if \<not> HasPrefix path ''/'' then ''/'' @ path else path)
      in prefix @ clusterName @ ''/proxy'' @ originalPath)"

record ('x, 'r) gatewayAPIPrefixPrepender =
  gp_clusterNameGetter :: "client_context \<Rightarrow> string res"
  gp_delegate :: "('x, 'r) roundtripper"

definition prepender_RoundTrip :: "('x, 'r) gatewayAPIPrefixPrepender \<Rightarrow> ('x, 'r) roundtripper" where
  "prepender_RoundTrip p req =
     bindM (liftR (gp_clusterNameGetter p (cr_Context req))) (\<lambda>name.
     gp_delegate p (req\<lparr>cr_Path := prepended_path name (cr_Path req)\<rparr>))"

record ('x, 'r) RESTClient =
  rest_Host :: string
  rest_Transport :: "('x, 'r) roundtripper"

definition getRoundTripper ::
  "('x, 'r) RESTClient \<Rightarrow> (client_context \<Rightarrow> string res) \<Rightarrow> ('x, 'r) gatewayAPIPrefixPrepender" where
  "getRoundTripper c getter = \<lparr>gp_clusterNameGetter = getter, gp_delegate = rest_Transport c\<rparr>"

definition RoundTripperForCluster :: "('x, 'r) RESTClient \<Rightarrow> string \<Rightarrow> ('x, 'r) roundtripper" where
  "RoundTripperForCluster c clusterName = prepender_RoundTrip (getRoundTripper c (\<lambda>ctx. Ret clusterName))"

definition RoundTripperForClusterFromContext :: "('x, 'r) RESTClient \<Rightarrow> ('x, 'r) roundtripper" where
  "RoundTripperForClusterFromContext c = prepender_RoundTrip (getRoundTripper c GetClusterName)"

definition RoundTripperForClusterFromContextWrapper ::
  "('x, 'r) RESTClient \<Rightarrow> ('x, 'r) roundtripper \<Rightarrow> ('x, 'r) roundtripper" where
  "RoundTripperForClusterFromContextWrapper c rt = RoundTripperForClusterFromContext c"

definition RoundTripperForClusterWrapperGenerator ::
  "('x, 'r) RESTClient \<Rightarrow> string \<Rightarrow> ('x, 'r) roundtripper \<Rightarrow> ('x, 'r) roundtripper" where
  "RoundTripperForClusterWrapperGenerator c clusterName rt = prepender_RoundTrip (getRoundTripper c (\<lambda>ctx. Ret clusterName))"

definition expansion_RESTClient :: "('x, 'r) RESTClient \<Rightarrow> string \<Rightarrow> ('x, 'r) RESTClient" where
  "expansion_RESTClient c clusterName = c\<lparr>rest_Transport := RoundTripperForCluster c clusterName\<rparr>"

definition GetKubernetesClient :: "(('x, 'r) RESTClient \<Rightarrow> 'k) \<Rightarrow> ('x, 'r) RESTClient \<Rightarrow> string \<Rightarrow> 'k" where
  "GetKubernetesClient kubernetes_New c clusterName = kubernetes_New (expansion_RESTClient c clusterName)"

definition GetControllerRuntimeClient ::
  "(string \<Rightarrow> (('x, 'r) roundtripper \<Rightarrow> ('x, 'r) roundtripper) \<Rightarrow> 'k res) \<Rightarrow> ('x, 'r) RESTClient \<Rightarrow> string \<Rightarrow> 'k res" where
  "GetControllerRuntimeClient newClient c clusterName =
     newClient (rest_Host c) (RoundTripperForClusterWrapperGenerator c clusterName)"

section \<open>Requests of the typed client\<close>

record list_opts =
  lst_TimeoutSeconds :: "int option"
  lst_Watch :: bool
  lst_Selector :: string

datatype rest_params = NoParams | OptionParams string | ListParams list_opts
datatype rest_body = NoBody | GatewayBody ClusterGateway | OptionsBody string | DataBody string string

record rest_request =
  rq_Verb :: string
  rq_Resource :: string
  rq_Name :: "string option"
  rq_SubResources :: "string list"
  rq_Params :: rest_params
  rq_Timeout :: int
  rq_Body :: rest_body

definition gateways_request :: "string \<Rightarrow> string option \<Rightarrow> string list \<Rightarrow> rest_params \<Rightarrow> rest_body \<Rightarrow> rest_request" where
  "gateways_request verb name sub params body = \<lparr>rq_Verb = verb, rq_Resource = ''clustergateways'', rq_Name = name,
     rq_SubResources = sub, rq_Params = params, rq_Timeout = 0, rq_Body = body\<rparr>"

definition list_timeout :: "list_opts \<Rightarrow> int" where
  "list_timeout opts = (case lst_TimeoutSeconds opts of None \<Rightarrow> 0 | Some n \<Rightarrow> n * 1000000000)"

definition client_Get :: "string \<Rightarrow> string \<Rightarrow> rest_request" where
  "client_Get name options = gateways_request ''GET'' (Some name) [] (OptionParams options) NoBody"

definition client_List :: "list_opts \<Rightarrow> rest_request" where
  "client_List opts = (gateways_request ''GET'' None [] (ListParams opts) NoBody)\<lparr>rq_Timeout := list_timeout opts\<rparr>"

definition client_Watch :: "list_opts \<Rightarrow> rest_request" where
  "client_Watch opts = (gateways_request ''GET'' None [] (ListParams (opts\<lparr>lst_Watch := True\<rparr>)) NoBody)\<lparr>rq_Timeout := list_timeout opts\<rparr>"

definition client_Create :: "ClusterGateway \<Rightarrow> string \<Rightarrow> rest_request" where
  "client_Create gw opts = gateways_request ''POST'' None [] (OptionParams opts) (GatewayBody gw)"

definition client_Update :: "ClusterGateway \<Rightarrow> string \<Rightarrow> rest_request" where
  "client_Update gw opts = gateways_request ''PUT'' (Some (cg_Name gw)) [] (OptionParams opts) (GatewayBody gw)"

definition client_UpdateStatus :: "ClusterGateway \<Rightarrow> string \<Rightarrow> rest_request" where
  "client_UpdateStatus gw opts = gateways_request ''PUT'' (Some (cg_Name gw)) [''status''] (OptionParams opts) (GatewayBody gw)"

definition client_Delete :: "string \<Rightarrow> string \<Rightarrow> rest_request" where
  "client_Delete name opts = gateways_request ''DELETE'' (Some name) [] NoParams (OptionsBody opts)"

definition client_DeleteCollection :: "string \<Rightarrow> list_opts \<Rightarrow> rest_request" where
  "client_DeleteCollection opts listOpts =
     (gateways_request ''DELETE'' None [] (ListParams listOpts) (OptionsBody opts))\<lparr>rq_Timeout := list_timeout listOpts\<rparr>"

definition client_Patch :: "string \<Rightarrow> string \<Rightarrow> string \<Rightarrow> string \<Rightarrow> string list \<Rightarrow> rest_request" where
  "client_Patch name pt data opts sub = gateways_request ''PATCH'' (Some name) sub (OptionParams opts) (DataBody pt data)"

definition client_GetHealthiness :: "string \<Rightarrow> string \<Rightarrow> rest_request" where
  "client_GetHealthiness name options = gateways_request ''GET'' (Some name) [''health''] (OptionParams options) NoBody"

definition client_UpdateHealthiness :: "ClusterGateway \<Rightarrow> string \<Rightarrow> rest_request" where
  "client_UpdateHealthiness gw options = gateways_request ''PUT'' (Some (cg_Name gw)) [''health''] (OptionParams options) (GatewayBody gw)"

section \<open>Paths the gateway understands\<close>

definition rooted :: "string \<Rightarrow> string" where
  "rooted path = (if HasPrefix path ''/'' then path else ''/'' @ path)"

text \<open>
  The contract between a client and the gateway: the path is the gateway's prefix, the cluster, the proxy suffix and
  the rooted original path. From it follow, once, that the gateway recovers the path and that the escaper
  recognises the request.
\<close>

locale path_prefixer =
  fixes prefixed :: "string \<Rightarrow> string \<Rightarrow> string"
  assumes prefixed_path: "prefixed name path = apiPrefix @ name @ apiSuffix @ rooted path"
begin

lemma gateway_recovers: "TrimPrefix (prefixed name path) (apiPrefix @ name @ apiSuffix) = rooted path"
  using TrimPrefix_append [of "apiPrefix @ name @ apiSuffix" "rooted path"] by (simp add: prefixed_path)

lemma escaper_matches: "dns_label name \<Longrightarrow> MatchString clusterGatewayProxyPathPattern (prefixed name path)"
  using pattern_matches [of name "rooted path"] by (simp add: prefixed_path)

lemma proxied_path:
  assumes "ph_parentName p = name" and "url_Path (req_URL req) = prefixed name path"
  shows "url_Path (req_URL (proxied_request p urlAddr req)) = path_Join2 (url_Path urlAddr) (rooted path)"
  using assms gateway_recovers by (simp add: proxied_request_def Let_def)

lemma prefixed_inj: "prefixed name path = prefixed name path' \<Longrightarrow> rooted path = rooted path'"
  by (simp add: prefixed_path)

end

interpretation prepended: path_prefixer prepended_path
  by unfold_locales (simp add: prepended_path_def Let_def apiPrefix_def apiSuffix_def rooted_def)

lemma TrimPrefix_slash: "''/'' @ TrimPrefix path ''/'' = rooted path"
  using TrimPrefix_reassemble [of path "''/''"] TrimPrefix_none [of path "''/''"] by (simp add: rooted_def)

interpretation formatted: path_prefixer formatProxyURL
proof unfold_locales
  fix name path
  have "formatProxyURL name path = apiPrefix @ name @ apiSuffix @ ''/'' @ TrimPrefix path ''/''"
    by (simp add: formatProxyURL_def apiPrefix_def apiSuffix_def)
  then show "formatProxyURL name path = apiPrefix @ name @ apiSuffix @ rooted path"
    unfolding TrimPrefix_slash .
qed

section \<open>Properties\<close>

text \<open>
  C13. Both client round trippers address a cluster alike, and the gateway forwards what the client asked for: a request
  sent through either one for some path is forwarded to the endpoint's base path joined with the
  rooted path, whatever the cluster's name.
\<close>

theorem client_path_roundtrip:
  assumes "ph_parentName p = name"
    and "url_Path (req_URL req) = formatProxyURL name path \<or> url_Path (req_URL req) = prepended_path name path"
  shows "formatProxyURL name path = prepended_path name path \<and>
    url_Path (req_URL (proxied_request p urlAddr req)) = path_Join2 (url_Path urlAddr) (rooted path)"
  using assms formatted.proxied_path [of p name req path urlAddr] formatted.prefixed_path prepended.prefixed_path by auto

theorem client_path_roundtrip_witness:
  "url_Path (req_URL (proxied_request demo_handler empty_URL (demo_request (formatProxyURL ''c1'' ''api/v1/pods'')))) =
     path_Join2 '''' ''/api/v1/pods''"
proof -
  have p: "ph_parentName demo_handler = ''c1''" by (simp add: demo_handler_def)
  have r: "url_Path (req_URL (demo_request (formatProxyURL ''c1'' ''api/v1/pods''))) = formatProxyURL ''c1'' ''api/v1/pods'' \<or>
    url_Path (req_URL (demo_request (formatProxyURL ''c1'' ''api/v1/pods''))) = prepended_path ''c1'' ''api/v1/pods''"
    by (simp add: demo_request_def)
  show ?thesis using client_path_roundtrip [OF p r, of empty_URL, THEN conjunct2] by (simp add: empty_URL_def rooted_def HasPrefix_def)
qed

text \<open>
  The multi-cluster round tripper sends a request to the named cluster when the context has one; without
  a name the lenient one talks to the hub itself and the strict one refuses, whatever value its unused flag has.
\<close>

theorem multicluster_routing:
  "clusterGateway_RoundTrip (NewClusterGatewayRoundTripper d) req =
     (case ctx_MultiCluster (cr_Context req) of
        Some n \<Rightarrow> d (req\<lparr>cr_Path := apiPrefix @ n @ apiSuffix @ rooted (cr_Path req)\<rparr>) | None \<Rightarrow> d req) \<and>
   clusterGateway_RoundTrip (NewStrictClusterGatewayRoundTripper d fallback) req =
     (case ctx_MultiCluster (cr_Context req) of
        Some n \<Rightarrow> d (req\<lparr>cr_Path := apiPrefix @ n @ apiSuffix @ rooted (cr_Path req)\<rparr>)
      | None \<Rightarrow> fail (PlainError ''missing cluster name in the request context''))"
  by (simp add: clusterGateway_RoundTrip_def NewClusterGatewayRoundTripper_def NewStrictClusterGatewayRoundTripper_def
        GetMultiClusterContext_def formatted.prefixed_path split: option.split)

text \<open>
  The path-prepending round tripper does not wrap, it is changed in place: after it was applied to two
  delegates, the round tripper obtained first sends its requests to the second delegate.
\<close>

theorem prepending_shared:
  assumes "p < length heap" and "prepending_NewRoundTripper p d1 heap = (q1, heap1)"
    and "prepending_NewRoundTripper p d2 heap1 = (q2, heap2)"
  shows "q1 = q2 \<and> prepending_RoundTrip q1 heap2 req =
    d2 (req\<lparr>cr_Path := formatProxyURL (pp_clusterName (heap ! p)) (cr_Path req)\<rparr>)"
  using assms by (auto simp: prepending_NewRoundTripper_def prepending_RoundTrip_def)

theorem prepending_shared_witness:
  "\<exists>q heap2. prepending_RoundTrip q (heap2 :: (unit, string) prepending list) \<lparr>cr_Path = ''/x'', cr_Context = empty_context\<rparr> =
     ret ''second''"
proof -
  let ?h = "[\<lparr>pp_clusterName = ''c1'', pp_delegate = None\<rparr> :: (unit, string) prepending]"
  obtain q1 h1 where a: "prepending_NewRoundTripper 0 (\<lambda>r. ret ''first'') ?h = (q1, h1)" by fastforce
  obtain q2 h2 where b: "prepending_NewRoundTripper 0 (\<lambda>r. ret ''second'') h1 = (q2, h2)" by fastforce
  have "(0::nat) < length ?h" by simp
  from prepending_shared [OF this a b, of "\<lparr>cr_Path = ''/x'', cr_Context = empty_context\<rparr>"] show ?thesis by auto
qed

end
