(* ===== verification/Virtual_Cluster.thy ===== *)
theory Virtual_Cluster
  imports Gateway_Validation Gateway_Transport
begin

text \<open>
  Virtual clusters (\<^verbatim>\<open>pkg/apis/cluster/v1alpha1/virtualcluster_types.go\<close>, \<^verbatim>\<open>virtualcluster_client.go\<close> and
  \<^verbatim>\<open>virtualcluster_errors.go\<close>): the read-only view that merges the hub itself, the cluster secrets and the managed clusters.
  The sorting routine of the list is an argument that satisfies the contract \<open>slice_sorter\<close>.
\<close>

section \<open>Data\<close>

definition ClusterLocalName :: string where "ClusterLocalName = ''local''"
definition CredentialTypeInternal :: string where "CredentialTypeInternal = ''Internal''"
definition CredentialTypeOCMManagedCluster :: string where "CredentialTypeOCMManagedCluster = ''ManagedCluster''"
definition ClusterBlankEndpoint :: string where "ClusterBlankEndpoint = ''-''"
definition AnnotationClusterAlias :: string where "AnnotationClusterAlias = MetaApiGroupName @ ''/cluster-alias''"
definition LabelClusterControlPlane :: string where "LabelClusterControlPlane = MetaApiGroupName @ ''/control-plane''"

record VirtualClusterSpec =
  vcs_Alias :: string
  vcs_Accepted :: bool
  vcs_Endpoint :: string
  vcs_CredentialType :: string

record VirtualCluster =
  vc_Meta :: ObjectMeta
  vc_Spec :: VirtualClusterSpec

record VirtualClusterList =
  vcl_Items :: "VirtualCluster list"

abbreviation vc_Name :: "VirtualCluster \<Rightarrow> string" where "vc_Name c \<equiv> meta_Name (vc_Meta c)"

abbreviation vc_Created :: "VirtualCluster \<Rightarrow> gotime" where "vc_Created c \<equiv> meta_CreationTimestamp (vc_Meta c)"

definition VirtualCluster_New :: VirtualCluster where
  "VirtualCluster_New = \<lparr>vc_Meta = empty_ObjectMeta,
     vc_Spec = \<lparr>vcs_Alias = '''', vcs_Accepted = False, vcs_Endpoint = '''', vcs_CredentialType = ''''\<rparr>\<rparr>"

definition VirtualCluster_NewList :: VirtualClusterList where "VirtualCluster_NewList = \<lparr>vcl_Items = []\<rparr>"
definition VirtualCluster_NamespaceScoped :: bool where "VirtualCluster_NamespaceScoped = False"
definition VirtualCluster_IsStorageVersion :: bool where "VirtualCluster_IsStorageVersion = True"

definition VirtualCluster_ShortNames :: "string list" where
  "VirtualCluster_ShortNames = [''vc'', ''vcluster'', ''vclusters'', ''virtual-cluster'', ''virtual-clusters'']"

definition VirtualCluster_GetSingularName :: string where "VirtualCluster_GetSingularName = ''virtualcluster''"

definition VirtualCluster_GetGroupVersionResource :: GroupVersionResource where
  "VirtualCluster_GetGroupVersionResource =
     \<lparr>gvr_Group = MetaApiGroupName, gvr_Version = MetaApiVersionName, gvr_Resource = ''virtualclusters''\<rparr>"

definition GetFullName :: "VirtualCluster \<Rightarrow> string" where
  "GetFullName c =
     (if vcs_Alias (vc_Spec c) = '''' then vc_Name c else vc_Name c @ '' ('' @ vcs_Alias (vc_Spec c) @ '')'')"

definition HasCluster :: "VirtualCluster list \<Rightarrow> string \<Rightarrow> bool" where
  "HasCluster items name = list_ex (\<lambda>c. vc_Name c = name) items"

section \<open>Errors\<close>

definition NewEmptyCredentialTypeClusterSecretError :: goerror where
  "NewEmptyCredentialTypeClusterSecretError = EmptyCredentialTypeClusterSecretError"

definition NewEmptyEndpointClusterSecretError :: goerror where
  "NewEmptyEndpointClusterSecretError = EmptyEndpointClusterSecretError"

definition NewInvalidManagedClusterError :: goerror where
  "NewInvalidManagedClusterError = InvalidManagedClusterError"

text \<open>\<^verbatim>\<open>errors.As\<close> looks through wrapped errors.\<close>

fun IsInvalidClusterSecretError :: "goerror \<Rightarrow> bool" where
  "IsInvalidClusterSecretError EmptyCredentialTypeClusterSecretError = True"
| "IsInvalidClusterSecretError EmptyEndpointClusterSecretError = True"
| "IsInvalidClusterSecretError (WrapError m e) = IsInvalidClusterSecretError e"
| "IsInvalidClusterSecretError e = False"

fun IsInvalidManagedClusterError :: "goerror \<Rightarrow> bool" where
  "IsInvalidManagedClusterError InvalidManagedClusterError = True"
| "IsInvalidManagedClusterError (WrapError m e) = IsInvalidManagedClusterError e"
| "IsInvalidManagedClusterError e = False"

section \<open>Construction\<close>

definition extractLabels :: "string gomap \<Rightarrow> string gomap" where
  "extractLabels labels = Some (filter (\<lambda>(k, v). \<not> HasPrefix k MetaApiGroupName) (entries labels))"

text \<open>The argument is the object's metadata; \<open>None\<close> stands for the call without an object.\<close>

definition newVirtualCluster :: "ObjectMeta option \<Rightarrow> VirtualCluster" where
  "newVirtualCluster obj =
     (let m0 = (case obj of None \<Rightarrow> empty_ObjectMeta
        | Some o' \<Rightarrow> empty_ObjectMeta\<lparr>meta_Name := meta_Name o', meta_CreationTimestamp := meta_CreationTimestamp o',
                                     meta_Labels := extractLabels (meta_Labels o')\<rparr>);
          alias = (case obj of None \<Rightarrow> '''' | Some o' \<Rightarrow> sget (meta_Annotations o') AnnotationClusterAlias)
      in \<lparr>vc_Meta = SetMetaDataLabel LabelClusterControlPlane (FormatBool (obj = None)) m0,
          vc_Spec = \<lparr>vcs_Alias = alias, vcs_Accepted = True, vcs_Endpoint = ClusterBlankEndpoint, vcs_CredentialType = ''''\<rparr>\<rparr>)"

definition NewLocalCluster :: VirtualCluster where
  "NewLocalCluster =
     (let c = newVirtualCluster None
      in c\<lparr>vc_Meta := (vc_Meta c)\<lparr>meta_Name := ClusterLocalName\<rparr>, vc_Spec := (vc_Spec c)\<lparr>vcs_CredentialType := CredentialTypeInternal\<rparr>\<rparr>)"

definition NewClusterFromSecret :: "Secret \<Rightarrow> VirtualCluster res" where
  "NewClusterFromSecret secret =
     (let c = newVirtualCluster (Some (sec_Meta secret));
          endpoint = (if HasLabel (sec_Meta secret) LabelKeyClusterEndpointType
                      then sget (sec_Labels secret) LabelKeyClusterEndpointType
                      else bstr (dget (sec_Data secret) ''endpoint''))
      in if endpoint = '''' then Fail NewEmptyEndpointClusterSecretError
         else if \<not> HasLabel (sec_Meta secret) LabelKeyClusterCredentialType then Fail NewEmptyCredentialTypeClusterSecretError
         else Ret (c\<lparr>vc_Spec := (vc_Spec c)\<lparr>vcs_Endpoint := endpoint,
                     vcs_CredentialType := sget (sec_Labels secret) LabelKeyClusterCredentialType\<rparr>\<rparr>))"

definition NewClusterFromManagedCluster :: "ManagedCluster \<Rightarrow> VirtualCluster res" where
  "NewClusterFromManagedCluster mc =
     (if mc_ClientConfigs mc = [] then Fail NewInvalidManagedClusterError
      else (let c = newVirtualCluster (Some (mc_Meta mc))
            in Ret (c\<lparr>vc_Spec := (vc_Spec c)\<lparr>vcs_Accepted := mc_HubAcceptsClient mc,
                        vcs_CredentialType := CredentialTypeOCMManagedCluster\<rparr>\<rparr>)))"

section \<open>The client\<close>

record 'x virtualClusterClient =
  vcc_Client :: "'x ctrl_client option"
  vcc_namespace :: string
  vcc_withControlPlane :: bool

definition NewVirtualClusterClient :: "'x ctrl_client option \<Rightarrow> string \<Rightarrow> bool \<Rightarrow> 'x virtualClusterClient" where
  "NewVirtualClusterClient cli namespace withControlPlane =
     \<lparr>vcc_Client = cli, vcc_namespace = namespace, vcc_withControlPlane = withControlPlane\<rparr>"

text \<open>\<^verbatim>\<open>utilerrors.NewAggregate\<close> on two errors, and what \<^verbatim>\<open>Get\<close> returns of it.\<close>

definition aggregate_errors :: "string \<Rightarrow> goerror option \<Rightarrow> goerror option \<Rightarrow> goerror" where
  "aggregate_errors name secretErr managedErr =
     (case [e. Some e \<leftarrow> [secretErr, managedErr]] of
        [] \<Rightarrow> NewNotFound MetaApiGroupName ''virtualclusters'' name
      | [e] \<Rightarrow> e
      | es \<Rightarrow> AggregateError es)"

definition virtualClusterClient_Get :: "'x virtualClusterClient \<Rightarrow> string \<Rightarrow> ('x, VirtualCluster) gom" where
  "virtualClusterClient_Get c name =
     (if name = ClusterLocalName then ret NewLocalCluster
      else
        bindM (liftR (deref (vcc_Client c))) (\<lambda>cli.
        bindM (attempt (ctrl_Get_Secret cli (vcc_namespace c) name)) (\<lambda>r.
        let fromSecret = (case r of Inr s \<Rightarrow> Some (NewClusterFromSecret s) | Inl e \<Rightarrow> None) in
        (case fromSecret of
           Some (Ret cluster) \<Rightarrow> ret cluster
         | _ \<Rightarrow>
             let secretErr = (case r of
                    Inr s \<Rightarrow> (case NewClusterFromSecret s of Fail e \<Rightarrow> Some e | _ \<Rightarrow> None)
                  | Inl e \<Rightarrow> if IsNotFound e then None else Some e)
             in bindM (attempt (ctrl_Get_ManagedCluster cli (vcc_namespace c) name)) (\<lambda>r2.
                (case r2 of
                   Inr mc \<Rightarrow>
                     (case NewClusterFromManagedCluster mc of
                        Ret cluster \<Rightarrow> ret cluster
                      | Fail e \<Rightarrow> fail (aggregate_errors name secretErr (Some e))
                      | Panic s \<Rightarrow> panic s)
                 | Inl e \<Rightarrow>
                     fail (aggregate_errors name secretErr
                       (if IsNotFound e \<or> IsNoMatchError e \<or> IsNotRegisteredError e then None else Some e))))))))"

definition exists_requirement :: "string \<Rightarrow> requirement" where
  "exists_requirement key = \<lparr>req_Key = key, req_Matches = (\<lambda>ls. mget ls key \<noteq> None)\<rparr>"

definition virtualClusterSelector_ApplyToList ::
  "selector option \<Rightarrow> bool \<Rightarrow> string \<Rightarrow> ListOptions" where
  "virtualClusterSelector_ApplyToList selector requireCredentialType namespace =
     (let base = (case selector of None \<Rightarrow> []
                  | Some rs \<Rightarrow> filter (\<lambda>r. req_Key r \<notin> set [LabelClusterControlPlane]) rs)
      in \<lparr>lo_LabelSelector = Some (base @ (if requireCredentialType then [exists_requirement LabelKeyClusterCredentialType] else [])),
          lo_Namespace = namespace\<rparr>)"

fun add_secrets :: "Secret list \<Rightarrow> VirtualCluster list \<Rightarrow> VirtualCluster list" where
  "add_secrets [] items = items"
| "add_secrets (s # ss) items = add_secrets ss (case NewClusterFromSecret s of Ret c \<Rightarrow> items @ [c] | _ \<Rightarrow> items)"

fun add_managed :: "ManagedCluster list \<Rightarrow> VirtualCluster list \<Rightarrow> VirtualCluster list" where
  "add_managed [] items = items"
| "add_managed (mc # mcs) items = add_managed mcs
     (if HasCluster items (mc_Name mc) then items
      else case NewClusterFromManagedCluster mc of Ret c \<Rightarrow> items @ [c] | _ \<Rightarrow> items)"

definition cluster_less :: "VirtualCluster \<Rightarrow> VirtualCluster \<Rightarrow> bool" where
  "cluster_less a b =
     (if vc_Name a = ClusterLocalName then True
      else if vc_Name b = ClusterLocalName then False
      else vc_Created b < vc_Created a)"

definition virtualClusterClient_List ::
  "((VirtualCluster \<Rightarrow> VirtualCluster \<Rightarrow> bool) \<Rightarrow> VirtualCluster list \<Rightarrow> VirtualCluster list) \<Rightarrow>
   'x virtualClusterClient \<Rightarrow> selector option \<Rightarrow> ('x, VirtualClusterList) gom" where
  "virtualClusterClient_List sort_Slice c sel =
     bindM (liftR (deref (vcc_Client c))) (\<lambda>cli.
     bindM (ctrl_List_Secret cli (virtualClusterSelector_ApplyToList sel True (vcc_namespace c))) (\<lambda>secrets.
     let items1 = add_secrets secrets [NewLocalCluster] in
     bindM (attempt (ctrl_List_ManagedCluster cli (virtualClusterSelector_ApplyToList sel False ''''))) (\<lambda>r.
     bindM (case r of
              Inr mcs \<Rightarrow> ret mcs
            | Inl e \<Rightarrow> if IsNoMatchError e \<or> IsNotRegisteredError e then ret [] else fail e) (\<lambda>managedClusters.
     let items2 = add_managed managedClusters items1;
         items3 = filter (\<lambda>cl. case sel of None \<Rightarrow> True | Some s \<Rightarrow> selector_Matches s (meta_Labels (vc_Meta cl))) items2
     in ret \<lparr>vcl_Items = sort_Slice cluster_less items3\<rparr>))))"

text \<open>The resource's handlers, on the process-wide client; the list option is the request's label selector, if any.\<close>

definition VirtualCluster_Get :: "'x singletons \<Rightarrow> settings \<Rightarrow> string \<Rightarrow> ('x, VirtualCluster) gom" where
  "VirtualCluster_Get sg c name =
     virtualClusterClient_Get (NewVirtualClusterClient (GetCtrlClient sg) (SecretNamespace c) (VirtualClusterWithControlPlane c)) name"

definition VirtualCluster_List ::
  "((VirtualCluster \<Rightarrow> VirtualCluster \<Rightarrow> bool) \<Rightarrow> VirtualCluster list \<Rightarrow> VirtualCluster list) \<Rightarrow>
   'x singletons \<Rightarrow> settings \<Rightarrow> selector option \<Rightarrow> ('x, VirtualClusterList) gom" where
  "VirtualCluster_List sort_Slice sg c options =
     (let sel = (case options of Some s \<Rightarrow> if s \<noteq> [] then s else [] | None \<Rightarrow> [])
      in virtualClusterClient_List sort_Slice
           (NewVirtualClusterClient (GetCtrlClient sg) (SecretNamespace c) (VirtualClusterWithControlPlane c)) (Some sel))"

section \<open>Tables\<close>

definition virtualClusterDefinitions :: "TableColumnDefinition list" where
  "virtualClusterDefinitions =
     [column ''Name'' ''string'' ''name'' ''the name of the cluster'' 0,
      column ''Alias'' ''string'' '''' ''the cluster provider type'' 0,
      column ''Credential_Type'' ''string'' '''' ''the credential type'' 0,
      column ''Endpoint'' ''string'' '''' ''the endpoint'' 0,
      column ''Accepted'' ''boolean'' '''' ''the acceptance of the cluster'' 0,
      column ''Labels'' ''string'' '''' ''the labels of the cluster'' 0,
      column ''Creation_Timestamp'' ''dateTime'' '''' ''the creation timestamp of the cluster'' 10]"

definition printClusterRow :: "VirtualCluster \<Rightarrow> VirtualCluster TableRow" where
  "printClusterRow c =
     (let ls = map (\<lambda>(k, v). k @ ''='' @ v) (entries (meta_Labels (vc_Meta c)))
      in \<lparr>row_Cells = [StringCell (vc_Name c), StringCell (vcs_Alias (vc_Spec c)), StringCell (vcs_CredentialType (vc_Spec c)),
                       StringCell (vcs_Endpoint (vc_Spec c)), BoolCell (vcs_Accepted (vc_Spec c)),
                       StringCell (strings_Join ls '',''), TimeCell (vc_Created c)],
          row_Object = c\<rparr>)"

definition printCluster :: "VirtualCluster \<Rightarrow> VirtualCluster Table" where
  "printCluster c = \<lparr>table_ColumnDefinitions = virtualClusterDefinitions, table_Rows = [printClusterRow c]\<rparr>"

definition printClusterList :: "VirtualClusterList \<Rightarrow> VirtualCluster Table" where
  "printClusterList l = \<lparr>table_ColumnDefinitions = virtualClusterDefinitions, table_Rows = map printClusterRow (vcl_Items l)\<rparr>"

datatype cluster_object = ClusterObject VirtualCluster | ClusterListObject VirtualClusterList | OtherClusterObject string

fun VirtualCluster_ConvertToTable :: "cluster_object \<Rightarrow> VirtualCluster Table res" where
  "VirtualCluster_ConvertToTable (ClusterObject c) = Ret (printCluster c)"
| "VirtualCluster_ConvertToTable (ClusterListObject l) = Ret (printClusterList l)"
| "VirtualCluster_ConvertToTable (OtherClusterObject t) = Fail (PlainError (''unknown type '' @ t))"

section \<open>Lemmas\<close>
















section \<open>Properties\<close>







end
