(* ===== verification/Addon_Types.thy ===== *)
theory Addon_Types
  imports Secret_Control "HOL-Library.Word"
begin

text \<open>
  The data of the addon manager: the \<^verbatim>\<open>ClusterGatewayConfiguration\<close> resource
  (\<^verbatim>\<open>pkg/apis/proxy/v1alpha1/clustergatewayconfigurations.go\<close>, \<^verbatim>\<open>groupversion_info.go\<close>), the Open-Cluster-Management
  addon objects and the Kubernetes objects the installer creates, each with the fields the code sets or
  reads. The hub cluster's API is the record \<open>hub\<close> of calls over the outside world \<open>'x\<close>; what a theorem needs of
  it is the named hypothesis \<open>hub_api\<close>, and \<open>hub_tracker\<close> is an in-memory hub that satisfies it.
\<close>

section \<open>ClusterGatewayConfiguration\<close>

definition proxy_GroupVersion :: "string \<times> string" where
  "proxy_GroupVersion = (''proxy.open-cluster-management.io'', ''v1alpha1'')"

definition EgressTypeDirect :: string where "EgressTypeDirect = ''Direct''"
definition EgressTypeClusterProxy :: string where "EgressTypeClusterProxy = ''ClusterProxy''"

record ClusterProxyCredential =
  cpc_Namespace :: string
  cpc_ProxyClientSecretName :: string
  cpc_ProxyClientCASecretName :: string

record EgressClusterProxy =
  ecp_ProxyServerHost :: string
  ecp_ProxyServerPort :: "32 word"
  ecp_Credentials :: ClusterProxyCredential

record ClusterGatewayTrafficEgress =
  eg_Type :: string
  eg_ClusterProxy :: "EgressClusterProxy option"

definition SecretManagementTypeManual :: string where "SecretManagementTypeManual = ''Manual''"
definition SecretManagementTypeManagedServiceAccount :: string where
  "SecretManagementTypeManagedServiceAccount = ''ManagedServiceAccount''"

record SecretManagementManagedServiceAccount =
  smm_Name :: string

record ClusterGatewaySecretManagement =
  sm_Type :: string
  sm_ManagedServiceAccount :: "SecretManagementManagedServiceAccount option"

record ClusterGatewayConfigurationSpec =
  cgs_Image :: string
  cgs_SecretNamespace :: string
  cgs_InstallNamespace :: string
  cgs_SecretManagement :: ClusterGatewaySecretManagement
  cgs_Egress :: ClusterGatewayTrafficEgress

record Condition =
  cond_Type :: string
  cond_Status :: string
  cond_Reason :: string
  cond_Message :: string

record ClusterGatewayConfigurationStatus =
  cgst_LastObservedGeneration :: int
  cgst_Conditions :: "Condition list"

record ClusterGatewayConfiguration =
  cfg_Meta :: ObjectMeta
  cfg_Spec :: ClusterGatewayConfigurationSpec
  cfg_Status :: ClusterGatewayConfigurationStatus

record ClusterGatewayConfigurationList =
  cfgl_Items :: "ClusterGatewayConfiguration list"

definition ConditionTypeClusterGatewayDeployed :: string where
  "ConditionTypeClusterGatewayDeployed = ''ClusterGatewayDeployed''"

section \<open>Addon objects\<close>

record ClusterManagementAddOn =
  cma_Meta :: ObjectMeta
  cma_CRDName :: string
  cma_CRName :: string

record ManagedClusterAddOn =
  mca_Meta :: ObjectMeta
  mca_InstallNamespace :: string
  mca_ConfigCRName :: string
  mca_Conditions :: "Condition list"

text \<open>\<^verbatim>\<open>addonv1alpha1.GroupVersion.String()\<close>, used in every owner reference.\<close>

definition addon_GroupVersion :: string where
  "addon_GroupVersion = ''addon.open-cluster-management.io/v1alpha1''"

section \<open>Kubernetes objects\<close>

record TypeMeta =
  tm_APIVersion :: string
  tm_Kind :: string

definition no_TypeMeta :: TypeMeta where "no_TypeMeta = \<lparr>tm_APIVersion = '''', tm_Kind = ''''\<rparr>"

record Namespace =
  nsp_TypeMeta :: TypeMeta
  nsp_Meta :: ObjectMeta

record ServiceAccount =
  sa_TypeMeta :: TypeMeta
  sa_Meta :: ObjectMeta

record ServicePort =
  port_Name :: string
  port_Port :: int

record Service =
  svc_TypeMeta :: TypeMeta
  svc_Meta :: ObjectMeta
  svc_Type :: string
  svc_Selector :: "string gomap"
  svc_Ports :: "ServicePort list"

record ServiceReference =
  svcref_Namespace :: string
  svcref_Name :: string
  svcref_Port :: "int option"

record APIService =
  apis_Meta :: ObjectMeta
  apis_Group :: string
  apis_Version :: string
  apis_Service :: "ServiceReference option"
  apis_GroupPriorityMinimum :: int
  apis_VersionPriority :: int
  apis_InsecureSkipTLSVerify :: bool
  apis_CABundle :: gobytes

record PolicyRule =
  rule_APIGroups :: "string list"
  rule_Resources :: "string list"
  rule_Verbs :: "string list"

record RoleRef =
  roleref_Kind :: string
  roleref_Name :: string

record Subject =
  subj_Kind :: string
  subj_Namespace :: string
  subj_Name :: string

record Role =
  role_Meta :: ObjectMeta
  role_Rules :: "PolicyRule list"

record RoleBinding =
  rb_Meta :: ObjectMeta
  rb_RoleRef :: RoleRef
  rb_Subjects :: "Subject list"

record ClusterRole =
  crole_TypeMeta :: TypeMeta
  crole_Meta :: ObjectMeta
  crole_Rules :: "PolicyRule list"

record ClusterRoleBinding =
  crb_TypeMeta :: TypeMeta
  crb_Meta :: ObjectMeta
  crb_RoleRef :: RoleRef
  crb_Subjects :: "Subject list"

record ManagedServiceAccount =
  msa_TypeMeta :: TypeMeta
  msa_Meta :: ObjectMeta
  msa_RotationEnabled :: bool
  msa_RotationValidity :: int

record Volume =
  vol_Name :: string
  vol_SecretName :: string

record VolumeMount =
  mount_Name :: string
  mount_Path :: string
  mount_ReadOnly :: bool

text \<open>A resource quantity: its amount (thousandths when it was made as a milli quantity) and its format.\<close>

datatype Quantity = MilliQuantity int string | PlainQuantity int string

record Container =
  con_Name :: string
  con_Image :: string
  con_ImagePullPolicy :: string
  con_Args :: "string list"
  con_VolumeMounts :: "VolumeMount list"
  con_Requests :: "Quantity gomap"
  con_Limits :: "Quantity gomap"

record Deployment =
  dep_TypeMeta :: TypeMeta
  dep_Meta :: ObjectMeta
  dep_Selector :: "string gomap"
  dep_Replicas :: "int option"
  dep_PodLabels :: "string gomap"
  dep_Containers :: "Container list"
  dep_ServiceAccountName :: string
  dep_Volumes :: "Volume list"
  dep_StrategyType :: string
  dep_MaxUnavailable :: "int option"
  dep_MaxSurge :: "int option"

text \<open>What a \<^verbatim>\<open>client.Object\<close> can be here.\<close>

datatype hub_object =
    NamespaceObj Namespace
  | ServiceAccountObj ServiceAccount
  | ServiceObj Service
  | RoleObj Role
  | RoleBindingObj RoleBinding
  | ClusterRoleObj ClusterRole
  | ClusterRoleBindingObj ClusterRoleBinding
  | APIServiceObj APIService
  | DeploymentObj Deployment
  | ManagedServiceAccountObj ManagedServiceAccount

datatype object_kind = KNamespace | KServiceAccount | KService | KRole | KRoleBinding | KClusterRole
  | KClusterRoleBinding | KAPIService | KDeployment | KManagedServiceAccount

fun obj_kind :: "hub_object \<Rightarrow> object_kind" where
  "obj_kind (NamespaceObj _) = KNamespace"
| "obj_kind (ServiceAccountObj _) = KServiceAccount"
| "obj_kind (ServiceObj _) = KService"
| "obj_kind (RoleObj _) = KRole"
| "obj_kind (RoleBindingObj _) = KRoleBinding"
| "obj_kind (ClusterRoleObj _) = KClusterRole"
| "obj_kind (ClusterRoleBindingObj _) = KClusterRoleBinding"
| "obj_kind (APIServiceObj _) = KAPIService"
| "obj_kind (DeploymentObj _) = KDeployment"
| "obj_kind (ManagedServiceAccountObj _) = KManagedServiceAccount"

fun obj_Meta :: "hub_object \<Rightarrow> ObjectMeta" where
  "obj_Meta (NamespaceObj a) = nsp_Meta a"
| "obj_Meta (ServiceAccountObj a) = sa_Meta a"
| "obj_Meta (ServiceObj a) = svc_Meta a"
| "obj_Meta (RoleObj a) = role_Meta a"
| "obj_Meta (RoleBindingObj a) = rb_Meta a"
| "obj_Meta (ClusterRoleObj a) = crole_Meta a"
| "obj_Meta (ClusterRoleBindingObj a) = crb_Meta a"
| "obj_Meta (APIServiceObj a) = apis_Meta a"
| "obj_Meta (DeploymentObj a) = dep_Meta a"
| "obj_Meta (ManagedServiceAccountObj a) = msa_Meta a"

fun map_obj_Meta :: "(ObjectMeta \<Rightarrow> ObjectMeta) \<Rightarrow> hub_object \<Rightarrow> hub_object" where
  "map_obj_Meta f (NamespaceObj a) = NamespaceObj (a\<lparr>nsp_Meta := f (nsp_Meta a)\<rparr>)"
| "map_obj_Meta f (ServiceAccountObj a) = ServiceAccountObj (a\<lparr>sa_Meta := f (sa_Meta a)\<rparr>)"
| "map_obj_Meta f (ServiceObj a) = ServiceObj (a\<lparr>svc_Meta := f (svc_Meta a)\<rparr>)"
| "map_obj_Meta f (RoleObj a) = RoleObj (a\<lparr>role_Meta := f (role_Meta a)\<rparr>)"
| "map_obj_Meta f (RoleBindingObj a) = RoleBindingObj (a\<lparr>rb_Meta := f (rb_Meta a)\<rparr>)"
| "map_obj_Meta f (ClusterRoleObj a) = ClusterRoleObj (a\<lparr>crole_Meta := f (crole_Meta a)\<rparr>)"
| "map_obj_Meta f (ClusterRoleBindingObj a) = ClusterRoleBindingObj (a\<lparr>crb_Meta := f (crb_Meta a)\<rparr>)"
| "map_obj_Meta f (APIServiceObj a) = APIServiceObj (a\<lparr>apis_Meta := f (apis_Meta a)\<rparr>)"
| "map_obj_Meta f (DeploymentObj a) = DeploymentObj (a\<lparr>dep_Meta := f (dep_Meta a)\<rparr>)"
| "map_obj_Meta f (ManagedServiceAccountObj a) = ManagedServiceAccountObj (a\<lparr>msa_Meta := f (msa_Meta a)\<rparr>)"

type_synonym object_key = "object_kind \<times> string \<times> string"

definition obj_key :: "hub_object \<Rightarrow> object_key" where
  "obj_key obj = (obj_kind obj, meta_Namespace (obj_Meta obj), meta_Name (obj_Meta obj))"

text \<open>An object without the metadata the API server fills in; two objects with the same content differ only there.\<close>

definition obj_content :: "hub_object \<Rightarrow> hub_object" where
  "obj_content = map_obj_Meta (\<lambda>m. m\<lparr>meta_UID := '''', meta_ResourceVersion := '''', meta_Generation := 0, meta_CreationTimestamp := 0\<rparr>)"

section \<open>The hub's API\<close>

text \<open>
  The native client (\<open>hub_kube\<close>, with namespaces), the controller-runtime client (typed reads, \<open>hub_Create\<close>, \<open>hub_Update\<close>, the
  status writer) and the REST mapper. A secret lister hands out pointers into its cache: \<open>hub_cache_Get\<close> reads
  the cached secret and \<open>hub_cache_Write\<close> is what an assignment through the returned pointer does to the cache.
\<close>

record 'x hub =
  hub_kube :: "'x kube_client"
  hub_CreateNamespace :: "Namespace \<Rightarrow> ('x, unit) gom"
  hub_Get_ClusterManagementAddOn :: "string \<Rightarrow> string \<Rightarrow> ('x, ClusterManagementAddOn) gom"
  hub_Get_ClusterGatewayConfiguration :: "string \<Rightarrow> ('x, ClusterGatewayConfiguration) gom"
  hub_Get_ManagedClusterAddOn :: "string \<Rightarrow> string \<Rightarrow> ('x, ManagedClusterAddOn) gom"
  hub_Get_APIService :: "string \<Rightarrow> ('x, APIService) gom"
  hub_Get_Deployment :: "string \<Rightarrow> string \<Rightarrow> ('x, Deployment) gom"
  hub_List_ManagedClusterAddOn :: "('x, ManagedClusterAddOn list) gom"
  hub_List_ClusterManagementAddOn :: "('x, ClusterManagementAddOn list) gom"
  hub_Create :: "hub_object \<Rightarrow> ('x, unit) gom"
  hub_Update :: "hub_object \<Rightarrow> ('x, unit) gom"
  hub_UpdateStatus :: "ManagedClusterAddOn \<Rightarrow> ('x, unit) gom"
  hub_KindFor :: "string \<Rightarrow> string \<Rightarrow> string \<Rightarrow> ('x, string) gom"
  hub_cache_Get :: "string \<Rightarrow> string \<Rightarrow> ('x, Secret) gom"
  hub_cache_Write :: "string \<Rightarrow> string \<Rightarrow> Secret \<Rightarrow> 'x \<Rightarrow> 'x"

text \<open>
  \<open>hub_api h look slook\<close>: reads give what is stored or a not-found error and change nothing; creating an object
  that is not there stores it (up to server-side metadata) under its kind, namespace and name and nothing else; creating
  one that is there is an already-exists error without an effect; updating one that is there replaces it and updating one
  that is not is a not-found error. Secrets
  and other objects do not interfere, and the lister's cache is neither.
\<close>

definition stores :: "('x \<Rightarrow> object_key \<Rightarrow> hub_object option) \<Rightarrow> ('x \<Rightarrow> string \<Rightarrow> string \<Rightarrow> Secret option) \<Rightarrow>
    hub_object \<Rightarrow> 'x \<Rightarrow> unit res \<times> 'x \<Rightarrow> bool" where
  "stores look slook obj x r \<longleftrightarrow> fst r = Ret () \<and> slook (snd r) = slook x \<and>
     (\<exists>obj'. obj_content obj' = obj_content obj \<and> look (snd r) = (look x)(obj_key obj := Some obj'))"

definition rejects :: "'x \<Rightarrow> unit res \<times> 'x \<Rightarrow> bool" where
  "rejects x r \<longleftrightarrow> (\<exists>e. IsAlreadyExists e \<and> r = (Fail e, x))"

definition reads :: "'a option \<Rightarrow> 'x \<Rightarrow> 'a res \<times> 'x \<Rightarrow> bool" where
  "reads found x r \<longleftrightarrow> (case found of Some a \<Rightarrow> r = (Ret a, x) | None \<Rightarrow> \<exists>e. IsNotFound e \<and> r = (Fail e, x))"

fun as_APIService :: "hub_object option \<Rightarrow> APIService option" where
  "as_APIService (Some (APIServiceObj a)) = Some a"
| "as_APIService _ = None"

fun as_Deployment :: "hub_object option \<Rightarrow> Deployment option" where
  "as_Deployment (Some (DeploymentObj a)) = Some a"
| "as_Deployment _ = None"

definition hub_api ::
  "'x hub \<Rightarrow> ('x \<Rightarrow> object_key \<Rightarrow> hub_object option) \<Rightarrow> ('x \<Rightarrow> string \<Rightarrow> string \<Rightarrow> Secret option) \<Rightarrow> bool" where
  "hub_api h look slook \<longleftrightarrow>
     secret_api (hub_kube h) slook \<and>
     (\<forall>ns s x. look (snd (secrets_Create (hub_kube h) ns s x)) = look x \<and> look (snd (secrets_Update (hub_kube h) ns s x)) = look x) \<and>
     (\<forall>ns n s x. look (hub_cache_Write h ns n s x) = look x \<and> slook (hub_cache_Write h ns n s x) = slook x) \<and>
     (\<forall>ns n x. snd (hub_cache_Get h ns n x) = x) \<and>
     (\<forall>g v r x. snd (hub_KindFor h g v r x) = x) \<and> (\<forall>x. snd (hub_List_ManagedClusterAddOn h x) = x) \<and>
     (\<forall>ns n x. snd (hub_Get_ClusterManagementAddOn h ns n x) = x) \<and> (\<forall>n x. snd (hub_Get_ClusterGatewayConfiguration h n x) = x) \<and>
     (\<forall>x key obj. look x key = Some obj \<longrightarrow> obj_key obj = key) \<and>
     (\<forall>n x. reads (as_APIService (look x (KAPIService, '''', n))) x (hub_Get_APIService h n x)) \<and>
     (\<forall>ns n x. reads (as_Deployment (look x (KDeployment, ns, n))) x (hub_Get_Deployment h ns n x)) \<and>
     (\<forall>obj x. if look x (obj_key obj) = None then stores look slook obj x (hub_Create h obj x) else rejects x (hub_Create h obj x)) \<and>
     (\<forall>n x. hub_CreateNamespace h n x = hub_Create h (NamespaceObj n) x) \<and>
     (\<forall>obj x. if look x (obj_key obj) \<noteq> None then stores look slook obj x (hub_Update h obj x)
              else \<exists>e. IsNotFound e \<and> hub_Update h obj x = (Fail e, x))"

text \<open>An in-memory hub in the style of client-go's object tracker, with a lister cache of its own.\<close>

record hub_state =
  hs_objects :: "(object_key \<times> hub_object) list"
  hs_secrets :: store
  hs_cache :: store
  hs_addons :: "ClusterManagementAddOn list"
  hs_configs :: "ClusterGatewayConfiguration list"
  hs_managed :: "ManagedClusterAddOn list"

definition found :: "string \<Rightarrow> string \<Rightarrow> 'a option \<Rightarrow> ('x, 'a) gom" where
  "found rsrc n r = (case r of Some a \<Rightarrow> ret a | None \<Rightarrow> fail (NewNotFound '''' rsrc n))"

definition on_secrets :: "(store, 'a) gom \<Rightarrow> (hub_state, 'a) gom" where
  "on_secrets m x = (case m (hs_secrets x) of (r, s) \<Rightarrow> (r, x\<lparr>hs_secrets := s\<rparr>))"

definition tracker_kube :: "hub_state kube_client" where
  "tracker_kube = \<lparr>
     secrets_Get = (\<lambda>ns n. on_secrets (secrets_Get tracker_client ns n)),
     secrets_List = (\<lambda>ns key. on_secrets (secrets_List tracker_client ns key)),
     secrets_Create = (\<lambda>ns s. on_secrets (secrets_Create tracker_client ns s)),
     secrets_Update = (\<lambda>ns s. on_secrets (secrets_Update tracker_client ns s)),
     labels_Exists = Ret\<rparr>"

definition hub_look :: "hub_state \<Rightarrow> object_key \<Rightarrow> hub_object option" where
  "hub_look x key = (case map_of (hs_objects x) key of Some obj \<Rightarrow> if obj_key obj = key then Some obj else None | None \<Rightarrow> None)"

definition tracker_Create :: "hub_object \<Rightarrow> (hub_state, unit) gom" where
  "tracker_Create obj x = (if hub_look x (obj_key obj) = None
     then (Ret (), x\<lparr>hs_objects := AList.update (obj_key obj) obj (hs_objects x)\<rparr>)
     else (Fail (StatusError AlreadyExists (meta_Name (obj_Meta obj) @ '' already exists'')), x))"

definition tracker_Update :: "hub_object \<Rightarrow> (hub_state, unit) gom" where
  "tracker_Update obj x = (if hub_look x (obj_key obj) = None
     then (Fail (NewNotFound '''' ''objects'' (meta_Name (obj_Meta obj))), x)
     else (Ret (), x\<lparr>hs_objects := AList.update (obj_key obj) obj (hs_objects x)\<rparr>))"

definition hub_slook :: "hub_state \<Rightarrow> string \<Rightarrow> string \<Rightarrow> Secret option" where
  "hub_slook x = tracker_lookup (hs_secrets x)"

definition hub_tracker :: "hub_state hub" where
  "hub_tracker = \<lparr>
     hub_kube = tracker_kube,
     hub_CreateNamespace = (\<lambda>n. tracker_Create (NamespaceObj n)),
     hub_Get_ClusterManagementAddOn = (\<lambda>ns n x. found ''clustermanagementaddons'' n (find (\<lambda>a. meta_Name (cma_Meta a) = n) (hs_addons x)) x),
     hub_Get_ClusterGatewayConfiguration = (\<lambda>n x. found ''clustergatewayconfigurations'' n (find (\<lambda>c. meta_Name (cfg_Meta c) = n) (hs_configs x)) x),
     hub_Get_ManagedClusterAddOn = (\<lambda>ns n x. found ''managedclusteraddons'' n
        (find (\<lambda>a. meta_Namespace (mca_Meta a) = ns \<and> meta_Name (mca_Meta a) = n) (hs_managed x)) x),
     hub_Get_APIService = (\<lambda>n x. found ''apiservices'' n (as_APIService (hub_look x (KAPIService, '''', n))) x),
     hub_Get_Deployment = (\<lambda>ns n x. found ''deployments'' n (as_Deployment (hub_look x (KDeployment, ns, n))) x),
     hub_List_ManagedClusterAddOn = (\<lambda>x. (Ret (hs_managed x), x)),
     hub_List_ClusterManagementAddOn = (\<lambda>x. (Ret (hs_addons x), x)),
     hub_Create = tracker_Create,
     hub_Update = tracker_Update,
     hub_UpdateStatus = (\<lambda>a x. (Ret (), x\<lparr>hs_managed := map (\<lambda>b.
        if meta_Namespace (mca_Meta b) = meta_Namespace (mca_Meta a) \<and> meta_Name (mca_Meta b) = meta_Name (mca_Meta a) then a else b) (hs_managed x)\<rparr>)),
     hub_KindFor = (\<lambda>g v r. ret r),
     hub_cache_Get = (\<lambda>ns n x. found ''secrets'' n (map_of (hs_cache x) (ns, n)) x),
     hub_cache_Write = (\<lambda>ns n s x. x\<lparr>hs_cache := AList.update (ns, n) s (hs_cache x)\<rparr>)\<rparr>"

section \<open>Lemmas\<close>

lemma obj_content_kind: "obj_content a = obj_content b \<Longrightarrow> obj_kind a = obj_kind b"
  by (cases a; cases b) (simp_all add: obj_content_def)

lemma obj_Meta_map: "obj_Meta (map_obj_Meta f a) = f (obj_Meta a)"
  by (cases a) simp_all

lemma obj_content_meta:
  assumes "obj_content a = obj_content b"
  shows "meta_Name (obj_Meta a) = meta_Name (obj_Meta b)" "meta_Namespace (obj_Meta a) = meta_Namespace (obj_Meta b)"
    "meta_Labels (obj_Meta a) = meta_Labels (obj_Meta b)"
proof -
  note meta = arg_cong [OF assms, of obj_Meta, unfolded obj_content_def obj_Meta_map]
  show "meta_Name (obj_Meta a) = meta_Name (obj_Meta b)" using arg_cong [OF meta, of meta_Name] by simp
  show "meta_Namespace (obj_Meta a) = meta_Namespace (obj_Meta b)" using arg_cong [OF meta, of meta_Namespace] by simp
  show "meta_Labels (obj_Meta a) = meta_Labels (obj_Meta b)" using arg_cong [OF meta, of meta_Labels] by simp
qed

lemma obj_content_key: "obj_content a = obj_content b \<Longrightarrow> obj_key a = obj_key b"
  using obj_content_kind [of a b] obj_content_meta(1,2) [of a b] by (simp add: obj_key_def)

lemma content_APIService:
  "obj_content obj = obj_content (APIServiceObj a) \<Longrightarrow> \<exists>a'. obj = APIServiceObj a' \<and> apis_CABundle a' = apis_CABundle a"
proof -
  assume same: "obj_content obj = obj_content (APIServiceObj a)"
  then obtain a' where obj: "obj = APIServiceObj a'" using obj_content_kind [OF same] by (cases obj) simp_all
  have "apis_CABundle a' = apis_CABundle a"
    using arg_cong [OF same, of "\<lambda>c. map_option apis_CABundle (as_APIService (Some c))"] by (simp add: obj obj_content_def)
  then show ?thesis using obj by simp
qed

lemma content_Deployment:
  "obj_content obj = obj_content (DeploymentObj a) \<Longrightarrow> \<exists>a'. obj = DeploymentObj a' \<and> meta_Labels (dep_Meta a') = meta_Labels (dep_Meta a)"
  using obj_content_meta(3) [of obj "DeploymentObj a"] obj_content_kind [of obj "DeploymentObj a"] by (cases obj) simp_all

lemma hub_tracker_api: "hub_api hub_tracker hub_look hub_slook"
proof -
  have sec: "secret_api tracker_kube hub_slook"
    by (auto simp: secret_api_def tracker_kube_def tracker_client_def on_secrets_def hub_slook_def tracker_lookup_def
          update_conv' stored_as_def split: option.splits)
  have frame: "hub_look (snd (secrets_Create tracker_kube ns s x)) = hub_look x"
    "hub_look (snd (secrets_Update tracker_kube ns s x)) = hub_look x" for ns s x
    by (auto simp: tracker_kube_def tracker_client_def on_secrets_def hub_look_def fun_eq_iff split: option.splits)
  have put: "hub_look (x\<lparr>hs_objects := AList.update (obj_key obj) obj (hs_objects x)\<rparr>) = (hub_look x)(obj_key obj := Some obj)" for x obj
    by (auto simp: hub_look_def fun_eq_iff update_conv')
  have keyed: "hub_look x key = Some obj \<Longrightarrow> obj_key obj = key" for x key obj
    by (auto simp: hub_look_def split: option.splits if_splits)
  have cache: "hub_look (x\<lparr>hs_cache := c\<rparr>) = hub_look x" "hub_slook (x\<lparr>hs_cache := c\<rparr>) = hub_slook x" for x c
    by (auto simp: hub_look_def hub_slook_def)
  have slook: "hub_slook (x\<lparr>hs_objects := c\<rparr>) = hub_slook x" for x c
    by (auto simp: hub_slook_def)
  have found: "snd (found rsrc n r x) = x" "reads r x (found rsrc n r x)" for rsrc n x and r :: "'a option"
    by (auto simp: found_def reads_def run_simps split: option.splits)
  show ?thesis
    unfolding hub_api_def
    by (intro conjI allI impI)
       (auto simp: hub_tracker_def run_simps sec frame cache keyed found tracker_Create_def tracker_Update_def stores_def rejects_def put slook IsAlreadyExists_def)
qed

lemma hub_api_facts:
  assumes "hub_api h look slook"
  shows hub_api_secret: "secret_api (hub_kube h) slook"
    and hub_api_secret_frame: "look (snd (secrets_Create (hub_kube h) ns s x)) = look x"
      "look (snd (secrets_Update (hub_kube h) ns s x)) = look x"
    and hub_api_cache: "look (hub_cache_Write h ns n s x) = look x" "slook (hub_cache_Write h ns n s x) = slook x"
      "snd (hub_cache_Get h ns n x) = x"
    and hub_api_quiet: "snd (hub_KindFor h g v rsrc x) = x" "snd (hub_List_ManagedClusterAddOn h x) = x"
      "snd (hub_Get_ClusterManagementAddOn h ns n x) = x" "snd (hub_Get_ClusterGatewayConfiguration h n x) = x"
    and hub_api_keyed: "look x key = Some obj \<Longrightarrow> obj_key obj = key"
    and hub_api_Get_APIService: "reads (as_APIService (look x (KAPIService, '''', n))) x (hub_Get_APIService h n x)"
    and hub_api_Get_Deployment: "reads (as_Deployment (look x (KDeployment, ns, n))) x (hub_Get_Deployment h ns n x)"
    and hub_api_Create: "look x (obj_key obj) = None \<Longrightarrow> stores look slook obj x (hub_Create h obj x)"
    and hub_api_Create_existing: "look x (obj_key obj) \<noteq> None \<Longrightarrow> rejects x (hub_Create h obj x)"
    and hub_api_CreateNamespace: "hub_CreateNamespace h nsp x = hub_Create h (NamespaceObj nsp) x"
    and hub_api_Update: "look x (obj_key obj) \<noteq> None \<Longrightarrow> stores look slook obj x (hub_Update h obj x)"
    and hub_api_Update_missing: "look x (obj_key obj) = None \<Longrightarrow> \<exists>e. IsNotFound e \<and> hub_Update h obj x = (Fail e, x)"
  using assms unfolding hub_api_def by (metis (no_types, lifting))+

section \<open>What a call may write\<close>

text \<open>
  \<open>writes_only look C m\<close>: whatever \<open>m\<close> does to the objects of the hub, each of them stays as it was or ends up with one of the
  contents \<open>C\<close>. The rules compose it along the program.
\<close>

definition writes_only :: "('x \<Rightarrow> object_key \<Rightarrow> hub_object option) \<Rightarrow> hub_object set \<Rightarrow> ('x, 'a) gom \<Rightarrow> bool" where
  "writes_only look C m \<longleftrightarrow> (\<forall>x key. look (snd (m x)) key = look x key \<or>
     (\<exists>obj. look (snd (m x)) key = Some obj \<and> obj_content obj \<in> C))"

lemma writes_only_quiet: "(\<And>x. look (snd (m x)) = look x) \<Longrightarrow> writes_only look C m"
  by (simp add: writes_only_def)

lemma writes_only_basic:
  "writes_only look C (ret a)" "writes_only look C (fail e)" "writes_only look C (panic s)" "writes_only look C (liftR r)"
  by (simp_all add: writes_only_def run_simps)

lemma writes_only_bindM:
  assumes "writes_only look C m" and "\<And>x a. fst (m x) = Ret a \<Longrightarrow> writes_only look C (f a)"
  shows "writes_only look C (bindM m f)"
  unfolding writes_only_def
proof (intro allI)
  fix x key
  show "look (snd (bindM m f x)) key = look x key \<or> (\<exists>obj. look (snd (bindM m f x)) key = Some obj \<and> obj_content obj \<in> C)"
  proof (cases "m x")
    case (Pair r y)
    have first: "look y key = look x key \<or> (\<exists>obj. look y key = Some obj \<and> obj_content obj \<in> C)"
      using assms(1) Pair unfolding writes_only_def by (metis snd_conv)
    show ?thesis
    proof (cases r)
      case (Ret a)
      have "look (snd (f a y)) key = look y key \<or> (\<exists>obj. look (snd (f a y)) key = Some obj \<and> obj_content obj \<in> C)"
        using assms(2) [of x a] Pair Ret unfolding writes_only_def by (metis fst_conv)
      then show ?thesis using first Pair Ret by (auto simp: run_simps)
    qed (use first Pair in \<open>auto simp: run_simps\<close>)
  qed
qed

lemma secrets_Get_quiet: "secret_api kube slook \<Longrightarrow> snd (secrets_Get kube ns n x) = x"
  using secret_api_Get_Some [of kube slook x ns n] secret_api_Get_None [of kube slook x ns n] by (cases "slook x ns n") auto

lemma snd_attempt: "snd (attempt m x) = snd (m x)"
  by (simp add: run_simps split: prod.splits res.splits)

lemma snd_mapErr: "snd (mapErr f m x) = snd (m x)"
  by (simp add: run_simps split: prod.splits res.splits)

lemma fst_calls: "fst (liftR r x) = r" "fst (mapErr f m x) = Ret a \<longleftrightarrow> fst (m x) = Ret a"
  by (simp_all add: run_simps split: prod.splits res.splits)

lemma writes_only_attempt: "writes_only look C m \<Longrightarrow> writes_only look C (attempt m)"
  by (simp add: writes_only_def snd_attempt)

lemma writes_only_mapErr: "writes_only look C m \<Longrightarrow> writes_only look C (mapErr f m)"
  by (simp add: writes_only_def snd_mapErr)

lemma writes_only_forM: "(\<And>a. a \<in> set xs \<Longrightarrow> writes_only look C (f a)) \<Longrightarrow> writes_only look C (forM f xs)"
  by (induction xs) (simp_all add: writes_only_basic writes_only_bindM)

lemma stores_content: "stores look slook obj x r \<Longrightarrow> obj_content obj \<in> C \<Longrightarrow>
    look (snd r) key = look x key \<or> (\<exists>obj'. look (snd r) key = Some obj' \<and> obj_content obj' \<in> C)"
  by (auto simp: stores_def)

lemma writes_only_Create: "hub_api h look slook \<Longrightarrow> obj_content obj \<in> C \<Longrightarrow> writes_only look C (hub_Create h obj)"
  unfolding writes_only_def using hub_api_Create hub_api_Create_existing
  by (metis rejects_def snd_conv stores_content)

lemma writes_only_Update: "hub_api h look slook \<Longrightarrow> obj_content obj \<in> C \<Longrightarrow> writes_only look C (hub_Update h obj)"
  unfolding writes_only_def using hub_api_Update hub_api_Update_missing
  by (metis snd_conv stores_content)

lemmas writes_only_rules = writes_only_basic writes_only_bindM writes_only_attempt writes_only_mapErr writes_only_forM
  writes_only_Create writes_only_Update

text \<open>What was there is still there: calls that only write contents never remove an object.\<close>

lemma writes_only_keeps: "writes_only look C m \<Longrightarrow> look x key \<noteq> None \<Longrightarrow> look (snd (m x)) key \<noteq> None"
  unfolding writes_only_def by (metis option.distinct(1))

end
