(* ===== verification/Addon_Installer.thy ===== *)
theory Addon_Installer
  imports Addon_Types Gateway_Transport
begin

text \<open>
  The controller that installs the gateway apiserver on the hub (\<^verbatim>\<open>pkg/addon/controllers/installer.go\<close>): the objects it
  builds, the ensure steps, and \<^verbatim>\<open>Reconcile\<close>. The certificate rotation of the addon framework and the PEM encoding
  of the CA pair are fields of the installer record, the hub's API is its \<open>inst_hub\<close>.
\<close>

section \<open>The installer\<close>

record TargetRotation =
  rot_Namespace :: string
  rot_Name :: string
  rot_HostNames :: "string list"
  rot_Validity :: int

record ('x, 'c, 'k) ClusterGatewayInstaller =
  inst_hub :: "'x hub"
  inst_caPair :: "('c, 'k) CA option"
  inst_GetPEMBytes :: "('c, 'k) CA \<Rightarrow> (gobytes \<times> gobytes) res"
  inst_EnsureTargetCertKeyPair :: "TargetRotation \<Rightarrow> ('c, 'k) CA \<Rightarrow> 'c list \<Rightarrow> ('x, unit) gom"

definition SecretNameClusterGatewayTLSCert :: string where
  "SecretNameClusterGatewayTLSCert = ''cluster-gateway-tls-cert''"
definition ServiceNameClusterGateway :: string where
  "ServiceNameClusterGateway = ''cluster-gateway''"
definition labelKeyClusterGatewayConfigurationGeneration :: string where
  "labelKeyClusterGatewayConfigurationGeneration = ''proxy.open-cluster-management.io/configuration-generation''"

text \<open>A nanosecond count for 180 days, the validity of both kinds of rotated credential.\<close>

definition validity_180_days :: int where "validity_180_days = 24 * 180 * 3600 * 1000000000"

section \<open>Objects\<close>

definition addon_owner :: "ClusterManagementAddOn \<Rightarrow> OwnerReference" where
  "addon_owner addon = \<lparr>ref_APIVersion = addon_GroupVersion, ref_Kind = ''ClusterManagementAddOn'',
     ref_UID = meta_UID (cma_Meta addon), ref_Name = meta_Name (cma_Meta addon)\<rparr>"

definition owned :: "ClusterManagementAddOn \<Rightarrow> string \<Rightarrow> string \<Rightarrow> ObjectMeta" where
  "owned addon ns n = empty_ObjectMeta\<lparr>meta_Namespace := ns, meta_Name := n, meta_OwnerReferences := [addon_owner addon]\<rparr>"

definition newServiceAccount :: "ClusterManagementAddOn \<Rightarrow> string \<Rightarrow> ServiceAccount" where
  "newServiceAccount addon namespace =
     \<lparr>sa_TypeMeta = \<lparr>tm_APIVersion = ''v1'', tm_Kind = ''ServiceAccount''\<rparr>, sa_Meta = owned addon namespace AddonName\<rparr>"

definition deployment_args :: "ClusterGatewayConfiguration \<Rightarrow> string list res" where
  "deployment_args config =
     (let base = [''--secure-port=9443'', ''--secret-namespace='' @ cgs_SecretNamespace (cfg_Spec config), ''--ocm-integration=true'',
                  ''--tls-cert-file=/etc/server/tls.crt'', ''--tls-private-key-file=/etc/server/tls.key'',
                  ''--feature-gates=HealthinessCheck=true,SecretCache=true'']
      in if eg_Type (cgs_Egress (cfg_Spec config)) = EgressTypeClusterProxy
         then bind_res (deref (eg_ClusterProxy (cgs_Egress (cfg_Spec config)))) (\<lambda>cp.
              Ret (base @ [''--proxy-host='' @ ecp_ProxyServerHost cp, ''--proxy-port='' @ Itoa (sint (ecp_ProxyServerPort cp)),
                           ''--proxy-ca-cert=/etc/ca/ca.crt'', ''--proxy-cert=/etc/tls/tls.crt'', ''--proxy-key=/etc/tls/tls.key'']))
         else Ret base)"

definition deployment_volumes :: "ClusterGatewayConfiguration \<Rightarrow> Volume list" where
  "deployment_volumes config = \<lparr>vol_Name = ''server'', vol_SecretName = SecretNameClusterGatewayTLSCert\<rparr> #
     (if eg_Type (cgs_Egress (cfg_Spec config)) = EgressTypeClusterProxy
      then [\<lparr>vol_Name = ''proxy-client-ca'', vol_SecretName = ''proxy-server-ca''\<rparr>,
            \<lparr>vol_Name = ''proxy-client'', vol_SecretName = ''proxy-client''\<rparr>]
      else [])"

definition deployment_mounts :: "ClusterGatewayConfiguration \<Rightarrow> VolumeMount list" where
  "deployment_mounts config = \<lparr>mount_Name = ''server'', mount_Path = ''/etc/server/'', mount_ReadOnly = True\<rparr> #
     (if eg_Type (cgs_Egress (cfg_Spec config)) = EgressTypeClusterProxy
      then [\<lparr>mount_Name = ''proxy-client-ca'', mount_Path = ''/etc/ca/'', mount_ReadOnly = False\<rparr>,
            \<lparr>mount_Name = ''proxy-client'', mount_Path = ''/etc/tls/'', mount_ReadOnly = False\<rparr>]
      else [])"

definition newClusterGatewayDeployment :: "ClusterManagementAddOn \<Rightarrow> ClusterGatewayConfiguration \<Rightarrow> Deployment res" where
  "newClusterGatewayDeployment addon config =
     bind_res (deployment_args config) (\<lambda>args.
     Ret \<lparr>dep_TypeMeta = \<lparr>tm_APIVersion = ''apps/v1'', tm_Kind = ''Deployment''\<rparr>,
          dep_Meta = (owned addon (cgs_InstallNamespace (cfg_Spec config)) ''gateway-deployment'')\<lparr>meta_Labels :=
            Some [(labelKeyClusterGatewayConfigurationGeneration, Itoa (meta_Generation (cfg_Meta config)))]\<rparr>,
          dep_Selector = Some [(LabelKeyOpenClusterManagementAddon, AddonName)],
          dep_Replicas = Some 3,
          dep_PodLabels = Some [(LabelKeyOpenClusterManagementAddon, AddonName)],
          dep_Containers = [\<lparr>con_Name = ''apiserver'', con_Image = cgs_Image (cfg_Spec config), con_ImagePullPolicy = ''IfNotPresent'',
            con_Args = args, con_VolumeMounts = deployment_mounts config,
            con_Requests = Some [(''cpu'', MilliQuantity 100 ''DecimalSI''), (''memory'', PlainQuantity (200 * 1024 * 1024) ''BinarySI'')],
            con_Limits = Some [(''cpu'', MilliQuantity 500 ''DecimalSI''), (''memory'', PlainQuantity (600 * 1024 * 1024) ''BinarySI'')]\<rparr>],
          dep_ServiceAccountName = AddonName,
          dep_Volumes = deployment_volumes config,
          dep_StrategyType = ''RollingUpdate'', dep_MaxUnavailable = Some 1, dep_MaxSurge = Some 1\<rparr>)"

definition newClusterGatewayService :: "ClusterManagementAddOn \<Rightarrow> string \<Rightarrow> Service" where
  "newClusterGatewayService addon namespace =
     \<lparr>svc_TypeMeta = \<lparr>tm_APIVersion = ''v1'', tm_Kind = ''Service''\<rparr>, svc_Meta = owned addon namespace AddonName,
      svc_Type = ''ClusterIP'', svc_Selector = Some [(LabelKeyOpenClusterManagementAddon, AddonName)],
      svc_Ports = [\<lparr>port_Name = ''https'', port_Port = 9443\<rparr>]\<rparr>"

definition newAPIService :: "ClusterManagementAddOn \<Rightarrow> string \<Rightarrow> gobytes \<Rightarrow> APIService" where
  "newAPIService addon namespace verifyingCABundle =
     \<lparr>apis_Meta = owned addon '''' ''v1alpha1.cluster.core.oam.dev'', apis_Group = ''cluster.core.oam.dev'', apis_Version = ''v1alpha1'',
      apis_Service = Some \<lparr>svcref_Namespace = namespace, svcref_Name = AddonName, svcref_Port = Some 9443\<rparr>,
      apis_GroupPriorityMinimum = 5000, apis_VersionPriority = 10, apis_InsecureSkipTLSVerify = False,
      apis_CABundle = verifyingCABundle\<rparr>"

definition gateway_subject :: "string \<Rightarrow> Subject" where
  "gateway_subject namespace = \<lparr>subj_Kind = ''ServiceAccount'', subj_Namespace = namespace, subj_Name = AddonName\<rparr>"

definition newAuthenticationRole :: "ClusterManagementAddOn \<Rightarrow> string \<Rightarrow> RoleBinding" where
  "newAuthenticationRole addon namespace =
     \<lparr>rb_Meta = owned addon ''kube-system'' ''extension-apiserver-authentication-reader:cluster-gateway'',
      rb_RoleRef = \<lparr>roleref_Kind = ''Role'', roleref_Name = ''extension-apiserver-authentication-reader''\<rparr>,
      rb_Subjects = [gateway_subject namespace]\<rparr>"

definition newSecretRole :: "ClusterManagementAddOn \<Rightarrow> string \<Rightarrow> Role" where
  "newSecretRole addon secretNamespace =
     \<lparr>role_Meta = owned addon secretNamespace ''cluster-gateway'',
      role_Rules = [\<lparr>rule_APIGroups = [''''], rule_Resources = [''secrets''], rule_Verbs = [''get'', ''list'', ''watch'', ''update'']\<rparr>]\<rparr>"

definition newSecretRoleBinding :: "ClusterManagementAddOn \<Rightarrow> string \<Rightarrow> string \<Rightarrow> RoleBinding" where
  "newSecretRoleBinding addon namespace secretNamespace =
     \<lparr>rb_Meta = owned addon secretNamespace ''cluster-gateway'',
      rb_RoleRef = \<lparr>roleref_Kind = ''Role'', roleref_Name = ''cluster-gateway''\<rparr>,
      rb_Subjects = [gateway_subject namespace]\<rparr>"

definition read_rule :: "string \<Rightarrow> string list \<Rightarrow> PolicyRule" where
  "read_rule grp resources = \<lparr>rule_APIGroups = [grp], rule_Resources = resources, rule_Verbs = [''get'', ''list'', ''watch'']\<rparr>"

definition newAPFClusterRole :: "ClusterManagementAddOn \<Rightarrow> ClusterRole" where
  "newAPFClusterRole addon =
     \<lparr>crole_TypeMeta = no_TypeMeta, crole_Meta = owned addon '''' ''apiserver-aggregation:cluster-gateway'',
      crole_Rules =
        [read_rule ''cluster.open-cluster-management.io'' [''managedclusters''],
         read_rule '''' [''namespaces''],
         read_rule ''admissionregistration.k8s.io'' [''mutatingwebhookconfigurations'', ''validatingwebhookconfigurations'',
           ''validatingadmissionpolicies'', ''validatingadmissionpolicybindings''],
         read_rule ''flowcontrol.apiserver.k8s.io'' [''prioritylevelconfigurations'', ''flowschemas''],
         \<lparr>rule_APIGroups = [''authorization.k8s.io''], rule_Resources = [''subjectaccessreviews''], rule_Verbs = [''*'']\<rparr>]\<rparr>"

definition newAPFClusterRoleBinding :: "ClusterManagementAddOn \<Rightarrow> string \<Rightarrow> ClusterRoleBinding" where
  "newAPFClusterRoleBinding addon namespace =
     \<lparr>crb_TypeMeta = no_TypeMeta, crb_Meta = owned addon '''' ''apiserver-aggregation:cluster-gateway'',
      crb_RoleRef = \<lparr>roleref_Kind = ''ClusterRole'', roleref_Name = ''apiserver-aggregation:cluster-gateway''\<rparr>,
      crb_Subjects = [gateway_subject namespace]\<rparr>"

definition buildManagedServiceAccount :: "ManagedClusterAddOn \<Rightarrow> ManagedServiceAccount" where
  "buildManagedServiceAccount addon =
     \<lparr>msa_TypeMeta = \<lparr>tm_APIVersion = ''authentication.open-cluster-management.io/v1alpha1'', tm_Kind = ''ManagedServiceAccount''\<rparr>,
      msa_Meta = empty_ObjectMeta\<lparr>meta_Namespace := meta_Namespace (mca_Meta addon), meta_Name := AddonName,
        meta_OwnerReferences := [\<lparr>ref_APIVersion = addon_GroupVersion, ref_Kind = ''ManagedClusterAddOn'',
          ref_UID = meta_UID (mca_Meta addon), ref_Name = meta_Name (mca_Meta addon)\<rparr>]\<rparr>,
      msa_RotationEnabled = True, msa_RotationValidity = validity_180_days\<rparr>"

section \<open>Ensure steps\<close>

text \<open>\<^verbatim>\<open>if err := Create(...); err != nil { if !IsAlreadyExists(err) { return err } }\<close>\<close>

definition tolerate_existing :: "('x, unit) gom \<Rightarrow> ('x, unit) gom" where
  "tolerate_existing m = bindM (attempt m) (\<lambda>r. case r of
     Inl e \<Rightarrow> if \<not> IsAlreadyExists e then fail e else ret () | Inr _ \<Rightarrow> ret ())"

definition ensureNamespace :: "'x hub \<Rightarrow> string \<Rightarrow> ('x, unit) gom" where
  "ensureNamespace h namespace = tolerate_existing (hub_CreateNamespace h
     \<lparr>nsp_TypeMeta = \<lparr>tm_APIVersion = ''v1'', tm_Kind = ''Namespace''\<rparr>, nsp_Meta = empty_ObjectMeta\<lparr>meta_Name := namespace\<rparr>\<rparr>)"

definition ensureAPIService :: "('x, 'c, 'k) ClusterGatewayInstaller \<Rightarrow> ClusterManagementAddOn \<Rightarrow> string \<Rightarrow> ('x, unit) gom" where
  "ensureAPIService c addon namespace =
     bindM (liftR (bind_res (deref (inst_caPair c)) (inst_GetPEMBytes c))) (\<lambda>(caCertData, _).
     let expected = newAPIService addon namespace caCertData in
     bindM (hub_Get_APIService (inst_hub c) (meta_Name (apis_Meta expected))) (\<lambda>current.
     if \<not> bytes_Equal caCertData (apis_CABundle current)
     then hub_Update (inst_hub c) (APIServiceObj (expected\<lparr>apis_Meta := (apis_Meta expected)\<lparr>meta_ResourceVersion :=
            meta_ResourceVersion (apis_Meta current)\<rparr>\<rparr>))
     else ret ()))"

text \<open>The error of \<^verbatim>\<open>strconv.Atoi\<close>: a number too large for 64 bits is told from a text that is no number.\<close>

definition Atoi_error :: "string \<Rightarrow> goerror" where
  "Atoi_error s =
     (let ds = (if take 1 s \<in> {''-'', ''+''} then drop 1 s else s)
      in PlainError (''strconv.Atoi: parsing '' @ go_quote s @ '': '' @
           (if ds \<noteq> [] \<and> list_all is_digit ds then ''value out of range'' else ''invalid syntax'')))"

definition ensureClusterGatewayDeployment ::
  "'x hub \<Rightarrow> ClusterManagementAddOn \<Rightarrow> ClusterGatewayConfiguration \<Rightarrow> ('x, unit) gom" where
  "ensureClusterGatewayDeployment h addon config =
     bindM (attempt (hub_Get_Deployment h (cgs_InstallNamespace (cfg_Spec config)) ''gateway-deployment'')) (\<lambda>r.
     case r of
       Inl e \<Rightarrow> if IsNotFound e
                then bindM (liftR (newClusterGatewayDeployment addon config)) (\<lambda>d. hub_Create h (DeploymentObj d))
                else fail e
     | Inr current \<Rightarrow>
         (let replace = bindM (liftR (newClusterGatewayDeployment addon config)) (\<lambda>d.
                hub_Update h (DeploymentObj (d\<lparr>dep_Meta := (dep_Meta d)\<lparr>meta_ResourceVersion := meta_ResourceVersion (dep_Meta current)\<rparr>\<rparr>)))
          in case mget (meta_Labels (dep_Meta current)) labelKeyClusterGatewayConfigurationGeneration of
               None \<Rightarrow> replace
             | Some genStr \<Rightarrow>
                 (case Atoi genStr of
                    None \<Rightarrow> fail (Atoi_error genStr)
                  | Some gen \<Rightarrow> if meta_Generation (cfg_Meta config) = gen then ret () else replace)))"

definition ensureClusterProxySecrets :: "'x hub \<Rightarrow> ClusterGatewayConfiguration \<Rightarrow> ('x, unit) gom" where
  "ensureClusterProxySecrets h config =
     (if eg_Type (cgs_Egress (cfg_Spec config)) \<noteq> EgressTypeClusterProxy then ret ()
      else bindM (liftR (deref (eg_ClusterProxy (cgs_Egress (cfg_Spec config))))) (\<lambda>cp.
        let creds = ecp_Credentials cp; target = cgs_InstallNamespace (cfg_Spec config) in
        bindM (wrapM (''failed copy secret '' @ cpc_ProxyClientCASecretName creds)
          (CopySecret (hub_kube h) (cpc_Namespace creds) (cpc_ProxyClientCASecretName creds) target (cpc_ProxyClientCASecretName creds))) (\<lambda>_.
        wrapM (''failed copy secret '' @ cpc_ProxyClientSecretName creds)
          (CopySecret (hub_kube h) (cpc_Namespace creds) (cpc_ProxyClientSecretName creds) target (cpc_ProxyClientSecretName creds)))))"

definition cluster_secret :: "ClusterManagementAddOn \<Rightarrow> string \<Rightarrow> string \<Rightarrow> string \<Rightarrow> Secret \<Rightarrow> Secret" where
  "cluster_secret addon gatewaySecretNamespace clusterName endpointType secret =
     \<lparr>sec_Meta = (owned addon gatewaySecretNamespace clusterName)\<lparr>meta_Labels :=
        Some [(LabelKeyClusterCredentialType, CredentialTypeServiceAccountToken), (LabelKeyClusterEndpointType, endpointType)]\<rparr>,
      sec_Type = ''Opaque'',
      sec_Data = Some [(ServiceAccountRootCAKey, dget (sec_Data secret) ServiceAccountRootCAKey),
                       (ServiceAccountTokenKey, dget (sec_Data secret) ServiceAccountTokenKey)]\<rparr>"

text \<open>
  Copying the token: the current secret comes from the lister, so the two assignments into its data change the cached
  object before the update is sent.
\<close>

definition copySecretForManagedServiceAccount ::
  "'x hub \<Rightarrow> ClusterManagementAddOn \<Rightarrow> ClusterGatewayConfiguration \<Rightarrow> string \<Rightarrow> ('x, unit) gom" where
  "copySecretForManagedServiceAccount h addon config clusterName =
     (let endpointType = (if eg_Type (cgs_Egress (cfg_Spec config)) = EgressTypeClusterProxy
                          then ClusterEndpointTypeClusterProxy else ClusterEndpointTypeConst);
          gatewaySecretNamespace = cgs_SecretNamespace (cfg_Spec config)
      in bindM (liftR (deref (sm_ManagedServiceAccount (cgs_SecretManagement (cfg_Spec config))))) (\<lambda>msa.
         bindM (attempt (hub_cache_Get h clusterName (smm_Name msa))) (\<lambda>r.
         case r of
           Inl e \<Rightarrow> if \<not> IsNotFound e then fail (WrapError ''failed to get token secret'' e) else ret ()
         | Inr secret \<Rightarrow>
             bindM (attempt (hub_cache_Get h gatewaySecretNamespace clusterName)) (\<lambda>r'.
             case r' of
               Inl e \<Rightarrow>
                 if \<not> IsNotFound e then fail (WrapError ''failed to get the cluster secret'' e)
                 else bindM (wrapM ''failed to create the cluster secret'' (secrets_Create (hub_kube h) gatewaySecretNamespace
                        (cluster_secret addon gatewaySecretNamespace clusterName endpointType secret))) (\<lambda>_. ret ())
             | Inr currentSecret \<Rightarrow>
                 if bytes_Equal (dget (sec_Data secret) ServiceAccountTokenKey) (dget (sec_Data currentSecret) ServiceAccountTokenKey)
                 then ret ()
                 else
                   bindM (liftR (bind_res (mput ServiceAccountRootCAKey (dget (sec_Data secret) ServiceAccountRootCAKey) (sec_Data currentSecret))
                            (mput ServiceAccountTokenKey (dget (sec_Data secret) ServiceAccountTokenKey)))) (\<lambda>d.
                   let updated = currentSecret\<lparr>sec_Data := d\<rparr> in
                   bindM (\<lambda>x. (Ret (), hub_cache_Write h gatewaySecretNamespace clusterName updated x)) (\<lambda>_.
                   bindM (wrapM ''failed to update the cluster secret'' (secrets_Update (hub_kube h) gatewaySecretNamespace updated)) (\<lambda>_.
                   ret ())))))))"

definition ensureSecretManagement ::
  "'x hub \<Rightarrow> ClusterManagementAddOn \<Rightarrow> ClusterGatewayConfiguration \<Rightarrow> ('x, unit) gom" where
  "ensureSecretManagement h clusterAddon config =
     (if sm_Type (cgs_SecretManagement (cfg_Spec config)) \<noteq> SecretManagementTypeManagedServiceAccount then ret ()
      else
        bindM (mapErr (\<lambda>_. PlainError ''failed to discover ManagedServiceAccount resource in the cluster'')
          (hub_KindFor h ''authentication.open-cluster-management.io'' ''v1alpha1'' ''managedserviceaccounts'')) (\<lambda>_.
        bindM (wrapM ''failed to list managed cluster addons'' (hub_List_ManagedClusterAddOn h)) (\<lambda>addonList.
        forM (\<lambda>addon.
          bindM (wrapM ''failed to create managed serviceaccount''
            (tolerate_existing (hub_Create h (ManagedServiceAccountObj (buildManagedServiceAccount addon))))) (\<lambda>_.
          wrapM ''failed to copy secret from managed serviceaccount''
            (copySecretForManagedServiceAccount h clusterAddon config (meta_Namespace (mca_Meta addon)))))
          (filter (\<lambda>addon. meta_Name (mca_Meta addon) = AddonName) addonList))))"

section \<open>Reconcile\<close>

definition server_rotation :: "string \<Rightarrow> TargetRotation" where
  "server_rotation installNamespace = \<lparr>rot_Namespace = installNamespace, rot_Name = SecretNameClusterGatewayTLSCert,
     rot_HostNames = [ServiceNameClusterGateway, ServiceNameClusterGateway @ ''.'' @ installNamespace,
                      ServiceNameClusterGateway @ ''.'' @ installNamespace @ ''.svc''],
     rot_Validity = validity_180_days\<rparr>"

definition reconcile_targets :: "ClusterManagementAddOn \<Rightarrow> ClusterGatewayConfiguration \<Rightarrow> gobytes \<Rightarrow> hub_object list" where
  "reconcile_targets addon config caCertData =
     (let namespace = cgs_InstallNamespace (cfg_Spec config); secretNamespace = cgs_SecretNamespace (cfg_Spec config) in
      [ServiceAccountObj (newServiceAccount addon namespace),
       ServiceObj (newClusterGatewayService addon namespace),
       RoleBindingObj (newAuthenticationRole addon namespace),
       RoleObj (newSecretRole addon secretNamespace),
       RoleBindingObj (newSecretRoleBinding addon namespace secretNamespace),
       ClusterRoleObj (newAPFClusterRole addon),
       ClusterRoleBindingObj (newAPFClusterRoleBinding addon namespace),
       APIServiceObj (newAPIService addon namespace caCertData)])"

text \<open>Everything \<^verbatim>\<open>Reconcile\<close> does once it has read the addon and its configuration.\<close>

definition reconcile_steps ::
  "('x, 'c, 'k) ClusterGatewayInstaller \<Rightarrow> ClusterManagementAddOn \<Rightarrow> ClusterGatewayConfiguration \<Rightarrow> ('x, unit) gom" where
  "reconcile_steps c addon config =
     (let namespace = cgs_InstallNamespace (cfg_Spec config) in
      bindM (wrapM ''failed to ensure required namespace'' (ensureNamespace (inst_hub c) namespace)) (\<lambda>_.
      bindM (wrapM ''failed to ensure required namespace'' (ensureNamespace (inst_hub c) (cgs_SecretNamespace (cfg_Spec config)))) (\<lambda>_.
      bindM (wrapM ''failed to ensure required proxy client related credentials'' (ensureClusterProxySecrets (inst_hub c) config)) (\<lambda>_.
      bindM (wrapM ''failed to configure secret management'' (ensureSecretManagement (inst_hub c) addon config)) (\<lambda>_.
      bindM (liftR (deref (inst_caPair c))) (\<lambda>caPair.
      bindM (wrapM ''failed rotating server tls cert'' (inst_EnsureTargetCertKeyPair c (server_rotation namespace) caPair (ca_Certs caPair))) (\<lambda>_.
      bindM (wrapM ''failed encoding CA cert'' (liftR (inst_GetPEMBytes c caPair))) (\<lambda>(caCertData, _).
      bindM (forM (\<lambda>obj. wrapM ''failed deploying cluster-gateway'' (tolerate_existing (hub_Create (inst_hub c) obj)))
               (reconcile_targets addon config caCertData)) (\<lambda>_.
      bindM (wrapM ''failed ensuring cluster-gateway deployment'' (ensureClusterGatewayDeployment (inst_hub c) addon config)) (\<lambda>_.
      wrapM ''failed ensuring cluster-gateway apiservice'' (ensureAPIService c addon namespace)))))))))))"

definition Installer_Reconcile ::
  "('x, 'c, 'k) ClusterGatewayInstaller \<Rightarrow> string \<times> string \<Rightarrow> ('x, unit) gom" where
  "Installer_Reconcile c request =
     bindM (attempt (hub_Get_ClusterManagementAddOn (inst_hub c) (fst request) (snd request))) (\<lambda>r.
     case r of
       Inl e \<Rightarrow> if IsNotFound e then ret ()
                else fail (WrapError (''failed to get cluster-management-addon: '' @ snd request) e)
     | Inr addon \<Rightarrow>
         if meta_Name (cma_Meta addon) \<noteq> AddonName then ret ()
         else if cma_CRDName addon \<noteq> ClusterGatewayConfigurationCRDName then ret ()
         else
           bindM (mapErr (\<lambda>e. if IsNotFound e then PlainError (''no such configuration: '' @ cma_CRName addon)
                              else PlainError (''failed getting configuration: '' @ cma_CRName addon))
             (hub_Get_ClusterGatewayConfiguration (inst_hub c) (cma_CRName addon))) (reconcile_steps c addon))"

section \<open>Ensure steps as an interface\<close>

text \<open>
  What every ensure step promises under the API's laws: a run that succeeds leaves the hub in the state
  the step is after, and in such a state the step does nothing. So running a step again is harmless.
\<close>

locale ensure_step =
  fixes law :: bool and run :: "('x, unit) gom" and settled :: "'x \<Rightarrow> bool"
  assumes establishes: "law \<Longrightarrow> run x = (Ret (), y) \<Longrightarrow> settled y"
    and no_op: "law \<Longrightarrow> settled x \<Longrightarrow> run x = (Ret (), x)"
begin

lemma idempotent: "law \<Longrightarrow> run x = (Ret (), y) \<Longrightarrow> run y = (Ret (), y)"
  using establishes no_op by blast

lemma wrapped_no_op: "law \<Longrightarrow> settled x \<Longrightarrow> mapErr f run x = (Ret (), x)"
  by (simp add: run_simps no_op)

lemma wrapped_establishes: "law \<Longrightarrow> mapErr f run x = (Ret (), y) \<Longrightarrow> settled y"
  by (cases "run x") (auto simp: run_simps intro: establishes split: res.splits)

end

lemma tolerate_existing_Ret:
  "tolerate_existing m x = (Ret (), y) \<longleftrightarrow> m x = (Ret (), y) \<or> (\<exists>e. IsAlreadyExists e \<and> m x = (Fail e, y))"
  by (auto simp: tolerate_existing_def run_simps split: prod.splits res.splits)

lemma snd_tolerate_existing: "snd (tolerate_existing m x) = snd (m x)"
  by (auto simp: tolerate_existing_def run_simps split: prod.splits res.splits)

lemma writes_only_tolerate: "writes_only look C m \<Longrightarrow> writes_only look C (tolerate_existing m)"
  by (simp add: writes_only_def snd_tolerate_existing)

interpretation created: ensure_step "hub_api h look slook" "tolerate_existing (hub_Create h obj)" "\<lambda>x. look x (obj_key obj) \<noteq> None"
  for h look slook obj
proof
  fix x y
  assume api: "hub_api h look slook"
  {
    assume run: "tolerate_existing (hub_Create h obj) x = (Ret (), y)"
    show "look y (obj_key obj) \<noteq> None"
    proof (cases "look x (obj_key obj) = None")
      case True
      then show ?thesis using hub_api_Create [OF api True] run
        by (auto simp: tolerate_existing_Ret stores_def)
    next
      case False
      then show ?thesis using hub_api_Create_existing [OF api False] run
        by (auto simp: tolerate_existing_Ret rejects_def)
    qed
  }
  {
    assume "look x (obj_key obj) \<noteq> None"
    then show "tolerate_existing (hub_Create h obj) x = (Ret (), x)"
      using hub_api_Create_existing [OF api] by (auto simp: tolerate_existing_Ret rejects_def)
  }
qed

definition namespace_object :: "string \<Rightarrow> Namespace" where
  "namespace_object n = \<lparr>nsp_TypeMeta = \<lparr>tm_APIVersion = ''v1'', tm_Kind = ''Namespace''\<rparr>, nsp_Meta = empty_ObjectMeta\<lparr>meta_Name := n\<rparr>\<rparr>"

lemma ensureNamespace_eq: "hub_api h look slook \<Longrightarrow> ensureNamespace h n = tolerate_existing (hub_Create h (NamespaceObj (namespace_object n)))"
  using hub_api_CreateNamespace [of h look slook]
  by (simp add: ensureNamespace_def namespace_object_def fun_eq_iff tolerate_existing_def run_simps)

interpretation namespace: ensure_step "hub_api h look slook" "ensureNamespace h n"
    "\<lambda>x. look x (obj_key (NamespaceObj (namespace_object n))) \<noteq> None"
  for h look slook n
  by unfold_locales (metis ensureNamespace_eq created.establishes, metis ensureNamespace_eq created.no_op)

text \<open>The deployment is settled when its label carries the generation of the configuration.\<close>

definition deployment_current :: "('x \<Rightarrow> object_key \<Rightarrow> hub_object option) \<Rightarrow> ClusterGatewayConfiguration \<Rightarrow> 'x \<Rightarrow> bool" where
  "deployment_current look config x \<longleftrightarrow> (\<exists>d s.
     as_Deployment (look x (KDeployment, cgs_InstallNamespace (cfg_Spec config), ''gateway-deployment'')) = Some d \<and>
     mget (meta_Labels (dep_Meta d)) labelKeyClusterGatewayConfigurationGeneration = Some s \<and>
     Atoi s = Some (meta_Generation (cfg_Meta config)))"

definition int64 :: "int \<Rightarrow> bool" where "int64 i \<longleftrightarrow> - (2 ^ 63) \<le> i \<and> i < 2 ^ 63"

lemma newDeployment_Ret:
  assumes "newClusterGatewayDeployment addon config = Ret d"
  shows "obj_key (DeploymentObj d) = (KDeployment, cgs_InstallNamespace (cfg_Spec config), ''gateway-deployment'')"
    "mget (meta_Labels (dep_Meta d)) labelKeyClusterGatewayConfigurationGeneration = Some (Itoa (meta_Generation (cfg_Meta config)))"
  using assms by (auto simp: newClusterGatewayDeployment_def bind_res_Ret_iff obj_key_def owned_def mget_def)

lemma stored_deployment_current:
  assumes "stores look slook (DeploymentObj d) x r" and "int64 (meta_Generation (cfg_Meta config))"
    and "obj_key (DeploymentObj d) = (KDeployment, cgs_InstallNamespace (cfg_Spec config), ''gateway-deployment'')"
    and "mget (meta_Labels (dep_Meta d)) labelKeyClusterGatewayConfigurationGeneration = Some (Itoa (meta_Generation (cfg_Meta config)))"
  shows "deployment_current look config (snd r)"
proof -
  obtain obj where obj: "obj_content obj = obj_content (DeploymentObj d)" "look (snd r) = (look x)(obj_key (DeploymentObj d) := Some obj)"
    using assms(1) by (auto simp: stores_def)
  obtain d' where d': "obj = DeploymentObj d'" "meta_Labels (dep_Meta d') = meta_Labels (dep_Meta d)"
    using content_Deployment [OF obj(1)] by blast
  show ?thesis
    unfolding deployment_current_def
    using obj(2) d' assms(2-4) Atoi_Itoa [of "meta_Generation (cfg_Meta config)"] by (auto simp: int64_def)
qed

interpretation deployment: ensure_step "hub_api h look slook \<and> int64 (meta_Generation (cfg_Meta config))"
    "ensureClusterGatewayDeployment h addon config" "deployment_current look config"
  for h look slook addon config
proof
  fix x y
  assume law: "hub_api h look slook \<and> int64 (meta_Generation (cfg_Meta config))"
  let ?key = "(KDeployment, cgs_InstallNamespace (cfg_Spec config), ''gateway-deployment'')"
  have reads: "reads (as_Deployment (look x ?key)) x (hub_Get_Deployment h (cgs_InstallNamespace (cfg_Spec config)) ''gateway-deployment'' x)"
    by (rule hub_api_Get_Deployment [OF conjunct1 [OF law]])
  {
    assume run: "ensureClusterGatewayDeployment h addon config x = (Ret (), y)"
    show "deployment_current look config y"
    proof (cases "as_Deployment (look x ?key)")
      case None
      then obtain d where d: "newClusterGatewayDeployment addon config = Ret d" "hub_Create h (DeploymentObj d) x = (Ret (), y)"
        using run reads by (auto simp: ensureClusterGatewayDeployment_def reads_def run_simps split: res.splits)
      have "stores look slook (DeploymentObj d) x (Ret (), y)"
        using d(2) hub_api_Create hub_api_Create_existing law by (metis rejects_def prod.inject res.distinct(1))
      then show ?thesis using stored_deployment_current newDeployment_Ret [OF d(1)] law by fastforce
    next
      case (Some current)
      let ?up = "\<lambda>d. d\<lparr>dep_Meta := (dep_Meta d)\<lparr>meta_ResourceVersion := meta_ResourceVersion (dep_Meta current)\<rparr>\<rparr>"
      consider "deployment_current look config x" "y = x"
        | d where "newClusterGatewayDeployment addon config = Ret d" "hub_Update h (DeploymentObj (?up d)) x = (Ret (), y)"
        using run reads Some
        by (auto simp: ensureClusterGatewayDeployment_def reads_def run_simps Let_def deployment_current_def
            split: res.splits option.splits if_splits)
      then show ?thesis
      proof cases
        case 2
        note new = newDeployment_Ret [OF 2(1)]
        have "stores look slook (DeploymentObj (?up d)) x (Ret (), y)"
          using 2(2) hub_api_Update hub_api_Update_missing law by (metis prod.inject res.distinct(1))
        moreover have "obj_key (DeploymentObj (?up d)) = ?key" using new(1) by (simp add: obj_key_def)
        ultimately show ?thesis using stored_deployment_current new(2) law by fastforce
      qed simp
    qed
  }
  {
    assume "deployment_current look config x"
    then show "ensureClusterGatewayDeployment h addon config x = (Ret (), x)"
      using reads by (auto simp: ensureClusterGatewayDeployment_def reads_def run_simps deployment_current_def Let_def)
  }
qed

text \<open>The APIService is settled when its CA bundle is the CA pair's certificate.\<close>

definition apiservice_current :: "('x \<Rightarrow> object_key \<Rightarrow> hub_object option) \<Rightarrow> gobytes \<Rightarrow> 'x \<Rightarrow> bool" where
  "apiservice_current look ca x \<longleftrightarrow> (\<exists>a. as_APIService (look x (KAPIService, '''', ClusterGatewayAPIServiceName)) = Some a \<and>
     bytes_Equal ca (apis_CABundle a))"

lemma newAPIService_key: "obj_key (APIServiceObj (newAPIService addon ns ca)) = (KAPIService, '''', ClusterGatewayAPIServiceName)"
  by (simp add: obj_key_def newAPIService_def owned_def ClusterGatewayAPIServiceName_def)

interpretation apiservice: ensure_step
    "hub_api (inst_hub c) look slook \<and> inst_caPair c = Some p \<and> inst_GetPEMBytes c p = Ret (ca, key)"
    "ensureAPIService c addon namespace" "apiservice_current look ca"
  for c look slook p ca key addon namespace
proof
  fix x y
  assume law: "hub_api (inst_hub c) look slook \<and> inst_caPair c = Some p \<and> inst_GetPEMBytes c p = Ret (ca, key)"
  let ?key = "(KAPIService, '''', ClusterGatewayAPIServiceName)"
  have name: "meta_Name (apis_Meta (newAPIService addon namespace ca)) = ClusterGatewayAPIServiceName"
    by (simp add: newAPIService_def owned_def ClusterGatewayAPIServiceName_def)
  have reads: "reads (as_APIService (look x ?key)) x (hub_Get_APIService (inst_hub c) ClusterGatewayAPIServiceName x)"
    by (rule hub_api_Get_APIService [OF conjunct1 [OF law]])
  {
    assume run: "ensureAPIService c addon namespace x = (Ret (), y)"
    then obtain current where current: "as_APIService (look x ?key) = Some current"
      using reads law by (cases "as_APIService (look x ?key)") (auto simp: ensureAPIService_def run_simps name Let_def reads_def)
    let ?up = "(newAPIService addon namespace ca)\<lparr>apis_Meta := (apis_Meta (newAPIService addon namespace ca))
                 \<lparr>meta_ResourceVersion := meta_ResourceVersion (apis_Meta current)\<rparr>\<rparr>"
    have key: "obj_key (APIServiceObj ?up) = ?key" using newAPIService_key [of addon namespace ca] by (simp add: obj_key_def)
    consider "bytes_Equal ca (apis_CABundle current)" "y = x" | "hub_Update (inst_hub c) (APIServiceObj ?up) x = (Ret (), y)"
      using run reads law current by (auto simp: ensureAPIService_def run_simps name Let_def reads_def split: if_splits)
    then show "apiservice_current look ca y"
    proof cases
      case 1
      then show ?thesis using current by (simp add: apiservice_current_def)
    next
      case 2
      have "stores look slook (APIServiceObj ?up) x (Ret (), y)"
        using 2 hub_api_Update hub_api_Update_missing law by (metis prod.inject res.distinct(1))
      then obtain obj where obj: "obj_content obj = obj_content (APIServiceObj ?up)" "look y = (look x)(?key := Some obj)"
        unfolding stores_def key by auto
      obtain a where "obj = APIServiceObj a" "apis_CABundle a = ca"
        using content_APIService [OF obj(1)] by (auto simp: newAPIService_def)
      then show ?thesis using obj(2) by (simp add: apiservice_current_def)
    qed
  }
  {
    assume "apiservice_current look ca x"
    then show "ensureAPIService c addon namespace x = (Ret (), x)"
      using reads law by (auto simp: ensureAPIService_def run_simps name Let_def reads_def apiservice_current_def)
  }
qed

section \<open>What Reconcile may write\<close>

definition built :: "ClusterManagementAddOn \<Rightarrow> ClusterGatewayConfiguration \<Rightarrow> gobytes \<Rightarrow> ManagedClusterAddOn list \<Rightarrow> hub_object set" where
  "built addon config ca mcas = obj_content `
     ({NamespaceObj (namespace_object (cgs_InstallNamespace (cfg_Spec config))),
       NamespaceObj (namespace_object (cgs_SecretNamespace (cfg_Spec config)))} \<union>
      set (reconcile_targets addon config ca) \<union>
      {DeploymentObj d |d. newClusterGatewayDeployment addon config = Ret d} \<union>
      (\<lambda>a. ManagedServiceAccountObj (buildManagedServiceAccount a)) ` {a \<in> set mcas. meta_Name (mca_Meta a) = AddonName})"

lemma writes_only_secret_calls:
  assumes "hub_api h look slook"
  shows "writes_only look C (secrets_Get (hub_kube h) ns n)" "writes_only look C (secrets_Create (hub_kube h) ns s)"
    "writes_only look C (secrets_Update (hub_kube h) ns s)" "writes_only look C (hub_cache_Get h ns n)"
    "writes_only look C (\<lambda>x. (Ret (), hub_cache_Write h ns n s x))"
    "writes_only look C (hub_KindFor h g v r)" "writes_only look C (hub_List_ManagedClusterAddOn h)"
  by (rule writes_only_quiet;
      simp add: secrets_Get_quiet [OF hub_api_secret [OF assms]] hub_api_secret_frame [OF assms] hub_api_cache [OF assms]
        hub_api_quiet [OF assms])+

lemmas quiet_rules = writes_only_basic writes_only_bindM writes_only_attempt writes_only_mapErr writes_only_secret_calls

lemma writes_only_CopySecret: "hub_api h look slook \<Longrightarrow> writes_only look C (CopySecret (hub_kube h) sn s tn t)"
  unfolding CopySecret_def by (auto intro!: quiet_rules split: sum.splits)

lemma writes_only_proxy_secrets: "hub_api h look slook \<Longrightarrow> writes_only look C (ensureClusterProxySecrets h config)"
  unfolding ensureClusterProxySecrets_def Let_def by (auto intro!: quiet_rules writes_only_CopySecret)

lemma writes_only_copy_token:
  "hub_api h look slook \<Longrightarrow> writes_only look C (copySecretForManagedServiceAccount h addon config n)"
  unfolding copySecretForManagedServiceAccount_def Let_def by (auto intro!: quiet_rules split: sum.splits)

lemma built_members:
  "obj_content (NamespaceObj (namespace_object (cgs_InstallNamespace (cfg_Spec config)))) \<in> built addon config ca mcas"
  "obj_content (NamespaceObj (namespace_object (cgs_SecretNamespace (cfg_Spec config)))) \<in> built addon config ca mcas"
  "obj \<in> set (reconcile_targets addon config ca) \<Longrightarrow> obj_content obj \<in> built addon config ca mcas"
  "newClusterGatewayDeployment addon config = Ret d \<Longrightarrow> obj_content (DeploymentObj d) \<in> built addon config ca mcas"
  "a \<in> set mcas \<Longrightarrow> meta_Name (mca_Meta a) = AddonName \<Longrightarrow>
     obj_content (ManagedServiceAccountObj (buildManagedServiceAccount a)) \<in> built addon config ca mcas"
  by (auto simp: built_def)

lemma content_ResourceVersion:
  "obj_content (DeploymentObj (d\<lparr>dep_Meta := (dep_Meta d)\<lparr>meta_ResourceVersion := v\<rparr>\<rparr>)) = obj_content (DeploymentObj d)"
  "obj_content (APIServiceObj (a\<lparr>apis_Meta := (apis_Meta a)\<lparr>meta_ResourceVersion := v\<rparr>\<rparr>)) = obj_content (APIServiceObj a)"
  by (simp_all add: obj_content_def)

lemma writes_only_namespace:
  "hub_api h look slook \<Longrightarrow> obj_content (NamespaceObj (namespace_object n)) \<in> C \<Longrightarrow> writes_only look C (ensureNamespace h n)"
  by (simp add: ensureNamespace_eq writes_only_tolerate writes_only_Create)

lemma writes_only_secret_management:
  assumes "hub_api h look slook" and "\<And>w. hub_List_ManagedClusterAddOn h w = (Ret mcas, w)"
  shows "writes_only look (built addon config ca mcas) (ensureSecretManagement h addon config)"
  unfolding ensureSecretManagement_def
  using assms
  by (auto intro!: quiet_rules writes_only_forM writes_only_tolerate writes_only_Create writes_only_copy_token built_members(5)
      simp: fst_calls)

lemma writes_only_deployment:
  "hub_api h look slook \<Longrightarrow> writes_only look (built addon config ca mcas) (ensureClusterGatewayDeployment h addon config)"
proof -
  assume api: "hub_api h look slook"
  have get: "snd (hub_Get_Deployment h ns n x) = x" for ns n x
    using hub_api_Get_Deployment [OF api, of x ns n] by (auto simp: reads_def split: option.splits)
  have "writes_only look C (hub_Get_Deployment h ns n)" for C ns n
    by (rule writes_only_quiet) (simp add: get)
  then show ?thesis
    unfolding ensureClusterGatewayDeployment_def Let_def
    by (auto intro!: quiet_rules writes_only_Create writes_only_Update api simp: fst_calls content_ResourceVersion built_members(4)
        split: sum.splits option.splits)
qed

lemma writes_only_apiservice:
  assumes api: "hub_api (inst_hub c) look slook" and pem: "inst_caPair c = Some p" "inst_GetPEMBytes c p = Ret (ca, key)"
  shows "writes_only look (built addon config ca mcas) (ensureAPIService c addon (cgs_InstallNamespace (cfg_Spec config)))"
proof -
  have get: "snd (hub_Get_APIService (inst_hub c) n x) = x" for n x
    using hub_api_Get_APIService [OF api, of x n] by (auto simp: reads_def split: option.splits)
  have "writes_only look C (hub_Get_APIService (inst_hub c) n)" for C n
    by (rule writes_only_quiet) (simp add: get)
  moreover have "obj_content (APIServiceObj (newAPIService addon (cgs_InstallNamespace (cfg_Spec config)) ca)) \<in> built addon config ca mcas"
    by (rule built_members(3)) (simp add: reconcile_targets_def Let_def)
  ultimately show ?thesis
    unfolding ensureAPIService_def Let_def
    by (auto intro!: quiet_rules writes_only_Update api simp: pem content_ResourceVersion)
qed

text \<open>The hypotheses under which a run of the installer is followed to its end.\<close>

definition installer_laws ::
  "('x, 'c, 'k) ClusterGatewayInstaller \<Rightarrow> ('x \<Rightarrow> object_key \<Rightarrow> hub_object option) \<Rightarrow> ('x \<Rightarrow> string \<Rightarrow> string \<Rightarrow> Secret option) \<Rightarrow>
   ClusterManagementAddOn \<Rightarrow> ClusterGatewayConfiguration \<Rightarrow> gobytes \<Rightarrow> ManagedClusterAddOn list \<Rightarrow> bool" where
  "installer_laws c look slook addon config ca mcas \<longleftrightarrow>
     hub_api (inst_hub c) look slook \<and>
     (\<exists>p key. inst_caPair c = Some p \<and> inst_GetPEMBytes c p = Ret (ca, key)) \<and>
     (\<forall>r p certs x. look (snd (inst_EnsureTargetCertKeyPair c r p certs x)) = look x) \<and>
     (\<forall>w. hub_List_ManagedClusterAddOn (inst_hub c) w = (Ret mcas, w)) \<and>
     int64 (meta_Generation (cfg_Meta config))"

lemma writes_only_steps:
  assumes laws: "installer_laws c look slook addon config ca mcas"
  shows "writes_only look (built addon config ca mcas) (reconcile_steps c addon config)"
proof -
  obtain p key where api: "hub_api (inst_hub c) look slook" and pem: "inst_caPair c = Some p" "inst_GetPEMBytes c p = Ret (ca, key)"
    and rot: "\<And>r p certs x. look (snd (inst_EnsureTargetCertKeyPair c r p certs x)) = look x"
    and list: "\<And>w. hub_List_ManagedClusterAddOn (inst_hub c) w = (Ret mcas, w)"
    using laws by (auto simp: installer_laws_def)
  have "writes_only look C (inst_EnsureTargetCertKeyPair c r p certs)" for C r p certs
    by (rule writes_only_quiet) (rule rot)
  then show ?thesis
    unfolding reconcile_steps_def Let_def
    using api pem list
    by (auto intro!: quiet_rules writes_only_forM writes_only_tolerate writes_only_Create writes_only_namespace writes_only_proxy_secrets
        writes_only_secret_management writes_only_deployment writes_only_apiservice built_members simp: fst_calls)
qed

section \<open>The installed state\<close>

definition installed ::
  "('x \<Rightarrow> object_key \<Rightarrow> hub_object option) \<Rightarrow> ClusterManagementAddOn \<Rightarrow> ClusterGatewayConfiguration \<Rightarrow> gobytes \<Rightarrow> 'x \<Rightarrow> bool" where
  "installed look addon config ca x \<longleftrightarrow>
     (\<forall>n\<in>{cgs_InstallNamespace (cfg_Spec config), cgs_SecretNamespace (cfg_Spec config)}.
        look x (obj_key (NamespaceObj (namespace_object n))) \<noteq> None) \<and>
     (\<forall>obj\<in>set (reconcile_targets addon config ca). look x (obj_key obj) \<noteq> None) \<and>
     deployment_current look config x \<and> apiservice_current look ca x"

lemma run_keeps:
  assumes "writes_only look C m" and "m x = (r, y)" and "look x key \<noteq> None" shows "look y key \<noteq> None"
  using writes_only_keeps [OF assms(1,3)] assms(2) by simp

lemma forM_created:
  assumes api: "hub_api h look slook"
  shows "forM (\<lambda>obj. mapErr f (tolerate_existing (hub_Create h obj))) objs x = (Ret (), y) \<Longrightarrow>
    \<forall>obj\<in>set objs. look y (obj_key obj) \<noteq> None"
proof (induction objs arbitrary: x)
  case (Cons obj objs)
  then obtain x1 where run: "mapErr f (tolerate_existing (hub_Create h obj)) x = (Ret (), x1)"
    "forM (\<lambda>obj. mapErr f (tolerate_existing (hub_Create h obj))) objs x1 = (Ret (), y)"
    by (auto simp: bindM_Ret_iff)
  have "writes_only look UNIV (forM (\<lambda>obj. mapErr f (tolerate_existing (hub_Create h obj))) objs)"
    by (intro writes_only_forM writes_only_mapErr writes_only_tolerate writes_only_Create [OF api]) simp
  then have "look y (obj_key obj) \<noteq> None" using created.wrapped_establishes [OF api run(1)] run(2) run_keeps by metis
  then show ?case using Cons.IH [OF run(2)] by simp
qed simp

lemma apiservice_frame:
  assumes api: "hub_api (inst_hub c) look slook" and pem: "inst_caPair c = Some p" "inst_GetPEMBytes c p = Ret (ca, key)"
    and run: "mapErr f (ensureAPIService c addon ns) x = (r, y)" and other: "k \<noteq> (KAPIService, '''', ClusterGatewayAPIServiceName)"
  shows "look y k = look x k"
proof -
  have get: "snd (hub_Get_APIService (inst_hub c) n x) = x" for n x
    using hub_api_Get_APIService [OF api, of x n] by (auto simp: reads_def split: option.splits)
  have "writes_only look {obj_content (APIServiceObj (newAPIService addon ns ca))} (mapErr f (ensureAPIService c addon ns))"
    unfolding ensureAPIService_def Let_def
    by (auto intro!: quiet_rules writes_only_quiet [of look "hub_Get_APIService (inst_hub c) n" for n] writes_only_Update api
        simp: pem get content_ResourceVersion)
  then have "look y k = look x k \<or> (\<exists>obj. look y k = Some obj \<and> obj_content obj = obj_content (APIServiceObj (newAPIService addon ns ca)))"
    using run unfolding writes_only_def by (metis singletonD snd_conv)
  then show ?thesis
    using other hub_api_keyed [OF api] obj_content_key newAPIService_key by metis
qed

lemma steps_installed:
  assumes laws: "installer_laws c look slook addon config ca mcas" and run: "reconcile_steps c addon config x = (Ret (), y)"
  shows "installed look addon config ca y"
proof -
  obtain p key where api: "hub_api (inst_hub c) look slook" and pem: "inst_caPair c = Some p" "inst_GetPEMBytes c p = Ret (ca, key)"
    and rot: "\<And>r p certs x. look (snd (inst_EnsureTargetCertKeyPair c r p certs x)) = look x"
    and list: "\<And>w. hub_List_ManagedClusterAddOn (inst_hub c) w = (Ret mcas, w)" and gen: "int64 (meta_Generation (cfg_Meta config))"
    using laws by (auto simp: installer_laws_def)
  let ?h = "inst_hub c" and ?ns = "cgs_InstallNamespace (cfg_Spec config)" and ?sns = "cgs_SecretNamespace (cfg_Spec config)"
  obtain x1 x2 x3 x4 x5 x6 x7 where s:
    "wrapM ''failed to ensure required namespace'' (ensureNamespace ?h ?ns) x = (Ret (), x1)"
    "wrapM ''failed to ensure required namespace'' (ensureNamespace ?h ?sns) x1 = (Ret (), x2)"
    "wrapM ''failed to ensure required proxy client related credentials'' (ensureClusterProxySecrets ?h config) x2 = (Ret (), x3)"
    "wrapM ''failed to configure secret management'' (ensureSecretManagement ?h addon config) x3 = (Ret (), x4)"
    "wrapM ''failed rotating server tls cert'' (inst_EnsureTargetCertKeyPair c (server_rotation ?ns) p (ca_Certs p)) x4 = (Ret (), x5)"
    "forM (\<lambda>obj. wrapM ''failed deploying cluster-gateway'' (tolerate_existing (hub_Create ?h obj))) (reconcile_targets addon config ca) x5 = (Ret (), x6)"
    "wrapM ''failed ensuring cluster-gateway deployment'' (ensureClusterGatewayDeployment ?h addon config) x6 = (Ret (), x7)"
    "wrapM ''failed ensuring cluster-gateway apiservice'' (ensureAPIService c addon ?ns) x7 = (Ret (), y)"
    using run unfolding reconcile_steps_def Let_def pem(1) deref_simps liftR_simps bindM_ret mapErr_simps pem(2) prod.case bindM_Ret_iff
    by (elim exE conjE) simp
  have keep1: "look x1 k \<noteq> None \<Longrightarrow> look x2 k \<noteq> None" for k
    by (rule run_keeps [OF writes_only_mapErr [OF writes_only_namespace [OF api, where C = UNIV]] s(2)]) simp_all
  have keep2: "look x2 k \<noteq> None \<Longrightarrow> look x3 k \<noteq> None" for k
    by (rule run_keeps [OF writes_only_mapErr [OF writes_only_proxy_secrets [OF api]] s(3)])
  have keep3: "look x3 k \<noteq> None \<Longrightarrow> look x4 k \<noteq> None" for k
    by (rule run_keeps [OF writes_only_mapErr [OF writes_only_secret_management [OF api list]] s(4)])
  have keep4: "look x5 k = look x4 k" for k
    using rot [of "server_rotation ?ns" p "ca_Certs p" x4] s(5) snd_mapErr by (metis snd_conv)
  have keep5: "look x5 k \<noteq> None \<Longrightarrow> look x6 k \<noteq> None" for k
    by (rule run_keeps [OF writes_only_forM [where C = UNIV] s(6)])
       (auto intro!: writes_only_mapErr writes_only_tolerate writes_only_Create [OF api])
  have keep6: "look x6 k \<noteq> None \<Longrightarrow> look x7 k \<noteq> None" for k
    by (rule run_keeps [OF writes_only_mapErr [OF writes_only_deployment [OF api]] s(7)])
  have keep7: "look x7 k \<noteq> None \<Longrightarrow> look y k \<noteq> None" for k
    by (rule run_keeps [OF writes_only_mapErr [OF writes_only_apiservice [OF api pem]] s(8)])
  note later = keep7 [OF keep6] and later' = keep5 [unfolded keep4, OF keep3, OF keep2]
  have "look y (obj_key (NamespaceObj (namespace_object ?ns))) \<noteq> None"
    by (intro later later' keep1 namespace.wrapped_establishes [OF api s(1)])
  moreover have "look y (obj_key (NamespaceObj (namespace_object ?sns))) \<noteq> None"
    by (intro later later' namespace.wrapped_establishes [OF api s(2)])
  moreover have "\<forall>obj\<in>set (reconcile_targets addon config ca). look y (obj_key obj) \<noteq> None"
    using forM_created [OF api s(6)] later by blast
  moreover have "deployment_current look config y"
    using deployment.wrapped_establishes [OF conjI [OF api gen] s(7)] apiservice_frame [OF api pem s(8)]
    by (simp add: deployment_current_def)
  moreover have "apiservice_current look ca y"
    using apiservice.wrapped_establishes [OF _ s(8)] api pem by blast
  ultimately show ?thesis by (simp add: installed_def)
qed

section \<open>Properties\<close>

text \<open>
  C22. A reconcile that succeeds leaves the gateway installed: both namespaces, the service account, service, roles,
  bindings and the APIService exist, the deployment carries the generation of the configuration, and the APIService's CA bundle is
  the certificate of the CA pair. On the way nothing else of the hub's objects is touched: every object is as
  it was or has exactly the content the installer builds for it.
\<close>

theorem Reconcile_installs:
  assumes laws: "installer_laws c look slook addon config ca mcas"
    and addon: "hub_Get_ClusterManagementAddOn (inst_hub c) ns n x = (Ret addon, x)"
      "meta_Name (cma_Meta addon) = AddonName" "cma_CRDName addon = ClusterGatewayConfigurationCRDName"
    and config: "hub_Get_ClusterGatewayConfiguration (inst_hub c) (cma_CRName addon) x = (Ret config, x)"
    and run: "Installer_Reconcile c (ns, n) x = (Ret (), y)"
  shows "installed look addon config ca y \<and>
    (\<forall>key. look y key = look x key \<or> (\<exists>obj. look y key = Some obj \<and> obj_content obj \<in> built addon config ca mcas))"
proof -
  have steps: "reconcile_steps c addon config x = (Ret (), y)"
    using run addon config by (simp add: Installer_Reconcile_def run_simps)
  show ?thesis
    using steps_installed [OF laws steps] writes_only_steps [OF laws] steps unfolding writes_only_def by (metis snd_conv)
qed

definition demo_addon :: ClusterManagementAddOn where
  "demo_addon = \<lparr>cma_Meta = empty_ObjectMeta\<lparr>meta_Name := AddonName, meta_UID := ''u1''\<rparr>,
     cma_CRDName = ClusterGatewayConfigurationCRDName, cma_CRName = ''cfg''\<rparr>"

definition demo_config :: ClusterGatewayConfiguration where
  "demo_config = \<lparr>cfg_Meta = empty_ObjectMeta\<lparr>meta_Name := ''cfg'', meta_Generation := 2\<rparr>,
     cfg_Spec = \<lparr>cgs_Image = ''gw:1'', cgs_SecretNamespace = ''s'', cgs_InstallNamespace = ''i'',
       cgs_SecretManagement = \<lparr>sm_Type = SecretManagementTypeManual, sm_ManagedServiceAccount = None\<rparr>,
       cgs_Egress = \<lparr>eg_Type = EgressTypeDirect, eg_ClusterProxy = None\<rparr>\<rparr>,
     cfg_Status = \<lparr>cgst_LastObservedGeneration = 0, cgst_Conditions = []\<rparr>\<rparr>"

definition demo_installer :: "(hub_state, unit, unit) ClusterGatewayInstaller" where
  "demo_installer = \<lparr>inst_hub = hub_tracker\<lparr>hub_List_ManagedClusterAddOn := ret []\<rparr>,
     inst_caPair = Some \<lparr>ca_Certs = [()], ca_Key = ()\<rparr>, inst_GetPEMBytes = (\<lambda>_. Ret (Some ''PEM'', None)),
     inst_EnsureTargetCertKeyPair = (\<lambda>_ _ _. ret ())\<rparr>"

definition demo_hub :: hub_state where
  "demo_hub = \<lparr>hs_objects = [], hs_secrets = [], hs_cache = [], hs_addons = [demo_addon], hs_configs = [demo_config], hs_managed = []\<rparr>"

lemma demo_laws: "installer_laws demo_installer hub_look hub_slook demo_addon demo_config (Some ''PEM'') []"
proof -
  have "hub_api (inst_hub demo_installer) hub_look hub_slook"
    using hub_tracker_api by (simp add: hub_api_def demo_installer_def run_simps)
  then show ?thesis
    by (simp add: installer_laws_def demo_installer_def demo_config_def run_simps int64_def)
qed

lemma demo_run:
  "\<exists>y. Installer_Reconcile demo_installer ('''', AddonName) demo_hub = (Ret (), y) \<and> hs_addons y = [demo_addon] \<and>
     hs_configs y = [demo_config] \<and> hs_secrets y = [] \<and> hs_cache y = []"
  by (simp add: Installer_Reconcile_def run_simps demo_installer_def hub_tracker_def demo_hub_def found_def demo_addon_def
        demo_config_def reconcile_steps_def ensureNamespace_def tolerate_existing_def tracker_Create_def tracker_Update_def hub_look_def
        obj_key_def ensureClusterProxySecrets_def ensureSecretManagement_def reconcile_targets_def newServiceAccount_def owned_def
        newClusterGatewayService_def newAuthenticationRole_def newSecretRole_def newSecretRoleBinding_def newAPFClusterRole_def
        newAPFClusterRoleBinding_def newAPIService_def ensureClusterGatewayDeployment_def newClusterGatewayDeployment_def
        deployment_args_def ensureAPIService_def Let_def empty_ObjectMeta_def AddonName_def EgressTypeDirect_def
        EgressTypeClusterProxy_def SecretManagementTypeManual_def SecretManagementTypeManagedServiceAccount_def)

lemma demo_reads:
  assumes "hs_addons x = [demo_addon]" "hs_configs x = [demo_config]"
  shows "hub_Get_ClusterManagementAddOn (inst_hub demo_installer) '''' AddonName x = (Ret demo_addon, x)"
    "hub_Get_ClusterGatewayConfiguration (inst_hub demo_installer) (cma_CRName demo_addon) x = (Ret demo_config, x)"
  using assms by (simp_all add: demo_installer_def hub_tracker_def found_def demo_addon_def demo_config_def run_simps)

theorem Reconcile_installs_witness:
  "\<exists>y. Installer_Reconcile demo_installer ('''', AddonName) demo_hub = (Ret (), y) \<and>
     installed hub_look demo_addon demo_config (Some ''PEM'') y"
proof -
  obtain y where run: "Installer_Reconcile demo_installer ('''', AddonName) demo_hub = (Ret (), y)" using demo_run by blast
  have state: "hs_addons demo_hub = [demo_addon]" "hs_configs demo_hub = [demo_config]" by (simp_all add: demo_hub_def)
  have "installed hub_look demo_addon demo_config (Some ''PEM'') y"
    by (rule conjunct1 [OF Reconcile_installs [OF demo_laws demo_reads(1) [OF state] _ _ demo_reads(2) [OF state] run]])
       (simp_all add: demo_addon_def)
  then show ?thesis using run by blast
qed

text \<open>
  The secrets are settled when the proxy client's credentials are copied and every cluster of the addon with a
  rotated token has that token in its cluster secret.
\<close>

definition proxy_secrets_settled ::
  "('x \<Rightarrow> string \<Rightarrow> string \<Rightarrow> Secret option) \<Rightarrow> ClusterGatewayConfiguration \<Rightarrow> 'x \<Rightarrow> bool" where
  "proxy_secrets_settled slook config x \<longleftrightarrow>
     (eg_Type (cgs_Egress (cfg_Spec config)) = EgressTypeClusterProxy \<longrightarrow>
      (\<exists>cp. eg_ClusterProxy (cgs_Egress (cfg_Spec config)) = Some cp \<and>
        (\<forall>n\<in>{cpc_ProxyClientCASecretName (ecp_Credentials cp), cpc_ProxyClientSecretName (ecp_Credentials cp)}.
          \<exists>s t. slook x (cpc_Namespace (ecp_Credentials cp)) n = Some s \<and>
            slook x (cgs_InstallNamespace (cfg_Spec config)) n = Some t \<and> IsSubset (sec_Data s) (sec_Data t))))"

definition tokens_settled ::
  "('x \<Rightarrow> object_key \<Rightarrow> hub_object option) \<Rightarrow> ('x \<Rightarrow> string \<Rightarrow> string \<Rightarrow> Secret option) \<Rightarrow> ClusterGatewayConfiguration \<Rightarrow>
   ManagedClusterAddOn list \<Rightarrow> 'x \<Rightarrow> bool" where
  "tokens_settled look slook config mcas x \<longleftrightarrow>
     (sm_Type (cgs_SecretManagement (cfg_Spec config)) = SecretManagementTypeManagedServiceAccount \<longrightarrow>
      (\<exists>m. sm_ManagedServiceAccount (cgs_SecretManagement (cfg_Spec config)) = Some m \<and>
        (\<forall>a\<in>set mcas. meta_Name (mca_Meta a) = AddonName \<longrightarrow>
           look x (obj_key (ManagedServiceAccountObj (buildManagedServiceAccount a))) \<noteq> None \<and>
           (\<forall>s. slook x (meta_Namespace (mca_Meta a)) (smm_Name m) = Some s \<longrightarrow>
              (\<exists>t. slook x (cgs_SecretNamespace (cfg_Spec config)) (meta_Namespace (mca_Meta a)) = Some t \<and>
                 bytes_Equal (dget (sec_Data s) ServiceAccountTokenKey) (dget (sec_Data t) ServiceAccountTokenKey))))))"

lemma forM_no_op: "(\<And>a. a \<in> set xs \<Longrightarrow> f a x = (Ret (), x)) \<Longrightarrow> forM f xs x = (Ret (), x)"
  by (induction xs) (simp_all add: run_simps)

lemma CopySecret_no_op:
  assumes "secret_api kube slook" "slook x ns n = Some s" "slook x tns tn = Some t" "IsSubset (sec_Data s) (sec_Data t)"
  shows "CopySecret kube ns n tns tn x = (Ret (), x)"
  by (simp add: CopySecret_def run_simps secret_api_Get_Some [OF assms(1,2)] secret_api_Get_Some [OF assms(1,3)] assms(4))

lemma proxy_secrets_no_op:
  assumes "secret_api (hub_kube h) slook" "proxy_secrets_settled slook config x"
  shows "ensureClusterProxySecrets h config x = (Ret (), x)"
  using assms(2) CopySecret_no_op [OF assms(1)]
  by (auto simp: proxy_secrets_settled_def ensureClusterProxySecrets_def run_simps Let_def)

lemma copy_token_no_op:
  assumes cache: "\<And>ns n. reads (slook x ns n) x (hub_cache_Get h ns n x)"
    and msa: "sm_ManagedServiceAccount (cgs_SecretManagement (cfg_Spec config)) = Some m"
    and settled: "\<And>s. slook x cluster (smm_Name m) = Some s \<Longrightarrow> \<exists>t. slook x (cgs_SecretNamespace (cfg_Spec config)) cluster = Some t \<and>
       bytes_Equal (dget (sec_Data s) ServiceAccountTokenKey) (dget (sec_Data t) ServiceAccountTokenKey)"
  shows "copySecretForManagedServiceAccount h addon config cluster x = (Ret (), x)"
proof (cases "slook x cluster (smm_Name m)")
  case None
  then show ?thesis
    using cache [of cluster "smm_Name m"] msa by (auto simp: copySecretForManagedServiceAccount_def run_simps reads_def Let_def)
next
  case (Some s)
  then obtain t where "slook x (cgs_SecretNamespace (cfg_Spec config)) cluster = Some t"
    "bytes_Equal (dget (sec_Data s) ServiceAccountTokenKey) (dget (sec_Data t) ServiceAccountTokenKey)" using settled by blast
  then show ?thesis
    using cache [of cluster "smm_Name m"] cache [of "cgs_SecretNamespace (cfg_Spec config)" cluster] Some msa
    by (simp add: copySecretForManagedServiceAccount_def run_simps reads_def Let_def)
qed

lemma secret_management_no_op:
  assumes api: "hub_api h look slook" and cache: "\<And>ns n. reads (slook x ns n) x (hub_cache_Get h ns n x)"
    and kind: "\<And>g v r. \<exists>k. hub_KindFor h g v r x = (Ret k, x)" and list: "hub_List_ManagedClusterAddOn h x = (Ret mcas, x)"
    and settled: "tokens_settled look slook config mcas x"
  shows "ensureSecretManagement h addon config x = (Ret (), x)"
proof (cases "sm_Type (cgs_SecretManagement (cfg_Spec config)) = SecretManagementTypeManagedServiceAccount")
  case True
  then obtain m where m: "sm_ManagedServiceAccount (cgs_SecretManagement (cfg_Spec config)) = Some m"
    and each: "\<And>a. a \<in> set mcas \<Longrightarrow> meta_Name (mca_Meta a) = AddonName \<Longrightarrow>
       look x (obj_key (ManagedServiceAccountObj (buildManagedServiceAccount a))) \<noteq> None \<and>
       (\<forall>s. slook x (meta_Namespace (mca_Meta a)) (smm_Name m) = Some s \<longrightarrow>
          (\<exists>t. slook x (cgs_SecretNamespace (cfg_Spec config)) (meta_Namespace (mca_Meta a)) = Some t \<and>
             bytes_Equal (dget (sec_Data s) ServiceAccountTokenKey) (dget (sec_Data t) ServiceAccountTokenKey)))"
    using settled unfolding tokens_settled_def by blast
  obtain k where k: "hub_KindFor h ''authentication.open-cluster-management.io'' ''v1alpha1'' ''managedserviceaccounts'' x = (Ret k, x)"
    using kind by blast
  have "forM (\<lambda>a. bindM (wrapM ''failed to create managed serviceaccount''
            (tolerate_existing (hub_Create h (ManagedServiceAccountObj (buildManagedServiceAccount a))))) (\<lambda>_.
          wrapM ''failed to copy secret from managed serviceaccount''
            (copySecretForManagedServiceAccount h addon config (meta_Namespace (mca_Meta a)))))
        (filter (\<lambda>a. meta_Name (mca_Meta a) = AddonName) mcas) x = (Ret (), x)"
  proof (rule forM_no_op)
    fix a
    assume "a \<in> set (filter (\<lambda>a. meta_Name (mca_Meta a) = AddonName) mcas)"
    then have a: "a \<in> set mcas" "meta_Name (mca_Meta a) = AddonName" by auto
    have "copySecretForManagedServiceAccount h addon config (meta_Namespace (mca_Meta a)) x = (Ret (), x)"
      using each [OF a] by (intro copy_token_no_op [where slook = slook and x = x, OF cache m]) blast
    then show "bindM (wrapM ''failed to create managed serviceaccount''
            (tolerate_existing (hub_Create h (ManagedServiceAccountObj (buildManagedServiceAccount a))))) (\<lambda>_.
          wrapM ''failed to copy secret from managed serviceaccount''
            (copySecretForManagedServiceAccount h addon config (meta_Namespace (mca_Meta a)))) x = (Ret (), x)"
      using created.no_op [OF api, of x "ManagedServiceAccountObj (buildManagedServiceAccount a)"] each [OF a] by (simp add: run_simps)
  qed
  then show ?thesis
    unfolding ensureSecretManagement_def using True k list by (simp add: run_simps)
qed (simp add: ensureSecretManagement_def run_simps)

text \<open>
  C23. Reconciling an installed gateway is a no-op: when the gateway is installed, the secrets are settled, the
  lister's cache is in step with the API and the rotation has nothing to do, a reconcile succeeds and leaves the hub exactly as it is. So
  repeated events for an unchanged configuration write nothing.
\<close>

theorem Reconcile_settled:
  assumes laws: "installer_laws c look slook addon config ca mcas"
    and addon: "hub_Get_ClusterManagementAddOn (inst_hub c) ns n x = (Ret addon, x)"
    and config: "hub_Get_ClusterGatewayConfiguration (inst_hub c) (cma_CRName addon) x = (Ret config, x)"
    and cache: "\<And>ns n. reads (slook x ns n) x (hub_cache_Get (inst_hub c) ns n x)"
    and kind: "\<And>g v r. \<exists>k. hub_KindFor (inst_hub c) g v r x = (Ret k, x)"
    and rotation: "\<And>r p certs. inst_EnsureTargetCertKeyPair c r p certs x = (Ret (), x)"
    and installed: "installed look addon config ca x"
    and secrets: "proxy_secrets_settled slook config x" "tokens_settled look slook config mcas x"
  shows "Installer_Reconcile c (ns, n) x = (Ret (), x)"
proof -
  obtain p key where api: "hub_api (inst_hub c) look slook" and pem: "inst_caPair c = Some p" "inst_GetPEMBytes c p = Ret (ca, key)"
    and list: "hub_List_ManagedClusterAddOn (inst_hub c) x = (Ret mcas, x)" and gen: "int64 (meta_Generation (cfg_Meta config))"
    using laws by (auto simp: installer_laws_def)
  note namespaces = namespace.no_op [OF api, of x]
  have targets: "forM (\<lambda>obj. wrapM ''failed deploying cluster-gateway'' (tolerate_existing (hub_Create (inst_hub c) obj)))
      (reconcile_targets addon config ca) x = (Ret (), x)"
    using installed by (intro forM_no_op created.wrapped_no_op [OF api]) (simp add: installed_def)
  have "reconcile_steps c addon config x = (Ret (), x)"
    unfolding reconcile_steps_def Let_def
    using installed namespaces targets proxy_secrets_no_op [OF hub_api_secret [OF api] secrets(1)]
      secret_management_no_op [where slook = slook and x = x, OF api cache kind list secrets(2)] deployment.no_op [OF conjI [OF api gen], of x]
      apiservice.no_op [of c look slook p ca key x] api pem rotation
    by (simp add: run_simps installed_def)
  then show ?thesis using addon config by (simp add: Installer_Reconcile_def run_simps)
qed

theorem Reconcile_settled_witness:
  "\<exists>y. Installer_Reconcile demo_installer ('''', AddonName) demo_hub = (Ret (), y) \<and>
     Installer_Reconcile demo_installer ('''', AddonName) y = (Ret (), y)"
proof -
  obtain y where run: "Installer_Reconcile demo_installer ('''', AddonName) demo_hub = (Ret (), y)"
    and state: "hs_addons y = [demo_addon]" "hs_configs y = [demo_config]" and secrets: "hs_secrets y = []" "hs_cache y = []"
    using demo_run by blast
  have "reconcile_steps demo_installer demo_addon demo_config demo_hub = (Ret (), y)"
    using run demo_reads [of demo_hub] by (simp add: Installer_Reconcile_def run_simps demo_hub_def demo_addon_def)
  then have installed: "installed hub_look demo_addon demo_config (Some ''PEM'') y" by (rule steps_installed [OF demo_laws])
  have "Installer_Reconcile demo_installer ('''', AddonName) y = (Ret (), y)"
    by (rule Reconcile_settled [OF demo_laws demo_reads(1) [OF state] demo_reads(2) [OF state] _ _ _ installed])
       (auto simp: hub_slook_def tracker_lookup_def secrets reads_def demo_installer_def hub_tracker_def found_def run_simps
          proxy_secrets_settled_def tokens_settled_def demo_config_def EgressTypeDirect_def EgressTypeClusterProxy_def
          SecretManagementTypeManual_def SecretManagementTypeManagedServiceAccount_def)
  then show ?thesis using run by blast
qed

text \<open>
  C25. The installed objects fit together: the deployment's pods carry the labels its own selector and the service select on, they listen on the
  port of the service, which the APIService points at in the same namespace; the certificate that is rotated for them covers the host
  name the aggregator dials and is the one they mount; they run as the service account that is created and that every binding
  names; each binding's role is one the installer creates (or the built-in authentication reader); and every mounted volume is declared.
\<close>

theorem deployment_wired:
  assumes "newClusterGatewayDeployment addon config = Ret d"
  defines "namespace \<equiv> cgs_InstallNamespace (cfg_Spec config)" and "secretNamespace \<equiv> cgs_SecretNamespace (cfg_Spec config)"
  defines "svc \<equiv> newClusterGatewayService addon namespace" and "sa \<equiv> newServiceAccount addon namespace"
  shows "mget (svc_Selector svc) = mget (dep_PodLabels d) \<and> mget (dep_Selector d) = mget (dep_PodLabels d) \<and>
    (\<exists>ref p con. apis_Service (newAPIService addon namespace ca) = Some ref \<and>
       svcref_Namespace ref = meta_Namespace (svc_Meta svc) \<and> svcref_Name ref = meta_Name (svc_Meta svc) \<and> svcref_Port ref = Some p \<and>
       map port_Port (svc_Ports svc) = [p] \<and> dep_Containers d = [con] \<and> ''--secure-port='' @ Itoa p \<in> set (con_Args con) \<and>
       svcref_Name ref @ ''.'' @ svcref_Namespace ref @ ''.svc'' \<in> set (rot_HostNames (server_rotation namespace)) \<and>
       mount_Name ` set (con_VolumeMounts con) \<subseteq> vol_Name ` set (dep_Volumes d)) \<and>
    rot_Namespace (server_rotation namespace) = meta_Namespace (dep_Meta d) \<and>
    (''server'', rot_Name (server_rotation namespace)) \<in> (\<lambda>v. (vol_Name v, vol_SecretName v)) ` set (dep_Volumes d) \<and>
    meta_Namespace (sa_Meta sa) = meta_Namespace (dep_Meta d) \<and> dep_ServiceAccountName d = meta_Name (sa_Meta sa) \<and>
    (\<forall>subjects\<in>{rb_Subjects (newAuthenticationRole addon namespace), rb_Subjects (newSecretRoleBinding addon namespace secretNamespace),
       crb_Subjects (newAPFClusterRoleBinding addon namespace)}.
       map (\<lambda>s. (subj_Kind s, subj_Namespace s, subj_Name s)) subjects = [(''ServiceAccount'', meta_Namespace (sa_Meta sa), meta_Name (sa_Meta sa))]) \<and>
    rb_RoleRef (newSecretRoleBinding addon namespace secretNamespace) = \<lparr>roleref_Kind = ''Role'', roleref_Name = meta_Name (role_Meta (newSecretRole addon secretNamespace))\<rparr> \<and>
    meta_Namespace (rb_Meta (newSecretRoleBinding addon namespace secretNamespace)) = meta_Namespace (role_Meta (newSecretRole addon secretNamespace)) \<and>
    crb_RoleRef (newAPFClusterRoleBinding addon namespace) = \<lparr>roleref_Kind = ''ClusterRole'', roleref_Name = meta_Name (crole_Meta (newAPFClusterRole addon))\<rparr>"
proof -
  obtain args where args: "deployment_args config = Ret args" using assms(1) by (auto simp: newClusterGatewayDeployment_def bind_res_Ret_iff)
  have port: "Itoa 9443 = ''9443''" by (simp add: Itoa_def nat_digits.simps digit_char_def char_of_def bit_0)
  have "''--secure-port=9443'' \<in> set args" using args by (auto simp: deployment_args_def Let_def bind_res_Ret_iff split: if_splits)
  moreover have "mount_Name ` set (deployment_mounts config) \<subseteq> vol_Name ` set (deployment_volumes config)"
    by (cases "eg_Type (cgs_Egress (cfg_Spec config)) = EgressTypeClusterProxy") (simp_all add: deployment_mounts_def deployment_volumes_def)
  moreover have "(''server'', SecretNameClusterGatewayTLSCert) \<in> (\<lambda>v. (vol_Name v, vol_SecretName v)) ` set (deployment_volumes config)"
    by (simp add: deployment_volumes_def)
  ultimately show ?thesis
    using assms(1) args unfolding namespace_def secretNamespace_def svc_def sa_def
    by (auto simp: newClusterGatewayDeployment_def newClusterGatewayService_def newServiceAccount_def newAPIService_def owned_def
        server_rotation_def ServiceNameClusterGateway_def AddonName_def port
        newAuthenticationRole_def newSecretRoleBinding_def newAPFClusterRoleBinding_def newSecretRole_def newAPFClusterRole_def gateway_subject_def)
qed

theorem deployment_wired_witness:
  "\<exists>d. newClusterGatewayDeployment demo_addon demo_config = Ret d \<and>
     mget (svc_Selector (newClusterGatewayService demo_addon ''i'')) = mget (dep_PodLabels d)"
proof -
  obtain d where d: "newClusterGatewayDeployment demo_addon demo_config = Ret d"
    by (simp add: newClusterGatewayDeployment_def deployment_args_def demo_config_def EgressTypeDirect_def EgressTypeClusterProxy_def Let_def)
  moreover have "cgs_InstallNamespace (cfg_Spec demo_config) = ''i''" by (simp add: demo_config_def)
  ultimately show ?thesis using deployment_wired [OF d] by metis
qed

text \<open>
  C31. A token update that fails is lost. The new token is written into the lister's cached secret before the update is sent;
  when the update fails, the retry compares the new token with the cached one, finds them equal and reports success, while
  the secret in the API keeps the old token.
\<close>

theorem token_update_lost:
  assumes quiet: "\<And>ns n y. snd (hub_cache_Get h ns n y) = y" "\<And>ns n s y. slook (hub_cache_Write h ns n s y) = slook y"
    and cached: "\<And>ns n s y. fst (hub_cache_Get h ns n (hub_cache_Write h ns n s y)) = Ret s"
      "\<And>ns n ns' n' s y. (ns', n') \<noteq> (ns, n) \<Longrightarrow> fst (hub_cache_Get h ns' n' (hub_cache_Write h ns n s y)) = fst (hub_cache_Get h ns' n' y)"
    and msa: "sm_ManagedServiceAccount (cgs_SecretManagement (cfg_Spec config)) = Some m"
    and token: "hub_cache_Get h cluster (smm_Name m) x = (Ret s, x)"
    and current: "hub_cache_Get h (cgs_SecretNamespace (cfg_Spec config)) cluster x = (Ret t, x)" "sec_Data t = Some d"
    and other: "(cluster, smm_Name m) \<noteq> (cgs_SecretNamespace (cfg_Spec config), cluster)"
    and changed: "\<not> bytes_Equal (dget (sec_Data s) ServiceAccountTokenKey) (dget (sec_Data t) ServiceAccountTokenKey)"
    and fails: "\<And>s y. secrets_Update (hub_kube h) (cgs_SecretNamespace (cfg_Spec config)) s y = (Fail e, y)"
  shows "\<exists>x'. copySecretForManagedServiceAccount h addon config cluster x = (Fail (WrapError ''failed to update the cluster secret'' e), x') \<and>
    copySecretForManagedServiceAccount h addon config cluster x' = (Ret (), x') \<and> slook x' = slook x"
proof -
  define t' where "t' = t\<lparr>sec_Data := Some (AList.update ServiceAccountTokenKey (dget (sec_Data s) ServiceAccountTokenKey)
     (AList.update ServiceAccountRootCAKey (dget (sec_Data s) ServiceAccountRootCAKey) d))\<rparr>"
  define x' where "x' = hub_cache_Write h (cgs_SecretNamespace (cfg_Spec config)) cluster t' x"
  have first: "copySecretForManagedServiceAccount h addon config cluster x = (Fail (WrapError ''failed to update the cluster secret'' e), x')"
    using msa token current changed fails by (simp add: copySecretForManagedServiceAccount_def run_simps Let_def t'_def x'_def)
  have "hub_cache_Get h cluster (smm_Name m) x' = (Ret s, x')"
    using cached(2) [OF other, of t' x] quiet(1) [of cluster "smm_Name m" x'] token by (simp add: x'_def prod_eq_iff)
  moreover have "hub_cache_Get h (cgs_SecretNamespace (cfg_Spec config)) cluster x' = (Ret t', x')"
    using cached(1) [of "cgs_SecretNamespace (cfg_Spec config)" cluster t' x] quiet(1) by (simp add: x'_def prod_eq_iff)
  moreover have "dget (sec_Data t') ServiceAccountTokenKey = dget (sec_Data s) ServiceAccountTokenKey"
    by (simp add: t'_def dget_def mget_def update_conv' split: option.splits)
  ultimately have "copySecretForManagedServiceAccount h addon config cluster x' = (Ret (), x')"
    using msa by (simp add: copySecretForManagedServiceAccount_def run_simps Let_def)
  moreover have "slook x' = slook x" using quiet(2) by (simp add: x'_def)
  ultimately show ?thesis using first by blast
qed

definition demo_token :: "string \<Rightarrow> Secret" where
  "demo_token tok = demo_secret ''cluster-gateway'' (Some [(''ca.crt'', Some ''CA''), (''token'', Some tok)])"

definition demo_msa_config :: ClusterGatewayConfiguration where
  "demo_msa_config = demo_config\<lparr>cfg_Spec := (cfg_Spec demo_config)\<lparr>cgs_SecretManagement :=
     \<lparr>sm_Type = SecretManagementTypeManagedServiceAccount, sm_ManagedServiceAccount = Some \<lparr>smm_Name = ''cluster-gateway''\<rparr>\<rparr>\<rparr>\<rparr>"

definition demo_failing_hub :: "hub_state hub" where
  "demo_failing_hub = hub_tracker\<lparr>hub_kube := tracker_kube\<lparr>secrets_Update := (\<lambda>_ _. fail (PlainError ''conflict''))\<rparr>\<rparr>"

definition demo_rotated :: hub_state where
  "demo_rotated = demo_hub\<lparr>hs_secrets := [((''s'', ''c1''), demo_token ''old'')],
     hs_cache := [((''c1'', ''cluster-gateway''), demo_token ''new''), ((''s'', ''c1''), demo_token ''old'')]\<rparr>"

theorem token_update_lost_witness:
  "\<exists>x' e. fst (copySecretForManagedServiceAccount demo_failing_hub demo_addon demo_msa_config ''c1'' demo_rotated) = Fail e \<and>
     copySecretForManagedServiceAccount demo_failing_hub demo_addon demo_msa_config ''c1'' x' = (Ret (), x') \<and>
     hub_slook x' ''s'' ''c1'' = Some (demo_token ''old'')"
proof -
  have "\<exists>x'. copySecretForManagedServiceAccount demo_failing_hub demo_addon demo_msa_config ''c1'' demo_rotated
       = (Fail (WrapError ''failed to update the cluster secret'' (PlainError ''conflict'')), x') \<and>
     copySecretForManagedServiceAccount demo_failing_hub demo_addon demo_msa_config ''c1'' x' = (Ret (), x') \<and>
     hub_slook x' = hub_slook demo_rotated"
    by (rule token_update_lost [where m = "\<lparr>smm_Name = ''cluster-gateway''\<rparr>" and s = "demo_token ''new''" and t = "demo_token ''old''"
          and d = "[(''ca.crt'', Some ''CA''), (''token'', Some ''old'')]"])
       (auto simp: demo_failing_hub_def hub_tracker_def found_def run_simps demo_rotated_def demo_msa_config_def demo_config_def
          hub_slook_def update_conv' demo_token_def demo_secret_def dget_def mget_def ServiceAccountTokenKey_def bytes_Equal_def split: option.splits)
  moreover have "hub_slook demo_rotated ''s'' ''c1'' = Some (demo_token ''old'')"
    by (simp add: hub_slook_def tracker_lookup_def demo_rotated_def)
  ultimately show ?thesis by (metis fst_conv)
qed

lemma pair_covers:
  "t \<noteq> a \<Longrightarrow> t \<noteq> b \<Longrightarrow> a \<noteq> b \<Longrightarrow> {t, a, b} \<subseteq> {t, p, q} \<longleftrightarrow> {p, q} = {a, b}"
  by auto

text \<open>
  The deployment mounts proxy credentials under fixed secret names, while the names of the secrets that are copied for it come from the
  configuration: with a cluster-proxy egress every mounted secret is the server certificate or one of the copied ones exactly when
  the configured names are the fixed ones.
\<close>

theorem proxy_volumes_copied_iff:
  assumes "eg_Type (cgs_Egress (cfg_Spec config)) = EgressTypeClusterProxy" and "eg_ClusterProxy (cgs_Egress (cfg_Spec config)) = Some cp"
    and "newClusterGatewayDeployment addon config = Ret d"
  shows "vol_SecretName ` set (dep_Volumes d) \<subseteq>
      {SecretNameClusterGatewayTLSCert, cpc_ProxyClientCASecretName (ecp_Credentials cp), cpc_ProxyClientSecretName (ecp_Credentials cp)} \<longleftrightarrow>
    {cpc_ProxyClientCASecretName (ecp_Credentials cp), cpc_ProxyClientSecretName (ecp_Credentials cp)} = {''proxy-server-ca'', ''proxy-client''}"
proof -
  have "dep_Volumes d = deployment_volumes config" using assms(3) by (auto simp: newClusterGatewayDeployment_def bind_res_Ret_iff)
  then have "vol_SecretName ` set (dep_Volumes d) = {SecretNameClusterGatewayTLSCert, ''proxy-server-ca'', ''proxy-client''}"
    using assms(1) by (simp add: deployment_volumes_def)
  moreover have "SecretNameClusterGatewayTLSCert \<noteq> ''proxy-server-ca''" "SecretNameClusterGatewayTLSCert \<noteq> ''proxy-client''"
    "''proxy-server-ca'' \<noteq> ''proxy-client''" by (simp_all add: SecretNameClusterGatewayTLSCert_def)
  ultimately show ?thesis using pair_covers by metis
qed

definition demo_proxy_config :: ClusterGatewayConfiguration where
  "demo_proxy_config = demo_config\<lparr>cfg_Spec := (cfg_Spec demo_config)\<lparr>cgs_Egress := \<lparr>eg_Type = EgressTypeClusterProxy,
     eg_ClusterProxy = Some \<lparr>ecp_ProxyServerHost = ''p'', ecp_ProxyServerPort = 8090, ecp_Credentials =
       \<lparr>cpc_Namespace = ''o'', cpc_ProxyClientSecretName = ''my-client'', cpc_ProxyClientCASecretName = ''my-ca''\<rparr>\<rparr>\<rparr>\<rparr>\<rparr>"

theorem proxy_volumes_copied_iff_witness:
  "\<exists>d. newClusterGatewayDeployment demo_addon demo_proxy_config = Ret d \<and>
     \<not> vol_SecretName ` set (dep_Volumes d) \<subseteq> {SecretNameClusterGatewayTLSCert, ''my-ca'', ''my-client''}"
proof -
  obtain cp where cp: "eg_Type (cgs_Egress (cfg_Spec demo_proxy_config)) = EgressTypeClusterProxy"
    "eg_ClusterProxy (cgs_Egress (cfg_Spec demo_proxy_config)) = Some cp" "cpc_ProxyClientCASecretName (ecp_Credentials cp) = ''my-ca''"
    "cpc_ProxyClientSecretName (ecp_Credentials cp) = ''my-client''"
    by (simp add: demo_proxy_config_def)
  then obtain d where d: "newClusterGatewayDeployment demo_addon demo_proxy_config = Ret d"
    by (simp add: newClusterGatewayDeployment_def deployment_args_def Let_def)
  from proxy_volumes_copied_iff [OF cp(1,2) d] show ?thesis using d cp(3,4) by (simp add: doubleton_eq_iff)
qed

text \<open>
  Without a CA pair (which is what the manager passes on when the signer secret could not be read) a reconcile of an enabled addon
  never succeeds: once the namespaces and secrets are in place it dereferences nil.
\<close>

theorem Reconcile_without_CA:
  assumes none: "inst_caPair c = None"
    and addon: "hub_Get_ClusterManagementAddOn (inst_hub c) ns n x = (Ret addon, x)"
      "meta_Name (cma_Meta addon) = AddonName" "cma_CRDName addon = ClusterGatewayConfigurationCRDName"
    and config: "hub_Get_ClusterGatewayConfiguration (inst_hub c) (cma_CRName addon) x = (Ret config, x)"
  shows "fst (Installer_Reconcile c (ns, n) x) \<noteq> Ret () \<and>
    (eg_Type (cgs_Egress (cfg_Spec config)) \<noteq> EgressTypeClusterProxy \<longrightarrow>
     sm_Type (cgs_SecretManagement (cfg_Spec config)) \<noteq> SecretManagementTypeManagedServiceAccount \<longrightarrow> hub_api (inst_hub c) look slook \<longrightarrow>
     panics (fst (Installer_Reconcile c (ns, n) x)))"
proof
  have eq: "Installer_Reconcile c (ns, n) x = reconcile_steps c addon config x"
    using addon config by (simp add: Installer_Reconcile_def run_simps)
  have "reconcile_steps c addon config x \<noteq> (Ret (), y)" for y
    by (auto simp: reconcile_steps_def Let_def none bindM_Ret_iff gom_basic)
  then show "fst (Installer_Reconcile c (ns, n) x) \<noteq> Ret ()" unfolding eq by (metis prod.collapse)
  show "eg_Type (cgs_Egress (cfg_Spec config)) \<noteq> EgressTypeClusterProxy \<longrightarrow>
     sm_Type (cgs_SecretManagement (cfg_Spec config)) \<noteq> SecretManagementTypeManagedServiceAccount \<longrightarrow> hub_api (inst_hub c) look slook \<longrightarrow>
     panics (fst (Installer_Reconcile c (ns, n) x))"
  proof (intro impI)
    assume config: "eg_Type (cgs_Egress (cfg_Spec config)) \<noteq> EgressTypeClusterProxy"
      "sm_Type (cgs_SecretManagement (cfg_Spec config)) \<noteq> SecretManagementTypeManagedServiceAccount" and api: "hub_api (inst_hub c) look slook"
    have ns: "\<exists>y'. ensureNamespace (inst_hub c) m y = (Ret (), y')" for m y
    proof (cases "look y (obj_key (NamespaceObj (namespace_object m))) = None")
      case True
      then show ?thesis using hub_api_Create [OF api True]
        by (cases "hub_Create (inst_hub c) (NamespaceObj (namespace_object m)) y")
           (simp add: ensureNamespace_eq [OF api] tolerate_existing_Ret stores_def)
    next
      case False
      then show ?thesis using namespace.no_op [OF api] by blast
    qed
    obtain y1 where y1: "ensureNamespace (inst_hub c) (cgs_InstallNamespace (cfg_Spec config)) x = (Ret (), y1)" using ns by blast
    obtain y2 where "ensureNamespace (inst_hub c) (cgs_SecretNamespace (cfg_Spec config)) y1 = (Ret (), y2)" using ns by blast
    then show "panics (fst (Installer_Reconcile c (ns, n) x))"
      using y1 config none unfolding eq
      by (simp add: reconcile_steps_def Let_def run_simps ensureClusterProxySecrets_def ensureSecretManagement_def)
  qed
qed

theorem Reconcile_without_CA_witness:
  "panics (fst (Installer_Reconcile (demo_installer\<lparr>inst_caPair := None\<rparr>) ('''', AddonName) demo_hub))"
proof -
  have state: "hs_addons demo_hub = [demo_addon]" "hs_configs demo_hub = [demo_config]" by (simp_all add: demo_hub_def)
  have api: "hub_api (inst_hub (demo_installer\<lparr>inst_caPair := None\<rparr>)) hub_look hub_slook"
    using demo_laws by (simp add: installer_laws_def)
  have "eg_Type (cgs_Egress (cfg_Spec demo_config)) \<noteq> EgressTypeClusterProxy"
    "sm_Type (cgs_SecretManagement (cfg_Spec demo_config)) \<noteq> SecretManagementTypeManagedServiceAccount"
    by (simp_all add: demo_config_def EgressTypeDirect_def EgressTypeClusterProxy_def SecretManagementTypeManual_def
          SecretManagementTypeManagedServiceAccount_def)
  then show ?thesis
    using Reconcile_without_CA [of "demo_installer\<lparr>inst_caPair := None\<rparr>" "''''" AddonName demo_hub demo_addon demo_config hub_look hub_slook]
      demo_reads [OF state] api by (simp add: demo_addon_def)
qed

end
