(* ===== verification/Health_Prober.thy ===== *)
theory Health_Prober
  imports Addon_Installer MultiCluster_Transport Gateway_Health
begin

text \<open>
  The controller that probes the managed clusters (\<^verbatim>\<open>pkg/addon/controllers/health.go\<close>): it asks each cluster's
  \<^verbatim>\<open>/healthz\<close> through the gateway and records the answer in the \<^verbatim>\<open>ClusterGateway\<close>'s status and in the addon's
  \<^verbatim>\<open>Available\<close> condition. The typed gateway client, the runtime client's two calls, the HTTP transport below the multi-cluster round tripper and the
  condition helpers of apimachinery are fields of the prober.
\<close>

definition ManagedClusterAddOnConditionAvailable :: string where
  "ManagedClusterAddOnConditionAvailable = ''Available''"

text \<open>The transport answers with the raw body and, for an error status, the error that \<^verbatim>\<open>DoRaw\<close> returns beside the body.\<close>

record 'x ClusterGatewayHealthProber =
  hp_transport :: "('x, string \<times> goerror option) roundtripper"
  hp_GetHealthiness :: "string \<Rightarrow> ('x, ClusterGateway) gom"
  hp_UpdateHealthiness :: "ClusterGateway \<Rightarrow> ('x, ClusterGateway) gom"
  hp_Get :: "string \<Rightarrow> string \<Rightarrow> ('x, ManagedClusterAddOn) gom"
  hp_UpdateStatus :: "ManagedClusterAddOn \<Rightarrow> ('x, unit) gom"
  hp_IsStatusConditionTrue :: "Condition list \<Rightarrow> string \<Rightarrow> bool"
  hp_SetStatusCondition :: "Condition list \<Rightarrow> Condition \<Rightarrow> Condition list"

record reconcile_Result =
  rr_Requeue :: bool
  rr_RequeueAfter :: int

definition no_requeue :: reconcile_Result where "no_requeue = \<lparr>rr_Requeue = False, rr_RequeueAfter = 0\<rparr>"

definition probe_request :: "string \<Rightarrow> client_request" where
  "probe_request clusterName = \<lparr>cr_Path = ''/healthz'', cr_Context = WithMultiClusterContext clusterName empty_context\<rparr>"

definition probe_healthz :: "'x ClusterGatewayHealthProber \<Rightarrow> string \<Rightarrow> ('x, string \<times> goerror option) gom" where
  "probe_healthz c clusterName =
     bindM (attempt (clusterGateway_RoundTrip (NewClusterGatewayRoundTripper (hp_transport c)) (probe_request clusterName))) (\<lambda>r.
     case r of Inl e \<Rightarrow> ret ('''', Some e) | Inr answer \<Rightarrow> ret answer)"

definition probed_status :: "bool \<Rightarrow> goerror option \<Rightarrow> ClusterGatewayStatus \<Rightarrow> ClusterGatewayStatus" where
  "probed_status healthy healthErr st =
     (let st' = st\<lparr>st_Healthy := healthy\<rparr> in
      if \<not> healthy then (case healthErr of Some e \<Rightarrow> st'\<lparr>st_HealthyReason := Error e\<rparr> | None \<Rightarrow> st')
      else st'\<lparr>st_HealthyReason := ''''\<rparr>)"

definition available_condition :: "bool \<Rightarrow> string \<Rightarrow> goerror option \<Rightarrow> Condition" where
  "available_condition healthy resp healthErr =
     (if healthy
      then \<lparr>cond_Type = ManagedClusterAddOnConditionAvailable, cond_Status = ''True'',
            cond_Reason = ''SuccessfullyProbedHealthz'', cond_Message = ''Returned OK''\<rparr>
      else \<lparr>cond_Type = ManagedClusterAddOnConditionAvailable, cond_Status = ''False'', cond_Reason = ''FailedProbingHealthz'',
            cond_Message = (case healthErr of Some e \<Rightarrow> Error e | None \<Rightarrow> if length resp > 0 then resp else ''Unknown'')\<rparr>)"

definition Prober_Reconcile ::
  "'x ClusterGatewayHealthProber \<Rightarrow> string \<times> string \<Rightarrow> ('x, reconcile_Result) gom" where
  "Prober_Reconcile c request =
     (if snd request \<noteq> AddonName then ret no_requeue
      else let clusterName = fst request in
        bindM (hp_GetHealthiness c clusterName) (\<lambda>gw.
        bindM (probe_healthz c clusterName) (\<lambda>(resp, healthErr).
        let healthy = (resp = ''ok'' \<and> healthErr = None) in
        bindM (if healthy \<noteq> st_Healthy (cg_Status gw)
               then bindM (hp_UpdateHealthiness c (gw\<lparr>cg_Status := probed_status healthy healthErr (cg_Status gw)\<rparr>)) (\<lambda>_. ret ())
               else ret ()) (\<lambda>_.
        bindM (hp_Get c (fst request) (snd request)) (\<lambda>addon.
        bindM (if healthy \<noteq> hp_IsStatusConditionTrue c (mca_Conditions addon) ManagedClusterAddOnConditionAvailable
               then hp_UpdateStatus c (addon\<lparr>mca_Conditions :=
                      hp_SetStatusCondition c (mca_Conditions addon) (available_condition healthy resp healthErr)\<rparr>)
               else ret ()) (\<lambda>_.
        ret (if \<not> healthy then \<lparr>rr_Requeue = True, rr_RequeueAfter = 5 * 1000000000\<rparr> else no_requeue)))))))"

section \<open>What the prober relies on\<close>

text \<open>
  \<open>prober_laws c glook alook\<close>: the gateway client reads and writes the status of the cluster's gateway, the hub client the addon, neither
  disturbs the other; setting a condition makes it true exactly when its status is \<^verbatim>\<open>True\<close> (the documented behaviour of
  apimachinery's condition helpers). \<open>answers c cluster resp err\<close>: the cluster answers its probe this way in every state.
\<close>

definition prober_laws ::
  "'x ClusterGatewayHealthProber \<Rightarrow> ('x \<Rightarrow> string \<Rightarrow> ClusterGateway option) \<Rightarrow> ('x \<Rightarrow> string \<Rightarrow> string \<Rightarrow> ManagedClusterAddOn option) \<Rightarrow> bool" where
  "prober_laws c glook alook \<longleftrightarrow>
     (\<forall>n x gw y. hp_GetHealthiness c n x = (Ret gw, y) \<longleftrightarrow> glook x n = Some gw \<and> y = x) \<and>
     (\<forall>ns n x a y. hp_Get c ns n x = (Ret a, y) \<longleftrightarrow> alook x ns n = Some a \<and> y = x) \<and>
     (\<forall>x n gw. glook x n = Some gw \<longrightarrow> cg_Name gw = n) \<and>
     (\<forall>x ns n a. alook x ns n = Some a \<longrightarrow> meta_Namespace (mca_Meta a) = ns \<and> meta_Name (mca_Meta a) = n) \<and>
     (\<forall>gw x r y. hp_UpdateHealthiness c gw x = (Ret r, y) \<longrightarrow>
        alook y = alook x \<and> (\<exists>gw'. cg_Status gw' = cg_Status gw \<and> glook y (cg_Name gw) = Some gw' \<and>
          (\<forall>n. n \<noteq> cg_Name gw \<longrightarrow> glook y n = glook x n))) \<and>
     (\<forall>a x y. hp_UpdateStatus c a x = (Ret (), y) \<longrightarrow>
        glook y = glook x \<and> (\<exists>a'. mca_Conditions a' = mca_Conditions a \<and>
          alook y (meta_Namespace (mca_Meta a)) (meta_Name (mca_Meta a)) = Some a')) \<and>
     (\<forall>cs cond. hp_IsStatusConditionTrue c (hp_SetStatusCondition c cs cond) (cond_Type cond) \<longleftrightarrow> cond_Status cond = ''True'')"

definition answers :: "'x ClusterGatewayHealthProber \<Rightarrow> string \<Rightarrow> string \<Rightarrow> goerror option \<Rightarrow> bool" where
  "answers c clusterName resp healthErr \<longleftrightarrow>
     (\<forall>x. hp_transport c ((probe_request clusterName)\<lparr>cr_Path := formatProxyURL clusterName ''/healthz''\<rparr>) x = (Ret (resp, healthErr), x) \<or>
          (\<exists>e. resp = '''' \<and> healthErr = Some e \<and>
             hp_transport c ((probe_request clusterName)\<lparr>cr_Path := formatProxyURL clusterName ''/healthz''\<rparr>) x = (Fail e, x)))"

definition recorded ::
  "'x ClusterGatewayHealthProber \<Rightarrow> ('x \<Rightarrow> string \<Rightarrow> ClusterGateway option) \<Rightarrow> ('x \<Rightarrow> string \<Rightarrow> string \<Rightarrow> ManagedClusterAddOn option) \<Rightarrow>
   string \<Rightarrow> bool \<Rightarrow> 'x \<Rightarrow> bool" where
  "recorded c glook alook clusterName healthy x \<longleftrightarrow>
     (\<exists>gw a. glook x clusterName = Some gw \<and> st_Healthy (cg_Status gw) = healthy \<and>
        alook x clusterName AddonName = Some a \<and>
        hp_IsStatusConditionTrue c (mca_Conditions a) ManagedClusterAddOnConditionAvailable = healthy)"

section \<open>Lemmas\<close>

text \<open>The probe is sent to the proxy subresource of the cluster, whatever the transport does with it.\<close>

lemma probe_healthz_run: "answers c clusterName resp healthErr \<Longrightarrow> probe_healthz c clusterName x = (Ret (resp, healthErr), x)"
  unfolding answers_def
  by (auto simp: probe_healthz_def clusterGateway_RoundTrip_def probe_request_def WithMultiClusterContext_def GetMultiClusterContext_def
      NewClusterGatewayRoundTripper_def run_simps dest!: spec [of _ x])

lemma probed_status_Healthy: "st_Healthy (probed_status healthy healthErr st) = healthy"
  by (simp add: probed_status_def Let_def split: option.splits)

lemma available_condition_fields:
  "cond_Type (available_condition healthy resp err) = ManagedClusterAddOnConditionAvailable"
  "cond_Status (available_condition healthy resp err) = ''True'' \<longleftrightarrow> healthy"
  by (simp_all add: available_condition_def)

lemma prober_GetHealthiness:
  "prober_laws c glook alook \<Longrightarrow> hp_GetHealthiness c n x = (Ret gw, y) \<longleftrightarrow> glook x n = Some gw \<and> y = x"
  by (simp add: prober_laws_def)

lemma prober_Get:
  "prober_laws c glook alook \<Longrightarrow> hp_Get c ns n x = (Ret a, y) \<longleftrightarrow> alook x ns n = Some a \<and> y = x"
  by (simp add: prober_laws_def)

lemma prober_gateway_named: "prober_laws c glook alook \<Longrightarrow> glook x n = Some gw \<Longrightarrow> cg_Name gw = n"
  by (simp add: prober_laws_def)

lemma prober_addon_named:
  "prober_laws c glook alook \<Longrightarrow> alook x ns n = Some a \<Longrightarrow> meta_Namespace (mca_Meta a) = ns \<and> meta_Name (mca_Meta a) = n"
  by (simp add: prober_laws_def)

lemma prober_UpdateHealthiness:
  "prober_laws c glook alook \<Longrightarrow> hp_UpdateHealthiness c gw x = (Ret r, y) \<Longrightarrow>
     alook y = alook x \<and> (\<exists>gw'. cg_Status gw' = cg_Status gw \<and> glook y (cg_Name gw) = Some gw')"
  unfolding prober_laws_def by meson

lemma prober_UpdateStatus:
  "prober_laws c glook alook \<Longrightarrow> hp_UpdateStatus c a x = (Ret (), y) \<Longrightarrow>
     glook y = glook x \<and> (\<exists>a'. mca_Conditions a' = mca_Conditions a \<and>
       alook y (meta_Namespace (mca_Meta a)) (meta_Name (mca_Meta a)) = Some a')"
  unfolding prober_laws_def by meson

lemma prober_condition:
  "prober_laws c glook alook \<Longrightarrow>
     hp_IsStatusConditionTrue c (hp_SetStatusCondition c cs cond) (cond_Type cond) \<longleftrightarrow> cond_Status cond = ''True''"
  by (simp add: prober_laws_def)

text \<open>The two halves of a run: the gateway's status, then the addon's condition.\<close>

definition gateway_half :: "'x ClusterGatewayHealthProber \<Rightarrow> bool \<Rightarrow> goerror option \<Rightarrow> ClusterGateway \<Rightarrow> ('x, unit) gom" where
  "gateway_half c healthy healthErr gw = (if healthy \<noteq> st_Healthy (cg_Status gw)
     then bindM (hp_UpdateHealthiness c (gw\<lparr>cg_Status := probed_status healthy healthErr (cg_Status gw)\<rparr>)) (\<lambda>_. ret ()) else ret ())"

definition addon_half :: "'x ClusterGatewayHealthProber \<Rightarrow> bool \<Rightarrow> string \<Rightarrow> goerror option \<Rightarrow> ManagedClusterAddOn \<Rightarrow> ('x, unit) gom" where
  "addon_half c healthy resp healthErr addon =
     (if healthy \<noteq> hp_IsStatusConditionTrue c (mca_Conditions addon) ManagedClusterAddOnConditionAvailable
      then hp_UpdateStatus c (addon\<lparr>mca_Conditions :=
             hp_SetStatusCondition c (mca_Conditions addon) (available_condition healthy resp healthErr)\<rparr>)
      else ret ())"

lemma Prober_Reconcile_halves:
  assumes laws: "prober_laws c glook alook" and ans: "answers c cl resp err"
  defines "healthy \<equiv> resp = ''ok'' \<and> err = None"
  shows "Prober_Reconcile c (cl, AddonName) x = (Ret result, y) \<longleftrightarrow>
    (\<exists>gw a w. glook x cl = Some gw \<and> gateway_half c healthy err gw x = (Ret (), w) \<and> alook w cl AddonName = Some a \<and>
       addon_half c healthy resp err a w = (Ret (), y) \<and>
       result = (if \<not> healthy then \<lparr>rr_Requeue = True, rr_RequeueAfter = 5 * 1000000000\<rparr> else no_requeue))"
  unfolding Prober_Reconcile_def Let_def bindM_Ret_iff snd_conv fst_conv gateway_half_def [symmetric] addon_half_def [symmetric]
  by (auto simp: prober_GetHealthiness [OF laws] prober_Get [OF laws] probe_healthz_run [OF ans] bindM_Ret_iff healthy_def
      gateway_half_def [symmetric] addon_half_def [symmetric] gom_basic)

lemma gateway_half_records:
  assumes laws: "prober_laws c glook alook" and gw: "glook x cl = Some gw" and run: "gateway_half c healthy err gw x = (Ret (), w)"
  shows "alook w = alook x \<and> (\<exists>gw'. glook w cl = Some gw' \<and> st_Healthy (cg_Status gw') = healthy)"
proof (cases "healthy = st_Healthy (cg_Status gw)")
  case False
  then obtain r where up: "hp_UpdateHealthiness c (gw\<lparr>cg_Status := probed_status healthy err (cg_Status gw)\<rparr>) x = (Ret r, w)"
    using run by (auto simp: gateway_half_def bindM_Ret_iff gom_basic)
  show ?thesis
    using prober_UpdateHealthiness [OF laws up] prober_gateway_named [OF laws gw] probed_status_Healthy by auto
qed (use run gw in \<open>auto simp: gateway_half_def gom_basic\<close>)

lemma addon_half_records:
  assumes laws: "prober_laws c glook alook" and a: "alook w cl AddonName = Some a" and run: "addon_half c healthy resp err a w = (Ret (), y)"
  shows "glook y = glook w \<and> (\<exists>a'. alook y cl AddonName = Some a' \<and>
    hp_IsStatusConditionTrue c (mca_Conditions a') ManagedClusterAddOnConditionAvailable = healthy)"
proof (cases "healthy = hp_IsStatusConditionTrue c (mca_Conditions a) ManagedClusterAddOnConditionAvailable")
  case False
  then have up: "hp_UpdateStatus c (a\<lparr>mca_Conditions :=
      hp_SetStatusCondition c (mca_Conditions a) (available_condition healthy resp err)\<rparr>) w = (Ret (), y)"
    using run by (simp add: addon_half_def)
  have "hp_IsStatusConditionTrue c (hp_SetStatusCondition c (mca_Conditions a) (available_condition healthy resp err))
      ManagedClusterAddOnConditionAvailable = healthy"
    using prober_condition [OF laws, of "mca_Conditions a" "available_condition healthy resp err"] by (simp add: available_condition_fields)
  then show ?thesis using prober_UpdateStatus [OF laws up] prober_addon_named [OF laws a] by auto
qed (use run a in \<open>auto simp: addon_half_def gom_basic\<close>)

interpretation probed: ensure_step "prober_laws c glook alook \<and> answers c cl resp err"
    "bindM (Prober_Reconcile c (cl, AddonName)) (\<lambda>_. ret ())" "recorded c glook alook cl (resp = ''ok'' \<and> err = None)"
  for c glook alook cl resp err
proof
  fix x y
  assume law: "prober_laws c glook alook \<and> answers c cl resp err"
  note halves = Prober_Reconcile_halves [OF conjunct1 [OF law] conjunct2 [OF law]]
  {
    assume "bindM (Prober_Reconcile c (cl, AddonName)) (\<lambda>_. ret ()) x = (Ret (), y)"
    then obtain gw a w where run: "glook x cl = Some gw" "gateway_half c (resp = ''ok'' \<and> err = None) err gw x = (Ret (), w)"
      "alook w cl AddonName = Some a" "addon_half c (resp = ''ok'' \<and> err = None) resp err a w = (Ret (), y)"
      unfolding bindM_Ret_iff halves by (auto simp: gom_basic)
    show "recorded c glook alook cl (resp = ''ok'' \<and> err = None) y"
      using gateway_half_records [OF conjunct1 [OF law] run(1,2)] addon_half_records [OF conjunct1 [OF law] run(3,4)]
      by (auto simp: recorded_def)
  }
  {
    assume "recorded c glook alook cl (resp = ''ok'' \<and> err = None) x"
    then obtain gw a where "glook x cl = Some gw" "st_Healthy (cg_Status gw) = (resp = ''ok'' \<and> err = None)" "alook x cl AddonName = Some a"
      "hp_IsStatusConditionTrue c (mca_Conditions a) ManagedClusterAddOnConditionAvailable = (resp = ''ok'' \<and> err = None)"
      by (auto simp: recorded_def)
    moreover have "gateway_half c (resp = ''ok'' \<and> err = None) err gw x = (Ret (), x)"
      "addon_half c (resp = ''ok'' \<and> err = None) resp err a x = (Ret (), x)"
      using calculation(2,4) by (simp_all add: gateway_half_def addon_half_def gom_basic)
    ultimately obtain result where "Prober_Reconcile c (cl, AddonName) x = (Ret result, x)" unfolding halves by blast
    then show "bindM (Prober_Reconcile c (cl, AddonName)) (\<lambda>_. ret ()) x = (Ret (), x)" by (simp add: bindM_Ret_iff gom_basic)
  }
qed

section \<open>Properties\<close>

text \<open>
  C29. A prober run that returns has recorded what the cluster answered: the gateway's status and the addon's \<^verbatim>\<open>Available\<close> condition say healthy exactly
  when the probe through the gateway returned \<^verbatim>\<open>ok\<close> without an error, an unhealthy cluster is probed again after five seconds, and
  as long as the cluster answers the same, a further run returns the same and writes nothing.
\<close>

theorem Prober_records:
  assumes laws: "prober_laws c glook alook" and ans: "answers c cl resp err"
    and run: "Prober_Reconcile c (cl, AddonName) x = (Ret result, y)"
  shows "recorded c glook alook cl (resp = ''ok'' \<and> err = None) y \<and>
    (rr_Requeue result \<longleftrightarrow> \<not> (resp = ''ok'' \<and> err = None)) \<and> (rr_Requeue result \<longrightarrow> rr_RequeueAfter result = 5 * 1000000000) \<and>
    Prober_Reconcile c (cl, AddonName) y = (Ret result, y)"
proof -
  have first: "bindM (Prober_Reconcile c (cl, AddonName)) (\<lambda>_. ret ()) x = (Ret (), y)" using run by (simp add: bindM_Ret_iff gom_basic)
  have res: "result = (if \<not> (resp = ''ok'' \<and> err = None) then \<lparr>rr_Requeue = True, rr_RequeueAfter = 5 * 1000000000\<rparr> else no_requeue)"
    using run unfolding Prober_Reconcile_halves [OF laws ans] by blast
  obtain again where again: "Prober_Reconcile c (cl, AddonName) y = (Ret again, y)"
    using probed.idempotent [OF conjI [OF laws ans] first] by (auto simp: bindM_Ret_iff gom_basic)
  then have "again = result" unfolding Prober_Reconcile_halves [OF laws ans] res by blast
  then show ?thesis using probed.establishes [OF conjI [OF laws ans] first] res again by (auto simp: no_requeue_def)
qed

definition demo_prober :: "string \<Rightarrow> (ClusterGateway \<times> ManagedClusterAddOn) ClusterGatewayHealthProber" where
  "demo_prober body = \<lparr>
     hp_transport = (\<lambda>req. ret (body, None)),
     hp_GetHealthiness = (\<lambda>n (g, a). if cg_Name g = n then (Ret g, (g, a)) else (Fail (NewNotFound '''' ''clustergateways'' n), (g, a))),
     hp_UpdateHealthiness = (\<lambda>gw (g, a). if cg_Name gw = cg_Name g then (Ret gw, (g\<lparr>cg_Status := cg_Status gw\<rparr>, a))
        else (Fail (NewNotFound '''' ''clustergateways'' (cg_Name gw)), (g, a))),
     hp_Get = (\<lambda>ns n (g, a). if meta_Namespace (mca_Meta a) = ns \<and> meta_Name (mca_Meta a) = n then (Ret a, (g, a))
        else (Fail (NewNotFound '''' ''managedclusteraddons'' n), (g, a))),
     hp_UpdateStatus = (\<lambda>b (g, a). if mca_Meta b = mca_Meta a then (Ret (), (g, b)) else (Fail (NewNotFound '''' ''managedclusteraddons'' ''''), (g, a))),
     hp_IsStatusConditionTrue = (\<lambda>cs t. list_ex (\<lambda>d. cond_Type d = t \<and> cond_Status d = ''True'') cs),
     hp_SetStatusCondition = (\<lambda>cs d. d # filter (\<lambda>e. cond_Type e \<noteq> cond_Type d) cs)\<rparr>"

definition demo_probed_addon :: ManagedClusterAddOn where
  "demo_probed_addon = \<lparr>mca_Meta = empty_ObjectMeta\<lparr>meta_Namespace := ''c1'', meta_Name := AddonName\<rparr>, mca_InstallNamespace = '''',
     mca_ConfigCRName = '''', mca_Conditions = []\<rparr>"

lemma demo_prober_laws:
  "prober_laws (demo_prober body) (\<lambda>(g, a) n. if cg_Name g = n then Some g else None)
     (\<lambda>(g, a) ns n. if meta_Namespace (mca_Meta a) = ns \<and> meta_Name (mca_Meta a) = n then Some a else None)"
  by (auto simp: prober_laws_def demo_prober_def fun_eq_iff list_ex_iff split: if_splits prod.splits)

theorem Prober_records_witness:
  "\<exists>y result. Prober_Reconcile (demo_prober ''ok'') (''c1'', AddonName) (demo_gateway, demo_probed_addon) = (Ret result, y) \<and>
     st_Healthy (cg_Status (fst y)) \<and> \<not> rr_Requeue result"
proof -
  let ?glook = "\<lambda>(g, a) n. if cg_Name g = n then Some g else None"
  let ?alook = "\<lambda>(g, a) ns n. if meta_Namespace (mca_Meta a) = ns \<and> meta_Name (mca_Meta a) = n then Some a else None"
  have ans: "answers (demo_prober ''ok'') ''c1'' ''ok'' None" by (simp add: answers_def demo_prober_def gom_basic)
  let ?g = "demo_gateway\<lparr>cg_Status := probed_status True None (cg_Status demo_gateway)\<rparr>"
  let ?a = "demo_probed_addon\<lparr>mca_Conditions := [available_condition True ''ok'' None]\<rparr>"
  have "gateway_half (demo_prober ''ok'') True None demo_gateway (demo_gateway, demo_probed_addon) = (Ret (), (?g, demo_probed_addon))"
    by (simp add: gateway_half_def demo_prober_def run_simps) (simp add: demo_gateway_def empty_ClusterGatewayStatus_def)
  moreover have "addon_half (demo_prober ''ok'') True ''ok'' None demo_probed_addon (?g, demo_probed_addon) = (Ret (), (?g, ?a))"
    by (simp add: addon_half_def demo_prober_def run_simps) (simp add: demo_probed_addon_def)
  moreover have "cg_Name demo_gateway = ''c1''" by (simp add: demo_gateway_def)
  moreover have "meta_Namespace (mca_Meta demo_probed_addon) = ''c1''" "meta_Name (mca_Meta demo_probed_addon) = AddonName"
    by (simp_all add: demo_probed_addon_def)
  ultimately have "Prober_Reconcile (demo_prober ''ok'') (''c1'', AddonName) (demo_gateway, demo_probed_addon) = (Ret no_requeue, (?g, ?a))"
    unfolding Prober_Reconcile_halves [OF demo_prober_laws ans] by simp
  then obtain y result where run: "Prober_Reconcile (demo_prober ''ok'') (''c1'', AddonName) (demo_gateway, demo_probed_addon) = (Ret result, y)"
    by blast
  from Prober_records [OF demo_prober_laws ans run] run show ?thesis by (cases y) (auto simp: recorded_def split: if_splits)
qed

end
