(* ===== verification/Addon_Events.thy ===== *)
theory Addon_Events
  imports Addon_Types
begin

text \<open>
  What wakes the addon controllers up (\<^verbatim>\<open>pkg/event\<close>): the handlers that turn watch events into reconcile requests and the
  timer that resyncs the health prober. A work queue is the sequence of requests added to it; the resync loop is a step
  relation in which the hub may change between any two steps.
\<close>

section \<open>Events and queues\<close>

type_synonym request = "string \<times> string"
type_synonym queue = "request list"

definition queue_Add :: "request \<Rightarrow> queue \<Rightarrow> queue" where "queue_Add r q = q @ [r]"

datatype 'a event = CreateEvent 'a | UpdateEvent 'a 'a | DeleteEvent 'a | GenericEvent 'a

text \<open>The object every handler looks at: the new one of an update.\<close>

fun event_object :: "'a event \<Rightarrow> 'a" where
  "event_object (CreateEvent a) = a"
| "event_object (UpdateEvent old new) = new"
| "event_object (DeleteEvent a) = a"
| "event_object (GenericEvent a) = a"

section \<open>Handlers\<close>

definition APIServiceHandler_process :: "string \<Rightarrow> APIService \<Rightarrow> queue \<Rightarrow> queue" where
  "APIServiceHandler_process watchingName apiService q =
     (if meta_Name (apis_Meta apiService) = watchingName then queue_Add ('''', AddonName) q else q)"

fun APIServiceHandler :: "string \<Rightarrow> APIService event \<Rightarrow> queue \<Rightarrow> queue" where
  "APIServiceHandler w (CreateEvent a) q = APIServiceHandler_process w a q"
| "APIServiceHandler w (UpdateEvent old new) q = APIServiceHandler_process w new q"
| "APIServiceHandler w (DeleteEvent a) q = APIServiceHandler_process w a q"
| "APIServiceHandler w (GenericEvent a) q = APIServiceHandler_process w a q"

fun secret_owner_loop :: "OwnerReference list \<Rightarrow> queue \<Rightarrow> queue" where
  "secret_owner_loop [] q = q"
| "secret_owner_loop (ref # refs) q = secret_owner_loop refs
     (if ref_Kind ref = ''ManagedServiceAccount'' \<and> ref_Name ref = AddonName then queue_Add ('''', AddonName) q else q)"

definition SecretHandler_process :: "Secret \<Rightarrow> queue \<Rightarrow> queue" where
  "SecretHandler_process secret q = secret_owner_loop (meta_OwnerReferences (sec_Meta secret)) q"

fun SecretHandler :: "Secret event \<Rightarrow> queue \<Rightarrow> queue" where
  "SecretHandler (CreateEvent s) q = SecretHandler_process s q"
| "SecretHandler (UpdateEvent old new) q = SecretHandler_process new q"
| "SecretHandler (DeleteEvent s) q = SecretHandler_process s q"
| "SecretHandler (GenericEvent s) q = SecretHandler_process s q"

fun addon_loop :: "string \<Rightarrow> ClusterManagementAddOn list \<Rightarrow> queue \<Rightarrow> queue" where
  "addon_loop configName [] q = q"
| "addon_loop configName (addon # addons) q = addon_loop configName addons
     (if cma_CRDName addon \<noteq> ClusterGatewayConfigurationCRDName then q
      else if cma_CRName addon = configName then queue_Add ('''', meta_Name (cma_Meta addon)) q
      else q)"

text \<open>The configuration handler lists the addons first; when that fails it only logs.\<close>

definition ClusterGatewayConfigurationHandler_process ::
  "goerror + ClusterManagementAddOn list \<Rightarrow> ClusterGatewayConfiguration \<Rightarrow> queue \<Rightarrow> queue" where
  "ClusterGatewayConfigurationHandler_process listed config q =
     (case listed of Inl e \<Rightarrow> q | Inr addons \<Rightarrow> addon_loop (meta_Name (cfg_Meta config)) addons q)"

fun ClusterGatewayConfigurationHandler ::
  "goerror + ClusterManagementAddOn list \<Rightarrow> ClusterGatewayConfiguration event \<Rightarrow> queue \<Rightarrow> queue" where
  "ClusterGatewayConfigurationHandler l (CreateEvent c) q = ClusterGatewayConfigurationHandler_process l c q"
| "ClusterGatewayConfigurationHandler l (UpdateEvent old new) q = ClusterGatewayConfigurationHandler_process l new q"
| "ClusterGatewayConfigurationHandler l (DeleteEvent c) q = ClusterGatewayConfigurationHandler_process l c q"
| "ClusterGatewayConfigurationHandler l (GenericEvent c) q = ClusterGatewayConfigurationHandler_process l c q"


section \<open>The resync timer\<close>







section \<open>Handlers as an interface\<close>

text \<open>
  Every handler adds, for the object of the event, a list of requests that depends on nothing else: not on the
  kind of the event and not on what the queue holds.
\<close>

locale event_handler =
  fixes handle :: "'a event \<Rightarrow> queue \<Rightarrow> queue" and requests :: "'a \<Rightarrow> request list"
  assumes handle_requests: "handle e q = q @ requests (event_object e)"
begin

lemma same_object: "event_object e = event_object e' \<Longrightarrow> handle e = handle e'"
  by (simp add: handle_requests fun_eq_iff)

lemma handle_all: "fold handle es q = q @ concat (map (\<lambda>e. requests (event_object e)) es)"
  by (induction es arbitrary: q) (simp_all add: handle_requests)

lemma handle_mem: "r \<in> set (fold handle es q) \<longleftrightarrow> r \<in> set q \<or> (\<exists>e\<in>set es. r \<in> set (requests (event_object e)))"
  by (auto simp: handle_all)

end

lemma secret_owner_loop_eq:
  "secret_owner_loop refs q = q @ replicate (length (filter (\<lambda>ref. ref_Kind ref = ''ManagedServiceAccount'' \<and> ref_Name ref = AddonName) refs)) ('''', AddonName)"
  by (induction refs arbitrary: q) (simp_all add: queue_Add_def replicate_app_Cons_same)

lemma addon_loop_eq:
  "addon_loop n addons q = q @ map (\<lambda>a. ('''', meta_Name (cma_Meta a)))
     (filter (\<lambda>a. cma_CRDName a = ClusterGatewayConfigurationCRDName \<and> cma_CRName a = n) addons)"
  by (induction addons arbitrary: q) (simp_all add: queue_Add_def)

interpretation apiservice_events: event_handler "APIServiceHandler w"
    "\<lambda>a. if meta_Name (apis_Meta a) = w then [('''', AddonName)] else []" for w
proof
  fix e q
  show "APIServiceHandler w e q = q @ (if meta_Name (apis_Meta (event_object e)) = w then [('''', AddonName)] else [])"
    by (cases e) (auto simp: APIServiceHandler_process_def queue_Add_def)
qed

lemma set_replicate_filter: "r \<in> set (replicate (length (filter P xs)) x) \<longleftrightarrow> r = x \<and> (\<exists>y\<in>set xs. P y)"
  by (induction xs) auto

abbreviation gateway_owner :: "OwnerReference \<Rightarrow> bool" where
  "gateway_owner ref \<equiv> ref_Kind ref = ''ManagedServiceAccount'' \<and> ref_Name ref = AddonName"

interpretation secret_events: event_handler SecretHandler
    "\<lambda>s. replicate (length (filter gateway_owner (meta_OwnerReferences (sec_Meta s)))) ('''', AddonName)"
proof
  fix e q
  show "SecretHandler e q = q @ replicate (length (filter gateway_owner
      (meta_OwnerReferences (sec_Meta (event_object e))))) ('''', AddonName)"
    by (cases e) (simp_all add: SecretHandler_process_def secret_owner_loop_eq)
qed

abbreviation configured_by :: "ClusterGatewayConfiguration \<Rightarrow> ClusterManagementAddOn \<Rightarrow> bool" where
  "configured_by c a \<equiv> cma_CRDName a = ClusterGatewayConfigurationCRDName \<and> cma_CRName a = meta_Name (cfg_Meta c)"

interpretation configuration_events: event_handler "ClusterGatewayConfigurationHandler listed"
    "\<lambda>c. case listed of Inl e \<Rightarrow> [] | Inr addons \<Rightarrow> map (\<lambda>a. ('''', meta_Name (cma_Meta a))) (filter (configured_by c) addons)" for listed
proof
  fix e q
  show "ClusterGatewayConfigurationHandler listed e q = q @ (case listed of Inl e \<Rightarrow> []
      | Inr addons \<Rightarrow> map (\<lambda>a. ('''', meta_Name (cma_Meta a))) (filter (configured_by (event_object e)) addons))"
    by (cases e) (simp_all add: ClusterGatewayConfigurationHandler_process_def addon_loop_eq split: sum.split)
qed

text \<open>
  What wakes the installer, for every sequence of watch events: an event on the watched \<^verbatim>\<open>APIService\<close>, an event on a secret
  owned by the \<^verbatim>\<open>ManagedServiceAccount\<close> named cluster-gateway, and, for an event on a configuration, every addon that
  refers to it (none when the addons cannot be listed). Nothing else is queued and nothing queued before is lost.
\<close>

theorem handlers_wake:
  "(r \<in> set (fold (APIServiceHandler w) aes q) \<longleftrightarrow>
      r \<in> set q \<or> r = ('''', AddonName) \<and> (\<exists>e\<in>set aes. meta_Name (apis_Meta (event_object e)) = w)) \<and>
   (r \<in> set (fold SecretHandler ses q) \<longleftrightarrow>
      r \<in> set q \<or> r = ('''', AddonName) \<and> (\<exists>e\<in>set ses. \<exists>ref\<in>set (meta_OwnerReferences (sec_Meta (event_object e))).
        ref_Kind ref = ''ManagedServiceAccount'' \<and> ref_Name ref = AddonName)) \<and>
   (r \<in> set (fold (ClusterGatewayConfigurationHandler (Inr addons)) ces q) \<longleftrightarrow>
      r \<in> set q \<or> (\<exists>e\<in>set ces. \<exists>a\<in>set addons. cma_CRDName a = ClusterGatewayConfigurationCRDName \<and>
        cma_CRName a = meta_Name (cfg_Meta (event_object e)) \<and> r = ('''', meta_Name (cma_Meta a)))) \<and>
   fold (ClusterGatewayConfigurationHandler (Inl err)) ces q = q"
proof (intro conjI)
  show "r \<in> set (fold (APIServiceHandler w) aes q) \<longleftrightarrow>
     r \<in> set q \<or> r = ('''', AddonName) \<and> (\<exists>e\<in>set aes. meta_Name (apis_Meta (event_object e)) = w)"
    by (auto simp: apiservice_events.handle_mem)
  show "r \<in> set (fold SecretHandler ses q) \<longleftrightarrow>
     r \<in> set q \<or> r = ('''', AddonName) \<and> (\<exists>e\<in>set ses. \<exists>ref\<in>set (meta_OwnerReferences (sec_Meta (event_object e))).
       ref_Kind ref = ''ManagedServiceAccount'' \<and> ref_Name ref = AddonName)"
    unfolding secret_events.handle_mem set_replicate_filter by blast
  show "r \<in> set (fold (ClusterGatewayConfigurationHandler (Inr addons)) ces q) \<longleftrightarrow>
     r \<in> set q \<or> (\<exists>e\<in>set ces. \<exists>a\<in>set addons. cma_CRDName a = ClusterGatewayConfigurationCRDName \<and>
       cma_CRName a = meta_Name (cfg_Meta (event_object e)) \<and> r = ('''', meta_Name (cma_Meta a)))"
    by (fastforce simp: configuration_events.handle_mem)
qed (simp add: configuration_events.handle_all)

section \<open>The resync loop delivers every round\<close>















end
