(* ===== verification/Addon_Agent.thy ===== *)
theory Addon_Agent
  imports Addon_Installer
begin

text \<open>
  The addon's agent side (\<^verbatim>\<open>pkg/addon/agent/addon.go\<close>): the manifests the addon framework applies in a managed cluster so that
  the gateway's token may act there. \<open>rbac_allows\<close> is Kubernetes' documented reading of role objects; with it the permissions
  handed out on the hub (\<^verbatim>\<open>installer.go\<close>) and in the managed cluster are stated exactly.
\<close>

section \<open>The agent\<close>

record ('x, 'r) clusterGatewayAddonManager =
  am_clientConfig :: 'r
  am_client :: "'x hub"

definition NewClusterGatewayAddonManager :: "'r \<Rightarrow> 'x hub \<Rightarrow> ('x, 'r) clusterGatewayAddonManager" where
  "NewClusterGatewayAddonManager cfg c = \<lparr>am_clientConfig = cfg, am_client = c\<rparr>"

definition outbound_clusterRoleName :: string where
  "outbound_clusterRoleName = ''open-cluster-management:cluster-gateway:default''"

definition buildClusterGatewayOutboundPermission :: "string \<Rightarrow> string \<Rightarrow> hub_object list" where
  "buildClusterGatewayOutboundPermission serviceAccountNamespace serviceAccountName =
     [ClusterRoleObj \<lparr>crole_TypeMeta = \<lparr>tm_APIVersion = ''rbac.authorization.k8s.io/v1'', tm_Kind = ''ClusterRole''\<rparr>,
        crole_Meta = empty_ObjectMeta\<lparr>meta_Name := outbound_clusterRoleName\<rparr>,
        crole_Rules = [\<lparr>rule_APIGroups = [''*''], rule_Resources = [''*''], rule_Verbs = [''*'']\<rparr>]\<rparr>,
      ClusterRoleBindingObj \<lparr>crb_TypeMeta = \<lparr>tm_APIVersion = ''rbac.authorization.k8s.io/v1'', tm_Kind = ''ClusterRoleBinding''\<rparr>,
        crb_Meta = empty_ObjectMeta\<lparr>meta_Name := outbound_clusterRoleName\<rparr>,
        crb_RoleRef = \<lparr>roleref_Kind = ''ClusterRole'', roleref_Name = outbound_clusterRoleName\<rparr>,
        crb_Subjects = [\<lparr>subj_Kind = ''ServiceAccount'', subj_Namespace = serviceAccountNamespace, subj_Name = serviceAccountName\<rparr>]\<rparr>]"

text \<open>The call's arguments are the managed cluster's name and its addon object; a nil slice is the empty list.\<close>

definition Manifests :: "('x, 'r) clusterGatewayAddonManager \<Rightarrow> string \<Rightarrow> ManagedClusterAddOn \<Rightarrow> ('x, hub_object list) gom" where
  "Manifests c clusterName addon =
     (if length (mca_ConfigCRName addon) = 0 then ret []
      else bindM (attempt (hub_Get_ClusterGatewayConfiguration (am_client c) (mca_ConfigCRName addon))) (\<lambda>r.
        case r of
          Inl e \<Rightarrow> if IsNotFound e then ret [] else fail (WrapError ''failed getting gateway configuration'' e)
        | Inr cfg \<Rightarrow>
            if sm_Type (cgs_SecretManagement (cfg_Spec cfg)) = SecretManagementTypeManual then ret []
            else if sm_Type (cgs_SecretManagement (cfg_Spec cfg)) = SecretManagementTypeManagedServiceAccount then
              bindM (attempt (hub_Get_ManagedClusterAddOn (am_client c) clusterName ''managed-serviceaccount'')) (\<lambda>r'.
              case r' of
                Inl e \<Rightarrow> if IsNotFound e then ret [] else fail e
              | Inr managedServiceAccountAddon \<Rightarrow>
                  bindM (liftR (deref (sm_ManagedServiceAccount (cgs_SecretManagement (cfg_Spec cfg))))) (\<lambda>msa.
                  ret (buildClusterGatewayOutboundPermission (mca_InstallNamespace managedServiceAccountAddon) (smm_Name msa))))
            else ret []))"

datatype InstallStrategy = InstallAllStrategy string

datatype HealthProberType = HealthProberTypeNone

record AgentAddonOptions =
  aao_AddonName :: string
  aao_InstallStrategy :: InstallStrategy
  aao_HealthProber :: "HealthProberType option"

definition GetAgentAddonOptions :: AgentAddonOptions where
  "GetAgentAddonOptions = \<lparr>aao_AddonName = AddonName, aao_InstallStrategy = InstallAllStrategy InstallNamespace,
     aao_HealthProber = Some HealthProberTypeNone\<rparr>"

section \<open>What role objects allow\<close>

definition rule_allows :: "PolicyRule \<Rightarrow> string \<Rightarrow> string \<Rightarrow> string \<Rightarrow> bool" where
  "rule_allows r grp res verb \<longleftrightarrow> (''*'' \<in> set (rule_APIGroups r) \<or> grp \<in> set (rule_APIGroups r)) \<and>
     (''*'' \<in> set (rule_Resources r) \<or> res \<in> set (rule_Resources r)) \<and> (''*'' \<in> set (rule_Verbs r) \<or> verb \<in> set (rule_Verbs r))"

text \<open>The rules a role reference resolves to among \<open>objs\<close>: a role in the binding's namespace or a cluster role.\<close>

fun referenced_rules :: "RoleRef \<Rightarrow> string \<Rightarrow> hub_object \<Rightarrow> PolicyRule list" where
  "referenced_rules ref ns (RoleObj r) =
     (if roleref_Kind ref = ''Role'' \<and> meta_Namespace (role_Meta r) = ns \<and> meta_Name (role_Meta r) = roleref_Name ref then role_Rules r else [])"
| "referenced_rules ref ns (ClusterRoleObj r) =
     (if roleref_Kind ref = ''ClusterRole'' \<and> meta_Name (crole_Meta r) = roleref_Name ref then crole_Rules r else [])"
| "referenced_rules ref ns _ = []"

text \<open>The rules a binding gives a subject for a request in namespace \<open>ns\<close> (empty: cluster-wide).\<close>

fun granted_rules :: "hub_object list \<Rightarrow> Subject \<Rightarrow> string \<Rightarrow> hub_object \<Rightarrow> PolicyRule list" where
  "granted_rules objs s ns (RoleBindingObj b) =
     (if s \<in> set (rb_Subjects b) \<and> meta_Namespace (rb_Meta b) = ns \<and> ns \<noteq> ''''
      then concat (map (referenced_rules (rb_RoleRef b) ns) objs) else [])"
| "granted_rules objs s ns (ClusterRoleBindingObj b) =
     (if s \<in> set (crb_Subjects b) \<and> roleref_Kind (crb_RoleRef b) = ''ClusterRole''
      then concat (map (referenced_rules (crb_RoleRef b) ns) objs) else [])"
| "granted_rules objs s ns _ = []"

definition rbac_allows :: "hub_object list \<Rightarrow> Subject \<Rightarrow> string \<Rightarrow> string \<Rightarrow> string \<Rightarrow> string \<Rightarrow> bool" where
  "rbac_allows objs s ns grp res verb \<longleftrightarrow> (\<exists>b\<in>set objs. \<exists>r\<in>set (granted_rules objs s ns b). rule_allows r grp res verb)"

lemma rbac_allows_Nil [simp]: "\<not> rbac_allows [] s ns grp res verb"
  by (simp add: rbac_allows_def)

lemma outbound_allows:
  "rbac_allows (buildClusterGatewayOutboundPermission sns sn) s ns grp res verb \<longleftrightarrow>
     s = \<lparr>subj_Kind = ''ServiceAccount'', subj_Namespace = sns, subj_Name = sn\<rparr>"
  by (simp add: rbac_allows_def buildClusterGatewayOutboundPermission_def rule_allows_def)








text \<open>
  C27. What the agent hands out in a managed cluster: nothing, unless the addon's configuration exists, manages secrets by
  \<^verbatim>\<open>ManagedServiceAccount\<close> and the \<^verbatim>\<open>managed-serviceaccount\<close> addon is installed there; then everything, to exactly one
  account, the configured one in the namespace that addon is installed in.
\<close>

theorem Manifests_allow:
  assumes run: "Manifests c clusterName addon x = (Ret objs, y)"
  shows "rbac_allows objs s ns grp res verb \<longleftrightarrow>
    (\<exists>cfg w a msa. mca_ConfigCRName addon \<noteq> '''' \<and>
       hub_Get_ClusterGatewayConfiguration (am_client c) (mca_ConfigCRName addon) x = (Ret cfg, w) \<and>
       sm_Type (cgs_SecretManagement (cfg_Spec cfg)) = SecretManagementTypeManagedServiceAccount \<and>
       hub_Get_ManagedClusterAddOn (am_client c) clusterName ''managed-serviceaccount'' w = (Ret a, y) \<and>
       sm_ManagedServiceAccount (cgs_SecretManagement (cfg_Spec cfg)) = Some msa \<and>
       s = \<lparr>subj_Kind = ''ServiceAccount'', subj_Namespace = mca_InstallNamespace a, subj_Name = smm_Name msa\<rparr>)"
proof -
  have types: "SecretManagementTypeManagedServiceAccount \<noteq> SecretManagementTypeManual"
    by (simp add: SecretManagementTypeManagedServiceAccount_def SecretManagementTypeManual_def)
  show ?thesis
    using run types unfolding Manifests_def
    by (auto simp: bindM_def attempt_def ret_def fail_def liftR_def deref_def outbound_allows
        split: if_splits prod.splits res.splits sum.splits option.splits)
qed

definition demo_agent :: "(hub_state, unit) clusterGatewayAddonManager" where
  "demo_agent = NewClusterGatewayAddonManager () (hub_tracker\<lparr>
     hub_Get_ClusterGatewayConfiguration := (\<lambda>n. if n = ''cfg'' then ret demo_msa_config else fail (NewNotFound '''' '''' n)),
     hub_Get_ManagedClusterAddOn := (\<lambda>ns n. ret \<lparr>mca_Meta = empty_ObjectMeta\<lparr>meta_Namespace := ns, meta_Name := n\<rparr>,
       mca_InstallNamespace = ''msa'', mca_ConfigCRName = '''', mca_Conditions = []\<rparr>)\<rparr>)"

definition demo_agent_addon :: ManagedClusterAddOn where
  "demo_agent_addon = \<lparr>mca_Meta = empty_ObjectMeta\<lparr>meta_Namespace := ''c1'', meta_Name := AddonName\<rparr>,
     mca_InstallNamespace = '''', mca_ConfigCRName = ''cfg'', mca_Conditions = []\<rparr>"

theorem Manifests_allow_witness:
  "\<exists>objs. Manifests demo_agent ''c1'' demo_agent_addon demo_hub = (Ret objs, demo_hub) \<and>
     rbac_allows objs \<lparr>subj_Kind = ''ServiceAccount'', subj_Namespace = ''msa'', subj_Name = AddonName\<rparr> ''ns'' ''apps'' ''deployments'' ''delete'' \<and>
     \<not> rbac_allows objs (gateway_subject ''elsewhere'') ''ns'' ''apps'' ''deployments'' ''delete''"
proof -
  have msa: "sm_Type (cgs_SecretManagement (cfg_Spec demo_msa_config)) = SecretManagementTypeManagedServiceAccount"
      "sm_ManagedServiceAccount (cgs_SecretManagement (cfg_Spec demo_msa_config)) = Some \<lparr>smm_Name = AddonName\<rparr>"
    by (simp_all add: demo_msa_config_def AddonName_def)
  have run: "Manifests demo_agent ''c1'' demo_agent_addon demo_hub = (Ret (buildClusterGatewayOutboundPermission ''msa'' AddonName), demo_hub)"
    by (simp add: Manifests_def demo_agent_def demo_agent_addon_def NewClusterGatewayAddonManager_def run_simps msa)
      (simp add: SecretManagementTypeManagedServiceAccount_def SecretManagementTypeManual_def)
  show ?thesis
    using Manifests_allow [OF run] run msa
    by (auto simp: demo_agent_def demo_agent_addon_def NewClusterGatewayAddonManager_def run_simps gateway_subject_def)
qed

end
