(* ===== verification/Commands.thy ===== *)
theory Commands
  imports Addon_Agent Gateway_Proxy
begin

text \<open>
  The three commands (\<^verbatim>\<open>cmd/apiserver/main.go\<close>, \<^verbatim>\<open>cmd/addon-manager/main.go\<close>, \<^verbatim>\<open>hack/patch/main.go\<close>) and
  \<^verbatim>\<open>pkg/util/namespace.go\<close>: which flags the API server has and which variable each one sets, the checks it makes before it
  serves, how the addon manager gets from its environment to a running installer, and the CA patch job. The flag parser of
  \<^verbatim>\<open>pflag\<close> is a parameter with its documented round trip as the hypothesis \<open>pflag_laws\<close>. A fatal log, which ends the
  process, is an error result.
\<close>

section \<open>The API server\<close>

text \<open>\<^verbatim>\<open>cmd.Flags()\<close> at the time of \<^verbatim>\<open>Execute\<close>: the builder's flags and klog's (both parameters), then those of \<^verbatim>\<open>pkg/config\<close>.\<close>

definition apiserver_flags :: "flag list \<Rightarrow> flag list \<Rightarrow> flag list" where
  "apiserver_flags builder klog =
     (let fs1 = AddSecretFlags default_settings (builder @ klog);
          fs2 = AddVirtualClusterFlags default_settings fs1;
          fs3 = AddClusterGatewayProxyConfig (AddUserAgentFlags (AddProxyAuthorizationFlags (AddClusterProxyFlags fs2)))
      in fs3 @ [\<lparr>flag_Name = ''ocm-integration'', flag_Default = FlagBool False,
                flag_Usage = ''Enabling OCM integration, reading cluster CA and api endpoint from managed cluster.''\<rparr>])"

text \<open>The variable each flag is bound to, by the pointer its registration passes.\<close>

fun bind_flag :: "string \<times> flag_value \<Rightarrow> settings \<Rightarrow> settings" where
  "bind_flag (n, FlagString v) c =
     (if n = ''secret-namespace'' then c\<lparr>SecretNamespace := v\<rparr>
      else if n = ''proxy-host'' then c\<lparr>ClusterProxyHost := v\<rparr>
      else if n = ''proxy-ca-cert'' then c\<lparr>ClusterProxyCAFile := v\<rparr>
      else if n = ''proxy-cert'' then c\<lparr>ClusterProxyCertFile := v\<rparr>
      else if n = ''proxy-key'' then c\<lparr>ClusterProxyKeyFile := v\<rparr>
      else if n = ''user-agent'' then c\<lparr>UserAgent := v\<rparr>
      else if n = ''cluster-gateway-proxy-config'' then c\<lparr>ClusterGatewayProxyConfigPath := v\<rparr>
      else c)"
| "bind_flag (n, FlagInt i) c = (if n = ''proxy-port'' then c\<lparr>ClusterProxyPort := i\<rparr> else c)"
| "bind_flag (n, FlagBool b) c =
     (if n = ''authorize-proxy-subpath'' then c\<lparr>AuthorizateProxySubpath := b\<rparr>
      else if n = ''virtual-clutser-with-control-plane'' then c\<lparr>VirtualClusterWithControlPlane := b\<rparr>
      else if n = ''ocm-integration'' then c\<lparr>OCMIntegration := b\<rparr>
      else c)"

text \<open>The function given to \<^verbatim>\<open>WithOptionsFns\<close>: three checks, in this order.\<close>

definition apiserver_options ::
  "(string \<Rightarrow> ('x, string) gom) \<Rightarrow> (string \<Rightarrow> ClusterGatewayProxyConfiguration res) \<Rightarrow> settings \<Rightarrow> ClusterGatewayProxyConfiguration \<Rightarrow>
   ('x, ClusterGatewayProxyConfiguration) gom" where
  "apiserver_options readFile yaml c global =
     bindM (liftR (ValidateSecret c)) (\<lambda>_. bindM (liftR (ValidateClusterProxy c)) (\<lambda>_.
     LoadGlobalClusterGatewayProxyConfig readFile yaml c global))"

definition apiserver_start ::
  "(flag list \<Rightarrow> string list \<Rightarrow> (string \<times> flag_value) list res) \<Rightarrow> flag list \<Rightarrow> flag list \<Rightarrow>
   (string \<Rightarrow> ('x, string) gom) \<Rightarrow> (string \<Rightarrow> ClusterGatewayProxyConfiguration res) \<Rightarrow> ClusterGatewayProxyConfiguration \<Rightarrow>
   string list \<Rightarrow> ('x, settings \<times> ClusterGatewayProxyConfiguration) gom" where
  "apiserver_start parse builder klog readFile yaml global args =
     bindM (liftR (parse (apiserver_flags builder klog) args)) (\<lambda>assigned.
     let c = fold bind_flag assigned default_settings in
     bindM (apiserver_options readFile yaml c global) (\<lambda>g. ret (c, g)))"

text \<open>\<^verbatim>\<open>config.LongRunningFunc\<close>; \<open>basic\<close> is the generic check for watches.\<close>

definition LongRunningFunc :: "('q \<Rightarrow> RequestInfo \<Rightarrow> bool) \<Rightarrow> 'q \<Rightarrow> RequestInfo \<Rightarrow> bool" where
  "LongRunningFunc basic r requestInfo =
     (if ri_Resource requestInfo = ''clustergateways'' \<and> ri_Subresource requestInfo = ''proxy'' then True
      else basic r requestInfo)"

section \<open>The addon manager\<close>















section \<open>The CA patch job\<close>

definition patch_default_APIService :: string where
  "patch_default_APIService = MetaApiVersionName @ ''.'' @ MetaApiGroupName"

definition patch_run :: "'x hub \<Rightarrow> string \<Rightarrow> string \<Rightarrow> string \<Rightarrow> string \<Rightarrow> ('x, unit) gom" where
  "patch_run h secretNamespace secretName secretCABundleKey APIServiceName =
     bindM (wrapM ''failed to get source secret'' (secrets_Get (hub_kube h) secretNamespace secretName)) (\<lambda>secret.
     bindM (wrapM ''failed to get APIService'' (hub_Get_APIService h APIServiceName)) (\<lambda>apiService.
     case mget (sec_Data secret) secretCABundleKey of
       None \<Rightarrow> fail (PlainError (''failed to find caBundle in secret('' @ secretNamespace @ ''/'' @ secretName @ ''), key: '' @ secretCABundleKey))
     | Some caBundle \<Rightarrow>
         wrapM ''failed to update APIService''
           (hub_Update h (APIServiceObj (apiService\<lparr>apis_InsecureSkipTLSVerify := False, apis_CABundle := caBundle\<rparr>)))))"

definition patch_flags :: "flag list" where
  "patch_flags = [string_flag ''target-APIService'' patch_default_APIService ''specify the target APIService to patch caBundle'',
     string_flag ''secret-name'' '''' ''specify the source secret name'',
     string_flag ''secret-namespace'' '''' ''specify the source secret namespace'',
     string_flag ''secret-ca-bundle-key'' ''ca'' ''specify the CABundle key in source secret'']"

record patch_vars =
  pv_APIServiceName :: string
  pv_secretName :: string
  pv_secretNamespace :: string
  pv_secretCABundleKey :: string

definition default_patch_vars :: patch_vars where
  "default_patch_vars = \<lparr>pv_APIServiceName = patch_default_APIService, pv_secretName = '''', pv_secretNamespace = '''', pv_secretCABundleKey = ''ca''\<rparr>"

fun patch_bind_flag :: "string \<times> flag_value \<Rightarrow> patch_vars \<Rightarrow> patch_vars" where
  "patch_bind_flag (n, FlagString v) c =
     (if n = ''target-APIService'' then c\<lparr>pv_APIServiceName := v\<rparr>
      else if n = ''secret-name'' then c\<lparr>pv_secretName := v\<rparr>
      else if n = ''secret-namespace'' then c\<lparr>pv_secretNamespace := v\<rparr>
      else if n = ''secret-ca-bundle-key'' then c\<lparr>pv_secretCABundleKey := v\<rparr>
      else c)"
| "patch_bind_flag (n, v) c = c"

text \<open>The command: its flags, the client and the job. \<open>newClient\<close> stands for the constructor of controller-runtime.\<close>

definition patch_main ::
  "(flag list \<Rightarrow> string list \<Rightarrow> (string \<times> flag_value) list res) \<Rightarrow> 'x hub res \<Rightarrow> string list \<Rightarrow> ('x, unit) gom" where
  "patch_main parse newClient args =
     bindM (liftR (parse patch_flags args)) (\<lambda>assigned.
     let v = fold patch_bind_flag assigned default_patch_vars in
     bindM (wrapM ''get k8s client error'' (liftR newClient)) (\<lambda>c.
     patch_run c (pv_secretNamespace v) (pv_secretName v) (pv_secretCABundleKey v) (pv_APIServiceName v)))"

section \<open>Flags as they are written and read\<close>

fun show_flag :: "string \<times> flag_value \<Rightarrow> string" where
  "show_flag (n, FlagString v) = ''--'' @ n @ ''='' @ v"
| "show_flag (n, FlagInt i) = ''--'' @ n @ ''='' @ Itoa i"
| "show_flag (n, FlagBool b) = ''--'' @ n @ ''='' @ FormatBool b"

fun same_flag_type :: "flag_value \<Rightarrow> flag_value \<Rightarrow> bool" where
  "same_flag_type (FlagString _) (FlagString _) = True"
| "same_flag_type (FlagInt _) (FlagInt _) = True"
| "same_flag_type (FlagBool _) (FlagBool _) = True"
| "same_flag_type _ _ = False"

fun in_int64 :: "flag_value \<Rightarrow> bool" where
  "in_int64 (FlagInt i) = int64 i"
| "in_int64 _ = True"

text \<open>A registered flag that can take the value: the name is there, with that type, and has no equals sign in it.\<close>

definition settable :: "flag list \<Rightarrow> string \<times> flag_value \<Rightarrow> bool" where
  "settable flags nv = (CHR ''='' \<notin> set (fst nv) \<and> in_int64 (snd nv) \<and>
     list_ex (\<lambda>f. flag_Name f = fst nv \<and> same_flag_type (flag_Default f) (snd nv)) flags)"

text \<open>\<^verbatim>\<open>pflag\<close>'s documented syntax: arguments of the form \<^verbatim>\<open>--name=value\<close> for registered flags assign those values in that order.\<close>

definition pflag_laws :: "(flag list \<Rightarrow> string list \<Rightarrow> (string \<times> flag_value) list res) \<Rightarrow> bool" where
  "pflag_laws parse \<longleftrightarrow> (\<forall>flags assigned. distinct (map flag_Name flags) \<longrightarrow> list_all (settable flags) assigned \<longrightarrow>
     parse flags (map show_flag assigned) = Ret assigned)"

text \<open>The assignments the installer's argument list writes down.\<close>

definition proxy_assigned :: "EgressClusterProxy \<Rightarrow> (string \<times> flag_value) list" where
  "proxy_assigned cp = [(''proxy-host'', FlagString (ecp_ProxyServerHost cp)), (''proxy-port'', FlagInt (sint (ecp_ProxyServerPort cp))),
     (''proxy-ca-cert'', FlagString ''/etc/ca/ca.crt''), (''proxy-cert'', FlagString ''/etc/tls/tls.crt''),
     (''proxy-key'', FlagString ''/etc/tls/tls.key'')]"

definition base_assigned :: "string \<Rightarrow> (string \<times> flag_value) list" where
  "base_assigned ns = [(''secure-port'', FlagInt 9443), (''secret-namespace'', FlagString ns), (''ocm-integration'', FlagBool True),
     (''tls-cert-file'', FlagString ''/etc/server/tls.crt''), (''tls-private-key-file'', FlagString ''/etc/server/tls.key''),
     (''feature-gates'', FlagString ''HealthinessCheck=true,SecretCache=true'')]"

lemma Itoa_9443: "Itoa 9443 = ''9443''"
  by (simp add: Itoa_def nat_digits.simps [of 9443] nat_digits.simps [of 944] nat_digits.simps [of 94] nat_digits.simps [of 9] digit_char_def char_of_def bit_0)

lemma base_args: "map show_flag (base_assigned ns) =
    [''--secure-port=9443'', ''--secret-namespace='' @ ns, ''--ocm-integration=true'', ''--tls-cert-file=/etc/server/tls.crt'',
     ''--tls-private-key-file=/etc/server/tls.key'', ''--feature-gates=HealthinessCheck=true,SecretCache=true'']"
  by (simp add: base_assigned_def Itoa_9443 FormatBool_def)

lemma deployment_args_assigned:
  "deployment_args config = Ret args \<Longrightarrow>
     args = map show_flag (base_assigned (cgs_SecretNamespace (cfg_Spec config)) @
       (if eg_Type (cgs_Egress (cfg_Spec config)) = EgressTypeClusterProxy
        then (case eg_ClusterProxy (cgs_Egress (cfg_Spec config)) of None \<Rightarrow> [] | Some cp \<Rightarrow> proxy_assigned cp) else []))"
  unfolding deployment_args_def base_args [symmetric] map_append Let_def
  by (auto simp: proxy_assigned_def deref_def split: if_splits option.splits)

lemma sint32_int64: "int64 (sint (w :: 32 word))"
  using sint_ge [of w] sint_lt [of w] by (simp add: int64_def)

lemma settable_mono: "settable fs nv \<Longrightarrow> set fs \<subseteq> set gs \<Longrightarrow> settable gs nv"
  by (auto simp: settable_def list_ex_iff)

lemma config_flags_settable:
  "settable (apiserver_flags builder klog) (''secret-namespace'', FlagString v)"
  "settable (apiserver_flags builder klog) (''ocm-integration'', FlagBool b)"
  "list_all (settable (apiserver_flags builder klog)) (proxy_assigned cp)"
  by (simp_all add: settable_def apiserver_flags_def Let_def AddSecretFlags_def AddVirtualClusterFlags_def AddClusterProxyFlags_def
      AddProxyAuthorizationFlags_def AddUserAgentFlags_def AddClusterGatewayProxyConfig_def string_flag_def proxy_assigned_def sint32_int64)

lemma builder_flags_kept: "set builder \<subseteq> set (apiserver_flags builder klog)"
  by (auto simp: apiserver_flags_def Let_def AddSecretFlags_def AddVirtualClusterFlags_def AddClusterProxyFlags_def
      AddProxyAuthorizationFlags_def AddUserAgentFlags_def AddClusterGatewayProxyConfig_def)

definition server_flags_there :: "flag list \<Rightarrow> bool" where
  "server_flags_there builder = list_all (settable builder) [(''secure-port'', FlagInt 9443), (''tls-cert-file'', FlagString ''''),
     (''tls-private-key-file'', FlagString ''''), (''feature-gates'', FlagString '''')]"

lemma settable_text: "settable fs (n, FlagString v) = settable fs (n, FlagString w)"
proof -
  have "same_flag_type d (FlagString v) = same_flag_type d (FlagString w)" for d by (cases d) simp_all
  then show ?thesis by (simp add: settable_def)
qed

lemma base_assigned_settable:
  assumes "server_flags_there builder" shows "list_all (settable (apiserver_flags builder klog)) (base_assigned ns)"
proof -
  have all: "settable builder (''secure-port'', FlagInt 9443)" "settable builder (''tls-cert-file'', FlagString ''/etc/server/tls.crt'')"
      "settable builder (''tls-private-key-file'', FlagString ''/etc/server/tls.key'')"
      "settable builder (''feature-gates'', FlagString ''HealthinessCheck=true,SecretCache=true'')"
    using assms unfolding server_flags_there_def list.pred_inject
    by (blast intro: settable_text [THEN iffD1])+
  show ?thesis unfolding base_assigned_def list.pred_inject
    by (intro conjI all [THEN settable_mono, OF builder_flags_kept] config_flags_settable(1,2)) simp
qed

definition deployed_settings :: "ClusterGatewayConfiguration \<Rightarrow> settings" where
  "deployed_settings config =
     (let c = default_settings\<lparr>SecretNamespace := cgs_SecretNamespace (cfg_Spec config), OCMIntegration := True\<rparr> in
      if eg_Type (cgs_Egress (cfg_Spec config)) = EgressTypeClusterProxy
      then (case eg_ClusterProxy (cgs_Egress (cfg_Spec config)) of None \<Rightarrow> c
            | Some cp \<Rightarrow> c\<lparr>ClusterProxyHost := ecp_ProxyServerHost cp, ClusterProxyPort := sint (ecp_ProxyServerPort cp),
                ClusterProxyCAFile := ''/etc/ca/ca.crt'', ClusterProxyCertFile := ''/etc/tls/tls.crt'', ClusterProxyKeyFile := ''/etc/tls/tls.key''\<rparr>)
      else c)"

lemma fold_base: "fold bind_flag (base_assigned ns) c = c\<lparr>SecretNamespace := ns, OCMIntegration := True\<rparr>"
  by (simp add: base_assigned_def)

lemma fold_proxy: "fold bind_flag (proxy_assigned cp) c =
    c\<lparr>ClusterProxyHost := ecp_ProxyServerHost cp, ClusterProxyPort := sint (ecp_ProxyServerPort cp),
      ClusterProxyCAFile := ''/etc/ca/ca.crt'', ClusterProxyCertFile := ''/etc/tls/tls.crt'', ClusterProxyKeyFile := ''/etc/tls/tls.key''\<rparr>"
  by (simp add: proxy_assigned_def)

lemma apiserver_start_parsed:
  "parse (apiserver_flags builder klog) args = Ret assigned \<Longrightarrow> fold bind_flag assigned default_settings = c \<Longrightarrow>
   apiserver_start parse builder klog readFile yaml global args = bindM (apiserver_options readFile yaml c global) (\<lambda>g. ret (c, g))"
  by (auto simp: apiserver_start_def Let_def bindM_def liftR_def)

definition deployed_assigned :: "ClusterGatewayConfiguration \<Rightarrow> (string \<times> flag_value) list" where
  "deployed_assigned config = base_assigned (cgs_SecretNamespace (cfg_Spec config)) @
     (if eg_Type (cgs_Egress (cfg_Spec config)) = EgressTypeClusterProxy
      then (case eg_ClusterProxy (cgs_Egress (cfg_Spec config)) of None \<Rightarrow> [] | Some cp \<Rightarrow> proxy_assigned cp) else [])"

lemma deployed_parse:
  assumes "pflag_laws parse" "distinct (map flag_Name (apiserver_flags builder klog))" "server_flags_there builder"
    and args: "deployment_args config = Ret args"
  shows "parse (apiserver_flags builder klog) args = Ret (deployed_assigned config)"
proof -
  have "list_all (settable (apiserver_flags builder klog)) (deployed_assigned config)"
    using base_assigned_settable [OF assms(3)] config_flags_settable(3) by (simp add: deployed_assigned_def split: option.split)
  then show ?thesis
    using assms(1,2) unfolding deployment_args_assigned [OF args, folded deployed_assigned_def] pflag_laws_def by blast
qed

lemma deployed_bound: "fold bind_flag (deployed_assigned config) default_settings = deployed_settings config"
  by (simp add: deployed_assigned_def fold_base fold_proxy deployed_settings_def Let_def split: option.split)

lemma apiserver_start_deployed:
  assumes "pflag_laws parse" "distinct (map flag_Name (apiserver_flags builder klog))" "server_flags_there builder"
    and args: "deployment_args config = Ret args"
  shows "apiserver_start parse builder klog readFile yaml global args =
    bindM (apiserver_options readFile yaml (deployed_settings config) global) (\<lambda>g. ret (deployed_settings config, g))"
  using apiserver_start_parsed deployed_parse [OF assms] deployed_bound by metis

text \<open>
  C33. The arguments the installer writes are arguments the server accepts, to the bit: started with them the server reads
  back exactly the configured secret namespace, proxy host and 32-bit proxy port, and gets past its own checks exactly when a
  secret namespace is configured and a configured proxy host comes with a port other than zero. A negative port passes.
\<close>

theorem deployed_flags:
  assumes "pflag_laws parse" and "distinct (map flag_Name (apiserver_flags builder klog))" and "server_flags_there builder"
    and args: "deployment_args config = Ret args"
  shows "(apiserver_start parse builder klog readFile yaml global args x = (Ret (c, global), x)) \<longleftrightarrow>
    c = deployed_settings config \<and> cgs_SecretNamespace (cfg_Spec config) \<noteq> '''' \<and>
    (eg_Type (cgs_Egress (cfg_Spec config)) = EgressTypeClusterProxy \<longrightarrow>
      (\<exists>cp. eg_ClusterProxy (cgs_Egress (cfg_Spec config)) = Some cp \<and>
        (ecp_ProxyServerHost cp = '''' \<or> ecp_ProxyServerPort cp \<noteq> 0)))"
proof -
  have cp: "eg_Type (cgs_Egress (cfg_Spec config)) = EgressTypeClusterProxy \<Longrightarrow> \<exists>cp. eg_ClusterProxy (cgs_Egress (cfg_Spec config)) = Some cp"
    using args by (auto simp: deployment_args_def deref_def Let_def split: option.splits)
  show ?thesis
    unfolding apiserver_start_deployed [OF assms]
    using cp by (auto simp: apiserver_options_def ValidateSecret_def ValidateClusterProxy_def LoadGlobalClusterGatewayProxyConfig_def
        deployed_settings_def Let_def default_settings_def run_simps signed_eq_0_iff split: option.splits if_splits)
qed

text \<open>A parser of that syntax, which satisfies the hypothesis.\<close>

fun decode_flag :: "flag_value \<Rightarrow> string \<Rightarrow> flag_value option" where
  "decode_flag (FlagString _) v = Some (FlagString v)"
| "decode_flag (FlagInt _) v = map_option FlagInt (Atoi v)"
| "decode_flag (FlagBool _) v = map_option FlagBool (ParseBool v)"

definition demo_arg :: "flag list \<Rightarrow> string \<Rightarrow> (string \<times> flag_value) option" where
  "demo_arg flags a =
     (let n = takeWhile (\<lambda>ch. ch \<noteq> CHR ''='') (drop 2 a); v = drop (Suc (length n)) (drop 2 a) in
      case find (\<lambda>f. flag_Name f = n) flags of
        None \<Rightarrow> None
      | Some f \<Rightarrow> map_option (Pair n) (decode_flag (flag_Default f) v))"

fun demo_parse :: "flag list \<Rightarrow> string list \<Rightarrow> (string \<times> flag_value) list res" where
  "demo_parse flags [] = Ret []"
| "demo_parse flags (a # as) = (case demo_arg flags a of
     None \<Rightarrow> Fail (PlainError ''unknown flag'') | Some nv \<Rightarrow> bind_res (demo_parse flags as) (\<lambda>l. Ret (nv # l)))"

lemma find_flag:
  assumes "distinct (map flag_Name flags)" "f \<in> set flags"
  shows "find (\<lambda>g. flag_Name g = flag_Name f) flags = Some f"
  using assms by (induction flags) auto

lemma show_flag_split: "\<exists>v. show_flag nv = ''--'' @ fst nv @ ''='' @ v \<and>
    (same_flag_type d (snd nv) \<longrightarrow> in_int64 (snd nv) \<longrightarrow> decode_flag d v = Some (snd nv))"
proof (cases nv)
  case (Pair n val)
  then show ?thesis by (cases val; cases d) (auto simp: int64_def Atoi_Itoa)
qed

lemma demo_arg_show:
  assumes "distinct (map flag_Name flags)" "settable flags nv"
  shows "demo_arg flags (show_flag nv) = Some nv"
proof -
  obtain f where f: "f \<in> set flags" "flag_Name f = fst nv" "same_flag_type (flag_Default f) (snd nv)"
    and nv: "CHR ''='' \<notin> set (fst nv)" "in_int64 (snd nv)"
    using assms(2) by (auto simp: settable_def list_ex_iff)
  obtain v where v: "show_flag nv = ''--'' @ fst nv @ ''='' @ v" "decode_flag (flag_Default f) v = Some (snd nv)"
    using show_flag_split [of nv "flag_Default f"] f(3) nv(2) by blast
  have "takeWhile (\<lambda>ch. ch \<noteq> CHR ''='') (fst nv @ ''='' @ v) = fst nv"
    by (subst takeWhile_append2) (use nv(1) in auto)
  then show ?thesis using v find_flag [OF assms(1) f(1)] f(2) by (simp add: demo_arg_def Let_def)
qed

lemma demo_parse_laws: "pflag_laws demo_parse"
proof -
  have "distinct (map flag_Name flags) \<Longrightarrow> list_all (settable flags) assigned \<Longrightarrow> demo_parse flags (map show_flag assigned) = Ret assigned"
    for flags assigned by (induction assigned) (simp_all add: demo_arg_show)
  then show ?thesis unfolding pflag_laws_def by blast
qed

definition demo_builder :: "flag list" where
  "demo_builder = [\<lparr>flag_Name = ''secure-port'', flag_Default = FlagInt 443, flag_Usage = ''''\<rparr>, string_flag ''tls-cert-file'' '''' '''',
     string_flag ''tls-private-key-file'' '''' '''', string_flag ''feature-gates'' '''' '''']"

definition no_global_rules :: ClusterGatewayProxyConfiguration where
  "no_global_rules = \<lparr>pc_Exchanger = \<lparr>exch_Rules = []\<rparr>\<rparr>"

lemma demo_deployment_args: "\<exists>args. deployment_args demo_config = Ret args"
  by (simp add: deployment_args_def demo_config_def EgressTypeDirect_def EgressTypeClusterProxy_def)

lemma demo_builder_flags: "distinct (map flag_Name (apiserver_flags demo_builder []))" "server_flags_there demo_builder"
  by (simp_all add: apiserver_flags_def Let_def AddSecretFlags_def AddVirtualClusterFlags_def AddClusterProxyFlags_def
      AddProxyAuthorizationFlags_def AddUserAgentFlags_def AddClusterGatewayProxyConfig_def string_flag_def demo_builder_def
      server_flags_there_def settable_def int64_def)

theorem deployed_flags_witness:
  "\<exists>args. deployment_args demo_config = Ret args \<and>
     apiserver_start demo_parse demo_builder [] (\<lambda>_. fail (PlainError '''')) (\<lambda>_. Fail (PlainError '''')) no_global_rules args () =
       (Ret (deployed_settings demo_config, no_global_rules), ())"
proof -
  have direct: "eg_Type (cgs_Egress (cfg_Spec demo_config)) \<noteq> EgressTypeClusterProxy" "cgs_SecretNamespace (cfg_Spec demo_config) \<noteq> ''''"
    by (simp_all add: demo_config_def EgressTypeDirect_def EgressTypeClusterProxy_def)
  obtain args where args: "deployment_args demo_config = Ret args" using demo_deployment_args by blast
  have "apiserver_start demo_parse demo_builder [] (\<lambda>_. fail (PlainError '''')) (\<lambda>_. Fail (PlainError '''')) no_global_rules args () =
      (Ret (deployed_settings demo_config, no_global_rules), ())"
    unfolding deployed_flags [OF demo_parse_laws demo_builder_flags args] using direct by simp
  then show ?thesis using args by simp
qed

section \<open>Starting without a CA pair\<close>





section \<open>Patching the API service\<close>

text \<open>A patch job that succeeds has stored the secret's CA bundle in the service, with verification on and all else as it was.\<close>

lemma patch_run_stores:
  assumes api: "hub_api h look slook" and run: "patch_run h sns sn key n x = (Ret (), y)"
  shows "\<exists>secret svc ca new. slook x sns sn = Some secret \<and> mget (sec_Data secret) key = Some ca \<and>
    as_APIService (look x (KAPIService, '''', n)) = Some svc \<and>
    look y = (look x)((KAPIService, '''', n) := Some new) \<and>
    obj_content new = obj_content (APIServiceObj (svc\<lparr>apis_InsecureSkipTLSVerify := False, apis_CABundle := ca\<rparr>))"
proof -
  obtain secret x1 svc x2 ca where r: "secrets_Get (hub_kube h) sns sn x = (Ret secret, x1)"
      "hub_Get_APIService h n x1 = (Ret svc, x2)" "mget (sec_Data secret) key = Some ca"
      "hub_Update h (APIServiceObj (svc\<lparr>apis_InsecureSkipTLSVerify := False, apis_CABundle := ca\<rparr>)) x2 = (Ret (), y)"
    using run unfolding patch_run_def by (auto simp: bindM_Ret_iff mapErr_Ret_iff gom_basic split: option.splits)
  let ?new = "APIServiceObj (svc\<lparr>apis_InsecureSkipTLSVerify := False, apis_CABundle := ca\<rparr>)"
  have sec: "slook x sns sn = Some secret \<and> x1 = x"
  proof (cases "slook x sns sn")
    case None
    then show ?thesis using secret_api_Get_None [OF hub_api_secret [OF api], OF None] r(1) by auto
  next
    case (Some s)
    then show ?thesis using secret_api_Get_Some [OF hub_api_secret [OF api], OF Some] r(1) by simp
  qed
  have get: "reads (as_APIService (look x (KAPIService, '''', n))) x (hub_Get_APIService h n x)" by (rule hub_api_Get_APIService [OF api])
  then have svc: "as_APIService (look x (KAPIService, '''', n)) = Some svc" "x2 = x"
    using r(2) conjunct2 [OF sec] by (auto simp: reads_def split: option.splits)
  have "look x (obj_key ?new) \<noteq> None"
    using r(4) hub_api_Update_missing [OF api, of x ?new] svc(2) by auto
  from hub_api_Update [OF api this] r(4) svc(2)
  obtain new where "obj_content new = obj_content ?new" "look y = (look x)(obj_key ?new := Some new)" by (auto simp: stores_def)
  moreover have "look x (KAPIService, '''', n) = Some (APIServiceObj svc)"
    using svc(1) by (cases "look x (KAPIService, '''', n)" rule: as_APIService.cases) auto
  then have "obj_key (APIServiceObj svc) = (KAPIService, '''', n)" by (rule hub_api_keyed [OF api])
  then have "obj_key ?new = (KAPIService, '''', n)" by (simp add: obj_key_def)
  ultimately show ?thesis using sec r(3) svc(1) by auto
qed

end
