(* ===== verification/Server_Main.thy ===== *)
theory Server_Main
  imports Commands Singleton
begin

text \<open>
  The command of the API server as a whole (\<^verbatim>\<open>cmd/apiserver/main.go\<close>): the resources, functions and the hook it hands to the server builder,
  the flags it adds, and what has happened when the server serves. The builder of apiserver-runtime, the generic API server and the
  feature gates of component-base are the record \<open>server_lib\<close>. Then the server is started with the arguments the addon installer
  writes into its deployment.
\<close>

section \<open>The command\<close>

text \<open>
  \<open>sl_Build\<close> makes the command from the registered resources and gives its own flags; \<open>sl_gates\<close> tells, from the flags that were set, which features are on;
  \<open>sl_FullHandlerChain\<close> is the handler chain the generic server has before the escaper is put in front of it.
\<close>

record ('c, 'x, 'a) server_lib =
  sl_Build :: "string list \<Rightarrow> flag list res"
  sl_klog :: "flag list"
  sl_Parse :: "flag list \<Rightarrow> string list \<Rightarrow> (string \<times> flag_value) list res"
  sl_gates :: "(string \<times> flag_value) list \<Rightarrow> string \<Rightarrow> bool"
  sl_ReadFile :: "string \<Rightarrow> ('x, string) gom"
  sl_yaml :: "string \<Rightarrow> ClusterGatewayProxyConfiguration res"
  sl_UserAgent :: string
  sl_BasicLongRunning :: "http_request \<Rightarrow> RequestInfo \<Rightarrow> bool"
  sl_FullHandlerChain :: "http_request \<Rightarrow> 'a"
  sl_boot :: "('c, 'x) boot"

record 'a server =
  srv_settings :: settings
  srv_global :: ClusterGatewayProxyConfiguration
  srv_enabled :: "string \<Rightarrow> bool"
  srv_LongRunningFunc :: "http_request \<Rightarrow> RequestInfo \<Rightarrow> bool"
  srv_UserAgent :: string
  srv_FullHandlerChain :: "http_request \<Rightarrow> 'a"

type_synonym 'x server_state = "proxy_metrics \<times> 'x process"

definition in_process :: "('x process, 'a) gom \<Rightarrow> ('x server_state, 'a) gom" where
  "in_process m = (\<lambda>(pm, p). case m p of (r, p') \<Rightarrow> (r, (pm, p')))"

text \<open>\<open>global\<close> is the initial value of \<^verbatim>\<open>GlobalClusterGatewayProxyConfiguration\<close>.\<close>

definition apiserver_main ::
  "('c, 'x, 'a) server_lib \<Rightarrow> ClusterGatewayProxyConfiguration \<Rightarrow> string list \<Rightarrow> ('x server_state, 'a server) gom" where
  "apiserver_main lib global args =
     bindM (\<lambda>(pm, p). (Ret (), (Register pm, p))) (\<lambda>_.
     bindM (liftR (sl_Build lib [''ClusterGateway'', ''VirtualCluster''])) (\<lambda>builder.
     bindM (liftR (sl_Parse lib (apiserver_flags builder (sl_klog lib)) args)) (\<lambda>assigned.
     let c = fold bind_flag assigned default_settings; enabled = sl_gates lib assigned in
     bindM (in_process (apiserver_options (\<lambda>p. on_world (sl_ReadFile lib p)) (sl_yaml lib) c global)) (\<lambda>g.
     bindM (in_process (InitLoopbackClient (sl_boot lib) enabled (SecretNamespace c))) (\<lambda>_.
     ret \<lparr>srv_settings = c, srv_global = g, srv_enabled = enabled,
          srv_LongRunningFunc = LongRunningFunc (sl_BasicLongRunning lib),
          srv_UserAgent = WithUserAgent c (sl_UserAgent lib),
          srv_FullHandlerChain = clusterGatewayProxyRequestEscaper_ServeHTTP (sl_FullHandlerChain lib)\<rparr>)))))"

section \<open>Feature gates\<close>

definition show_gates :: "(string \<times> bool) list \<Rightarrow> string" where
  "show_gates kvs = strings_Join (map (\<lambda>(k, b). k @ ''='' @ FormatBool b) kvs) '',''"

text \<open>
  What component-base documents: one \<^verbatim>\<open>--feature-gates\<close> flag with a list \<^verbatim>\<open>key=bool\<close> of registered features sets those, and leaves the others at their defaults.
\<close>

definition gate_laws :: "((string \<times> flag_value) list \<Rightarrow> string \<Rightarrow> bool) \<Rightarrow> bool" where
  "gate_laws gates \<longleftrightarrow> (\<forall>assigned kvs f.
     filter (\<lambda>nv. fst nv = ''feature-gates'') assigned = [(''feature-gates'', FlagString (show_gates kvs))] \<longrightarrow>
     distinct (map fst kvs) \<longrightarrow> (\<forall>k\<in>fst ` set kvs. DefaultKubeFedFeatureGates k \<noteq> None) \<longrightarrow>
     gates assigned f = (case map_of kvs f of Some b \<Rightarrow> b | None \<Rightarrow> DefaultKubeFedFeatureGates f = Some True))"

lemma gate_names_differ: "HealthinessCheck \<noteq> SecretCache"
  by (simp add: name_defs)

lemma gates_known [simp]: "DefaultKubeFedFeatureGates HealthinessCheck = Some False" "DefaultKubeFedFeatureGates SecretCache = Some True"
    "DefaultKubeFedFeatureGates ClientIdentityPenetration = Some False" "DefaultKubeFedFeatureGates OCMClusterCache = Some True"
  by (simp_all add: DefaultKubeFedFeatureGates_def name_defs)

lemma deployed_gate_flag:
  "filter (\<lambda>nv. fst nv = ''feature-gates'') (deployed_assigned config) =
     [(''feature-gates'', FlagString (show_gates [(HealthinessCheck, True), (SecretCache, True)]))]"
proof -
  have proxy: "filter (\<lambda>nv. fst nv = ''feature-gates'') (proxy_assigned cp) = []" for cp by (simp add: proxy_assigned_def)
  have base: "filter (\<lambda>nv. fst nv = ''feature-gates'') (base_assigned ns) = [(''feature-gates'', FlagString ''HealthinessCheck=true,SecretCache=true'')]" for ns
    by (simp add: base_assigned_def)
  have "show_gates [(HealthinessCheck, True), (SecretCache, True)] = ''HealthinessCheck=true,SecretCache=true''"
    by (simp add: show_gates_def FormatBool_def name_defs)
  then show ?thesis by (auto simp only: deployed_assigned_def filter_append base proxy filter.simps append_Nil2 split: option.split if_split)
qed

lemma deployed_gates:
  assumes "gate_laws gates"
  shows "gates (deployed_assigned config) f \<longleftrightarrow> f \<in> {HealthinessCheck, SecretCache, OCMClusterCache}"
proof -
  have "gates (deployed_assigned config) f =
      (case map_of [(HealthinessCheck, True), (SecretCache, True)] f of Some b \<Rightarrow> b | None \<Rightarrow> DefaultKubeFedFeatureGates f = Some True)"
    by (rule assms [unfolded gate_laws_def, rule_format, OF deployed_gate_flag])
       (auto simp: gate_names_differ)
  then show ?thesis by (auto simp: DefaultKubeFedFeatureGates_def name_defs)
qed

section \<open>The deployed server\<close>

lemma in_process_Ret: "in_process m s = (Ret a, t) \<longleftrightarrow> m (snd s) = (Ret a, snd t) \<and> fst t = fst s"
  by (cases s; cases t; cases "m (snd s)") (auto simp: in_process_def)

lemma apiserver_main_Ret:
  assumes run: "apiserver_main lib global args (pm, p) = (Ret srv, (pm', p'))"
    and build: "sl_Build lib [''ClusterGateway'', ''VirtualCluster''] = Ret builder"
    and parse: "sl_Parse lib (apiserver_flags builder (sl_klog lib)) args = Ret assigned"
  shows "pm' = Register pm \<and> srv_settings srv = fold bind_flag assigned default_settings \<and> srv_enabled srv = sl_gates lib assigned \<and>
    (\<exists>p1. apiserver_options (\<lambda>f. on_world (sl_ReadFile lib f)) (sl_yaml lib) (srv_settings srv) global p = (Ret (srv_global srv), p1) \<and>
      InitLoopbackClient (sl_boot lib) (srv_enabled srv) (SecretNamespace (srv_settings srv)) p1 = (Ret (), p'))"
  using run unfolding apiserver_main_def by (auto simp: bindM_Ret_iff Let_def build parse in_process_Ret gom_basic)

lemma options_without_file:
  assumes "ClusterGatewayProxyConfigPath c = ''''" and "apiserver_options readFile yaml c global p = (Ret g, p1)"
  shows "p1 = p \<and> g = global"
  using assms by (auto simp: apiserver_options_def LoadGlobalClusterGatewayProxyConfig_def bindM_Ret_iff gom_basic split: res.splits)

text \<open>
  C32. A server that serves with the arguments the installer wrote for a configuration: it reads cluster secrets through the cache, in the namespace of
  that configuration, and managed clusters through theirs; health reporting is on and the pass-through of client identities off; no global
  exchange rules are loaded; and its metrics are registered.
\<close>

theorem deployed_server:
  assumes laws: "pflag_laws (sl_Parse lib)" "gate_laws (sl_gates lib)"
    and build: "sl_Build lib [''ClusterGateway'', ''VirtualCluster''] = Ret builder"
    and flags: "distinct (map flag_Name (apiserver_flags builder (sl_klog lib)))" "server_flags_there builder"
    and args: "deployment_args config = Ret args"
    and run: "apiserver_main lib global args (no_metrics, (no_singletons, x)) = (Ret srv, (pm, (sg, y)))"
  shows "(\<exists>l. GetSecretControl sg = Some (cachedSecretControl (cgs_SecretNamespace (cfg_Spec config)) l)) \<and>
    (\<exists>l. GetClusterControl sg = Some (cacheOCMClusterControl l)) \<and>
    srv_settings srv = deployed_settings config \<and> OCMIntegration (srv_settings srv) \<and> srv_global srv = global \<and>
    srv_enabled srv HealthinessCheck \<and> \<not> srv_enabled srv ClientIdentityPenetration \<and> m_registered pm = metrics_vectors"
proof -
  have parse: "sl_Parse lib (apiserver_flags builder (sl_klog lib)) args = Ret (deployed_assigned config)"
    by (rule deployed_parse [OF laws(1) flags args])
  obtain p1 where pm: "pm = Register no_metrics" and srv: "srv_settings srv = deployed_settings config"
      "srv_enabled srv = sl_gates lib (deployed_assigned config)"
    and opts: "apiserver_options (\<lambda>f. on_world (sl_ReadFile lib f)) (sl_yaml lib) (deployed_settings config) global (no_singletons, x) = (Ret (srv_global srv), p1)"
    and hook: "InitLoopbackClient (sl_boot lib) (srv_enabled srv) (SecretNamespace (srv_settings srv)) p1 = (Ret (), (sg, y))"
    using apiserver_main_Ret [OF run build parse] by (auto simp: deployed_bound)
  have settings: "ClusterGatewayProxyConfigPath (deployed_settings config) = ''''" "OCMIntegration (deployed_settings config)"
      "SecretNamespace (deployed_settings config) = cgs_SecretNamespace (cfg_Spec config)"
    by (auto simp: deployed_settings_def default_settings_def Let_def split: option.split)
  have p1: "p1 = (no_singletons, x)" "srv_global srv = global" using options_without_file [OF settings(1) opts] by auto
  have gates: "srv_enabled srv f \<longleftrightarrow> f \<in> {HealthinessCheck, SecretCache, OCMClusterCache}" for f
    unfolding srv(2) by (rule deployed_gates [OF laws(2)])
  have hook': "InitLoopbackClient (sl_boot lib) (srv_enabled srv) (cgs_SecretNamespace (cfg_Spec config)) (no_singletons, x) = (Ret (), (sg, y))"
    using hook by (simp add: p1 srv(1) settings(3))
  have "(\<exists>l. GetSecretControl sg = Some (cachedSecretControl (cgs_SecretNamespace (cfg_Spec config)) l)) \<and>
      (\<exists>l. GetClusterControl sg = Some (cacheOCMClusterControl l))"
    by (rule InitLoopbackClient_cached [OF hook']) (simp_all add: gates)
  then show ?thesis using p1 srv(1) settings pm gates by (simp add: name_defs Register_def no_metrics_def)
qed

text \<open>A server on a store of secrets, with the parser and the gates of the documentation.\<close>

definition gate_setting :: "string \<Rightarrow> string \<times> bool" where
  "gate_setting s = (takeWhile (\<lambda>ch. ch \<noteq> CHR ''='') s, drop (Suc (length (takeWhile (\<lambda>ch. ch \<noteq> CHR ''='') s))) s = ''true'')"

definition demo_gates :: "(string \<times> flag_value) list \<Rightarrow> string \<Rightarrow> bool" where
  "demo_gates assigned f =
     (case filter (\<lambda>nv. fst nv = ''feature-gates'') assigned of
        [(n, FlagString v)] \<Rightarrow> (case map_of (map gate_setting (split_on CHR '','' v)) f of Some b \<Rightarrow> b | None \<Rightarrow> DefaultKubeFedFeatureGates f = Some True)
      | _ \<Rightarrow> DefaultKubeFedFeatureGates f = Some True)"

lemma gate_names: "DefaultKubeFedFeatureGates k \<noteq> None \<Longrightarrow> CHR ''='' \<notin> set k \<and> CHR '','' \<notin> set k"
  by (auto simp: DefaultKubeFedFeatureGates_def name_defs split: if_splits)

lemma gate_setting_show: "CHR ''='' \<notin> set k \<Longrightarrow> gate_setting (k @ ''='' @ FormatBool b) = (k, b)"
proof -
  assume "CHR ''='' \<notin> set k"
  then have "takeWhile (\<lambda>ch. ch \<noteq> CHR ''='') (k @ ''='' @ FormatBool b) = k" by (subst takeWhile_append2) auto
  then show ?thesis unfolding gate_setting_def by (simp add: FormatBool_def)
qed

lemma demo_gate_laws: "gate_laws demo_gates"
  unfolding gate_laws_def
proof (intro allI impI)
  fix assigned kvs f
  assume flag: "filter (\<lambda>nv. fst nv = ''feature-gates'') assigned = [(''feature-gates'', FlagString (show_gates kvs))]"
    and known: "\<forall>k\<in>fst ` set kvs. DefaultKubeFedFeatureGates k \<noteq> None"
  have "map_of (map gate_setting (split_on CHR '','' (show_gates kvs))) f = (if kvs = [] \<and> f = '''' then Some False else map_of kvs f)"
  proof (cases kvs)
    case Nil
    then show ?thesis by (simp add: show_gates_def gate_setting_def)
  next
    case (Cons kv l)
    have "split_on CHR '','' (show_gates kvs) = map (\<lambda>(k, b). k @ ''='' @ FormatBool b) kvs"
      unfolding show_gates_def using known gate_names Cons by (intro split_on_Join) (auto simp: FormatBool_def)
    moreover have "map gate_setting (map (\<lambda>(k, b). k @ ''='' @ FormatBool b) kvs) = kvs"
      using known gate_names gate_setting_show unfolding map_map by (intro map_idI) auto
    ultimately show ?thesis using Cons by simp
  qed
  then show "demo_gates assigned f = (case map_of kvs f of Some b \<Rightarrow> b | None \<Rightarrow> DefaultKubeFedFeatureGates f = Some True)"
    by (simp add: demo_gates_def flag DefaultKubeFedFeatureGates_def name_defs)
qed

definition demo_server_lib :: "(unit, store, http_request) server_lib" where
  "demo_server_lib = \<lparr>sl_Build = (\<lambda>_. Ret demo_builder), sl_klog = [], sl_Parse = demo_parse, sl_gates = demo_gates,
     sl_ReadFile = (\<lambda>_. fail (PlainError '''')), sl_yaml = (\<lambda>_. Fail (PlainError '''')), sl_UserAgent = '''', sl_BasicLongRunning = (\<lambda>_ _. False),
     sl_FullHandlerChain = (\<lambda>r. r), sl_boot = demo_boot\<rparr>"

theorem deployed_server_witness:
  "\<exists>args srv pm sg. deployment_args demo_config = Ret args \<and>
     apiserver_main demo_server_lib no_global_rules args (no_metrics, (no_singletons, [])) = (Ret srv, (pm, (sg, []))) \<and>
     (\<exists>l. GetSecretControl sg = Some (cachedSecretControl (cgs_SecretNamespace (cfg_Spec demo_config)) l))"
proof -
  obtain args where args: "deployment_args demo_config = Ret args" using demo_deployment_args by blast
  have flags: "distinct (map flag_Name (apiserver_flags demo_builder []))" "server_flags_there demo_builder" by (rule demo_builder_flags)+
  have parse: "demo_parse (apiserver_flags demo_builder []) args = Ret (deployed_assigned demo_config)"
    by (rule deployed_parse [OF demo_parse_laws flags args])
  obtain sg where hook: "InitLoopbackClient demo_boot (demo_gates (deployed_assigned demo_config)) (SecretNamespace (deployed_settings demo_config))
      (no_singletons, []) = (Ret (), (sg, []))"
    using demo_boot_runs by blast
  have opts: "apiserver_options (\<lambda>f. on_world (sl_ReadFile demo_server_lib f)) (sl_yaml demo_server_lib) (deployed_settings demo_config) no_global_rules
      (no_singletons, []) = (Ret no_global_rules, (no_singletons, []))"
    by (simp add: apiserver_options_def LoadGlobalClusterGatewayProxyConfig_def ValidateSecret_def ValidateClusterProxy_def deployed_settings_def
        default_settings_def demo_config_def Let_def run_simps)
  obtain srv where run: "apiserver_main demo_server_lib no_global_rules args (no_metrics, (no_singletons, [])) = (Ret srv, (Register no_metrics, (sg, [])))"
    using parse hook opts unfolding apiserver_main_def
    by (simp add: run_simps Let_def demo_server_lib_def deployed_bound in_process_def)
  show ?thesis
    using deployed_server [of demo_server_lib demo_builder demo_config, OF _ _ _ _ flags(2) args run] demo_parse_laws demo_gate_laws flags(1) args run
    by (auto simp: demo_server_lib_def)
qed

text \<open>
  The patch job with only the secret named takes the key \<^verbatim>\<open>ca\<close> of that secret into the API service the installer creates.
\<close>

lemma patch_defaults:
  assumes "pflag_laws parse" and api: "hub_api h look slook"
    and run: "patch_main parse (Ret h) (map show_flag [(''secret-name'', FlagString sn), (''secret-namespace'', FlagString ns)]) x = (Ret (), y)"
  shows "\<exists>secret svc ca new. slook x ns sn = Some secret \<and> mget (sec_Data secret) ''ca'' = Some ca \<and>
    as_APIService (look x (KAPIService, '''', ClusterGatewayAPIServiceName)) = Some svc \<and>
    look y = (look x)((KAPIService, '''', ClusterGatewayAPIServiceName) := Some new) \<and>
    obj_content new = obj_content (APIServiceObj (svc\<lparr>apis_InsecureSkipTLSVerify := False, apis_CABundle := ca\<rparr>))"
proof -
  let ?set = "[(''secret-name'', FlagString sn), (''secret-namespace'', FlagString ns)]"
  have "list_all (settable patch_flags) ?set" "distinct (map flag_Name patch_flags)"
    by (simp_all add: settable_def patch_flags_def string_flag_def)
  then have parse: "parse patch_flags (map show_flag ?set) = Ret ?set" using assms(1) unfolding pflag_laws_def by blast
  have name: "patch_default_APIService = ClusterGatewayAPIServiceName"
    by (simp add: patch_default_APIService_def name_defs ClusterGatewayAPIServiceName_def)
  have "patch_run h ns sn ''ca'' ClusterGatewayAPIServiceName x = (Ret (), y)"
    using run unfolding patch_main_def parse
    by (auto simp: bindM_Ret_iff gom_basic mapErr_Ret_iff Let_def default_patch_vars_def name)
  from patch_run_stores [OF api this] show ?thesis .
qed

end
