(* ===== verification/Deep_Copy.thy ===== *)
theory Deep_Copy
  imports GW_Prelude "HOL-Library.Sublist"
begin

text \<open>
  Memory and copying: what the generated \<^verbatim>\<open>DeepCopy\<close> functions are built from. A heap is the list of its cells and an
  address an index into it; new cells are put at the end, so a heap that only grew has the old one as a prefix. The locale
  \<open>copier\<close> is the contract of a deep copy: the copy denotes the same value, old cells stay as they are, and the memory the copy
  has in common with the old heap is a stated set, empty when the copy is truly deep. It is closed under structs,
  pointers and slices.
\<close>

named_theorems deep_simps
named_theorems copier_laws

section \<open>Heaps\<close>

type_synonym addr = nat

definition read :: "'c list \<Rightarrow> addr \<Rightarrow> 'c option" where
  "read h a = (if a < length h then Some (h ! a) else None)"

definition deref_as :: "('c \<Rightarrow> 'a option) \<Rightarrow> 'c list \<Rightarrow> addr \<Rightarrow> 'a option" where
  "deref_as get h a = Option.bind (read h a) get"

lemma read_prefix: "prefix h h' \<Longrightarrow> a < length h \<Longrightarrow> read h' a = read h a"
  by (auto simp: read_def prefix_def nth_append)

lemma read_append: "a < length h \<Longrightarrow> read (h @ t) a = read h a" "read (h @ [c]) (length h) = Some c"
  by (simp_all add: read_def nth_append)

lemma deref_as_Some: "deref_as get h a = Some x \<Longrightarrow> a < length h"
  by (auto simp: deref_as_def read_def split: if_splits)

lemma deref_as_cong: "read h' a = read h a \<Longrightarrow> deref_as get h' a = deref_as get h a"
  by (simp add: deref_as_def)

lemma deref_as_new: "deref_as get (h @ [c]) (length h) = get c"
  by (simp add: deref_as_def read_append)

lemma fresh_before:
  fixes m n :: nat
  assumes "A \<inter> {..<m} = B" "B \<subseteq> {..<n}" "n \<le> m"
  shows "A \<inter> {..<n} = B"
  using assms by auto

section \<open>The contract of a copy\<close>

locale copier =
  fixes view :: "'c list \<Rightarrow> 'v \<Rightarrow> 'b option" and reach :: "'c list \<Rightarrow> 'v \<Rightarrow> addr set" and shared :: "'c list \<Rightarrow> 'v \<Rightarrow> addr set"
    and copy :: "'v \<Rightarrow> 'c list \<Rightarrow> 'v \<times> 'c list"
  assumes inside: "view h v = Some b \<Longrightarrow> reach h v \<subseteq> {..<length h}"
    and shared_reach: "view h v = Some b \<Longrightarrow> shared h v \<subseteq> reach h v"
    and local: "view h v = Some b \<Longrightarrow> (\<And>a. a \<in> reach h v \<Longrightarrow> read h' a = read h a) \<Longrightarrow>
      view h' v = Some b \<and> reach h' v = reach h v \<and> shared h' v = shared h v"
    and copy_view: "view h v = Some b \<Longrightarrow> copy v h = (v', h') \<Longrightarrow> view h' v' = Some b"
    and copy_grows: "copy v h = (v', h') \<Longrightarrow> prefix h h'"
    and copy_fresh: "view h v = Some b \<Longrightarrow> copy v h = (v', h') \<Longrightarrow> reach h' v' \<inter> {..<length h} = shared h v"
    and copy_shared: "view h v = Some b \<Longrightarrow> copy v h = (v', h') \<Longrightarrow> shared h' v' = shared h v"
begin

lemma later: "view h v = Some b \<Longrightarrow> prefix h h' \<Longrightarrow> view h' v = Some b \<and> reach h' v = reach h v \<and> shared h' v = shared h v"
  using local [of h v b h'] inside [of h v b] read_prefix [of h h'] by blast

lemma original_kept: "view h v = Some b \<Longrightarrow> copy v h = (v', h') \<Longrightarrow> view h' v = Some b"
  using later copy_grows by blast

text \<open>Nothing done to the copy, outside the shared cells, shows in the original, and the other way round.\<close>

lemma copy_writes_invisible:
  assumes v: "view h v = Some b" and c: "copy v h = (v', h')"
    and w: "\<And>a. a \<notin> reach h' v' - shared h v \<Longrightarrow> read h'' a = read h' a"
  shows "view h'' v = Some b"
proof -
  have "read h'' a = read h a" if "a \<in> reach h v" for a
  proof -
    have "a < length h" using inside [OF v] that by blast
    then show ?thesis using w [of a] copy_fresh [OF v c] read_prefix [OF copy_grows [OF c]] by auto
  qed
  then show ?thesis using local [OF v] by blast
qed

lemma original_writes_invisible:
  assumes v: "view h v = Some b" and c: "copy v h = (v', h')"
    and w: "\<And>a. a \<notin> reach h v - shared h v \<Longrightarrow> read h'' a = read h' a"
  shows "view h'' v' = Some b"
proof -
  have "read h'' a = read h' a" if "a \<in> reach h' v'" for a
    using w [of a] copy_fresh [OF v c] inside [OF v] that by blast
  then show ?thesis using local [OF copy_view [OF v c]] by blast
qed

end

section \<open>Plain values\<close>

text \<open>\<^verbatim>\<open>*out = *in\<close> for a type without pointers, slices or maps.\<close>

definition copy_plain :: "'v \<Rightarrow> 'c list \<Rightarrow> 'v \<times> 'c list" where "copy_plain v h = (v, h)"
definition view_plain :: "'c list \<Rightarrow> 'v \<Rightarrow> 'v option" where "view_plain h v = Some v"
definition no_addr :: "'c list \<Rightarrow> 'v \<Rightarrow> addr set" where "no_addr h v = {}"

interpretation plain: copier view_plain no_addr no_addr copy_plain
  by unfold_locales (auto simp: view_plain_def no_addr_def copy_plain_def)

lemmas [copier_laws] = plain.copier_axioms

section \<open>Structs\<close>

text \<open>
  Fields are copied one after the other. A struct is its copied fields, as a nested pair, around the fields that are plain.
\<close>

definition copy_pair :: "('v \<Rightarrow> 'c list \<Rightarrow> 'v \<times> 'c list) \<Rightarrow> ('w \<Rightarrow> 'c list \<Rightarrow> 'w \<times> 'c list) \<Rightarrow> 'v \<times> 'w \<Rightarrow> 'c list \<Rightarrow> ('v \<times> 'w) \<times> 'c list" where
  "copy_pair c d = (\<lambda>(v, w) h. case c v h of (v', h1) \<Rightarrow> case d w h1 of (w', h2) \<Rightarrow> ((v', w'), h2))"

definition view_pair :: "('c list \<Rightarrow> 'v \<Rightarrow> 'a option) \<Rightarrow> ('c list \<Rightarrow> 'w \<Rightarrow> 'b option) \<Rightarrow> 'c list \<Rightarrow> 'v \<times> 'w \<Rightarrow> ('a \<times> 'b) option" where
  "view_pair V W h = (\<lambda>(v, w). Option.bind (V h v) (\<lambda>x. map_option (Pair x) (W h w)))"

definition addr_pair :: "('c list \<Rightarrow> 'v \<Rightarrow> addr set) \<Rightarrow> ('c list \<Rightarrow> 'w \<Rightarrow> addr set) \<Rightarrow> 'c list \<Rightarrow> 'v \<times> 'w \<Rightarrow> addr set" where
  "addr_pair R S h = (\<lambda>(v, w). R h v \<union> S h w)"

lemma view_pair_Some: "view_pair V W h (v, w) = Some z \<longleftrightarrow> V h v = Some (fst z) \<and> W h w = Some (snd z)"
  by (cases z) (auto simp: view_pair_def bind_eq_Some_conv)

locale two_copiers = c: copier V R S c + d: copier W R' S' d
  for V :: "'c list \<Rightarrow> 'v \<Rightarrow> 'a option" and R S c and W :: "'c list \<Rightarrow> 'w \<Rightarrow> 'b option" and R' S' d
begin

lemma pair_copy:
  assumes "view_pair V W h (v, w) = Some z" "copy_pair c d (v, w) h = ((v', w'), h2)"
  obtains h1 where "c v h = (v', h1)" "d w h1 = (w', h2)" "prefix h h1" "prefix h1 h2" "V h v = Some (fst z)" "W h w = Some (snd z)"
    "W h1 w = Some (snd z)" "S' h1 w = S' h w" "V h1 v' = Some (fst z)" "V h2 v' = Some (fst z)" "R h2 v' = R h1 v'" "W h2 w' = Some (snd z)"
    "S h2 v' = S h v" "S' h2 w' = S' h w"
proof -
  obtain h1 where r: "c v h = (v', h1)" "d w h1 = (w', h2)"
    using assms(2) by (auto simp: copy_pair_def split: prod.splits)
  have v: "V h v = Some (fst z)" "W h w = Some (snd z)" using assms(1) by (simp_all add: view_pair_Some)
  have g: "prefix h h1" "prefix h1 h2" using r c.copy_grows d.copy_grows by blast+
  have w: "W h1 w = Some (snd z)" "S' h1 w = S' h w" using d.later [OF v(2) g(1)] by auto
  have n: "V h1 v' = Some (fst z)" "W h2 w' = Some (snd z)" using c.copy_view [OF v(1) r(1)] d.copy_view [OF w(1) r(2)] by auto
  have s: "S h2 v' = S h v" "S' h2 w' = S' h w"
    using c.later [OF n(1) g(2)] c.copy_shared [OF v(1) r(1)] d.copy_shared [OF w(1) r(2)] w(2) by auto
  show thesis using that [OF r g v w n(1) _ _ n(2) s] c.later [OF n(1) g(2)] by blast
qed

lemma pair_copier: "copier (view_pair V W) (addr_pair R R') (addr_pair S S') (copy_pair c d)"
proof
  fix h vw z assume "view_pair V W h vw = Some z"
  moreover obtain v w where vw: "vw = (v, w)" by (cases vw)
  ultimately have z: "V h v = Some (fst z)" "W h w = Some (snd z)" by (simp_all add: vw view_pair_Some)
  show "addr_pair R R' h vw \<subseteq> {..<length h}" using c.inside [OF z(1)] d.inside [OF z(2)] by (auto simp: vw addr_pair_def)
  show "addr_pair S S' h vw \<subseteq> addr_pair R R' h vw"
    using c.shared_reach [OF z(1)] d.shared_reach [OF z(2)] by (auto simp: vw addr_pair_def)
  fix h' :: "'c list" assume same: "\<And>a. a \<in> addr_pair R R' h vw \<Longrightarrow> read h' a = read h a"
  then show "view_pair V W h' vw = Some z \<and> addr_pair R R' h' vw = addr_pair R R' h vw \<and> addr_pair S S' h' vw = addr_pair S S' h vw"
    using c.local [OF z(1), of h'] d.local [OF z(2), of h'] by (simp add: vw addr_pair_def view_pair_Some)
next
  fix h h' :: "'c list" and vw z vw' assume v: "view_pair V W h vw = Some z" and r: "copy_pair c d vw h = (vw', h')"
  obtain v w v' w' where vw: "vw = (v, w)" "vw' = (v', w')" by (cases vw, cases vw')
  obtain h1 where f: "c v h = (v', h1)" "d w h1 = (w', h')" "prefix h h1" "prefix h1 h'" "V h v = Some (fst z)" "W h w = Some (snd z)"
    "W h1 w = Some (snd z)" "S' h1 w = S' h w" "V h1 v' = Some (fst z)" "V h' v' = Some (fst z)" "R h' v' = R h1 v'" "W h' w' = Some (snd z)"
    "S h' v' = S h v" "S' h' w' = S' h w"
    by (rule pair_copy [OF v [unfolded vw] r [unfolded vw]])
  show "view_pair V W h' vw' = Some z" using f by (simp add: vw view_pair_Some)
  show "addr_pair S S' h' vw' = addr_pair S S' h vw" using f by (simp add: vw addr_pair_def)
  have sub: "S' h w \<subseteq> {..<length h}" using d.shared_reach [OF f(6)] d.inside [OF f(6)] by (rule order_trans)
  have "R' h' w' \<inter> {..<length h} = S' h w"
    using d.copy_fresh [OF f(7,2)] unfolding f(8) by (rule fresh_before [OF _ sub prefix_length_le [OF f(3)]])
  then show "addr_pair R R' h' vw' \<inter> {..<length h} = addr_pair S S' h vw"
    using c.copy_fresh [OF f(5,1)] f(11) by (simp add: vw addr_pair_def Int_Un_distrib2)
next
  fix h h' :: "'c list" and vw vw' assume "copy_pair c d vw h = (vw', h')"
  then show "prefix h h'" using c.copy_grows d.copy_grows by (auto simp: copy_pair_def split: prod.splits)
     (metis prefix_order.order_trans)
qed

end

lemma copier_pair [copier_laws]:
  "copier V R S c \<Longrightarrow> copier W R' S' d \<Longrightarrow> copier (view_pair V W) (addr_pair R R') (addr_pair S S') (copy_pair c d)"
  by (rule two_copiers.pair_copier [OF two_copiers.intro])

text \<open>\<open>fields\<close> takes the copied fields out of a struct, \<open>put_fields\<close> puts them in, \<open>mk\<close> makes its value from theirs.\<close>

definition copy_struct :: "('s \<Rightarrow> 'v) \<Rightarrow> ('s \<Rightarrow> 'v \<Rightarrow> 's) \<Rightarrow> ('v \<Rightarrow> 'c list \<Rightarrow> 'v \<times> 'c list) \<Rightarrow> 's \<Rightarrow> 'c list \<Rightarrow> 's \<times> 'c list" where
  "copy_struct fields put_fields c s h = (case c (fields s) h of (v, h') \<Rightarrow> (put_fields s v, h'))"

definition view_struct :: "('s \<Rightarrow> 'v) \<Rightarrow> ('s \<Rightarrow> 'a \<Rightarrow> 'b) \<Rightarrow> ('c list \<Rightarrow> 'v \<Rightarrow> 'a option) \<Rightarrow> 'c list \<Rightarrow> 's \<Rightarrow> 'b option" where
  "view_struct fields mk V h s = map_option (mk s) (V h (fields s))"

definition addr_struct :: "('s \<Rightarrow> 'v) \<Rightarrow> ('c list \<Rightarrow> 'v \<Rightarrow> addr set) \<Rightarrow> 'c list \<Rightarrow> 's \<Rightarrow> addr set" where
  "addr_struct fields R h s = R h (fields s)"

lemma copier_struct:
  assumes c: "copier (V :: 'c list \<Rightarrow> 'v \<Rightarrow> 'a option) R S c" and get_put: "\<And>s v. fields (put_fields s v) = v" and mk_put: "\<And>s v. mk (put_fields s v) = mk s"
  shows "copier (view_struct fields mk V) (addr_struct fields R) (addr_struct fields S) (copy_struct fields put_fields c)"
proof
  fix h :: "'c list" and s b assume "view_struct fields mk V h s = Some b"
  then obtain a where a: "V h (fields s) = Some a" "b = mk s a" by (auto simp: view_struct_def)
  show "addr_struct fields R h s \<subseteq> {..<length h}" "addr_struct fields S h s \<subseteq> addr_struct fields R h s"
    using copier.inside [OF c a(1)] copier.shared_reach [OF c a(1)] by (simp_all add: addr_struct_def)
  fix h' :: "'c list" assume "\<And>x. x \<in> addr_struct fields R h s \<Longrightarrow> read h' x = read h x"
  then show "view_struct fields mk V h' s = Some b \<and> addr_struct fields R h' s = addr_struct fields R h s \<and> addr_struct fields S h' s = addr_struct fields S h s"
    using copier.local [OF c a(1), of h'] a(2) by (simp add: view_struct_def addr_struct_def)
next
  fix h h' :: "'c list" and s b s' assume "view_struct fields mk V h s = Some b" and r: "copy_struct fields put_fields c s h = (s', h')"
  then obtain a where a: "V h (fields s) = Some a" "b = mk s a" by (auto simp: view_struct_def)
  obtain v where v: "c (fields s) h = (v, h')" "s' = put_fields s v" using r by (auto simp: copy_struct_def split: prod.splits)
  show "view_struct fields mk V h' s' = Some b" using copier.copy_view [OF c a(1) v(1)] a(2) by (simp add: view_struct_def v(2) get_put mk_put)
  show "addr_struct fields R h' s' \<inter> {..<length h} = addr_struct fields S h s"
    using copier.copy_fresh [OF c a(1) v(1)] by (simp add: addr_struct_def v(2) get_put)
  show "addr_struct fields S h' s' = addr_struct fields S h s"
    using copier.copy_shared [OF c a(1) v(1)] by (simp add: addr_struct_def v(2) get_put)
next
  fix h h' :: "'c list" and s s' assume "copy_struct fields put_fields c s h = (s', h')"
  then show "prefix h h'" using copier.copy_grows [OF c] by (auto simp: copy_struct_def split: prod.splits)
qed

section \<open>Pointers and slices\<close>

text \<open>
  Each type that is pointed to has its kind of cell: \<open>put\<close> makes such a cell and \<open>get\<close> reads one. A pointer is nil or
  the address of a cell, a slice is nil or the address of its backing array, which holds the elements themselves.
\<close>

definition view_ptr :: "('c \<Rightarrow> 'v option) \<Rightarrow> ('c list \<Rightarrow> 'v \<Rightarrow> 'b option) \<Rightarrow> 'c list \<Rightarrow> addr option \<Rightarrow> 'b option option" where
  "view_ptr get V h p = (case p of None \<Rightarrow> Some None
     | Some a \<Rightarrow> (case deref_as get h a of None \<Rightarrow> None | Some v \<Rightarrow> map_option Some (V h v)))"

definition reach_ptr :: "('c \<Rightarrow> 'v option) \<Rightarrow> ('c list \<Rightarrow> 'v \<Rightarrow> addr set) \<Rightarrow> 'c list \<Rightarrow> addr option \<Rightarrow> addr set" where
  "reach_ptr get R h p = (case p of None \<Rightarrow> {} | Some a \<Rightarrow> insert a (case deref_as get h a of None \<Rightarrow> {} | Some v \<Rightarrow> R h v))"

definition shared_ptr :: "('c \<Rightarrow> 'v option) \<Rightarrow> ('c list \<Rightarrow> 'v \<Rightarrow> addr set) \<Rightarrow> 'c list \<Rightarrow> addr option \<Rightarrow> addr set" where
  "shared_ptr get S h p = (case p of None \<Rightarrow> {} | Some a \<Rightarrow> (case deref_as get h a of None \<Rightarrow> {} | Some v \<Rightarrow> S h v))"

text \<open>
  \<^verbatim>\<open>if p == nil { return nil }; out := new(T); p.DeepCopyInto(out); return out\<close>, and the same inlined for a pointer field. (The new
  cell is put into the heap when its content is complete; addresses are not observable.)
\<close>

definition copy_ptr ::
  "('c \<Rightarrow> 'v option) \<Rightarrow> ('v \<Rightarrow> 'c) \<Rightarrow> ('v \<Rightarrow> 'c list \<Rightarrow> 'v \<times> 'c list) \<Rightarrow> addr option \<Rightarrow> 'c list \<Rightarrow> addr option \<times> 'c list" where
  "copy_ptr get put c p h = (case p of None \<Rightarrow> (None, h)
     | Some a \<Rightarrow> (case deref_as get h a of None \<Rightarrow> (p, h)
         | Some v \<Rightarrow> (case c v h of (v', h') \<Rightarrow> (Some (length h'), h' @ [put v']))))"

fun copy_list :: "('v \<Rightarrow> 'c list \<Rightarrow> 'v \<times> 'c list) \<Rightarrow> 'v list \<Rightarrow> 'c list \<Rightarrow> 'v list \<times> 'c list" where
  "copy_list c [] h = ([], h)"
| "copy_list c (v # vs) h = (case c v h of (v', h1) \<Rightarrow> case copy_list c vs h1 of (vs', h2) \<Rightarrow> (v' # vs', h2))"

fun view_list :: "('c list \<Rightarrow> 'v \<Rightarrow> 'b option) \<Rightarrow> 'c list \<Rightarrow> 'v list \<Rightarrow> 'b list option" where
  "view_list V h [] = Some []"
| "view_list V h (v # vs) = Option.bind (V h v) (\<lambda>b. map_option (Cons b) (view_list V h vs))"

definition addr_list :: "('c list \<Rightarrow> 'v \<Rightarrow> addr set) \<Rightarrow> 'c list \<Rightarrow> 'v list \<Rightarrow> addr set" where
  "addr_list R h vs = (\<Union>v\<in>set vs. R h v)"

text \<open>\<^verbatim>\<open>*out = make([]T, len(*in)); for i := range *in { (*in)[i].DeepCopyInto(&(*out)[i]) }\<close> for a slice that is not nil.\<close>

definition copy_slice ::
  "('c \<Rightarrow> 'v list option) \<Rightarrow> ('v list \<Rightarrow> 'c) \<Rightarrow> ('v \<Rightarrow> 'c list \<Rightarrow> 'v \<times> 'c list) \<Rightarrow> addr option \<Rightarrow> 'c list \<Rightarrow> addr option \<times> 'c list" where
  "copy_slice get put c = copy_ptr get put (copy_list c)"

definition view_slice :: "('c \<Rightarrow> 'v list option) \<Rightarrow> ('c list \<Rightarrow> 'v \<Rightarrow> 'b option) \<Rightarrow> 'c list \<Rightarrow> addr option \<Rightarrow> 'b list option option" where
  "view_slice get V = view_ptr get (view_list V)"

lemma copier_ptr [copier_laws]:
  assumes c: "copier (V :: 'c list \<Rightarrow> 'v \<Rightarrow> 'b option) R S c" and cell: "\<And>v. get (put v) = Some v"
  shows "copier (view_ptr get V) (reach_ptr get R) (shared_ptr get S) (copy_ptr get put c)"
proof
  fix h :: "'c list" and p z assume z: "view_ptr get V h p = Some z"
  show "reach_ptr get R h p \<subseteq> {..<length h}" "shared_ptr get S h p \<subseteq> reach_ptr get R h p"
    using z copier.inside [OF c] copier.shared_reach [OF c] deref_as_Some [of get h]
    by (auto simp: view_ptr_def reach_ptr_def shared_ptr_def split: option.splits; blast)+
  fix h' assume same: "\<And>a. a \<in> reach_ptr get R h p \<Longrightarrow> read h' a = read h a"
  show "view_ptr get V h' p = Some z \<and> reach_ptr get R h' p = reach_ptr get R h p \<and> shared_ptr get S h' p = shared_ptr get S h p"
  proof (cases p)
    case (Some a)
    then obtain v b where v: "deref_as get h a = Some v" "V h v = Some b" "z = Some b" using z by (auto simp: view_ptr_def split: option.splits)
    have "deref_as get h' a = Some v" using deref_as_cong [OF same [of a], of get] v(1) Some by (simp add: reach_ptr_def)
    moreover have "V h' v = Some b \<and> R h' v = R h v \<and> S h' v = S h v"
      by (rule copier.local [OF c v(2)]) (rule same, simp add: reach_ptr_def Some v(1))
    ultimately show ?thesis using v Some by (simp add: view_ptr_def reach_ptr_def shared_ptr_def)
  qed (use z in \<open>simp add: view_ptr_def reach_ptr_def shared_ptr_def\<close>)
next
  fix h h' :: "'c list" and p z p' assume z: "view_ptr get V h p = Some z" and r: "copy_ptr get put c p h = (p', h')"
  show "view_ptr get V h' p' = Some z" and "reach_ptr get R h' p' \<inter> {..<length h} = shared_ptr get S h p"
    and "shared_ptr get S h' p' = shared_ptr get S h p"
  proof (atomize (full), cases p)
    case (Some a)
    then obtain v b where v: "deref_as get h a = Some v" "V h v = Some b" "z = Some b" using z by (auto simp: view_ptr_def split: option.splits)
    obtain v' h1 where r': "c v h = (v', h1)" "p' = Some (length h1)" "h' = h1 @ [put v']"
      using r Some v(1) by (auto simp: copy_ptr_def split: prod.splits)
    have "V h' v' = Some b \<and> R h' v' = R h1 v' \<and> S h' v' = S h1 v'"
      using copier.later [OF c copier.copy_view [OF c v(2) r'(1)], of h'] r'(3) by simp
    moreover have "deref_as get h' (length h1) = Some v'" by (simp add: r'(3) deref_as_new cell)
    moreover have "length h \<le> length h1" using copier.copy_grows [OF c r'(1)] by (rule prefix_length_le)
    ultimately show "view_ptr get V h' p' = Some z \<and> reach_ptr get R h' p' \<inter> {..<length h} = shared_ptr get S h p \<and>
        shared_ptr get S h' p' = shared_ptr get S h p"
      using copier.copy_fresh [OF c v(2) r'(1)] copier.copy_shared [OF c v(2) r'(1)] v Some r'(2) by (simp add: view_ptr_def reach_ptr_def shared_ptr_def)
  qed (use z r in \<open>simp add: view_ptr_def reach_ptr_def shared_ptr_def copy_ptr_def\<close>)
next
  fix h h' :: "'c list" and p p' assume "copy_ptr get put c p h = (p', h')"
  then show "prefix h h'" using copier.copy_grows [OF c]
    by (auto simp: copy_ptr_def split: option.splits prod.splits intro: prefix_order.order_trans [OF _ prefixI])
qed

lemma addr_list_Nil [simp]: "addr_list R h [] = {}"
  and addr_list_Cons [simp]: "addr_list R h (v # vs) = R h v \<union> addr_list R h vs"
  by (simp_all add: addr_list_def)

lemma view_list_Cons: "view_list V h (v # vs) = Some bs \<longleftrightarrow> (\<exists>b bs'. bs = b # bs' \<and> V h v = Some b \<and> view_list V h vs = Some bs')"
  by (auto simp: bind_eq_Some_conv)

lemma view_list_inside:
  assumes "copier V R S c" shows "view_list V h vs = Some bs \<Longrightarrow> addr_list R h vs \<subseteq> {..<length h}"
  by (induction vs arbitrary: bs) (auto simp del: view_list.simps(2) simp: view_list_Cons dest!: copier.inside [OF assms])

lemma view_list_shared:
  assumes "copier V R S c" shows "view_list V h vs = Some bs \<Longrightarrow> addr_list S h vs \<subseteq> addr_list R h vs"
  by (induction vs arbitrary: bs) (auto simp del: view_list.simps(2) simp: view_list_Cons dest!: copier.shared_reach [OF assms])

lemma view_list_local:
  assumes c: "copier V R S c"
  shows "view_list V h vs = Some bs \<Longrightarrow> (\<And>a. a \<in> addr_list R h vs \<Longrightarrow> read h' a = read h a) \<Longrightarrow>
    view_list V h' vs = Some bs \<and> addr_list R h' vs = addr_list R h vs \<and> addr_list S h' vs = addr_list S h vs"
proof (induction vs arbitrary: bs)
  case (Cons v vs)
  then obtain b bs' where b: "bs = b # bs'" "V h v = Some b" "view_list V h vs = Some bs'" by (auto simp: bind_eq_Some_conv)
  have "V h' v = Some b \<and> R h' v = R h v \<and> S h' v = S h v" by (rule copier.local [OF c b(2)]) (simp add: Cons.prems(2))
  moreover have "view_list V h' vs = Some bs' \<and> addr_list R h' vs = addr_list R h vs \<and> addr_list S h' vs = addr_list S h vs"
    by (rule Cons.IH [OF b(3)]) (simp add: Cons.prems(2))
  ultimately show ?case by (simp add: b(1))
qed simp

lemma copy_list_grows: "copier V R S c \<Longrightarrow> copy_list c vs h = (vs', h') \<Longrightarrow> prefix h h'"
  by (induction vs arbitrary: h vs')
    (auto split: prod.splits dest: copier.copy_grows intro: prefix_order.order_trans)

lemma copy_list_fresh:
  assumes c: "copier V R S c"
  shows "view_list V h vs = Some bs \<Longrightarrow> copy_list c vs h = (vs', h') \<Longrightarrow>
    view_list V h' vs' = Some bs \<and> addr_list R h' vs' \<inter> {..<length h} = addr_list S h vs \<and> addr_list S h' vs' = addr_list S h vs"
proof (induction vs arbitrary: h bs vs')
  case (Cons v vs)
  obtain b bs' where b: "bs = b # bs'" "V h v = Some b" "view_list V h vs = Some bs'" using Cons.prems(1) by (auto simp: bind_eq_Some_conv)
  obtain v' h1 vs2 where r: "c v h = (v', h1)" "copy_list c vs h1 = (vs2, h')" "vs' = v' # vs2"
    using Cons.prems(2) by (auto split: prod.splits)
  have g: "prefix h h1" "prefix h1 h'" using copier.copy_grows [OF c r(1)] copy_list_grows [OF c r(2)] .
  have sub: "addr_list R h vs \<subseteq> {..<length h}" by (rule view_list_inside [OF c b(3)])
  have vs: "view_list V h1 vs = Some bs' \<and> addr_list R h1 vs = addr_list R h vs \<and> addr_list S h1 vs = addr_list S h vs"
    by (rule view_list_local [OF c b(3)]) (use sub read_prefix [OF g(1)] in auto)
  have ih: "view_list V h' vs2 = Some bs' \<and> addr_list R h' vs2 \<inter> {..<length h1} = addr_list S h vs \<and> addr_list S h' vs2 = addr_list S h vs"
    using Cons.IH [OF _ r(2), of bs'] vs by simp
  have "addr_list S h vs \<subseteq> {..<length h}" using view_list_shared [OF c b(3)] sub by (rule order_trans)
  with ih have "addr_list R h' vs2 \<inter> {..<length h} = addr_list S h vs"
    using fresh_before prefix_length_le [OF g(1)] by blast
  moreover have "V h' v' = Some b \<and> R h' v' = R h1 v' \<and> S h' v' = S h1 v'" using copier.later [OF c copier.copy_view [OF c b(2) r(1)] g(2)] by blast
  ultimately show ?case using copier.copy_fresh [OF c b(2) r(1)] copier.copy_shared [OF c b(2) r(1)] ih by (simp add: r(3) b(1) Int_Un_distrib2)
qed simp

lemma copier_list:
  assumes c: "copier (V :: 'c list \<Rightarrow> 'v \<Rightarrow> 'b option) R S c"
  shows "copier (view_list V) (addr_list R) (addr_list S) (copy_list c)"
proof
  fix h :: "'c list" and vs bs assume "view_list V h vs = Some bs"
  then show "addr_list R h vs \<subseteq> {..<length h}" using view_list_inside [OF c] by blast
next
  fix h :: "'c list" and vs bs assume "view_list V h vs = Some bs"
  then show "addr_list S h vs \<subseteq> addr_list R h vs"
    by (rule view_list_shared [OF c])
next
  fix h h' :: "'c list" and vs bs assume "view_list V h vs = Some bs" "\<And>a. a \<in> addr_list R h vs \<Longrightarrow> read h' a = read h a"
  then show "view_list V h' vs = Some bs \<and> addr_list R h' vs = addr_list R h vs \<and> addr_list S h' vs = addr_list S h vs"
    by (rule view_list_local [OF c])
next
  fix h h' :: "'c list" and vs bs vs' assume "view_list V h vs = Some bs" "copy_list c vs h = (vs', h')"
  then show "view_list V h' vs' = Some bs" "addr_list R h' vs' \<inter> {..<length h} = addr_list S h vs" "addr_list S h' vs' = addr_list S h vs"
    using copy_list_fresh [OF c] by blast+
qed (rule copy_list_grows [OF c])

lemma copier_slice [copier_laws]:
  assumes "copier V R S c" "\<And>vs. get (put vs) = Some vs"
  shows "copier (view_slice get V) (reach_ptr get (addr_list R)) (shared_ptr get (addr_list S)) (copy_slice get put c)"
  unfolding view_slice_def copy_slice_def by (rule copier_ptr [OF copier_list]) fact+

text \<open>A pointer field that \<^verbatim>\<open>*out = *in\<close> leaves as it is: original and copy point to one cell.\<close>

lemma copier_aliased:
  fixes get :: "'c \<Rightarrow> 'v option"
  shows "copier (view_ptr get view_plain) (reach_ptr get no_addr) (reach_ptr get no_addr) copy_plain"
proof
  fix h h' :: "'c list" and p z assume z: "view_ptr get view_plain h p = Some z"
  show in_h: "reach_ptr get no_addr h p \<subseteq> {..<length h}"
    using z deref_as_Some [of get h] by (auto simp: view_ptr_def reach_ptr_def no_addr_def split: option.splits)
  assume "\<And>a. a \<in> reach_ptr get no_addr h p \<Longrightarrow> read h' a = read h a"
  then show "view_ptr get view_plain h' p = Some z \<and> reach_ptr get no_addr h' p = reach_ptr get no_addr h p \<and>
      reach_ptr get no_addr h' p = reach_ptr get no_addr h p"
    using z deref_as_cong [of h' _ h get] by (cases p; cases "deref_as get h (the p)") (auto simp: view_ptr_def reach_ptr_def view_plain_def no_addr_def)
next
  fix h h' :: "'c list" and p z p' assume z: "view_ptr get view_plain h p = Some z" "copy_plain p h = (p', h')"
  then show "view_ptr get view_plain h' p' = Some z" by (simp add: copy_plain_def)
  show "reach_ptr get no_addr h' p' \<inter> {..<length h} = reach_ptr get no_addr h p"
    using z deref_as_Some [of get h] by (auto simp: copy_plain_def view_ptr_def reach_ptr_def no_addr_def split: option.splits)
  show "reach_ptr get no_addr h' p' = reach_ptr get no_addr h p" using z(2) by (simp add: copy_plain_def)
qed (simp_all add: copy_plain_def)

text \<open>A truly deep copy shares nothing, and so does what is built from such copies.\<close>

lemma shares_nothing [deep_simps]:
  "shared_ptr get no_addr = no_addr" "addr_list no_addr = no_addr" "addr_pair no_addr no_addr = no_addr" "addr_struct fields no_addr = no_addr"
  by (auto simp: fun_eq_iff shared_ptr_def no_addr_def addr_list_def addr_pair_def addr_struct_def split: option.split)

text \<open>The law of a struct, from the laws of its copied fields.\<close>

lemma struct_law:
  assumes "copier V R S c" "addr_struct fields S = S'" "\<And>s v. fields (put_fields s v) = v" "\<And>s v. mk (put_fields s v) = mk s"
  shows "copier (view_struct fields mk V) (addr_struct fields R) S' (copy_struct fields put_fields c)"
  using copier_struct [OF assms(1,3,4)] assms(2) by simp

text \<open>The cell of a datatype of cells that one constructor makes.\<close>

definition as_cell :: "('c \<Rightarrow> bool) \<Rightarrow> ('c \<Rightarrow> 'v) \<Rightarrow> 'c \<Rightarrow> 'v option" where
  "as_cell is_cell content c = (if is_cell c then Some (content c) else None)"

lemma as_cell_same: "is_cell (mk v) \<Longrightarrow> content (mk v) = v \<Longrightarrow> as_cell is_cell content (mk v) = Some v"
  by (simp add: as_cell_def)

text \<open>A nil slice and an empty one hold the same elements.\<close>

definition items :: "'a list option \<Rightarrow> 'a list" where
  "items s = (case s of None \<Rightarrow> [] | Some l \<Rightarrow> l)"

end
