(* ===== verification/Deep_Copy_Cluster.thy ===== *)
theory Deep_Copy_Cluster
  imports Deep_Copy Virtual_Cluster Gateway_Proxy
begin

text \<open>
  The generated copies of the gateway's types (\<^verbatim>\<open>pkg/apis/cluster/v1alpha1/zz_generated.deepcopy.go\<close>). A type with suffix \<open>_h\<close> is a
  struct as it lies in memory: pointers and slices are addresses. Its \<open>view\<close> is the value it denotes, one of the records
  the rest of the development uses; its \<open>reach\<close> is the memory it owns. \<^verbatim>\<open>ObjectMeta\<close> and \<^verbatim>\<open>ListMeta\<close> are types of apimachinery: their
  memory layout is the type variable \<open>'m\<close> and their copies are the record \<open>meta_ops\<close>, which is assumed to
  satisfy the same contract.
\<close>

section \<open>Structs in memory\<close>

record IdentityExchangerSource_h =
  sh_User :: "addr option"
  sh_Group :: "addr option"
  sh_UID :: "addr option"
  sh_Cluster :: "addr option"
  sh_UserPattern :: "addr option"
  sh_GroupPattern :: "addr option"
  sh_ClusterPattern :: "addr option"

record IdentityExchangerTarget_h =
  th_User :: string
  th_Groups :: "addr option"
  th_UID :: string

record ClientIdentityExchangeRule_h =
  rh_Name :: string
  rh_Type :: string
  rh_Source :: "addr option"
  rh_Target :: "addr option"
  rh_URL :: "addr option"

record ClientIdentityExchanger_h =
  xh_Rules :: "addr option"

record ClusterGatewayProxyConfigurationSpec_h =
  ph_ClientIdentityExchanger :: ClientIdentityExchanger_h

type_synonym type_meta = "string \<times> string"

record ClusterGatewayProxyConfiguration_h =
  pc_TypeMeta :: type_meta
  pc_Spec :: ClusterGatewayProxyConfigurationSpec_h

record ClusterEndpointConst_h =
  kh_Address :: string
  kh_CABundle :: "addr option"
  kh_Insecure :: "addr option"
  kh_ProxyURL :: "addr option"

record ClusterEndpoint_h =
  eh_Type :: string
  eh_Const :: "addr option"

record X509_h =
  zh_Certificate :: "addr option"
  zh_PrivateKey :: "addr option"

record ClusterAccessCredential_h =
  ch_Type :: string
  ch_ServiceAccountToken :: string
  ch_X509 :: "addr option"

record ClusterAccess_h =
  ah_Endpoint :: "addr option"
  ah_Credential :: "addr option"

record ClusterGatewaySpec_h =
  gsh_Provider :: string
  gsh_Access :: ClusterAccess_h
  gsh_ProxyConfig :: "addr option"

record 'm ClusterGateway_h =
  gh_TypeMeta :: type_meta
  gh_ObjectMeta :: 'm
  gh_Spec :: ClusterGatewaySpec_h
  gh_Status :: ClusterGatewayStatus

text \<open>\<^verbatim>\<open>type ClusterGatewayHealth ClusterGateway\<close>\<close>

type_synonym 'm ClusterGatewayHealth_h = "'m ClusterGateway_h"

record 'm ClusterGatewayList_h =
  lh_TypeMeta :: type_meta
  lh_ListMeta :: 'm
  lh_Items :: "addr option"

record ClusterGatewayProxyOptions_h =
  oh_TypeMeta :: type_meta
  oh_Path :: string
  oh_Impersonate :: bool

record 'm VirtualCluster_h =
  vh_TypeMeta :: type_meta
  vh_ObjectMeta :: 'm
  vh_Spec :: VirtualClusterSpec

record 'm VirtualClusterList_h =
  wh_TypeMeta :: type_meta
  wh_ListMeta :: 'm
  wh_Items :: "addr option"

datatype 'm cell =
    StringCell (the_String: string)
  | BoolCell (the_Bool: bool)
  | BytesCell (the_Bytes: string)
  | StringsCell (the_Strings: "string list")
  | SourceCell (the_Source: IdentityExchangerSource_h)
  | TargetCell (the_Target: IdentityExchangerTarget_h)
  | RuleCell (the_Rule: ClientIdentityExchangeRule_h)
  | RulesCell (the_Rules: "ClientIdentityExchangeRule_h list")
  | ExchangerCell (the_Exchanger: ClientIdentityExchanger_h)
  | ConfigSpecCell (the_ConfigSpec: ClusterGatewayProxyConfigurationSpec_h)
  | ProxyConfigCell (the_ProxyConfig: ClusterGatewayProxyConfiguration_h)
  | ConstCell (the_Const: ClusterEndpointConst_h)
  | EndpointCell (the_Endpoint: ClusterEndpoint_h)
  | X509Cell (the_X509: X509_h)
  | CredentialCell (the_Credential: ClusterAccessCredential_h)
  | AccessCell (the_Access: ClusterAccess_h)
  | SpecCell (the_Spec: ClusterGatewaySpec_h)
  | StatusCell (the_Status: ClusterGatewayStatus)
  | GatewayCell (the_Gateway: "'m ClusterGateway_h")
  | GatewaysCell (the_Gateways: "'m ClusterGateway_h list")
  | GatewayListCell (the_GatewayList: "'m ClusterGatewayList_h")
  | ProxyCell (the_Proxy: unit)
  | OptionsCell (the_Options: ClusterGatewayProxyOptions_h)
  | VirtualSpecCell (the_VirtualSpec: VirtualClusterSpec)
  | VirtualCell (the_Virtual: "'m VirtualCluster_h")
  | VirtualsCell (the_Virtuals: "'m VirtualCluster_h list")
  | VirtualListCell (the_VirtualList: "'m VirtualClusterList_h")

type_synonym 'm memory = "'m cell list"

definition get_String where "get_String = as_cell is_StringCell the_String"
definition get_Bool where "get_Bool = as_cell is_BoolCell the_Bool"
definition get_Bytes where "get_Bytes = as_cell is_BytesCell the_Bytes"
definition get_Strings where "get_Strings = as_cell is_StringsCell the_Strings"
definition get_Source where "get_Source = as_cell is_SourceCell the_Source"
definition get_Target where "get_Target = as_cell is_TargetCell the_Target"
definition get_Rule where "get_Rule = as_cell is_RuleCell the_Rule"
definition get_Rules where "get_Rules = as_cell is_RulesCell the_Rules"
definition get_Exchanger where "get_Exchanger = as_cell is_ExchangerCell the_Exchanger"
definition get_ConfigSpec where "get_ConfigSpec = as_cell is_ConfigSpecCell the_ConfigSpec"
definition get_ProxyConfig where "get_ProxyConfig = as_cell is_ProxyConfigCell the_ProxyConfig"
definition get_Const where "get_Const = as_cell is_ConstCell the_Const"
definition get_Endpoint where "get_Endpoint = as_cell is_EndpointCell the_Endpoint"
definition get_X509 where "get_X509 = as_cell is_X509Cell the_X509"
definition get_Credential where "get_Credential = as_cell is_CredentialCell the_Credential"
definition get_Access where "get_Access = as_cell is_AccessCell the_Access"
definition get_Spec where "get_Spec = as_cell is_SpecCell the_Spec"
definition get_Status where "get_Status = as_cell is_StatusCell the_Status"
definition get_Gateway where "get_Gateway = as_cell is_GatewayCell the_Gateway"
definition get_Gateways where "get_Gateways = as_cell is_GatewaysCell the_Gateways"
definition get_GatewayList where "get_GatewayList = as_cell is_GatewayListCell the_GatewayList"
definition get_Proxy where "get_Proxy = as_cell is_ProxyCell the_Proxy"
definition get_Options where "get_Options = as_cell is_OptionsCell the_Options"
definition get_VirtualSpec where "get_VirtualSpec = as_cell is_VirtualSpecCell the_VirtualSpec"
definition get_Virtual where "get_Virtual = as_cell is_VirtualCell the_Virtual"
definition get_Virtuals where "get_Virtuals = as_cell is_VirtualsCell the_Virtuals"
definition get_VirtualList where "get_VirtualList = as_cell is_VirtualListCell the_VirtualList"

lemma get_cell [copier_laws]:
  "get_String (StringCell x0) = Some x0" "get_Bool (BoolCell x1) = Some x1" "get_Bytes (BytesCell x2) = Some x2" 
  "get_Strings (StringsCell x3) = Some x3" "get_Source (SourceCell x4) = Some x4" 
  "get_Target (TargetCell x5) = Some x5" "get_Rule (RuleCell x6) = Some x6" "get_Rules (RulesCell x7) = Some x7" 
  "get_Exchanger (ExchangerCell x8) = Some x8" "get_ConfigSpec (ConfigSpecCell x9) = Some x9" 
  "get_ProxyConfig (ProxyConfigCell x10) = Some x10" "get_Const (ConstCell x11) = Some x11" 
  "get_Endpoint (EndpointCell x12) = Some x12" "get_X509 (X509Cell x13) = Some x13" 
  "get_Credential (CredentialCell x14) = Some x14" "get_Access (AccessCell x15) = Some x15" 
  "get_Spec (SpecCell x16) = Some x16" "get_Status (StatusCell x17) = Some x17" 
  "get_Gateway (GatewayCell x18) = Some x18" "get_Gateways (GatewaysCell x19) = Some x19" 
  "get_GatewayList (GatewayListCell x20) = Some x20" "get_Proxy (ProxyCell x21) = Some x21" 
  "get_Options (OptionsCell x22) = Some x22" "get_VirtualSpec (VirtualSpecCell x23) = Some x23" 
  "get_Virtual (VirtualCell x24) = Some x24" "get_Virtuals (VirtualsCell x25) = Some x25" 
  "get_VirtualList (VirtualListCell x26) = Some x26"
  by (simp_all add: as_cell_def get_String_def get_Bool_def get_Bytes_def get_Strings_def get_Source_def get_Target_def get_Rule_def get_Rules_def 
    get_Exchanger_def get_ConfigSpec_def get_ProxyConfig_def get_Const_def get_Endpoint_def get_X509_def 
    get_Credential_def get_Access_def get_Spec_def get_Status_def get_Gateway_def get_Gateways_def get_GatewayList_def 
    get_Proxy_def get_Options_def get_VirtualSpec_def get_Virtual_def get_Virtuals_def get_VirtualList_def)

text \<open>
  What apimachinery provides: the value, the memory and the copy of an \<^verbatim>\<open>ObjectMeta\<close> and of a \<^verbatim>\<open>ListMeta\<close>.
\<close>

record ('m, 'l) meta_ops =
  om_view :: "'m memory \<Rightarrow> 'm \<Rightarrow> ObjectMeta option"
  om_reach :: "'m memory \<Rightarrow> 'm \<Rightarrow> addr set"
  om_DeepCopyInto :: "'m \<Rightarrow> 'm memory \<Rightarrow> 'm \<times> 'm memory"
  lm_view :: "'m memory \<Rightarrow> 'm \<Rightarrow> 'l option"
  lm_reach :: "'m memory \<Rightarrow> 'm \<Rightarrow> addr set"
  lm_DeepCopyInto :: "'m \<Rightarrow> 'm memory \<Rightarrow> 'm \<times> 'm memory"

definition meta_laws :: "('m, 'l) meta_ops \<Rightarrow> bool" where
  "meta_laws ops \<longleftrightarrow> copier (om_view ops) (om_reach ops) no_addr (om_DeepCopyInto ops) \<and>
     copier (lm_view ops) (lm_reach ops) no_addr (lm_DeepCopyInto ops)"

lemma om_law: "meta_laws ops \<Longrightarrow> copier (om_view ops) (om_reach ops) no_addr (om_DeepCopyInto ops)"
  and lm_law: "meta_laws ops \<Longrightarrow> copier (lm_view ops) (lm_reach ops) no_addr (lm_DeepCopyInto ops)"
  by (simp_all add: meta_laws_def)

section \<open>Pointers to basic types\<close>

abbreviation "string_view \<equiv> view_ptr get_String view_plain"
abbreviation "string_addr \<equiv> reach_ptr get_String no_addr"
abbreviation "new_string \<equiv> copy_ptr get_String StringCell copy_plain"

abbreviation "bool_view \<equiv> view_ptr get_Bool view_plain"
abbreviation "bool_addr \<equiv> reach_ptr get_Bool no_addr"
abbreviation "new_bool \<equiv> copy_ptr get_Bool BoolCell copy_plain"

abbreviation "bytes_view \<equiv> view_ptr get_Bytes view_plain"
abbreviation "bytes_addr \<equiv> reach_ptr get_Bytes no_addr"
abbreviation "new_bytes \<equiv> copy_ptr get_Bytes BytesCell copy_plain"

abbreviation "strings_view \<equiv> view_ptr get_Strings view_plain"
abbreviation "strings_addr \<equiv> reach_ptr get_Strings no_addr"
abbreviation "new_strings \<equiv> copy_ptr get_Strings StringsCell copy_plain"

section \<open>Identity exchange\<close>

definition IdentityExchangerSource_DeepCopyInto :: "IdentityExchangerSource_h \<Rightarrow> 'm memory \<Rightarrow> IdentityExchangerSource_h \<times> 'm memory" where
  "IdentityExchangerSource_DeepCopyInto v h = (
     case new_string (sh_User v) h of (x0, h) \<Rightarrow>
     case new_string (sh_Group v) h of (x1, h) \<Rightarrow>
     case new_string (sh_UID v) h of (x2, h) \<Rightarrow>
     case new_string (sh_Cluster v) h of (x3, h) \<Rightarrow>
     case new_string (sh_UserPattern v) h of (x4, h) \<Rightarrow>
     case new_string (sh_GroupPattern v) h of (x5, h) \<Rightarrow>
     case new_string (sh_ClusterPattern v) h of (x6, h) \<Rightarrow>
     (v\<lparr>sh_User := x0, sh_Group := x1, sh_UID := x2, sh_Cluster := x3, sh_UserPattern := x4, sh_GroupPattern := x5, 
        sh_ClusterPattern := x6\<rparr>, h))"

definition source_fields where "source_fields v = (sh_User v, sh_Group v, sh_UID v, sh_Cluster v, sh_UserPattern v, sh_GroupPattern v, sh_ClusterPattern v)"

definition source_put where
  "source_put v = (\<lambda>(x0, x1, x2, x3, x4, x5, x6). v\<lparr>sh_User := x0, sh_Group := x1, sh_UID := x2, sh_Cluster := x3, sh_UserPattern := x4, sh_GroupPattern := x5, 
        sh_ClusterPattern := x6\<rparr>)"

definition source_view where
  "source_view = view_struct source_fields (\<lambda>v (x0, x1, x2, x3, x4, x5, x6). \<lparr>source_User = x0, source_Group = x1, source_UID = x2, source_Cluster = x3, source_UserPattern = x4, source_GroupPattern = x5, source_ClusterPattern = x6\<rparr>)
     (view_pair string_view (view_pair string_view (view_pair string_view (view_pair string_view (view_pair string_view (view_pair string_view 
      string_view))))))"

definition source_reach where
  "source_reach = addr_struct source_fields
     (addr_pair string_addr (addr_pair string_addr (addr_pair string_addr (addr_pair string_addr (addr_pair string_addr (addr_pair string_addr 
      string_addr))))))"

lemma source_copy: "IdentityExchangerSource_DeepCopyInto = copy_struct source_fields source_put
    (copy_pair new_string (copy_pair new_string (copy_pair new_string (copy_pair new_string (copy_pair new_string (copy_pair new_string 
     new_string))))))"
  by (simp add: fun_eq_iff IdentityExchangerSource_DeepCopyInto_def source_fields_def source_put_def copy_struct_def copy_pair_def copy_plain_def split: prod.splits)

interpretation source: copier source_view source_reach no_addr IdentityExchangerSource_DeepCopyInto
  unfolding source_view_def source_reach_def source_copy
  by (rule struct_law, (rule copier_laws)+) (auto simp: deep_simps source_fields_def source_put_def)

lemmas [copier_laws] = source.copier_axioms

definition IdentityExchangerSource_DeepCopy :: "addr option \<Rightarrow> 'm memory \<Rightarrow> addr option \<times> 'm memory" where
  "IdentityExchangerSource_DeepCopy = copy_ptr get_Source SourceCell IdentityExchangerSource_DeepCopyInto"

definition IdentityExchangerTarget_DeepCopyInto :: "IdentityExchangerTarget_h \<Rightarrow> 'm memory \<Rightarrow> IdentityExchangerTarget_h \<times> 'm memory" where
  "IdentityExchangerTarget_DeepCopyInto v h = (
     case new_strings (th_Groups v) h of (x0, h) \<Rightarrow>
     (v\<lparr>th_Groups := x0\<rparr>, h))"

definition target_fields where "target_fields v = th_Groups v"

definition target_put where
  "target_put v = (\<lambda>x0. v\<lparr>th_Groups := x0\<rparr>)"

definition target_view where
  "target_view = view_struct target_fields (\<lambda>v x0. \<lparr>target_User = th_User v, target_Groups = items x0, target_UID = th_UID v\<rparr>)
     (strings_view)"

definition target_reach where
  "target_reach = addr_struct target_fields
     (strings_addr)"

lemma target_copy: "IdentityExchangerTarget_DeepCopyInto = copy_struct target_fields target_put
    (new_strings)"
  by (simp add: fun_eq_iff IdentityExchangerTarget_DeepCopyInto_def target_fields_def target_put_def copy_struct_def copy_pair_def copy_plain_def split: prod.splits)

interpretation target: copier target_view target_reach no_addr IdentityExchangerTarget_DeepCopyInto
  unfolding target_view_def target_reach_def target_copy
  by (rule struct_law, (rule copier_laws)+) (auto simp: deep_simps target_fields_def target_put_def)

lemmas [copier_laws] = target.copier_axioms

definition IdentityExchangerTarget_DeepCopy :: "addr option \<Rightarrow> 'm memory \<Rightarrow> addr option \<times> 'm memory" where
  "IdentityExchangerTarget_DeepCopy = copy_ptr get_Target TargetCell IdentityExchangerTarget_DeepCopyInto"

definition ClientIdentityExchangeRule_DeepCopyInto :: "ClientIdentityExchangeRule_h \<Rightarrow> 'm memory \<Rightarrow> ClientIdentityExchangeRule_h \<times> 'm memory" where
  "ClientIdentityExchangeRule_DeepCopyInto v h = (
     case copy_ptr get_Source SourceCell IdentityExchangerSource_DeepCopyInto (rh_Source v) h of (x0, h) \<Rightarrow>
     case copy_ptr get_Target TargetCell IdentityExchangerTarget_DeepCopyInto (rh_Target v) h of (x1, h) \<Rightarrow>
     case new_string (rh_URL v) h of (x2, h) \<Rightarrow>
     (v\<lparr>rh_Source := x0, rh_Target := x1, rh_URL := x2\<rparr>, h))"

definition rule_fields where "rule_fields v = (rh_Source v, rh_Target v, rh_URL v)"

definition rule_put where
  "rule_put v = (\<lambda>(x0, x1, x2). v\<lparr>rh_Source := x0, rh_Target := x1, rh_URL := x2\<rparr>)"

definition rule_view where
  "rule_view = view_struct rule_fields (\<lambda>v (x0, x1, x2). \<lparr>rule_Name = rh_Name v, rule_Type = rh_Type v, rule_Source = x0, rule_Target = x1, rule_URL = x2\<rparr>)
     (view_pair (view_ptr get_Source source_view) (view_pair (view_ptr get_Target target_view) string_view))"

definition rule_reach where
  "rule_reach = addr_struct rule_fields
     (addr_pair (reach_ptr get_Source source_reach) (addr_pair (reach_ptr get_Target target_reach) string_addr))"

lemma rule_copy: "ClientIdentityExchangeRule_DeepCopyInto = copy_struct rule_fields rule_put
    (copy_pair (copy_ptr get_Source SourceCell IdentityExchangerSource_DeepCopyInto) (copy_pair (copy_ptr get_Target TargetCell IdentityExchangerTarget_DeepCopyInto) 
     new_string))"
  by (simp add: fun_eq_iff ClientIdentityExchangeRule_DeepCopyInto_def rule_fields_def rule_put_def copy_struct_def copy_pair_def copy_plain_def split: prod.splits)

interpretation rule: copier rule_view rule_reach no_addr ClientIdentityExchangeRule_DeepCopyInto
  unfolding rule_view_def rule_reach_def rule_copy
  by (rule struct_law, (rule copier_laws)+) (auto simp: deep_simps rule_fields_def rule_put_def)

lemmas [copier_laws] = rule.copier_axioms

definition ClientIdentityExchangeRule_DeepCopy :: "addr option \<Rightarrow> 'm memory \<Rightarrow> addr option \<times> 'm memory" where
  "ClientIdentityExchangeRule_DeepCopy = copy_ptr get_Rule RuleCell ClientIdentityExchangeRule_DeepCopyInto"

definition ClientIdentityExchanger_DeepCopyInto :: "ClientIdentityExchanger_h \<Rightarrow> 'm memory \<Rightarrow> ClientIdentityExchanger_h \<times> 'm memory" where
  "ClientIdentityExchanger_DeepCopyInto v h = (
     case copy_slice get_Rules RulesCell ClientIdentityExchangeRule_DeepCopyInto (xh_Rules v) h of (x0, h) \<Rightarrow>
     (v\<lparr>xh_Rules := x0\<rparr>, h))"

definition exchanger_fields where "exchanger_fields v = xh_Rules v"

definition exchanger_put where
  "exchanger_put v = (\<lambda>x0. v\<lparr>xh_Rules := x0\<rparr>)"

definition exchanger_view where
  "exchanger_view = view_struct exchanger_fields (\<lambda>v x0. \<lparr>exch_Rules = items x0\<rparr>)
     (view_slice get_Rules rule_view)"

definition exchanger_reach where
  "exchanger_reach = addr_struct exchanger_fields
     (reach_ptr get_Rules (addr_list rule_reach))"

lemma exchanger_copy: "ClientIdentityExchanger_DeepCopyInto = copy_struct exchanger_fields exchanger_put
    (copy_slice get_Rules RulesCell ClientIdentityExchangeRule_DeepCopyInto)"
  by (simp add: fun_eq_iff ClientIdentityExchanger_DeepCopyInto_def exchanger_fields_def exchanger_put_def copy_struct_def copy_pair_def copy_plain_def split: prod.splits)

interpretation exchanger: copier exchanger_view exchanger_reach no_addr ClientIdentityExchanger_DeepCopyInto
  unfolding exchanger_view_def exchanger_reach_def exchanger_copy
  by (rule struct_law, (rule copier_laws)+) (auto simp: deep_simps exchanger_fields_def exchanger_put_def)

lemmas [copier_laws] = exchanger.copier_axioms

definition ClientIdentityExchanger_DeepCopy :: "addr option \<Rightarrow> 'm memory \<Rightarrow> addr option \<times> 'm memory" where
  "ClientIdentityExchanger_DeepCopy = copy_ptr get_Exchanger ExchangerCell ClientIdentityExchanger_DeepCopyInto"

definition ClusterGatewayProxyConfigurationSpec_DeepCopyInto :: "ClusterGatewayProxyConfigurationSpec_h \<Rightarrow> 'm memory \<Rightarrow> ClusterGatewayProxyConfigurationSpec_h \<times> 'm memory" where
  "ClusterGatewayProxyConfigurationSpec_DeepCopyInto v h = (
     case ClientIdentityExchanger_DeepCopyInto (ph_ClientIdentityExchanger v) h of (x0, h) \<Rightarrow>
     (v\<lparr>ph_ClientIdentityExchanger := x0\<rparr>, h))"

definition config_spec_fields where "config_spec_fields v = ph_ClientIdentityExchanger v"

definition config_spec_put where
  "config_spec_put v = (\<lambda>x0. v\<lparr>ph_ClientIdentityExchanger := x0\<rparr>)"

definition config_spec_view where
  "config_spec_view = view_struct config_spec_fields (\<lambda>v x0. x0)
     (exchanger_view)"

definition config_spec_reach where
  "config_spec_reach = addr_struct config_spec_fields
     (exchanger_reach)"

lemma config_spec_copy: "ClusterGatewayProxyConfigurationSpec_DeepCopyInto = copy_struct config_spec_fields config_spec_put
    (ClientIdentityExchanger_DeepCopyInto)"
  by (simp add: fun_eq_iff ClusterGatewayProxyConfigurationSpec_DeepCopyInto_def config_spec_fields_def config_spec_put_def copy_struct_def copy_pair_def copy_plain_def split: prod.splits)

interpretation config_spec: copier config_spec_view config_spec_reach no_addr ClusterGatewayProxyConfigurationSpec_DeepCopyInto
  unfolding config_spec_view_def config_spec_reach_def config_spec_copy
  by (rule struct_law, (rule copier_laws)+) (auto simp: deep_simps config_spec_fields_def config_spec_put_def)

lemmas [copier_laws] = config_spec.copier_axioms

definition ClusterGatewayProxyConfigurationSpec_DeepCopy :: "addr option \<Rightarrow> 'm memory \<Rightarrow> addr option \<times> 'm memory" where
  "ClusterGatewayProxyConfigurationSpec_DeepCopy = copy_ptr get_ConfigSpec ConfigSpecCell ClusterGatewayProxyConfigurationSpec_DeepCopyInto"

definition ClusterGatewayProxyConfiguration_DeepCopyInto :: "ClusterGatewayProxyConfiguration_h \<Rightarrow> 'm memory \<Rightarrow> ClusterGatewayProxyConfiguration_h \<times> 'm memory" where
  "ClusterGatewayProxyConfiguration_DeepCopyInto v h = (
     case ClusterGatewayProxyConfigurationSpec_DeepCopyInto (pc_Spec v) h of (x0, h) \<Rightarrow>
     (v\<lparr>pc_Spec := x0\<rparr>, h))"

definition proxy_config_fields where "proxy_config_fields v = pc_Spec v"

definition proxy_config_put where
  "proxy_config_put v = (\<lambda>x0. v\<lparr>pc_Spec := x0\<rparr>)"

definition proxy_config_view where
  "proxy_config_view = view_struct proxy_config_fields (\<lambda>v x0. (pc_TypeMeta v, \<lparr>pc_Exchanger = x0\<rparr>))
     (config_spec_view)"

definition proxy_config_reach where
  "proxy_config_reach = addr_struct proxy_config_fields
     (config_spec_reach)"

lemma proxy_config_copy: "ClusterGatewayProxyConfiguration_DeepCopyInto = copy_struct proxy_config_fields proxy_config_put
    (ClusterGatewayProxyConfigurationSpec_DeepCopyInto)"
  by (simp add: fun_eq_iff ClusterGatewayProxyConfiguration_DeepCopyInto_def proxy_config_fields_def proxy_config_put_def copy_struct_def copy_pair_def copy_plain_def split: prod.splits)

interpretation proxy_config: copier proxy_config_view proxy_config_reach no_addr ClusterGatewayProxyConfiguration_DeepCopyInto
  unfolding proxy_config_view_def proxy_config_reach_def proxy_config_copy
  by (rule struct_law, (rule copier_laws)+) (auto simp: deep_simps proxy_config_fields_def proxy_config_put_def)

lemmas [copier_laws] = proxy_config.copier_axioms

definition ClusterGatewayProxyConfiguration_DeepCopy :: "addr option \<Rightarrow> 'm memory \<Rightarrow> addr option \<times> 'm memory" where
  "ClusterGatewayProxyConfiguration_DeepCopy = copy_ptr get_ProxyConfig ProxyConfigCell ClusterGatewayProxyConfiguration_DeepCopyInto"

section \<open>Endpoints and credentials\<close>

text \<open>
  The generated code copies the CA bundle and the insecure flag but has no case for the proxy URL, which \<^verbatim>\<open>*out = *in\<close> therefore leaves shared.
\<close>

definition ClusterEndpointConst_DeepCopyInto :: "ClusterEndpointConst_h \<Rightarrow> 'm memory \<Rightarrow> ClusterEndpointConst_h \<times> 'm memory" where
  "ClusterEndpointConst_DeepCopyInto v h = (
     case new_bytes (kh_CABundle v) h of (x0, h) \<Rightarrow>
     case new_bool (kh_Insecure v) h of (x1, h) \<Rightarrow>
     (v\<lparr>kh_CABundle := x0, kh_Insecure := x1\<rparr>, h))"

definition const_fields where "const_fields v = (kh_CABundle v, kh_Insecure v, kh_ProxyURL v)"

definition const_put where
  "const_put v = (\<lambda>(x0, x1, x2). v\<lparr>kh_CABundle := x0, kh_Insecure := x1, kh_ProxyURL := x2\<rparr>)"

definition const_view where
  "const_view = view_struct const_fields (\<lambda>v (x0, x1, x2). \<lparr>const_Address = kh_Address v, const_CABundle = x0, const_Insecure = x1, const_ProxyURL = x2\<rparr>)
     (view_pair bytes_view (view_pair bool_view string_view))"

definition const_reach where
  "const_reach = addr_struct const_fields
     (addr_pair bytes_addr (addr_pair bool_addr string_addr))"

definition const_shared where
  "const_shared = addr_struct const_fields
     (addr_pair no_addr (addr_pair no_addr string_addr))"

lemma const_copy: "ClusterEndpointConst_DeepCopyInto = copy_struct const_fields const_put
    (copy_pair new_bytes (copy_pair new_bool copy_plain))"
  by (simp add: fun_eq_iff ClusterEndpointConst_DeepCopyInto_def const_fields_def const_put_def copy_struct_def copy_pair_def copy_plain_def split: prod.splits)

interpretation const: copier const_view const_reach const_shared ClusterEndpointConst_DeepCopyInto
  unfolding const_view_def const_reach_def const_copy
  by (rule struct_law, (rule copier_laws copier_aliased)+) (auto simp: deep_simps const_fields_def const_put_def const_shared_def)

lemmas [copier_laws] = const.copier_axioms

definition ClusterEndpointConst_DeepCopy :: "addr option \<Rightarrow> 'm memory \<Rightarrow> addr option \<times> 'm memory" where
  "ClusterEndpointConst_DeepCopy = copy_ptr get_Const ConstCell ClusterEndpointConst_DeepCopyInto"

definition ClusterEndpoint_DeepCopyInto :: "ClusterEndpoint_h \<Rightarrow> 'm memory \<Rightarrow> ClusterEndpoint_h \<times> 'm memory" where
  "ClusterEndpoint_DeepCopyInto v h = (
     case copy_ptr get_Const ConstCell ClusterEndpointConst_DeepCopyInto (eh_Const v) h of (x0, h) \<Rightarrow>
     (v\<lparr>eh_Const := x0\<rparr>, h))"

definition endpoint_fields where "endpoint_fields v = eh_Const v"

definition endpoint_put where
  "endpoint_put v = (\<lambda>x0. v\<lparr>eh_Const := x0\<rparr>)"

definition endpoint_view where
  "endpoint_view = view_struct endpoint_fields (\<lambda>v x0. \<lparr>ep_Type = eh_Type v, ep_Const = x0\<rparr>)
     (view_ptr get_Const const_view)"

definition endpoint_reach where
  "endpoint_reach = addr_struct endpoint_fields
     (reach_ptr get_Const const_reach)"

definition endpoint_shared where
  "endpoint_shared = addr_struct endpoint_fields
     (shared_ptr get_Const const_shared)"

lemma endpoint_copy: "ClusterEndpoint_DeepCopyInto = copy_struct endpoint_fields endpoint_put
    (copy_ptr get_Const ConstCell ClusterEndpointConst_DeepCopyInto)"
  by (simp add: fun_eq_iff ClusterEndpoint_DeepCopyInto_def endpoint_fields_def endpoint_put_def copy_struct_def copy_pair_def copy_plain_def split: prod.splits)

interpretation endpoint: copier endpoint_view endpoint_reach endpoint_shared ClusterEndpoint_DeepCopyInto
  unfolding endpoint_view_def endpoint_reach_def endpoint_copy
  by (rule struct_law, (rule copier_laws)+) (auto simp: deep_simps endpoint_fields_def endpoint_put_def endpoint_shared_def)

lemmas [copier_laws] = endpoint.copier_axioms

definition ClusterEndpoint_DeepCopy :: "addr option \<Rightarrow> 'm memory \<Rightarrow> addr option \<times> 'm memory" where
  "ClusterEndpoint_DeepCopy = copy_ptr get_Endpoint EndpointCell ClusterEndpoint_DeepCopyInto"

definition X509_DeepCopyInto :: "X509_h \<Rightarrow> 'm memory \<Rightarrow> X509_h \<times> 'm memory" where
  "X509_DeepCopyInto v h = (
     case new_bytes (zh_Certificate v) h of (x0, h) \<Rightarrow>
     case new_bytes (zh_PrivateKey v) h of (x1, h) \<Rightarrow>
     (v\<lparr>zh_Certificate := x0, zh_PrivateKey := x1\<rparr>, h))"

definition x509_fields where "x509_fields v = (zh_Certificate v, zh_PrivateKey v)"

definition x509_put where
  "x509_put v = (\<lambda>(x0, x1). v\<lparr>zh_Certificate := x0, zh_PrivateKey := x1\<rparr>)"

definition x509_view where
  "x509_view = view_struct x509_fields (\<lambda>v (x0, x1). \<lparr>x509_Certificate = x0, x509_PrivateKey = x1\<rparr>)
     (view_pair bytes_view bytes_view)"

definition x509_reach where
  "x509_reach = addr_struct x509_fields
     (addr_pair bytes_addr bytes_addr)"

lemma x509_copy: "X509_DeepCopyInto = copy_struct x509_fields x509_put
    (copy_pair new_bytes new_bytes)"
  by (simp add: fun_eq_iff X509_DeepCopyInto_def x509_fields_def x509_put_def copy_struct_def copy_pair_def copy_plain_def split: prod.splits)

interpretation x509: copier x509_view x509_reach no_addr X509_DeepCopyInto
  unfolding x509_view_def x509_reach_def x509_copy
  by (rule struct_law, (rule copier_laws)+) (auto simp: deep_simps x509_fields_def x509_put_def)

lemmas [copier_laws] = x509.copier_axioms

definition X509_DeepCopy :: "addr option \<Rightarrow> 'm memory \<Rightarrow> addr option \<times> 'm memory" where
  "X509_DeepCopy = copy_ptr get_X509 X509Cell X509_DeepCopyInto"

definition ClusterAccessCredential_DeepCopyInto :: "ClusterAccessCredential_h \<Rightarrow> 'm memory \<Rightarrow> ClusterAccessCredential_h \<times> 'm memory" where
  "ClusterAccessCredential_DeepCopyInto v h = (
     case copy_ptr get_X509 X509Cell X509_DeepCopyInto (ch_X509 v) h of (x0, h) \<Rightarrow>
     (v\<lparr>ch_X509 := x0\<rparr>, h))"

definition credential_fields where "credential_fields v = ch_X509 v"

definition credential_put where
  "credential_put v = (\<lambda>x0. v\<lparr>ch_X509 := x0\<rparr>)"

definition credential_view where
  "credential_view = view_struct credential_fields (\<lambda>v x0. \<lparr>cred_Type = ch_Type v, cred_ServiceAccountToken = ch_ServiceAccountToken v, cred_X509 = x0\<rparr>)
     (view_ptr get_X509 x509_view)"

definition credential_reach where
  "credential_reach = addr_struct credential_fields
     (reach_ptr get_X509 x509_reach)"

lemma credential_copy: "ClusterAccessCredential_DeepCopyInto = copy_struct credential_fields credential_put
    (copy_ptr get_X509 X509Cell X509_DeepCopyInto)"
  by (simp add: fun_eq_iff ClusterAccessCredential_DeepCopyInto_def credential_fields_def credential_put_def copy_struct_def copy_pair_def copy_plain_def split: prod.splits)

interpretation credential: copier credential_view credential_reach no_addr ClusterAccessCredential_DeepCopyInto
  unfolding credential_view_def credential_reach_def credential_copy
  by (rule struct_law, (rule copier_laws)+) (auto simp: deep_simps credential_fields_def credential_put_def)

lemmas [copier_laws] = credential.copier_axioms

definition ClusterAccessCredential_DeepCopy :: "addr option \<Rightarrow> 'm memory \<Rightarrow> addr option \<times> 'm memory" where
  "ClusterAccessCredential_DeepCopy = copy_ptr get_Credential CredentialCell ClusterAccessCredential_DeepCopyInto"

definition ClusterAccess_DeepCopyInto :: "ClusterAccess_h \<Rightarrow> 'm memory \<Rightarrow> ClusterAccess_h \<times> 'm memory" where
  "ClusterAccess_DeepCopyInto v h = (
     case copy_ptr get_Endpoint EndpointCell ClusterEndpoint_DeepCopyInto (ah_Endpoint v) h of (x0, h) \<Rightarrow>
     case copy_ptr get_Credential CredentialCell ClusterAccessCredential_DeepCopyInto (ah_Credential v) h of (x1, h) \<Rightarrow>
     (v\<lparr>ah_Endpoint := x0, ah_Credential := x1\<rparr>, h))"

definition access_fields where "access_fields v = (ah_Endpoint v, ah_Credential v)"

definition access_put where
  "access_put v = (\<lambda>(x0, x1). v\<lparr>ah_Endpoint := x0, ah_Credential := x1\<rparr>)"

definition access_view where
  "access_view = view_struct access_fields (\<lambda>v (x0, x1). \<lparr>access_Endpoint = x0, access_Credential = x1\<rparr>)
     (view_pair (view_ptr get_Endpoint endpoint_view) (view_ptr get_Credential credential_view))"

definition access_reach where
  "access_reach = addr_struct access_fields
     (addr_pair (reach_ptr get_Endpoint endpoint_reach) (reach_ptr get_Credential credential_reach))"

definition access_shared where
  "access_shared = addr_struct access_fields
     (addr_pair (shared_ptr get_Endpoint endpoint_shared) no_addr)"

lemma access_copy: "ClusterAccess_DeepCopyInto = copy_struct access_fields access_put
    (copy_pair (copy_ptr get_Endpoint EndpointCell ClusterEndpoint_DeepCopyInto) (copy_ptr get_Credential CredentialCell ClusterAccessCredential_DeepCopyInto))"
  by (simp add: fun_eq_iff ClusterAccess_DeepCopyInto_def access_fields_def access_put_def copy_struct_def copy_pair_def copy_plain_def split: prod.splits)

interpretation access: copier access_view access_reach access_shared ClusterAccess_DeepCopyInto
  unfolding access_view_def access_reach_def access_copy
  by (rule struct_law, (rule copier_laws)+) (auto simp: deep_simps access_fields_def access_put_def access_shared_def)

lemmas [copier_laws] = access.copier_axioms

definition ClusterAccess_DeepCopy :: "addr option \<Rightarrow> 'm memory \<Rightarrow> addr option \<times> 'm memory" where
  "ClusterAccess_DeepCopy = copy_ptr get_Access AccessCell ClusterAccess_DeepCopyInto"

section \<open>Gateways\<close>

definition ClusterGatewaySpec_DeepCopyInto :: "ClusterGatewaySpec_h \<Rightarrow> 'm memory \<Rightarrow> ClusterGatewaySpec_h \<times> 'm memory" where
  "ClusterGatewaySpec_DeepCopyInto v h = (
     case ClusterAccess_DeepCopyInto (gsh_Access v) h of (x0, h) \<Rightarrow>
     case copy_ptr get_ProxyConfig ProxyConfigCell ClusterGatewayProxyConfiguration_DeepCopyInto (gsh_ProxyConfig v) h of (x1, h) \<Rightarrow>
     (v\<lparr>gsh_Access := x0, gsh_ProxyConfig := x1\<rparr>, h))"

definition spec_fields where "spec_fields v = (gsh_Access v, gsh_ProxyConfig v)"

definition spec_put where
  "spec_put v = (\<lambda>(x0, x1). v\<lparr>gsh_Access := x0, gsh_ProxyConfig := x1\<rparr>)"

definition spec_view where
  "spec_view = view_struct spec_fields (\<lambda>v (x0, x1). \<lparr>spec_Provider = gsh_Provider v, spec_Access = x0, spec_ProxyConfig = map_option snd x1\<rparr>)
     (view_pair access_view (view_ptr get_ProxyConfig proxy_config_view))"

definition spec_reach where
  "spec_reach = addr_struct spec_fields
     (addr_pair access_reach (reach_ptr get_ProxyConfig proxy_config_reach))"

definition spec_shared where
  "spec_shared = addr_struct spec_fields
     (addr_pair access_shared no_addr)"

lemma spec_copy: "ClusterGatewaySpec_DeepCopyInto = copy_struct spec_fields spec_put
    (copy_pair ClusterAccess_DeepCopyInto (copy_ptr get_ProxyConfig ProxyConfigCell ClusterGatewayProxyConfiguration_DeepCopyInto))"
  by (simp add: fun_eq_iff ClusterGatewaySpec_DeepCopyInto_def spec_fields_def spec_put_def copy_struct_def copy_pair_def copy_plain_def split: prod.splits)

interpretation spec: copier spec_view spec_reach spec_shared ClusterGatewaySpec_DeepCopyInto
  unfolding spec_view_def spec_reach_def spec_copy
  by (rule struct_law, (rule copier_laws)+) (auto simp: deep_simps spec_fields_def spec_put_def spec_shared_def)

lemmas [copier_laws] = spec.copier_axioms

definition ClusterGatewaySpec_DeepCopy :: "addr option \<Rightarrow> 'm memory \<Rightarrow> addr option \<times> 'm memory" where
  "ClusterGatewaySpec_DeepCopy = copy_ptr get_Spec SpecCell ClusterGatewaySpec_DeepCopyInto"

definition ClusterGatewayStatus_DeepCopyInto :: "ClusterGatewayStatus \<Rightarrow> 'm memory \<Rightarrow> ClusterGatewayStatus \<times> 'm memory" where
  "ClusterGatewayStatus_DeepCopyInto v h = (v, h)"

interpretation status: copier view_plain no_addr no_addr ClusterGatewayStatus_DeepCopyInto
  using plain.copier_axioms by (simp add: copy_plain_def [abs_def] ClusterGatewayStatus_DeepCopyInto_def [abs_def])

lemmas [copier_laws] = status.copier_axioms

definition ClusterGatewayStatus_DeepCopy :: "addr option \<Rightarrow> 'm memory \<Rightarrow> addr option \<times> 'm memory" where
  "ClusterGatewayStatus_DeepCopy = copy_ptr get_Status StatusCell ClusterGatewayStatus_DeepCopyInto"

definition ClusterGateway_DeepCopyInto :: "('m, 'l) meta_ops \<Rightarrow> 'm ClusterGateway_h \<Rightarrow> 'm memory \<Rightarrow> 'm ClusterGateway_h \<times> 'm memory" where
  "ClusterGateway_DeepCopyInto ops v h = (
     case om_DeepCopyInto ops (gh_ObjectMeta v) h of (x0, h) \<Rightarrow>
     case ClusterGatewaySpec_DeepCopyInto (gh_Spec v) h of (x1, h) \<Rightarrow>
     (v\<lparr>gh_ObjectMeta := x0, gh_Spec := x1\<rparr>, h))"

definition gateway_fields where "gateway_fields v = (gh_ObjectMeta v, gh_Spec v)"

definition gateway_put where
  "gateway_put v = (\<lambda>(x0, x1). v\<lparr>gh_ObjectMeta := x0, gh_Spec := x1\<rparr>)"

definition gateway_view where
  "gateway_view ops = view_struct gateway_fields (\<lambda>v (x0, x1). (gh_TypeMeta v, \<lparr>cg_Meta = x0, cg_Spec = x1, cg_Status = gh_Status v\<rparr>))
     (view_pair (om_view ops) spec_view)"

definition gateway_reach where
  "gateway_reach ops = addr_struct gateway_fields
     (addr_pair (om_reach ops) spec_reach)"

definition gateway_shared where
  "gateway_shared = addr_struct gateway_fields
     (addr_pair no_addr spec_shared)"

lemma gateway_copy: "ClusterGateway_DeepCopyInto ops = copy_struct gateway_fields gateway_put
    (copy_pair (om_DeepCopyInto ops) ClusterGatewaySpec_DeepCopyInto)"
  by (simp add: fun_eq_iff ClusterGateway_DeepCopyInto_def gateway_fields_def gateway_put_def copy_struct_def copy_pair_def copy_plain_def split: prod.splits)

lemma gateway_law:
  assumes "meta_laws ops" shows "copier (gateway_view ops) (gateway_reach ops) gateway_shared (ClusterGateway_DeepCopyInto ops)"
  unfolding gateway_view_def gateway_reach_def gateway_copy
  by (rule struct_law, (rule copier_laws om_law [OF assms] lm_law [OF assms])+) (auto simp: deep_simps gateway_fields_def gateway_put_def gateway_shared_def)

definition ClusterGateway_DeepCopy :: "('m, 'l) meta_ops \<Rightarrow> addr option \<Rightarrow> 'm memory \<Rightarrow> addr option \<times> 'm memory" where
  "ClusterGateway_DeepCopy ops = copy_ptr get_Gateway GatewayCell (ClusterGateway_DeepCopyInto ops)"

definition ClusterGateway_DeepCopyObject :: "('m, 'l) meta_ops \<Rightarrow> addr option \<Rightarrow> 'm memory \<Rightarrow> addr option \<times> 'm memory" where
  "ClusterGateway_DeepCopyObject ops p h = (case ClusterGateway_DeepCopy ops p h of (Some c, h') \<Rightarrow> (Some c, h') | (None, h') \<Rightarrow> (None, h'))"

definition ClusterGatewayHealth_DeepCopyInto :: "('m, 'l) meta_ops \<Rightarrow> 'm ClusterGatewayHealth_h \<Rightarrow> 'm memory \<Rightarrow> 'm ClusterGatewayHealth_h \<times> 'm memory" where
  "ClusterGatewayHealth_DeepCopyInto ops v h = (
     case om_DeepCopyInto ops (gh_ObjectMeta v) h of (x0, h) \<Rightarrow>
     case ClusterGatewaySpec_DeepCopyInto (gh_Spec v) h of (x1, h) \<Rightarrow>
     (v\<lparr>gh_ObjectMeta := x0, gh_Spec := x1\<rparr>, h))"

definition ClusterGatewayHealth_DeepCopy :: "('m, 'l) meta_ops \<Rightarrow> addr option \<Rightarrow> 'm memory \<Rightarrow> addr option \<times> 'm memory" where
  "ClusterGatewayHealth_DeepCopy ops = copy_ptr get_Gateway GatewayCell (ClusterGatewayHealth_DeepCopyInto ops)"

lemma ClusterGatewayHealth_DeepCopy_eq: "ClusterGatewayHealth_DeepCopy = ClusterGateway_DeepCopy"
  by (simp add: fun_eq_iff ClusterGatewayHealth_DeepCopy_def ClusterGateway_DeepCopy_def ClusterGatewayHealth_DeepCopyInto_def [abs_def]
      ClusterGateway_DeepCopyInto_def [abs_def])

definition ClusterGatewayList_DeepCopyInto :: "('m, 'l) meta_ops \<Rightarrow> 'm ClusterGatewayList_h \<Rightarrow> 'm memory \<Rightarrow> 'm ClusterGatewayList_h \<times> 'm memory" where
  "ClusterGatewayList_DeepCopyInto ops v h = (
     case lm_DeepCopyInto ops (lh_ListMeta v) h of (x0, h) \<Rightarrow>
     case copy_slice get_Gateways GatewaysCell (ClusterGateway_DeepCopyInto ops) (lh_Items v) h of (x1, h) \<Rightarrow>
     (v\<lparr>lh_ListMeta := x0, lh_Items := x1\<rparr>, h))"

definition gateway_list_fields where "gateway_list_fields v = (lh_ListMeta v, lh_Items v)"

definition gateway_list_put where
  "gateway_list_put v = (\<lambda>(x0, x1). v\<lparr>lh_ListMeta := x0, lh_Items := x1\<rparr>)"

definition gateway_list_view where
  "gateway_list_view ops = view_struct gateway_list_fields (\<lambda>v (x0, x1). (lh_TypeMeta v, x0, map fst (items x1), \<lparr>cgl_Items = map snd (items x1)\<rparr>))
     (view_pair (lm_view ops) (view_slice get_Gateways (gateway_view ops)))"

definition gateway_list_reach where
  "gateway_list_reach ops = addr_struct gateway_list_fields
     (addr_pair (lm_reach ops) (reach_ptr get_Gateways (addr_list (gateway_reach ops))))"

definition gateway_list_shared where
  "gateway_list_shared = addr_struct gateway_list_fields
     (addr_pair no_addr (shared_ptr get_Gateways (addr_list gateway_shared)))"

lemma gateway_list_copy: "ClusterGatewayList_DeepCopyInto ops = copy_struct gateway_list_fields gateway_list_put
    (copy_pair (lm_DeepCopyInto ops) (copy_slice get_Gateways GatewaysCell (ClusterGateway_DeepCopyInto ops)))"
  by (simp add: fun_eq_iff ClusterGatewayList_DeepCopyInto_def gateway_list_fields_def gateway_list_put_def copy_struct_def copy_pair_def copy_plain_def split: prod.splits)

lemma gateway_list_law:
  assumes "meta_laws ops" shows "copier (gateway_list_view ops) (gateway_list_reach ops) gateway_list_shared (ClusterGatewayList_DeepCopyInto ops)"
  unfolding gateway_list_view_def gateway_list_reach_def gateway_list_copy
  by (rule struct_law, (rule copier_laws om_law [OF assms] lm_law [OF assms] gateway_law [OF assms])+) (auto simp: deep_simps gateway_list_fields_def gateway_list_put_def gateway_list_shared_def)

definition ClusterGatewayList_DeepCopy :: "('m, 'l) meta_ops \<Rightarrow> addr option \<Rightarrow> 'm memory \<Rightarrow> addr option \<times> 'm memory" where
  "ClusterGatewayList_DeepCopy ops = copy_ptr get_GatewayList GatewayListCell (ClusterGatewayList_DeepCopyInto ops)"

definition ClusterGatewayList_DeepCopyObject :: "('m, 'l) meta_ops \<Rightarrow> addr option \<Rightarrow> 'm memory \<Rightarrow> addr option \<times> 'm memory" where
  "ClusterGatewayList_DeepCopyObject ops p h = (case ClusterGatewayList_DeepCopy ops p h of (Some c, h') \<Rightarrow> (Some c, h') | (None, h') \<Rightarrow> (None, h'))"

section \<open>Proxy options and virtual clusters\<close>

definition ClusterGatewayProxy_DeepCopyInto :: "unit \<Rightarrow> 'm memory \<Rightarrow> unit \<times> 'm memory" where
  "ClusterGatewayProxy_DeepCopyInto v h = (v, h)"

interpretation proxy: copier view_plain no_addr no_addr ClusterGatewayProxy_DeepCopyInto
  using plain.copier_axioms by (simp add: copy_plain_def [abs_def] ClusterGatewayProxy_DeepCopyInto_def [abs_def])

lemmas [copier_laws] = proxy.copier_axioms

definition ClusterGatewayProxy_DeepCopy :: "addr option \<Rightarrow> 'm memory \<Rightarrow> addr option \<times> 'm memory" where
  "ClusterGatewayProxy_DeepCopy = copy_ptr get_Proxy ProxyCell ClusterGatewayProxy_DeepCopyInto"

definition ClusterGatewayProxyOptions_DeepCopyInto :: "ClusterGatewayProxyOptions_h \<Rightarrow> 'm memory \<Rightarrow> ClusterGatewayProxyOptions_h \<times> 'm memory" where
  "ClusterGatewayProxyOptions_DeepCopyInto v h = (v, h)"

interpretation options: copier view_plain no_addr no_addr ClusterGatewayProxyOptions_DeepCopyInto
  using plain.copier_axioms by (simp add: copy_plain_def [abs_def] ClusterGatewayProxyOptions_DeepCopyInto_def [abs_def])

lemmas [copier_laws] = options.copier_axioms

definition ClusterGatewayProxyOptions_DeepCopy :: "addr option \<Rightarrow> 'm memory \<Rightarrow> addr option \<times> 'm memory" where
  "ClusterGatewayProxyOptions_DeepCopy = copy_ptr get_Options OptionsCell ClusterGatewayProxyOptions_DeepCopyInto"

definition ClusterGatewayProxyOptions_DeepCopyObject :: "addr option \<Rightarrow> 'm memory \<Rightarrow> addr option \<times> 'm memory" where
  "ClusterGatewayProxyOptions_DeepCopyObject p h = (case ClusterGatewayProxyOptions_DeepCopy p h of (Some c, h') \<Rightarrow> (Some c, h') | (None, h') \<Rightarrow> (None, h'))"

definition VirtualClusterSpec_DeepCopyInto :: "VirtualClusterSpec \<Rightarrow> 'm memory \<Rightarrow> VirtualClusterSpec \<times> 'm memory" where
  "VirtualClusterSpec_DeepCopyInto v h = (v, h)"

interpretation virtual_spec: copier view_plain no_addr no_addr VirtualClusterSpec_DeepCopyInto
  using plain.copier_axioms by (simp add: copy_plain_def [abs_def] VirtualClusterSpec_DeepCopyInto_def [abs_def])

lemmas [copier_laws] = virtual_spec.copier_axioms

definition VirtualClusterSpec_DeepCopy :: "addr option \<Rightarrow> 'm memory \<Rightarrow> addr option \<times> 'm memory" where
  "VirtualClusterSpec_DeepCopy = copy_ptr get_VirtualSpec VirtualSpecCell VirtualClusterSpec_DeepCopyInto"

definition VirtualCluster_DeepCopyInto :: "('m, 'l) meta_ops \<Rightarrow> 'm VirtualCluster_h \<Rightarrow> 'm memory \<Rightarrow> 'm VirtualCluster_h \<times> 'm memory" where
  "VirtualCluster_DeepCopyInto ops v h = (
     case om_DeepCopyInto ops (vh_ObjectMeta v) h of (x0, h) \<Rightarrow>
     (v\<lparr>vh_ObjectMeta := x0\<rparr>, h))"

definition virtual_fields where "virtual_fields v = vh_ObjectMeta v"

definition virtual_put where
  "virtual_put v = (\<lambda>x0. v\<lparr>vh_ObjectMeta := x0\<rparr>)"

definition virtual_view where
  "virtual_view ops = view_struct virtual_fields (\<lambda>v x0. (vh_TypeMeta v, \<lparr>vc_Meta = x0, vc_Spec = vh_Spec v\<rparr>))
     (om_view ops)"

definition virtual_reach where
  "virtual_reach ops = addr_struct virtual_fields
     (om_reach ops)"

lemma virtual_copy: "VirtualCluster_DeepCopyInto ops = copy_struct virtual_fields virtual_put
    (om_DeepCopyInto ops)"
  by (simp add: fun_eq_iff VirtualCluster_DeepCopyInto_def virtual_fields_def virtual_put_def copy_struct_def copy_pair_def copy_plain_def split: prod.splits)

lemma virtual_law:
  assumes "meta_laws ops" shows "copier (virtual_view ops) (virtual_reach ops) no_addr (VirtualCluster_DeepCopyInto ops)"
  unfolding virtual_view_def virtual_reach_def virtual_copy
  by (rule struct_law, (rule copier_laws om_law [OF assms] lm_law [OF assms] gateway_law [OF assms] gateway_list_law [OF assms])+) (auto simp: deep_simps virtual_fields_def virtual_put_def)

definition VirtualCluster_DeepCopy :: "('m, 'l) meta_ops \<Rightarrow> addr option \<Rightarrow> 'm memory \<Rightarrow> addr option \<times> 'm memory" where
  "VirtualCluster_DeepCopy ops = copy_ptr get_Virtual VirtualCell (VirtualCluster_DeepCopyInto ops)"

definition VirtualCluster_DeepCopyObject :: "('m, 'l) meta_ops \<Rightarrow> addr option \<Rightarrow> 'm memory \<Rightarrow> addr option \<times> 'm memory" where
  "VirtualCluster_DeepCopyObject ops p h = (case VirtualCluster_DeepCopy ops p h of (Some c, h') \<Rightarrow> (Some c, h') | (None, h') \<Rightarrow> (None, h'))"

definition VirtualClusterList_DeepCopyInto :: "('m, 'l) meta_ops \<Rightarrow> 'm VirtualClusterList_h \<Rightarrow> 'm memory \<Rightarrow> 'm VirtualClusterList_h \<times> 'm memory" where
  "VirtualClusterList_DeepCopyInto ops v h = (
     case lm_DeepCopyInto ops (wh_ListMeta v) h of (x0, h) \<Rightarrow>
     case copy_slice get_Virtuals VirtualsCell (VirtualCluster_DeepCopyInto ops) (wh_Items v) h of (x1, h) \<Rightarrow>
     (v\<lparr>wh_ListMeta := x0, wh_Items := x1\<rparr>, h))"

definition virtual_list_fields where "virtual_list_fields v = (wh_ListMeta v, wh_Items v)"

definition virtual_list_put where
  "virtual_list_put v = (\<lambda>(x0, x1). v\<lparr>wh_ListMeta := x0, wh_Items := x1\<rparr>)"

definition virtual_list_view where
  "virtual_list_view ops = view_struct virtual_list_fields (\<lambda>v (x0, x1). (wh_TypeMeta v, x0, map fst (items x1), \<lparr>vcl_Items = map snd (items x1)\<rparr>))
     (view_pair (lm_view ops) (view_slice get_Virtuals (virtual_view ops)))"

definition virtual_list_reach where
  "virtual_list_reach ops = addr_struct virtual_list_fields
     (addr_pair (lm_reach ops) (reach_ptr get_Virtuals (addr_list (virtual_reach ops))))"

lemma virtual_list_copy: "VirtualClusterList_DeepCopyInto ops = copy_struct virtual_list_fields virtual_list_put
    (copy_pair (lm_DeepCopyInto ops) (copy_slice get_Virtuals VirtualsCell (VirtualCluster_DeepCopyInto ops)))"
  by (simp add: fun_eq_iff VirtualClusterList_DeepCopyInto_def virtual_list_fields_def virtual_list_put_def copy_struct_def copy_pair_def copy_plain_def split: prod.splits)

lemma virtual_list_law:
  assumes "meta_laws ops" shows "copier (virtual_list_view ops) (virtual_list_reach ops) no_addr (VirtualClusterList_DeepCopyInto ops)"
  unfolding virtual_list_view_def virtual_list_reach_def virtual_list_copy
  by (rule struct_law, (rule copier_laws om_law [OF assms] lm_law [OF assms] gateway_law [OF assms] gateway_list_law [OF assms] virtual_law [OF assms])+) (auto simp: deep_simps virtual_list_fields_def virtual_list_put_def)

definition VirtualClusterList_DeepCopy :: "('m, 'l) meta_ops \<Rightarrow> addr option \<Rightarrow> 'm memory \<Rightarrow> addr option \<times> 'm memory" where
  "VirtualClusterList_DeepCopy ops = copy_ptr get_VirtualList VirtualListCell (VirtualClusterList_DeepCopyInto ops)"

definition VirtualClusterList_DeepCopyObject :: "('m, 'l) meta_ops \<Rightarrow> addr option \<Rightarrow> 'm memory \<Rightarrow> addr option \<times> 'm memory" where
  "VirtualClusterList_DeepCopyObject ops p h = (case VirtualClusterList_DeepCopy ops p h of (Some c, h') \<Rightarrow> (Some c, h') | (None, h') \<Rightarrow> (None, h'))"

section \<open>What is shared\<close>

text \<open>The cell of the proxy URL of a gateway's constant endpoint, if it has one.\<close>

definition proxy_url_cell :: "'m memory \<Rightarrow> 'm ClusterGateway_h \<Rightarrow> addr option" where
  "proxy_url_cell h v = Option.bind (ah_Endpoint (gsh_Access (gh_Spec v))) (\<lambda>e. Option.bind (deref_as get_Endpoint h e) (\<lambda>ep.
     Option.bind (eh_Const ep) (\<lambda>k. Option.bind (deref_as get_Const h k) kh_ProxyURL)))"

lemma const_shared_eq: "const_shared h k = set_option (kh_ProxyURL k)"
  by (simp add: const_shared_def addr_struct_def const_fields_def addr_pair_def no_addr_def reach_ptr_def split: option.split)

lemma gateway_shared_eq: "gateway_shared h v = set_option (proxy_url_cell h v)"
  by (auto simp: gateway_shared_def spec_shared_def access_shared_def endpoint_shared_def addr_struct_def addr_pair_def no_addr_def
      gateway_fields_def spec_fields_def access_fields_def endpoint_fields_def shared_ptr_def const_shared_eq proxy_url_cell_def
      split: option.split)

lemma gateway_ptr_law:
  assumes "meta_laws ops"
  shows "copier (view_ptr get_Gateway (gateway_view ops)) (reach_ptr get_Gateway (gateway_reach ops)) (shared_ptr get_Gateway gateway_shared)
    (ClusterGateway_DeepCopy ops)"
  unfolding ClusterGateway_DeepCopy_def by (rule copier_ptr [OF gateway_law [OF assms] get_cell(19)])

abbreviation gateway_owns :: "('m, 'l) meta_ops \<Rightarrow> 'm memory \<Rightarrow> addr option \<Rightarrow> addr set" where
  "gateway_owns ops \<equiv> reach_ptr get_Gateway (gateway_reach ops)"

text \<open>
  C37. Copying a gateway: the copy is a new object that denotes the same value, no cell of the old memory is written, and of the
  memory the copy owns exactly the cell of the proxy URL belongs to the original too. So whatever is written later into the
  copy's memory, other than that cell, the original still denotes what it denoted.
\<close>

theorem ClusterGateway_DeepCopy_value:
  assumes laws: "meta_laws ops" and v: "deref_as get_Gateway h a = Some v" "gateway_view ops h v = Some gw"
    and copied: "ClusterGateway_DeepCopy ops (Some a) h = (p', h')"
  shows "\<exists>a' v'. p' = Some a' \<and> length h \<le> a' \<and> deref_as get_Gateway h' a' = Some v' \<and> gateway_view ops h' v' = Some gw \<and>
    prefix h h' \<and> gateway_owns ops h' p' \<inter> {..<length h} = set_option (proxy_url_cell h v) \<and>
    (\<forall>h''. (\<forall>x. x \<notin> gateway_owns ops h' p' - set_option (proxy_url_cell h v) \<longrightarrow> read h'' x = read h' x) \<longrightarrow>
       view_ptr get_Gateway (gateway_view ops) h'' (Some a) = Some (Some gw))"
proof -
  have view: "view_ptr get_Gateway (gateway_view ops) h (Some a) = Some (Some gw)" by (simp add: view_ptr_def v)
  have shared: "shared_ptr get_Gateway gateway_shared h (Some a) = set_option (proxy_url_cell h v)"
    by (simp add: shared_ptr_def v(1) gateway_shared_eq)
  note law = gateway_ptr_law [OF laws]
  obtain v1 h1 where new: "ClusterGateway_DeepCopyInto ops v h = (v1, h1)" "p' = Some (length h1)" "h' = h1 @ [GatewayCell v1]"
    using copied v(1) by (auto simp: ClusterGateway_DeepCopy_def copy_ptr_def split: prod.splits)
  have "view_ptr get_Gateway (gateway_view ops) h' (Some (length h1)) = Some (Some gw)"
    using copier.copy_view [OF law view copied] by (simp add: new(2))
  moreover have "length h \<le> length h1" using copier.copy_grows [OF gateway_law [OF laws] new(1)] by (rule prefix_length_le)
  moreover have "deref_as get_Gateway h' (length h1) = Some v1" by (simp add: new(3) deref_as_new get_cell)
  moreover have "gateway_owns ops h' p' \<inter> {..<length h} = set_option (proxy_url_cell h v)"
    using copier.copy_fresh [OF law view copied] shared by simp
  moreover have "view_ptr get_Gateway (gateway_view ops) h'' (Some a) = Some (Some gw)"
    if "\<forall>x. x \<notin> gateway_owns ops h' p' - set_option (proxy_url_cell h v) \<longrightarrow> read h'' x = read h' x" for h''
    using copier.copy_writes_invisible [OF law view copied] that shared by simp
  ultimately show ?thesis using new(2) copier.copy_grows [OF law copied] by (auto simp: view_ptr_def)
qed

text \<open>The proxy URL a gateway denotes.\<close>

definition proxy_url :: "ClusterGateway \<Rightarrow> string option" where
  "proxy_url g = Option.bind (cg_Endpoint g) (\<lambda>e. Option.bind (ep_Const e) const_ProxyURL)"

lemma gateway_view_proxy_url:
  assumes "gateway_view ops h v = Some gw" "proxy_url_cell h v = Some u"
  shows "\<exists>s. deref_as get_String h u = Some s \<and> proxy_url (snd gw) = Some s"
  using assms
  by (auto simp: gateway_view_def spec_view_def access_view_def endpoint_view_def const_view_def view_struct_def gateway_fields_def
      spec_fields_def access_fields_def endpoint_fields_def const_fields_def view_pair_def view_ptr_def view_plain_def bind_eq_Some_conv
      proxy_url_cell_def proxy_url_def split: option.splits)

lemma write_String:
  assumes "deref_as get_String h u = Some s"
  shows "deref_as get_Endpoint (h[u := StringCell t]) e = deref_as get_Endpoint h e"
    "deref_as get_Const (h[u := StringCell t]) e = deref_as get_Const h e"
    "deref_as get_String (h[u := StringCell t]) u = Some t"
  using assms
  by (auto simp: deref_as_def read_def nth_list_update get_Endpoint_def get_Const_def get_String_def as_cell_def split: if_splits)

text \<open>
  The proxy URL of a copied gateway is not copied: original and copy point to one string, so a write of the copy's proxy URL
  is a write of the original's.
\<close>

theorem DeepCopy_shares_ProxyURL:
  assumes laws: "meta_laws ops" and v: "deref_as get_Gateway h a = Some v" "gateway_view ops h v = Some gw"
    and url: "proxy_url_cell h v = Some u" and copied: "ClusterGateway_DeepCopy ops (Some a) h = (Some a', h')"
    and stored: "h'' = h'[u := StringCell t]"
  shows "\<exists>v'. deref_as get_Gateway h' a' = Some v' \<and> proxy_url_cell h' v' = Some u \<and>
    (\<forall>gw'. gateway_view ops h'' v = Some gw' \<longrightarrow> proxy_url (snd gw') = Some t)"
proof -
  obtain v' h1 where new: "ClusterGateway_DeepCopyInto ops v h = (v', h1)" "a' = length h1" "h' = h1 @ [GatewayCell v']"
    using copied v(1) by (auto simp: ClusterGateway_DeepCopy_def copy_ptr_def split: prod.splits)
  note law = gateway_law [OF laws]
  have g: "prefix h h'" "prefix h1 h'" using copier.copy_grows [OF law new(1)] new(3) by (auto intro: prefix_order.order_trans)
  have "set_option (proxy_url_cell h' v') = {u}"
    using copier.copy_shared [OF law v(2) new(1)] copier.later [OF law copier.copy_view [OF law v(2) new(1)] g(2)] url
    by (simp add: gateway_shared_eq)
  then have copy: "proxy_url_cell h' v' = Some u" by (cases "proxy_url_cell h' v'") auto
  have old: "gateway_view ops h' v = Some gw" "set_option (proxy_url_cell h' v) = {u}"
    using copier.later [OF law v(2) g(1)] url by (simp_all add: gateway_shared_eq)
  have oldurl: "proxy_url_cell h' v = Some u" using old(2) by (cases "proxy_url_cell h' v") auto
  obtain s where s: "deref_as get_String h' u = Some s" using gateway_view_proxy_url [OF old(1) oldurl] by blast
  have "proxy_url_cell h'' v = Some u" using oldurl by (simp add: proxy_url_cell_def stored write_String [OF s])
  then have "proxy_url (snd gw') = Some t" if "gateway_view ops h'' v = Some gw'" for gw'
    using gateway_view_proxy_url [OF that] write_String(3) [OF s, of t] by (auto simp: stored)
  then show ?thesis using copy new(2,3) by (auto simp: deref_as_new get_cell)
qed

text \<open>Metadata without pointers, and a gateway with a constant endpoint behind a proxy.\<close>

definition demo_ops :: "(ObjectMeta, ObjectMeta) meta_ops" where
  "demo_ops = \<lparr>om_view = view_plain, om_reach = no_addr, om_DeepCopyInto = copy_plain, lm_view = view_plain, lm_reach = no_addr, lm_DeepCopyInto = copy_plain\<rparr>"

definition demo_gateway_h :: "ObjectMeta ClusterGateway_h" where
  "demo_gateway_h = \<lparr>gh_TypeMeta = ('''', ''''), gh_ObjectMeta = empty_ObjectMeta,
     gh_Spec = \<lparr>gsh_Provider = '''', gsh_Access = \<lparr>ah_Endpoint = Some 2, ah_Credential = None\<rparr>, gsh_ProxyConfig = None\<rparr>,
     gh_Status = empty_ClusterGatewayStatus\<rparr>"

definition demo_memory :: "ObjectMeta memory" where
  "demo_memory = [StringCell ''http://proxy'',
     ConstCell \<lparr>kh_Address = ''https://c1'', kh_CABundle = None, kh_Insecure = None, kh_ProxyURL = Some 0\<rparr>,
     EndpointCell \<lparr>eh_Type = ClusterEndpointTypeConst, eh_Const = Some 1\<rparr>, GatewayCell demo_gateway_h]"

lemma demo_laws_meta: "meta_laws demo_ops"
  by (simp add: meta_laws_def demo_ops_def plain.copier_axioms)

lemma demo_memory_cells:
  "deref_as get_Gateway demo_memory 3 = Some demo_gateway_h" "proxy_url_cell demo_memory demo_gateway_h = Some 0"
  "\<exists>gw. gateway_view demo_ops demo_memory demo_gateway_h = Some gw"
  by (simp_all add: deref_as_def read_def demo_memory_def as_cell_def get_Gateway_def get_Endpoint_def get_Const_def get_String_def
      proxy_url_cell_def demo_gateway_h_def gateway_view_def spec_view_def access_view_def endpoint_view_def const_view_def view_struct_def
      gateway_fields_def spec_fields_def access_fields_def endpoint_fields_def const_fields_def view_pair_def view_ptr_def view_plain_def demo_ops_def)

theorem ClusterGateway_DeepCopy_value_witness:
  "\<exists>p' h'. ClusterGateway_DeepCopy demo_ops (Some 3) demo_memory = (p', h') \<and> prefix demo_memory h' \<and>
     gateway_owns demo_ops h' p' \<inter> {..<4} = {0}"
proof -
  obtain gw where gw: "gateway_view demo_ops demo_memory demo_gateway_h = Some gw" using demo_memory_cells(3) by blast
  obtain p' h' where copied: "ClusterGateway_DeepCopy demo_ops (Some 3) demo_memory = (p', h')" by (rule prod.exhaust)
  have "length demo_memory = 4" by (simp add: demo_memory_def)
  then show ?thesis
    using ClusterGateway_DeepCopy_value [OF demo_laws_meta demo_memory_cells(1) gw copied] demo_memory_cells(2) copied by auto
qed

theorem DeepCopy_shares_ProxyURL_witness:
  "\<exists>a' h' v'. ClusterGateway_DeepCopy demo_ops (Some 3) demo_memory = (Some a', h') \<and> deref_as get_Gateway h' a' = Some v' \<and>
     proxy_url_cell h' v' = Some 0"
proof -
  obtain gw where gw: "gateway_view demo_ops demo_memory demo_gateway_h = Some gw" using demo_memory_cells(3) by blast
  obtain a' h' where copied: "ClusterGateway_DeepCopy demo_ops (Some 3) demo_memory = (Some a', h')"
    by (cases "ClusterGateway_DeepCopyInto demo_ops demo_gateway_h demo_memory")
      (simp add: ClusterGateway_DeepCopy_def copy_ptr_def demo_memory_cells(1))
  from DeepCopy_shares_ProxyURL [OF demo_laws_meta demo_memory_cells(1) gw demo_memory_cells(2) copied refl] copied
  show ?thesis by blast
qed

end
