(* ===== verification/Deep_Copy_Config.thy ===== *)
theory Deep_Copy_Config
  imports Deep_Copy Addon_Types
begin

text \<open>
  The generated copies of the addon configuration's types (\<^verbatim>\<open>pkg/apis/proxy/v1alpha1/zz_generated.deepcopy.go\<close>), in the same way as those of the gateway's
  types. Here every pointer and slice is copied, so the copies share nothing. \<^verbatim>\<open>ObjectMeta\<close>, \<^verbatim>\<open>ListMeta\<close> and \<^verbatim>\<open>Condition\<close> are types of
  apimachinery with layout \<open>'m\<close> and copies \<open>config_ops\<close>.
\<close>

section \<open>Structs in memory\<close>

record ClusterGatewaySecretManagement_h =
  smh_Type :: string
  smh_ManagedServiceAccount :: "addr option"

record ClusterGatewayTrafficEgress_h =
  egh_Type :: string
  egh_ClusterProxy :: "addr option"

record ClusterGatewayConfigurationSpec_h =
  csh_Image :: string
  csh_SecretNamespace :: string
  csh_InstallNamespace :: string
  csh_SecretManagement :: ClusterGatewaySecretManagement_h
  csh_Egress :: ClusterGatewayTrafficEgress_h

record ClusterGatewayConfigurationStatus_h =
  cth_LastObservedGeneration :: int
  cth_Conditions :: "addr option"

record 'm ClusterGatewayConfiguration_h =
  cfh_TypeMeta :: TypeMeta
  cfh_ObjectMeta :: 'm
  cfh_Spec :: ClusterGatewayConfigurationSpec_h
  cfh_Status :: ClusterGatewayConfigurationStatus_h

record 'm ClusterGatewayConfigurationList_h =
  clh_TypeMeta :: TypeMeta
  clh_ListMeta :: 'm
  clh_Items :: "addr option"

datatype 'm config_cell =
    AccountCell (the_Account: SecretManagementManagedServiceAccount)
  | ManagementCell (the_Management: ClusterGatewaySecretManagement_h)
  | ProxyCredentialCell (the_ProxyCredential: ClusterProxyCredential)
  | EgressProxyCell (the_EgressProxy: EgressClusterProxy)
  | EgressCell (the_Egress: ClusterGatewayTrafficEgress_h)
  | CfgSpecCell (the_CfgSpec: ClusterGatewayConfigurationSpec_h)
  | ConditionsCell (the_Conditions: "'m list")
  | CfgStatusCell (the_CfgStatus: ClusterGatewayConfigurationStatus_h)
  | ConfigurationCell (the_Configuration: "'m ClusterGatewayConfiguration_h")
  | ConfigurationsCell (the_Configurations: "'m ClusterGatewayConfiguration_h list")
  | ConfigurationListCell (the_ConfigurationList: "'m ClusterGatewayConfigurationList_h")

type_synonym 'm config_memory = "'m config_cell list"

definition get_Account where "get_Account = as_cell is_AccountCell the_Account"
definition get_Management where "get_Management = as_cell is_ManagementCell the_Management"
definition get_ProxyCredential where "get_ProxyCredential = as_cell is_ProxyCredentialCell the_ProxyCredential"
definition get_EgressProxy where "get_EgressProxy = as_cell is_EgressProxyCell the_EgressProxy"
definition get_Egress where "get_Egress = as_cell is_EgressCell the_Egress"
definition get_CfgSpec where "get_CfgSpec = as_cell is_CfgSpecCell the_CfgSpec"
definition get_Conditions where "get_Conditions = as_cell is_ConditionsCell the_Conditions"
definition get_CfgStatus where "get_CfgStatus = as_cell is_CfgStatusCell the_CfgStatus"
definition get_Configuration where "get_Configuration = as_cell is_ConfigurationCell the_Configuration"
definition get_Configurations where "get_Configurations = as_cell is_ConfigurationsCell the_Configurations"
definition get_ConfigurationList where "get_ConfigurationList = as_cell is_ConfigurationListCell the_ConfigurationList"

lemma get_config_cell [copier_laws]:
  "get_Account (AccountCell x0) = Some x0" "get_Management (ManagementCell x1) = Some x1" 
  "get_ProxyCredential (ProxyCredentialCell x2) = Some x2" "get_EgressProxy (EgressProxyCell x3) = Some x3" 
  "get_Egress (EgressCell x4) = Some x4" "get_CfgSpec (CfgSpecCell x5) = Some x5" 
  "get_Conditions (ConditionsCell x6) = Some x6" "get_CfgStatus (CfgStatusCell x7) = Some x7" 
  "get_Configuration (ConfigurationCell x8) = Some x8" "get_Configurations (ConfigurationsCell x9) = Some x9" 
  "get_ConfigurationList (ConfigurationListCell x10) = Some x10"
  by (simp_all add: as_cell_def get_Account_def get_Management_def get_ProxyCredential_def get_EgressProxy_def get_Egress_def get_CfgSpec_def 
    get_Conditions_def get_CfgStatus_def get_Configuration_def get_Configurations_def get_ConfigurationList_def)

record ('m, 'l) config_ops =
  com_view :: "'m config_memory \<Rightarrow> 'm \<Rightarrow> ObjectMeta option"
  com_reach :: "'m config_memory \<Rightarrow> 'm \<Rightarrow> addr set"
  com_DeepCopyInto :: "'m \<Rightarrow> 'm config_memory \<Rightarrow> 'm \<times> 'm config_memory"
  clm_view :: "'m config_memory \<Rightarrow> 'm \<Rightarrow> 'l option"
  clm_reach :: "'m config_memory \<Rightarrow> 'm \<Rightarrow> addr set"
  clm_DeepCopyInto :: "'m \<Rightarrow> 'm config_memory \<Rightarrow> 'm \<times> 'm config_memory"
  cond_view :: "'m config_memory \<Rightarrow> 'm \<Rightarrow> Condition option"
  cond_reach :: "'m config_memory \<Rightarrow> 'm \<Rightarrow> addr set"
  cond_DeepCopyInto :: "'m \<Rightarrow> 'm config_memory \<Rightarrow> 'm \<times> 'm config_memory"

definition config_laws :: "('m, 'l) config_ops \<Rightarrow> bool" where
  "config_laws ops \<longleftrightarrow> copier (com_view ops) (com_reach ops) no_addr (com_DeepCopyInto ops) \<and>
     copier (clm_view ops) (clm_reach ops) no_addr (clm_DeepCopyInto ops) \<and>
     copier (cond_view ops) (cond_reach ops) no_addr (cond_DeepCopyInto ops)"

lemma com_law: "config_laws ops \<Longrightarrow> copier (com_view ops) (com_reach ops) no_addr (com_DeepCopyInto ops)"
  and clm_law: "config_laws ops \<Longrightarrow> copier (clm_view ops) (clm_reach ops) no_addr (clm_DeepCopyInto ops)"
  and cond_law: "config_laws ops \<Longrightarrow> copier (cond_view ops) (cond_reach ops) no_addr (cond_DeepCopyInto ops)"
  by (simp_all add: config_laws_def)

section \<open>Secret management and egress\<close>

definition SecretManagementManagedServiceAccount_DeepCopyInto :: "SecretManagementManagedServiceAccount \<Rightarrow> 'm config_memory \<Rightarrow> SecretManagementManagedServiceAccount \<times> 'm config_memory" where
  "SecretManagementManagedServiceAccount_DeepCopyInto v h = (v, h)"

interpretation account: copier view_plain no_addr no_addr SecretManagementManagedServiceAccount_DeepCopyInto
  using plain.copier_axioms by (simp add: copy_plain_def [abs_def] SecretManagementManagedServiceAccount_DeepCopyInto_def [abs_def])

lemmas [copier_laws] = account.copier_axioms

definition SecretManagementManagedServiceAccount_DeepCopy :: "addr option \<Rightarrow> 'm config_memory \<Rightarrow> addr option \<times> 'm config_memory" where
  "SecretManagementManagedServiceAccount_DeepCopy = copy_ptr get_Account AccountCell SecretManagementManagedServiceAccount_DeepCopyInto"

text \<open>
  \<^verbatim>\<open>*out = new(T); **out = **in\<close> for the two pointer fields: their types have no pointers.
\<close>

abbreviation "account_view \<equiv> view_ptr get_Account view_plain"
abbreviation "account_addr \<equiv> reach_ptr get_Account no_addr"
abbreviation "new_account \<equiv> copy_ptr get_Account AccountCell copy_plain"

definition ClusterGatewaySecretManagement_DeepCopyInto :: "ClusterGatewaySecretManagement_h \<Rightarrow> 'm config_memory \<Rightarrow> ClusterGatewaySecretManagement_h \<times> 'm config_memory" where
  "ClusterGatewaySecretManagement_DeepCopyInto v h = (
     case new_account (smh_ManagedServiceAccount v) h of (x0, h) \<Rightarrow>
     (v\<lparr>smh_ManagedServiceAccount := x0\<rparr>, h))"

definition management_fields where "management_fields v = smh_ManagedServiceAccount v"

definition management_put where
  "management_put v = (\<lambda>x0. v\<lparr>smh_ManagedServiceAccount := x0\<rparr>)"

definition management_view where
  "management_view = view_struct management_fields (\<lambda>v x0. \<lparr>sm_Type = smh_Type v, sm_ManagedServiceAccount = x0\<rparr>)
     (account_view)"

definition management_reach where
  "management_reach = addr_struct management_fields
     (account_addr)"

lemma management_copy: "ClusterGatewaySecretManagement_DeepCopyInto = copy_struct management_fields management_put
    (new_account)"
  by (simp add: fun_eq_iff ClusterGatewaySecretManagement_DeepCopyInto_def management_fields_def management_put_def copy_struct_def copy_pair_def copy_plain_def split: prod.splits)

interpretation management: copier management_view management_reach no_addr ClusterGatewaySecretManagement_DeepCopyInto
  unfolding management_view_def management_reach_def management_copy
  by (rule struct_law, (rule copier_laws)+) (auto simp: deep_simps management_fields_def management_put_def)

lemmas [copier_laws] = management.copier_axioms

definition ClusterGatewaySecretManagement_DeepCopy :: "addr option \<Rightarrow> 'm config_memory \<Rightarrow> addr option \<times> 'm config_memory" where
  "ClusterGatewaySecretManagement_DeepCopy = copy_ptr get_Management ManagementCell ClusterGatewaySecretManagement_DeepCopyInto"

definition ClusterGatewayTrafficEgressClusterProxyCredential_DeepCopyInto :: "ClusterProxyCredential \<Rightarrow> 'm config_memory \<Rightarrow> ClusterProxyCredential \<times> 'm config_memory" where
  "ClusterGatewayTrafficEgressClusterProxyCredential_DeepCopyInto v h = (v, h)"

interpretation proxy_credential: copier view_plain no_addr no_addr ClusterGatewayTrafficEgressClusterProxyCredential_DeepCopyInto
  using plain.copier_axioms by (simp add: copy_plain_def [abs_def] ClusterGatewayTrafficEgressClusterProxyCredential_DeepCopyInto_def [abs_def])

lemmas [copier_laws] = proxy_credential.copier_axioms

definition ClusterGatewayTrafficEgressClusterProxyCredential_DeepCopy :: "addr option \<Rightarrow> 'm config_memory \<Rightarrow> addr option \<times> 'm config_memory" where
  "ClusterGatewayTrafficEgressClusterProxyCredential_DeepCopy = copy_ptr get_ProxyCredential ProxyCredentialCell ClusterGatewayTrafficEgressClusterProxyCredential_DeepCopyInto"

definition ClusterGatewayTrafficEgressClusterProxy_DeepCopyInto :: "EgressClusterProxy \<Rightarrow> 'm config_memory \<Rightarrow> EgressClusterProxy \<times> 'm config_memory" where
  "ClusterGatewayTrafficEgressClusterProxy_DeepCopyInto v h = (v, h)"

interpretation egress_proxy: copier view_plain no_addr no_addr ClusterGatewayTrafficEgressClusterProxy_DeepCopyInto
  using plain.copier_axioms by (simp add: copy_plain_def [abs_def] ClusterGatewayTrafficEgressClusterProxy_DeepCopyInto_def [abs_def])

lemmas [copier_laws] = egress_proxy.copier_axioms

definition ClusterGatewayTrafficEgressClusterProxy_DeepCopy :: "addr option \<Rightarrow> 'm config_memory \<Rightarrow> addr option \<times> 'm config_memory" where
  "ClusterGatewayTrafficEgressClusterProxy_DeepCopy = copy_ptr get_EgressProxy EgressProxyCell ClusterGatewayTrafficEgressClusterProxy_DeepCopyInto"

abbreviation "egress_proxy_view \<equiv> view_ptr get_EgressProxy view_plain"
abbreviation "egress_proxy_addr \<equiv> reach_ptr get_EgressProxy no_addr"
abbreviation "new_egress_proxy \<equiv> copy_ptr get_EgressProxy EgressProxyCell copy_plain"

definition ClusterGatewayTrafficEgress_DeepCopyInto :: "ClusterGatewayTrafficEgress_h \<Rightarrow> 'm config_memory \<Rightarrow> ClusterGatewayTrafficEgress_h \<times> 'm config_memory" where
  "ClusterGatewayTrafficEgress_DeepCopyInto v h = (
     case new_egress_proxy (egh_ClusterProxy v) h of (x0, h) \<Rightarrow>
     (v\<lparr>egh_ClusterProxy := x0\<rparr>, h))"

definition egress_fields where "egress_fields v = egh_ClusterProxy v"

definition egress_put where
  "egress_put v = (\<lambda>x0. v\<lparr>egh_ClusterProxy := x0\<rparr>)"

definition egress_view where
  "egress_view = view_struct egress_fields (\<lambda>v x0. \<lparr>eg_Type = egh_Type v, eg_ClusterProxy = x0\<rparr>)
     (egress_proxy_view)"

definition egress_reach where
  "egress_reach = addr_struct egress_fields
     (egress_proxy_addr)"

lemma egress_copy: "ClusterGatewayTrafficEgress_DeepCopyInto = copy_struct egress_fields egress_put
    (new_egress_proxy)"
  by (simp add: fun_eq_iff ClusterGatewayTrafficEgress_DeepCopyInto_def egress_fields_def egress_put_def copy_struct_def copy_pair_def copy_plain_def split: prod.splits)

interpretation egress: copier egress_view egress_reach no_addr ClusterGatewayTrafficEgress_DeepCopyInto
  unfolding egress_view_def egress_reach_def egress_copy
  by (rule struct_law, (rule copier_laws)+) (auto simp: deep_simps egress_fields_def egress_put_def)

lemmas [copier_laws] = egress.copier_axioms

definition ClusterGatewayTrafficEgress_DeepCopy :: "addr option \<Rightarrow> 'm config_memory \<Rightarrow> addr option \<times> 'm config_memory" where
  "ClusterGatewayTrafficEgress_DeepCopy = copy_ptr get_Egress EgressCell ClusterGatewayTrafficEgress_DeepCopyInto"

section \<open>Configurations\<close>

definition ClusterGatewayConfigurationSpec_DeepCopyInto :: "ClusterGatewayConfigurationSpec_h \<Rightarrow> 'm config_memory \<Rightarrow> ClusterGatewayConfigurationSpec_h \<times> 'm config_memory" where
  "ClusterGatewayConfigurationSpec_DeepCopyInto v h = (
     case ClusterGatewaySecretManagement_DeepCopyInto (csh_SecretManagement v) h of (x0, h) \<Rightarrow>
     case ClusterGatewayTrafficEgress_DeepCopyInto (csh_Egress v) h of (x1, h) \<Rightarrow>
     (v\<lparr>csh_SecretManagement := x0, csh_Egress := x1\<rparr>, h))"

definition cfg_spec_fields where "cfg_spec_fields v = (csh_SecretManagement v, csh_Egress v)"

definition cfg_spec_put where
  "cfg_spec_put v = (\<lambda>(x0, x1). v\<lparr>csh_SecretManagement := x0, csh_Egress := x1\<rparr>)"

definition cfg_spec_view where
  "cfg_spec_view = view_struct cfg_spec_fields (\<lambda>v (x0, x1). \<lparr>cgs_Image = csh_Image v, cgs_SecretNamespace = csh_SecretNamespace v,
     cgs_InstallNamespace = csh_InstallNamespace v, cgs_SecretManagement = x0, cgs_Egress = x1\<rparr>)
     (view_pair management_view egress_view)"

definition cfg_spec_reach where
  "cfg_spec_reach = addr_struct cfg_spec_fields
     (addr_pair management_reach egress_reach)"

lemma cfg_spec_copy: "ClusterGatewayConfigurationSpec_DeepCopyInto = copy_struct cfg_spec_fields cfg_spec_put
    (copy_pair ClusterGatewaySecretManagement_DeepCopyInto ClusterGatewayTrafficEgress_DeepCopyInto)"
  by (simp add: fun_eq_iff ClusterGatewayConfigurationSpec_DeepCopyInto_def cfg_spec_fields_def cfg_spec_put_def copy_struct_def copy_pair_def copy_plain_def split: prod.splits)

interpretation cfg_spec: copier cfg_spec_view cfg_spec_reach no_addr ClusterGatewayConfigurationSpec_DeepCopyInto
  unfolding cfg_spec_view_def cfg_spec_reach_def cfg_spec_copy
  by (rule struct_law, (rule copier_laws)+) (auto simp: deep_simps cfg_spec_fields_def cfg_spec_put_def)

lemmas [copier_laws] = cfg_spec.copier_axioms

definition ClusterGatewayConfigurationSpec_DeepCopy :: "addr option \<Rightarrow> 'm config_memory \<Rightarrow> addr option \<times> 'm config_memory" where
  "ClusterGatewayConfigurationSpec_DeepCopy = copy_ptr get_CfgSpec CfgSpecCell ClusterGatewayConfigurationSpec_DeepCopyInto"

definition ClusterGatewayConfigurationStatus_DeepCopyInto :: "('m, 'l) config_ops \<Rightarrow> ClusterGatewayConfigurationStatus_h \<Rightarrow> 'm config_memory \<Rightarrow> ClusterGatewayConfigurationStatus_h \<times> 'm config_memory" where
  "ClusterGatewayConfigurationStatus_DeepCopyInto ops v h = (
     case copy_slice get_Conditions ConditionsCell (cond_DeepCopyInto ops) (cth_Conditions v) h of (x0, h) \<Rightarrow>
     (v\<lparr>cth_Conditions := x0\<rparr>, h))"

definition cfg_status_fields where "cfg_status_fields v = cth_Conditions v"

definition cfg_status_put where
  "cfg_status_put v = (\<lambda>x0. v\<lparr>cth_Conditions := x0\<rparr>)"

definition cfg_status_view where
  "cfg_status_view ops = view_struct cfg_status_fields (\<lambda>v x0. \<lparr>cgst_LastObservedGeneration = cth_LastObservedGeneration v, cgst_Conditions = items x0\<rparr>)
     (view_slice get_Conditions (cond_view ops))"

definition cfg_status_reach where
  "cfg_status_reach ops = addr_struct cfg_status_fields
     (reach_ptr get_Conditions (addr_list (cond_reach ops)))"

lemma cfg_status_copy: "ClusterGatewayConfigurationStatus_DeepCopyInto ops = copy_struct cfg_status_fields cfg_status_put
    (copy_slice get_Conditions ConditionsCell (cond_DeepCopyInto ops))"
  by (simp add: fun_eq_iff ClusterGatewayConfigurationStatus_DeepCopyInto_def cfg_status_fields_def cfg_status_put_def copy_struct_def copy_pair_def copy_plain_def split: prod.splits)

lemma cfg_status_law:
  assumes "config_laws ops" shows "copier (cfg_status_view ops) (cfg_status_reach ops) no_addr (ClusterGatewayConfigurationStatus_DeepCopyInto ops)"
  unfolding cfg_status_view_def cfg_status_reach_def cfg_status_copy
  by (rule struct_law, (rule copier_laws com_law [OF assms] clm_law [OF assms] cond_law [OF assms])+) (auto simp: deep_simps cfg_status_fields_def cfg_status_put_def)

definition ClusterGatewayConfigurationStatus_DeepCopy :: "('m, 'l) config_ops \<Rightarrow> addr option \<Rightarrow> 'm config_memory \<Rightarrow> addr option \<times> 'm config_memory" where
  "ClusterGatewayConfigurationStatus_DeepCopy ops = copy_ptr get_CfgStatus CfgStatusCell (ClusterGatewayConfigurationStatus_DeepCopyInto ops)"

definition ClusterGatewayConfiguration_DeepCopyInto :: "('m, 'l) config_ops \<Rightarrow> 'm ClusterGatewayConfiguration_h \<Rightarrow> 'm config_memory \<Rightarrow> 'm ClusterGatewayConfiguration_h \<times> 'm config_memory" where
  "ClusterGatewayConfiguration_DeepCopyInto ops v h = (
     case com_DeepCopyInto ops (cfh_ObjectMeta v) h of (x0, h) \<Rightarrow>
     case ClusterGatewayConfigurationSpec_DeepCopyInto (cfh_Spec v) h of (x1, h) \<Rightarrow>
     case ClusterGatewayConfigurationStatus_DeepCopyInto ops (cfh_Status v) h of (x2, h) \<Rightarrow>
     (v\<lparr>cfh_ObjectMeta := x0, cfh_Spec := x1, cfh_Status := x2\<rparr>, h))"

definition configuration_fields where "configuration_fields v = (cfh_ObjectMeta v, cfh_Spec v, cfh_Status v)"

definition configuration_put where
  "configuration_put v = (\<lambda>(x0, x1, x2). v\<lparr>cfh_ObjectMeta := x0, cfh_Spec := x1, cfh_Status := x2\<rparr>)"

definition configuration_view where
  "configuration_view ops = view_struct configuration_fields (\<lambda>v (x0, x1, x2). (cfh_TypeMeta v, \<lparr>cfg_Meta = x0, cfg_Spec = x1, cfg_Status = x2\<rparr>))
     (view_pair (com_view ops) (view_pair cfg_spec_view (cfg_status_view ops)))"

definition configuration_reach where
  "configuration_reach ops = addr_struct configuration_fields
     (addr_pair (com_reach ops) (addr_pair cfg_spec_reach (cfg_status_reach ops)))"

lemma configuration_copy: "ClusterGatewayConfiguration_DeepCopyInto ops = copy_struct configuration_fields configuration_put
    (copy_pair (com_DeepCopyInto ops) (copy_pair ClusterGatewayConfigurationSpec_DeepCopyInto (ClusterGatewayConfigurationStatus_DeepCopyInto ops)))"
  by (simp add: fun_eq_iff ClusterGatewayConfiguration_DeepCopyInto_def configuration_fields_def configuration_put_def copy_struct_def copy_pair_def copy_plain_def split: prod.splits)

lemma configuration_law:
  assumes "config_laws ops" shows "copier (configuration_view ops) (configuration_reach ops) no_addr (ClusterGatewayConfiguration_DeepCopyInto ops)"
  unfolding configuration_view_def configuration_reach_def configuration_copy
  by (rule struct_law, (rule copier_laws com_law [OF assms] clm_law [OF assms] cond_law [OF assms] cfg_status_law [OF assms])+) (auto simp: deep_simps configuration_fields_def configuration_put_def)

definition ClusterGatewayConfiguration_DeepCopy :: "('m, 'l) config_ops \<Rightarrow> addr option \<Rightarrow> 'm config_memory \<Rightarrow> addr option \<times> 'm config_memory" where
  "ClusterGatewayConfiguration_DeepCopy ops = copy_ptr get_Configuration ConfigurationCell (ClusterGatewayConfiguration_DeepCopyInto ops)"

definition ClusterGatewayConfiguration_DeepCopyObject :: "('m, 'l) config_ops \<Rightarrow> addr option \<Rightarrow> 'm config_memory \<Rightarrow> addr option \<times> 'm config_memory" where
  "ClusterGatewayConfiguration_DeepCopyObject ops p h = (case ClusterGatewayConfiguration_DeepCopy ops p h of (Some c, h') \<Rightarrow> (Some c, h') | (None, h') \<Rightarrow> (None, h'))"

definition ClusterGatewayConfigurationList_DeepCopyInto :: "('m, 'l) config_ops \<Rightarrow> 'm ClusterGatewayConfigurationList_h \<Rightarrow> 'm config_memory \<Rightarrow> 'm ClusterGatewayConfigurationList_h \<times> 'm config_memory" where
  "ClusterGatewayConfigurationList_DeepCopyInto ops v h = (
     case clm_DeepCopyInto ops (clh_ListMeta v) h of (x0, h) \<Rightarrow>
     case copy_slice get_Configurations ConfigurationsCell (ClusterGatewayConfiguration_DeepCopyInto ops) (clh_Items v) h of (x1, h) \<Rightarrow>
     (v\<lparr>clh_ListMeta := x0, clh_Items := x1\<rparr>, h))"

definition configuration_list_fields where "configuration_list_fields v = (clh_ListMeta v, clh_Items v)"

definition configuration_list_put where
  "configuration_list_put v = (\<lambda>(x0, x1). v\<lparr>clh_ListMeta := x0, clh_Items := x1\<rparr>)"

definition configuration_list_view where
  "configuration_list_view ops = view_struct configuration_list_fields (\<lambda>v (x0, x1). (clh_TypeMeta v, x0, map fst (items x1), \<lparr>cfgl_Items = map snd (items x1)\<rparr>))
     (view_pair (clm_view ops) (view_slice get_Configurations (configuration_view ops)))"

definition configuration_list_reach where
  "configuration_list_reach ops = addr_struct configuration_list_fields
     (addr_pair (clm_reach ops) (reach_ptr get_Configurations (addr_list (configuration_reach ops))))"

lemma configuration_list_copy: "ClusterGatewayConfigurationList_DeepCopyInto ops = copy_struct configuration_list_fields configuration_list_put
    (copy_pair (clm_DeepCopyInto ops) (copy_slice get_Configurations ConfigurationsCell (ClusterGatewayConfiguration_DeepCopyInto ops)))"
  by (simp add: fun_eq_iff ClusterGatewayConfigurationList_DeepCopyInto_def configuration_list_fields_def configuration_list_put_def copy_struct_def copy_pair_def copy_plain_def split: prod.splits)

lemma configuration_list_law:
  assumes "config_laws ops" shows "copier (configuration_list_view ops) (configuration_list_reach ops) no_addr (ClusterGatewayConfigurationList_DeepCopyInto ops)"
  unfolding configuration_list_view_def configuration_list_reach_def configuration_list_copy
  by (rule struct_law, (rule copier_laws com_law [OF assms] clm_law [OF assms] cond_law [OF assms] cfg_status_law [OF assms] configuration_law [OF assms])+) (auto simp: deep_simps configuration_list_fields_def configuration_list_put_def)

definition ClusterGatewayConfigurationList_DeepCopy :: "('m, 'l) config_ops \<Rightarrow> addr option \<Rightarrow> 'm config_memory \<Rightarrow> addr option \<times> 'm config_memory" where
  "ClusterGatewayConfigurationList_DeepCopy ops = copy_ptr get_ConfigurationList ConfigurationListCell (ClusterGatewayConfigurationList_DeepCopyInto ops)"

definition ClusterGatewayConfigurationList_DeepCopyObject :: "('m, 'l) config_ops \<Rightarrow> addr option \<Rightarrow> 'm config_memory \<Rightarrow> addr option \<times> 'm config_memory" where
  "ClusterGatewayConfigurationList_DeepCopyObject ops p h = (case ClusterGatewayConfigurationList_DeepCopy ops p h of (Some c, h') \<Rightarrow> (Some c, h') | (None, h') \<Rightarrow> (None, h'))"

lemma configuration_ptr_law:
  assumes "config_laws ops"
  shows "copier (view_ptr get_Configuration (configuration_view ops)) (reach_ptr get_Configuration (configuration_reach ops)) no_addr
    (ClusterGatewayConfiguration_DeepCopy ops)"
  using copier_ptr [OF configuration_law [OF assms] get_config_cell(9)] by (simp add: deep_simps ClusterGatewayConfiguration_DeepCopy_def)

text \<open>
  C38. Copying a configuration is truly deep: the copy is a new object with the same value, it owns no cell of the old memory, and
  afterwards neither of the two notices anything that is written into the memory of the other.
\<close>

theorem ClusterGatewayConfiguration_DeepCopy_deep:
  assumes laws: "config_laws ops" and v: "view_ptr get_Configuration (configuration_view ops) h (Some a) = Some (Some cfg)"
    and copied: "ClusterGatewayConfiguration_DeepCopy ops (Some a) h = (p', h')"
  defines "owns \<equiv> reach_ptr get_Configuration (configuration_reach ops) h'"
  shows "owns p' \<inter> {..<length h} = {} \<and> prefix h h' \<and>
    (\<forall>h''. (\<forall>x. x \<notin> owns (Some a) \<longrightarrow> read h'' x = read h' x) \<longrightarrow>
       view_ptr get_Configuration (configuration_view ops) h'' p' = Some (Some cfg)) \<and>
    (\<forall>h''. (\<forall>x. x \<notin> owns p' \<longrightarrow> read h'' x = read h' x) \<longrightarrow>
       view_ptr get_Configuration (configuration_view ops) h'' (Some a) = Some (Some cfg))"
proof -
  note law = configuration_ptr_law [OF laws]
  have same: "reach_ptr get_Configuration (configuration_reach ops) h (Some a) = owns (Some a)"
    using copier.later [OF law v copier.copy_grows [OF law copied]] by (simp add: owns_def)
  have "view_ptr get_Configuration (configuration_view ops) h'' p' = Some (Some cfg)"
    if "\<forall>x. x \<notin> owns (Some a) \<longrightarrow> read h'' x = read h' x" for h''
    by (rule copier.original_writes_invisible [OF law v copied]) (use that same in \<open>simp add: no_addr_def\<close>)
  moreover have "view_ptr get_Configuration (configuration_view ops) h'' (Some a) = Some (Some cfg)"
    if "\<forall>x. x \<notin> owns p' \<longrightarrow> read h'' x = read h' x" for h''
    by (rule copier.copy_writes_invisible [OF law v copied]) (use that in \<open>simp add: no_addr_def owns_def\<close>)
  ultimately show ?thesis
    using copier.copy_fresh [OF law v copied] copier.copy_grows [OF law copied] by (simp add: owns_def no_addr_def)
qed

definition demo_config_ops :: "(ObjectMeta, ObjectMeta) config_ops" where
  "demo_config_ops = \<lparr>com_view = view_plain, com_reach = no_addr, com_DeepCopyInto = copy_plain,
     clm_view = view_plain, clm_reach = no_addr, clm_DeepCopyInto = copy_plain,
     cond_view = (\<lambda>h m. Some \<lparr>cond_Type = meta_Name m, cond_Status = '''', cond_Reason = '''', cond_Message = ''''\<rparr>), cond_reach = no_addr,
     cond_DeepCopyInto = copy_plain\<rparr>"

definition demo_config_memory :: "ObjectMeta config_memory" where
  "demo_config_memory = [AccountCell \<lparr>smm_Name = ''cluster-gateway''\<rparr>, ConfigurationCell \<lparr>cfh_TypeMeta = no_TypeMeta, cfh_ObjectMeta = empty_ObjectMeta,
     cfh_Spec = \<lparr>csh_Image = ''gw:1'', csh_SecretNamespace = ''s'', csh_InstallNamespace = ''i'',
       csh_SecretManagement = \<lparr>smh_Type = SecretManagementTypeManagedServiceAccount, smh_ManagedServiceAccount = Some 0\<rparr>,
       csh_Egress = \<lparr>egh_Type = EgressTypeDirect, egh_ClusterProxy = None\<rparr>\<rparr>,
     cfh_Status = \<lparr>cth_LastObservedGeneration = 0, cth_Conditions = None\<rparr>\<rparr>]"

lemma demo_config_laws: "config_laws demo_config_ops"
proof -
  have "copier (cond_view demo_config_ops) no_addr no_addr copy_plain"
    by unfold_locales (auto simp: demo_config_ops_def no_addr_def copy_plain_def)
  then show ?thesis by (simp add: config_laws_def demo_config_ops_def plain.copier_axioms)
qed

lemma demo_config_view: "\<exists>cfg. view_ptr get_Configuration (configuration_view demo_config_ops) demo_config_memory (Some 1) = Some (Some cfg)"
  by (simp add: demo_config_memory_def deref_as_def read_def get_Configuration_def get_Account_def as_cell_def view_ptr_def view_slice_def
      configuration_view_def cfg_spec_view_def cfg_status_view_def management_view_def egress_view_def view_struct_def configuration_fields_def
      cfg_spec_fields_def cfg_status_fields_def management_fields_def egress_fields_def view_pair_def view_plain_def demo_config_ops_def)

theorem ClusterGatewayConfiguration_DeepCopy_deep_witness:
  "\<exists>p' h'. ClusterGatewayConfiguration_DeepCopy demo_config_ops (Some 1) demo_config_memory = (p', h') \<and>
     reach_ptr get_Configuration (configuration_reach demo_config_ops) h' p' \<inter> {..<2} = {}"
proof -
  obtain cfg where cfg: "view_ptr get_Configuration (configuration_view demo_config_ops) demo_config_memory (Some 1) = Some (Some cfg)"
    using demo_config_view by blast
  obtain p' h' where copied: "ClusterGatewayConfiguration_DeepCopy demo_config_ops (Some 1) demo_config_memory = (p', h')" by (rule prod.exhaust)
  have "length demo_config_memory = 2" by (simp add: demo_config_memory_def)
  then show ?thesis using ClusterGatewayConfiguration_DeepCopy_deep [OF demo_config_laws cfg copied] copied by auto
qed

end
