(* ===== verification/OpenAPI_Schema.thy ===== *)
theory OpenAPI_Schema
  imports GW_Prelude
begin

text \<open>
  JSON values and OpenAPI schemas. \<open>Schema\<close> has the fields of \<^verbatim>\<open>spec.SchemaProps\<close> the generated definitions set, without the
  documentation text, \<open>typed\<close>, \<open>refd\<close> and the others are the shapes in which they occur there. The type variable is what the reference
  callback of the caller returns. The calls into apimachinery and kube-openapi are the record \<open>openapi_ops\<close>. \<open>conforms\<close> says
  what it means for a JSON value to be valid, read strictly: an object that lists its properties has no others.
\<close>

section \<open>JSON\<close>

datatype json = JNull | JBool bool | JInt int | JStr string | JArr "json list" | JObj "(string \<times> json) list"

section \<open>Schemas\<close>

datatype 'r Schema = Schema (s_Type: "string list") (s_Format: string) (s_Default: "json option") (s_Ref: "'r option")
  (s_Properties: "(string \<times> 'r Schema) list") (s_Required: "string list") (s_Items: "'r Schema option")
  (s_AdditionalProperties: "'r Schema option") (s_OneOf: "'r Schema list") (s_Extensions: "(string \<times> json) list")

record 'r OpenAPIDefinition =
  def_Schema :: "'r Schema"
  def_Dependencies :: "string list"

record 'r openapi_ops =
  EmbedOpenAPIDefinitionIntoV2Extension :: "'r OpenAPIDefinition \<Rightarrow> 'r OpenAPIDefinition \<Rightarrow> 'r OpenAPIDefinition"
  GenerateOpenAPIV3OneOfSchema :: "string list \<Rightarrow> 'r Schema list"
  Quantity_oneOf_types :: "string list"
  Quantity_type :: "string list"
  Quantity_format :: string
  Duration_type :: "string list"
  Duration_format :: string
  MicroTime_type :: "string list"
  MicroTime_format :: string
  Time_type :: "string list"
  Time_format :: string

definition typed :: "string list \<Rightarrow> string \<Rightarrow> json option \<Rightarrow> 'r Schema" where
  "typed t f d = Schema t f d None [] [] None None [] []"

definition refd :: "json option \<Rightarrow> 'r \<Rightarrow> 'r Schema" where
  "refd d r = Schema [] '''' d (Some r) [] [] None None [] []"

definition array_of :: "'r Schema \<Rightarrow> 'r Schema" where
  "array_of s = Schema [''array''] '''' None None [] [] (Some s) None [] []"

definition map_schema :: "'r Schema \<Rightarrow> 'r Schema" where
  "map_schema s = Schema [''object''] '''' None None [] [] None (Some s) [] []"

definition object_of :: "(string \<times> 'r Schema) list \<Rightarrow> string list \<Rightarrow> 'r Schema" where
  "object_of ps req = Schema [''object''] '''' None None ps req None None [] []"

definition one_of :: "'r Schema list \<Rightarrow> string \<Rightarrow> 'r Schema" where
  "one_of ss f = Schema [] f None None [] [] None None ss []"

fun with_extensions :: "(string \<times> json) list \<Rightarrow> 'r Schema \<Rightarrow> 'r Schema" where
  "with_extensions es (Schema t f d r ps req its add one _) = Schema t f d r ps req its add one es"

lemmas schema_shapes = typed_def refd_def array_of_def map_schema_def object_of_def one_of_def

section \<open>Names of definitions\<close>

text \<open>The name of a type is its package path and its own name.\<close>

definition cluster_v1alpha1 :: "string \<Rightarrow> string" where "cluster_v1alpha1 n = ''github.com/oam-dev/cluster-gateway/pkg/apis/cluster/v1alpha1.'' @ n"
definition proxy_v1alpha1 :: "string \<Rightarrow> string" where "proxy_v1alpha1 n = ''github.com/oam-dev/cluster-gateway/pkg/apis/proxy/v1alpha1.'' @ n"
definition meta_v1 :: "string \<Rightarrow> string" where "meta_v1 n = ''k8s.io/apimachinery/pkg/apis/meta/v1.'' @ n"
definition api_resource :: "string \<Rightarrow> string" where "api_resource n = ''k8s.io/apimachinery/pkg/api/resource.'' @ n"
definition runtime_pkg :: "string \<Rightarrow> string" where "runtime_pkg n = ''k8s.io/apimachinery/pkg/runtime.'' @ n"
definition version_pkg :: "string \<Rightarrow> string" where "version_pkg n = ''k8s.io/apimachinery/pkg/version.'' @ n"
definition labels_pkg :: "string \<Rightarrow> string" where "labels_pkg n = ''k8s.io/apimachinery/pkg/labels.'' @ n"
definition net_http :: "string \<Rightarrow> string" where "net_http n = ''net/http.'' @ n"
definition client_pkg :: "string \<Rightarrow> string" where "client_pkg n = ''sigs.k8s.io/controller-runtime/pkg/client.'' @ n"

lemmas package_defs = cluster_v1alpha1_def proxy_v1alpha1_def meta_v1_def api_resource_def runtime_pkg_def version_pkg_def labels_pkg_def
  net_http_def client_pkg_def

named_theorems type_names

lemma same_package [type_names]:
  "cluster_v1alpha1 m = cluster_v1alpha1 n \<longleftrightarrow> m = n" "proxy_v1alpha1 m = proxy_v1alpha1 n \<longleftrightarrow> m = n" "meta_v1 m = meta_v1 n \<longleftrightarrow> m = n"
  "api_resource m = api_resource n \<longleftrightarrow> m = n" "runtime_pkg m = runtime_pkg n \<longleftrightarrow> m = n" "version_pkg m = version_pkg n \<longleftrightarrow> m = n"
  "labels_pkg m = labels_pkg n \<longleftrightarrow> m = n" "net_http m = net_http n \<longleftrightarrow> m = n" "client_pkg m = client_pkg n \<longleftrightarrow> m = n"
  by (simp_all only: package_defs same_append_eq)

lemma own_packages [type_names]:
  "cluster_v1alpha1 m \<noteq> proxy_v1alpha1 n" "cluster_v1alpha1 m \<noteq> meta_v1 n" "cluster_v1alpha1 m \<noteq> api_resource n"
  "cluster_v1alpha1 m \<noteq> runtime_pkg n" "cluster_v1alpha1 m \<noteq> version_pkg n" "cluster_v1alpha1 m \<noteq> labels_pkg n"
  "cluster_v1alpha1 m \<noteq> net_http n" "cluster_v1alpha1 m \<noteq> client_pkg n"
  "proxy_v1alpha1 m \<noteq> meta_v1 n" "proxy_v1alpha1 m \<noteq> api_resource n"
  "proxy_v1alpha1 m \<noteq> runtime_pkg n" "proxy_v1alpha1 m \<noteq> version_pkg n" "proxy_v1alpha1 m \<noteq> labels_pkg n"
  "proxy_v1alpha1 m \<noteq> net_http n" "proxy_v1alpha1 m \<noteq> client_pkg n"
  by (simp_all add: package_defs)

lemma library_packages [type_names]:
  "meta_v1 m \<noteq> api_resource n" "meta_v1 m \<noteq> runtime_pkg n" "meta_v1 m \<noteq> version_pkg n" "meta_v1 m \<noteq> labels_pkg n"
  "meta_v1 m \<noteq> net_http n" "meta_v1 m \<noteq> client_pkg n"
  "api_resource m \<noteq> runtime_pkg n" "api_resource m \<noteq> version_pkg n" "api_resource m \<noteq> labels_pkg n"
  "api_resource m \<noteq> net_http n" "api_resource m \<noteq> client_pkg n"
  "runtime_pkg m \<noteq> version_pkg n" "runtime_pkg m \<noteq> labels_pkg n" "runtime_pkg m \<noteq> net_http n" "runtime_pkg m \<noteq> client_pkg n"
  "version_pkg m \<noteq> labels_pkg n" "version_pkg m \<noteq> net_http n" "version_pkg m \<noteq> client_pkg n"
  "labels_pkg m \<noteq> net_http n" "labels_pkg m \<noteq> client_pkg n" "net_http m \<noteq> client_pkg n"
  by (simp_all add: package_defs)

lemmas [type_names] = own_packages [symmetric] library_packages [symmetric]

section \<open>Valid values\<close>

text \<open>The range of the integer formats.\<close>

definition in_format :: "string \<Rightarrow> int \<Rightarrow> bool" where
  "in_format f i \<longleftrightarrow> (f = ''int32'' \<longrightarrow> - (2 ^ 31) \<le> i \<and> i < 2 ^ 31) \<and> (f = ''int64'' \<longrightarrow> - (2 ^ 63) \<le> i \<and> i < 2 ^ 63)"

inductive conforms :: "(string \<rightharpoonup> 'r OpenAPIDefinition) \<Rightarrow> ('r \<Rightarrow> string option) \<Rightarrow> 'r Schema \<Rightarrow> json \<Rightarrow> bool"
  for defs :: "string \<rightharpoonup> 'r OpenAPIDefinition" and target :: "'r \<Rightarrow> string option" where
  by_ref: "s_Ref s = Some r \<Longrightarrow> target r = Some n \<Longrightarrow> defs n = Some d \<Longrightarrow> conforms defs target (def_Schema d) j \<Longrightarrow> conforms defs target s j"
| a_string: "s_Ref s = None \<Longrightarrow> s_Type s = [''string''] \<Longrightarrow> conforms defs target s (JStr x)"
| an_integer: "s_Ref s = None \<Longrightarrow> s_Type s = [''integer''] \<Longrightarrow> in_format (s_Format s) i \<Longrightarrow> conforms defs target s (JInt i)"
| a_boolean: "s_Ref s = None \<Longrightarrow> s_Type s = [''boolean''] \<Longrightarrow> conforms defs target s (JBool b)"
| an_array: "s_Ref s = None \<Longrightarrow> s_Type s = [''array''] \<Longrightarrow> s_Items s = Some it \<Longrightarrow> \<forall>x\<in>set xs. conforms defs target it x \<Longrightarrow>
    conforms defs target s (JArr xs)"
| a_map: "s_Ref s = None \<Longrightarrow> s_Type s = [''object''] \<Longrightarrow> s_AdditionalProperties s = Some add \<Longrightarrow> distinct (map fst kvs) \<Longrightarrow>
    \<forall>(k, x)\<in>set kvs. conforms defs target add x \<Longrightarrow> conforms defs target s (JObj kvs)"
| an_object: "s_Ref s = None \<Longrightarrow> s_Type s = [''object''] \<Longrightarrow> s_AdditionalProperties s = None \<Longrightarrow> distinct (map fst kvs) \<Longrightarrow>
    set (s_Required s) \<subseteq> fst ` set kvs \<Longrightarrow>
    \<forall>(k, x)\<in>set kvs. s_Properties s \<noteq> [] \<longrightarrow> (\<exists>p. map_of (s_Properties s) k = Some p \<and> conforms defs target p x) \<Longrightarrow>
    conforms defs target s (JObj kvs)"

lemma conforms_typed:
  "conforms defs target (typed [''string''] f d) (JStr x)" "conforms defs target (typed [''boolean''] f d) (JBool b)"
  "in_format f i \<Longrightarrow> conforms defs target (typed [''integer''] f d) (JInt i)"
  by (simp_all add: typed_def a_string a_boolean an_integer)

lemma conforms_refd: "target r = Some n \<Longrightarrow> defs n = Some df \<Longrightarrow> conforms defs target (def_Schema df) j \<Longrightarrow> conforms defs target (refd d r) j"
  by (rule by_ref [of _ r]) (simp_all add: refd_def)

lemma conforms_array_of: "(\<And>x. x \<in> set xs \<Longrightarrow> conforms defs target it x) \<Longrightarrow> conforms defs target (array_of it) (JArr xs)"
  by (rule an_array [of _ it]) (auto simp: array_of_def)

lemma conforms_object_of:
  assumes "distinct (map fst kvs)" "list_all (\<lambda>k. k \<in> fst ` set kvs) req" "ps \<noteq> []"
    "list_all (\<lambda>(k, x). case map_of ps k of None \<Rightarrow> False | Some p \<Rightarrow> conforms defs target p x) kvs"
  shows "conforms defs target (object_of ps req) (JObj kvs)"
  by (rule an_object) (use assms in \<open>auto simp: object_of_def list_all_iff split: option.splits\<close>)

text \<open>Nothing that a reference points to is null.\<close>

lemma null_invalid: "\<not> conforms defs target s JNull"
proof
  assume "conforms defs target s JNull"
  then show False by (induction s "JNull :: json" rule: conforms.induct) simp
qed

end
