(* ===== verification/OpenAPI_Cluster.thy ===== *)
theory OpenAPI_Cluster
  imports OpenAPI_Schema
begin

text \<open>
  The generated definitions of the types of this repository (\<^verbatim>\<open>pkg/apis/generated/zz_generated.openapi.go\<close>, first part).
\<close>

definition schema_pkg_apis_cluster_v1alpha1_ClientIdentityExchangeRule :: "(string \<Rightarrow> 'r) \<Rightarrow> 'r OpenAPIDefinition" where
  "schema_pkg_apis_cluster_v1alpha1_ClientIdentityExchangeRule ref =
     \<lparr>def_Schema = object_of [(''name'', typed [''string''] '''' (Some (JStr ''''))),
           (''type'', typed [''string''] '''' (Some (JStr ''''))),
           (''source'', refd None (ref (cluster_v1alpha1 ''IdentityExchangerSource''))),
           (''target'', refd None (ref (cluster_v1alpha1 ''IdentityExchangerTarget''))),
           (''url'', typed [''string''] '''' None)]
          [''name'', ''type'', ''source''],
      def_Dependencies = [cluster_v1alpha1 ''IdentityExchangerSource'', cluster_v1alpha1 ''IdentityExchangerTarget'']\<rparr>"

definition schema_pkg_apis_cluster_v1alpha1_ClientIdentityExchanger :: "(string \<Rightarrow> 'r) \<Rightarrow> 'r OpenAPIDefinition" where
  "schema_pkg_apis_cluster_v1alpha1_ClientIdentityExchanger ref =
     \<lparr>def_Schema = object_of [(''rules'', array_of (refd (Some (JObj [])) (ref (cluster_v1alpha1 ''ClientIdentityExchangeRule''))))]
          [],
      def_Dependencies = [cluster_v1alpha1 ''ClientIdentityExchangeRule'']\<rparr>"

definition schema_pkg_apis_cluster_v1alpha1_ClusterAccess :: "(string \<Rightarrow> 'r) \<Rightarrow> 'r OpenAPIDefinition" where
  "schema_pkg_apis_cluster_v1alpha1_ClusterAccess ref =
     \<lparr>def_Schema = object_of [(''endpoint'', refd None (ref (cluster_v1alpha1 ''ClusterEndpoint''))),
           (''credential'', refd None (ref (cluster_v1alpha1 ''ClusterAccessCredential'')))]
          [''endpoint''],
      def_Dependencies = [cluster_v1alpha1 ''ClusterAccessCredential'', cluster_v1alpha1 ''ClusterEndpoint'']\<rparr>"

definition schema_pkg_apis_cluster_v1alpha1_ClusterAccessCredential :: "(string \<Rightarrow> 'r) \<Rightarrow> 'r OpenAPIDefinition" where
  "schema_pkg_apis_cluster_v1alpha1_ClusterAccessCredential ref =
     \<lparr>def_Schema = object_of [(''type'', typed [''string''] '''' (Some (JStr ''''))),
           (''serviceAccountToken'', typed [''string''] '''' None),
           (''x509'', refd None (ref (cluster_v1alpha1 ''X509'')))]
          [''type''],
      def_Dependencies = [cluster_v1alpha1 ''X509'']\<rparr>"

definition schema_pkg_apis_cluster_v1alpha1_ClusterEndpoint :: "(string \<Rightarrow> 'r) \<Rightarrow> 'r OpenAPIDefinition" where
  "schema_pkg_apis_cluster_v1alpha1_ClusterEndpoint ref =
     \<lparr>def_Schema = object_of [(''type'', typed [''string''] '''' (Some (JStr ''''))),
           (''const'', refd None (ref (cluster_v1alpha1 ''ClusterEndpointConst'')))]
          [''type''],
      def_Dependencies = [cluster_v1alpha1 ''ClusterEndpointConst'']\<rparr>"

definition schema_pkg_apis_cluster_v1alpha1_ClusterEndpointConst :: "(string \<Rightarrow> 'r) \<Rightarrow> 'r OpenAPIDefinition" where
  "schema_pkg_apis_cluster_v1alpha1_ClusterEndpointConst ref =
     \<lparr>def_Schema = object_of [(''address'', typed [''string''] '''' (Some (JStr ''''))),
           (''caBundle'', typed [''string''] ''byte'' None),
           (''insecure'', typed [''boolean''] '''' None),
           (''proxy-url'', typed [''string''] '''' None)]
          [''address''],
      def_Dependencies = []\<rparr>"

definition schema_pkg_apis_cluster_v1alpha1_ClusterGateway :: "(string \<Rightarrow> 'r) \<Rightarrow> 'r OpenAPIDefinition" where
  "schema_pkg_apis_cluster_v1alpha1_ClusterGateway ref =
     \<lparr>def_Schema = object_of [(''kind'', typed [''string''] '''' None),
           (''apiVersion'', typed [''string''] '''' None),
           (''metadata'', refd (Some (JObj [])) (ref (meta_v1 ''ObjectMeta''))),
           (''spec'', refd (Some (JObj [])) (ref (cluster_v1alpha1 ''ClusterGatewaySpec''))),
           (''status'', refd (Some (JObj [])) (ref (cluster_v1alpha1 ''ClusterGatewayStatus'')))]
          [],
      def_Dependencies = [cluster_v1alpha1 ''ClusterGatewaySpec'', cluster_v1alpha1 ''ClusterGatewayStatus'', meta_v1 ''ObjectMeta'']\<rparr>"

definition schema_pkg_apis_cluster_v1alpha1_ClusterGatewayHealth :: "(string \<Rightarrow> 'r) \<Rightarrow> 'r OpenAPIDefinition" where
  "schema_pkg_apis_cluster_v1alpha1_ClusterGatewayHealth ref =
     \<lparr>def_Schema = object_of [(''kind'', typed [''string''] '''' None),
           (''apiVersion'', typed [''string''] '''' None),
           (''metadata'', refd (Some (JObj [])) (ref (meta_v1 ''ObjectMeta''))),
           (''spec'', refd (Some (JObj [])) (ref (cluster_v1alpha1 ''ClusterGatewaySpec''))),
           (''status'', refd (Some (JObj [])) (ref (cluster_v1alpha1 ''ClusterGatewayStatus'')))]
          [],
      def_Dependencies = [cluster_v1alpha1 ''ClusterGatewaySpec'', cluster_v1alpha1 ''ClusterGatewayStatus'', meta_v1 ''ObjectMeta'']\<rparr>"

definition schema_pkg_apis_cluster_v1alpha1_ClusterGatewayList :: "(string \<Rightarrow> 'r) \<Rightarrow> 'r OpenAPIDefinition" where
  "schema_pkg_apis_cluster_v1alpha1_ClusterGatewayList ref =
     \<lparr>def_Schema = object_of [(''kind'', typed [''string''] '''' None),
           (''apiVersion'', typed [''string''] '''' None),
           (''metadata'', refd (Some (JObj [])) (ref (meta_v1 ''ListMeta''))),
           (''items'', array_of (refd (Some (JObj [])) (ref (cluster_v1alpha1 ''ClusterGateway''))))]
          [''items''],
      def_Dependencies = [cluster_v1alpha1 ''ClusterGateway'', meta_v1 ''ListMeta'']\<rparr>"

definition schema_pkg_apis_cluster_v1alpha1_ClusterGatewayProxy :: "(string \<Rightarrow> 'r) \<Rightarrow> 'r OpenAPIDefinition" where
  "schema_pkg_apis_cluster_v1alpha1_ClusterGatewayProxy ref =
     \<lparr>def_Schema = object_of []
          [],
      def_Dependencies = []\<rparr>"

definition schema_pkg_apis_cluster_v1alpha1_ClusterGatewayProxyConfiguration :: "(string \<Rightarrow> 'r) \<Rightarrow> 'r OpenAPIDefinition" where
  "schema_pkg_apis_cluster_v1alpha1_ClusterGatewayProxyConfiguration ref =
     \<lparr>def_Schema = object_of [(''kind'', typed [''string''] '''' None),
           (''apiVersion'', typed [''string''] '''' None),
           (''spec'', refd (Some (JObj [])) (ref (cluster_v1alpha1 ''ClusterGatewayProxyConfigurationSpec'')))]
          [''spec''],
      def_Dependencies = [cluster_v1alpha1 ''ClusterGatewayProxyConfigurationSpec'']\<rparr>"

definition schema_pkg_apis_cluster_v1alpha1_ClusterGatewayProxyConfigurationSpec :: "(string \<Rightarrow> 'r) \<Rightarrow> 'r OpenAPIDefinition" where
  "schema_pkg_apis_cluster_v1alpha1_ClusterGatewayProxyConfigurationSpec ref =
     \<lparr>def_Schema = object_of [(''clientIdentityExchanger'', refd (Some (JObj [])) (ref (cluster_v1alpha1 ''ClientIdentityExchanger'')))]
          [''clientIdentityExchanger''],
      def_Dependencies = [cluster_v1alpha1 ''ClientIdentityExchanger'']\<rparr>"

definition schema_pkg_apis_cluster_v1alpha1_ClusterGatewayProxyOptions :: "(string \<Rightarrow> 'r) \<Rightarrow> 'r OpenAPIDefinition" where
  "schema_pkg_apis_cluster_v1alpha1_ClusterGatewayProxyOptions ref =
     \<lparr>def_Schema = object_of [(''TypeMeta'', refd (Some (JObj [])) (ref (meta_v1 ''TypeMeta''))),
           (''path'', typed [''string''] '''' (Some (JStr ''''))),
           (''impersonate'', typed [''boolean''] '''' (Some (JBool False)))]
          [''TypeMeta'', ''path'', ''impersonate''],
      def_Dependencies = [meta_v1 ''TypeMeta'']\<rparr>"

definition schema_pkg_apis_cluster_v1alpha1_ClusterGatewaySpec :: "(string \<Rightarrow> 'r) \<Rightarrow> 'r OpenAPIDefinition" where
  "schema_pkg_apis_cluster_v1alpha1_ClusterGatewaySpec ref =
     \<lparr>def_Schema = object_of [(''provider'', typed [''string''] '''' (Some (JStr ''''))),
           (''access'', refd (Some (JObj [])) (ref (cluster_v1alpha1 ''ClusterAccess'')))]
          [''provider'', ''access''],
      def_Dependencies = [cluster_v1alpha1 ''ClusterAccess'']\<rparr>"

definition schema_pkg_apis_cluster_v1alpha1_ClusterGatewayStatus :: "(string \<Rightarrow> 'r) \<Rightarrow> 'r OpenAPIDefinition" where
  "schema_pkg_apis_cluster_v1alpha1_ClusterGatewayStatus ref =
     \<lparr>def_Schema = object_of [(''healthy'', typed [''boolean''] '''' (Some (JBool False))),
           (''healthyReason'', typed [''string''] '''' None)]
          [''healthy''],
      def_Dependencies = []\<rparr>"

definition schema_pkg_apis_cluster_v1alpha1_IdentityExchangerSource :: "(string \<Rightarrow> 'r) \<Rightarrow> 'r OpenAPIDefinition" where
  "schema_pkg_apis_cluster_v1alpha1_IdentityExchangerSource ref =
     \<lparr>def_Schema = object_of [(''user'', typed [''string''] '''' None),
           (''group'', typed [''string''] '''' None),
           (''uid'', typed [''string''] '''' None),
           (''cluster'', typed [''string''] '''' None),
           (''userPattern'', typed [''string''] '''' None),
           (''groupPattern'', typed [''string''] '''' None),
           (''clusterPattern'', typed [''string''] '''' None)]
          [],
      def_Dependencies = []\<rparr>"

definition schema_pkg_apis_cluster_v1alpha1_IdentityExchangerTarget :: "(string \<Rightarrow> 'r) \<Rightarrow> 'r OpenAPIDefinition" where
  "schema_pkg_apis_cluster_v1alpha1_IdentityExchangerTarget ref =
     \<lparr>def_Schema = object_of [(''user'', typed [''string''] '''' None),
           (''groups'', array_of (typed [''string''] '''' (Some (JStr '''')))),
           (''uid'', typed [''string''] '''' None)]
          [],
      def_Dependencies = []\<rparr>"

definition schema_pkg_apis_cluster_v1alpha1_VirtualCluster :: "(string \<Rightarrow> 'r) \<Rightarrow> 'r OpenAPIDefinition" where
  "schema_pkg_apis_cluster_v1alpha1_VirtualCluster ref =
     \<lparr>def_Schema = object_of [(''kind'', typed [''string''] '''' None),
           (''apiVersion'', typed [''string''] '''' None),
           (''metadata'', refd (Some (JObj [])) (ref (meta_v1 ''ObjectMeta''))),
           (''spec'', refd (Some (JObj [])) (ref (cluster_v1alpha1 ''VirtualClusterSpec'')))]
          [],
      def_Dependencies = [cluster_v1alpha1 ''VirtualClusterSpec'', meta_v1 ''ObjectMeta'']\<rparr>"

definition schema_pkg_apis_cluster_v1alpha1_VirtualClusterList :: "(string \<Rightarrow> 'r) \<Rightarrow> 'r OpenAPIDefinition" where
  "schema_pkg_apis_cluster_v1alpha1_VirtualClusterList ref =
     \<lparr>def_Schema = object_of [(''kind'', typed [''string''] '''' None),
           (''apiVersion'', typed [''string''] '''' None),
           (''metadata'', refd (Some (JObj [])) (ref (meta_v1 ''ListMeta''))),
           (''items'', array_of (refd (Some (JObj [])) (ref (cluster_v1alpha1 ''VirtualCluster''))))]
          [''items''],
      def_Dependencies = [cluster_v1alpha1 ''VirtualCluster'', meta_v1 ''ListMeta'']\<rparr>"

definition schema_pkg_apis_cluster_v1alpha1_VirtualClusterSpec :: "(string \<Rightarrow> 'r) \<Rightarrow> 'r OpenAPIDefinition" where
  "schema_pkg_apis_cluster_v1alpha1_VirtualClusterSpec ref =
     \<lparr>def_Schema = object_of [(''alias'', typed [''string''] '''' None),
           (''accepted'', typed [''boolean''] '''' None),
           (''endpoint'', typed [''string''] '''' None),
           (''credential-type'', typed [''string''] '''' None)]
          [],
      def_Dependencies = []\<rparr>"

definition schema_pkg_apis_cluster_v1alpha1_X509 :: "(string \<Rightarrow> 'r) \<Rightarrow> 'r OpenAPIDefinition" where
  "schema_pkg_apis_cluster_v1alpha1_X509 ref =
     \<lparr>def_Schema = object_of [(''certificate'', typed [''string''] ''byte'' None),
           (''privateKey'', typed [''string''] ''byte'' None)]
          [''certificate'', ''privateKey''],
      def_Dependencies = []\<rparr>"

definition schema_pkg_apis_cluster_v1alpha1_clusterGatewayProxyRequestEscaper :: "(string \<Rightarrow> 'r) \<Rightarrow> 'r OpenAPIDefinition" where
  "schema_pkg_apis_cluster_v1alpha1_clusterGatewayProxyRequestEscaper ref =
     \<lparr>def_Schema = object_of [(''delegate'', refd None (ref (net_http ''Handler'')))]
          [''delegate''],
      def_Dependencies = [net_http ''Handler'']\<rparr>"

definition schema_pkg_apis_cluster_v1alpha1_emptyCredentialTypeClusterSecretError :: "(string \<Rightarrow> 'r) \<Rightarrow> 'r OpenAPIDefinition" where
  "schema_pkg_apis_cluster_v1alpha1_emptyCredentialTypeClusterSecretError ref =
     \<lparr>def_Schema = object_of []
          [],
      def_Dependencies = []\<rparr>"

definition schema_pkg_apis_cluster_v1alpha1_emptyEndpointClusterSecretError :: "(string \<Rightarrow> 'r) \<Rightarrow> 'r OpenAPIDefinition" where
  "schema_pkg_apis_cluster_v1alpha1_emptyEndpointClusterSecretError ref =
     \<lparr>def_Schema = object_of []
          [],
      def_Dependencies = []\<rparr>"

definition schema_pkg_apis_cluster_v1alpha1_invalidManagedClusterError :: "(string \<Rightarrow> 'r) \<Rightarrow> 'r OpenAPIDefinition" where
  "schema_pkg_apis_cluster_v1alpha1_invalidManagedClusterError ref =
     \<lparr>def_Schema = object_of []
          [],
      def_Dependencies = []\<rparr>"

definition schema_pkg_apis_cluster_v1alpha1_noSuppressPanicError :: "(string \<Rightarrow> 'r) \<Rightarrow> 'r OpenAPIDefinition" where
  "schema_pkg_apis_cluster_v1alpha1_noSuppressPanicError ref =
     \<lparr>def_Schema = object_of []
          [],
      def_Dependencies = []\<rparr>"

definition schema_pkg_apis_cluster_v1alpha1_proxyResponseWriter :: "(string \<Rightarrow> 'r) \<Rightarrow> 'r OpenAPIDefinition" where
  "schema_pkg_apis_cluster_v1alpha1_proxyResponseWriter ref =
     \<lparr>def_Schema = object_of [(''ResponseWriter'', refd None (ref (net_http ''ResponseWriter''))),
           (''Hijacker'', refd None (ref (net_http ''Hijacker''))),
           (''Flusher'', refd None (ref (net_http ''Flusher''))),
           (''statusCode'', typed [''integer''] ''int32'' (Some (JInt 0)))]
          [''ResponseWriter'', ''Hijacker'', ''Flusher'', ''statusCode''],
      def_Dependencies = [net_http ''Flusher'', net_http ''Hijacker'', net_http ''ResponseWriter'']\<rparr>"

definition schema_pkg_apis_cluster_v1alpha1_virtualClusterClient :: "(string \<Rightarrow> 'r) \<Rightarrow> 'r OpenAPIDefinition" where
  "schema_pkg_apis_cluster_v1alpha1_virtualClusterClient ref =
     \<lparr>def_Schema = object_of [(''Client'', refd None (ref (client_pkg ''Client''))),
           (''namespace'', typed [''string''] '''' (Some (JStr ''''))),
           (''withControlPlane'', typed [''boolean''] '''' (Some (JBool False)))]
          [''Client'', ''namespace'', ''withControlPlane''],
      def_Dependencies = [client_pkg ''Client'']\<rparr>"

definition schema_pkg_apis_cluster_v1alpha1_virtualClusterSelector :: "(string \<Rightarrow> 'r) \<Rightarrow> 'r OpenAPIDefinition" where
  "schema_pkg_apis_cluster_v1alpha1_virtualClusterSelector ref =
     \<lparr>def_Schema = object_of [(''selector'', refd None (ref (labels_pkg ''Selector''))),
           (''requireCredentialType'', typed [''boolean''] '''' (Some (JBool False))),
           (''namespace'', typed [''string''] '''' (Some (JStr '''')))]
          [''selector'', ''requireCredentialType'', ''namespace''],
      def_Dependencies = [labels_pkg ''Selector'']\<rparr>"

definition schema_pkg_apis_proxy_v1alpha1_ClusterGatewayConfiguration :: "(string \<Rightarrow> 'r) \<Rightarrow> 'r OpenAPIDefinition" where
  "schema_pkg_apis_proxy_v1alpha1_ClusterGatewayConfiguration ref =
     \<lparr>def_Schema = object_of [(''kind'', typed [''string''] '''' None),
           (''apiVersion'', typed [''string''] '''' None),
           (''metadata'', refd (Some (JObj [])) (ref (meta_v1 ''ObjectMeta''))),
           (''spec'', refd (Some (JObj [])) (ref (proxy_v1alpha1 ''ClusterGatewayConfigurationSpec''))),
           (''status'', refd (Some (JObj [])) (ref (proxy_v1alpha1 ''ClusterGatewayConfigurationStatus'')))]
          [],
      def_Dependencies = [proxy_v1alpha1 ''ClusterGatewayConfigurationSpec'', proxy_v1alpha1 ''ClusterGatewayConfigurationStatus'', meta_v1 ''ObjectMeta'']\<rparr>"

definition schema_pkg_apis_proxy_v1alpha1_ClusterGatewayConfigurationList :: "(string \<Rightarrow> 'r) \<Rightarrow> 'r OpenAPIDefinition" where
  "schema_pkg_apis_proxy_v1alpha1_ClusterGatewayConfigurationList ref =
     \<lparr>def_Schema = object_of [(''kind'', typed [''string''] '''' None),
           (''apiVersion'', typed [''string''] '''' None),
           (''metadata'', refd (Some (JObj [])) (ref (meta_v1 ''ListMeta''))),
           (''items'', array_of (refd (Some (JObj [])) (ref (proxy_v1alpha1 ''ClusterGatewayConfiguration''))))]
          [''items''],
      def_Dependencies = [proxy_v1alpha1 ''ClusterGatewayConfiguration'', meta_v1 ''ListMeta'']\<rparr>"

definition schema_pkg_apis_proxy_v1alpha1_ClusterGatewayConfigurationSpec :: "(string \<Rightarrow> 'r) \<Rightarrow> 'r OpenAPIDefinition" where
  "schema_pkg_apis_proxy_v1alpha1_ClusterGatewayConfigurationSpec ref =
     \<lparr>def_Schema = object_of [(''image'', typed [''string''] '''' (Some (JStr ''''))),
           (''secretNamespace'', typed [''string''] '''' (Some (JStr ''''))),
           (''installNamespace'', typed [''string''] '''' (Some (JStr ''''))),
           (''secretManagement'', refd (Some (JObj [])) (ref (proxy_v1alpha1 ''ClusterGatewaySecretManagement''))),
           (''egress'', refd (Some (JObj [])) (ref (proxy_v1alpha1 ''ClusterGatewayTrafficEgress'')))]
          [''image'', ''secretNamespace'', ''installNamespace'', ''secretManagement'', ''egress''],
      def_Dependencies = [proxy_v1alpha1 ''ClusterGatewaySecretManagement'', proxy_v1alpha1 ''ClusterGatewayTrafficEgress'']\<rparr>"

definition schema_pkg_apis_proxy_v1alpha1_ClusterGatewayConfigurationStatus :: "(string \<Rightarrow> 'r) \<Rightarrow> 'r OpenAPIDefinition" where
  "schema_pkg_apis_proxy_v1alpha1_ClusterGatewayConfigurationStatus ref =
     \<lparr>def_Schema = object_of [(''lastObservedGeneration'', typed [''integer''] ''int64'' None),
           (''conditions'', array_of (refd (Some (JObj [])) (ref (meta_v1 ''Condition''))))]
          [],
      def_Dependencies = [meta_v1 ''Condition'']\<rparr>"

definition schema_pkg_apis_proxy_v1alpha1_ClusterGatewaySecretManagement :: "(string \<Rightarrow> 'r) \<Rightarrow> 'r OpenAPIDefinition" where
  "schema_pkg_apis_proxy_v1alpha1_ClusterGatewaySecretManagement ref =
     \<lparr>def_Schema = object_of [(''type'', typed [''string''] '''' (Some (JStr ''''))),
           (''managedServiceAccount'', refd None (ref (proxy_v1alpha1 ''SecretManagementManagedServiceAccount'')))]
          [],
      def_Dependencies = [proxy_v1alpha1 ''SecretManagementManagedServiceAccount'']\<rparr>"

definition schema_pkg_apis_proxy_v1alpha1_ClusterGatewayTrafficEgress :: "(string \<Rightarrow> 'r) \<Rightarrow> 'r OpenAPIDefinition" where
  "schema_pkg_apis_proxy_v1alpha1_ClusterGatewayTrafficEgress ref =
     \<lparr>def_Schema = object_of [(''type'', typed [''string''] '''' (Some (JStr ''''))),
           (''clusterProxy'', refd None (ref (proxy_v1alpha1 ''ClusterGatewayTrafficEgressClusterProxy'')))]
          [''type''],
      def_Dependencies = [proxy_v1alpha1 ''ClusterGatewayTrafficEgressClusterProxy'']\<rparr>"

definition schema_pkg_apis_proxy_v1alpha1_ClusterGatewayTrafficEgressClusterProxy :: "(string \<Rightarrow> 'r) \<Rightarrow> 'r OpenAPIDefinition" where
  "schema_pkg_apis_proxy_v1alpha1_ClusterGatewayTrafficEgressClusterProxy ref =
     \<lparr>def_Schema = object_of [(''proxyServerHost'', typed [''string''] '''' (Some (JStr ''''))),
           (''proxyServerPort'', typed [''integer''] ''int32'' (Some (JInt 0))),
           (''credentials'', refd (Some (JObj [])) (ref (proxy_v1alpha1 ''ClusterGatewayTrafficEgressClusterProxyCredential'')))]
          [''proxyServerHost'', ''proxyServerPort'', ''credentials''],
      def_Dependencies = [proxy_v1alpha1 ''ClusterGatewayTrafficEgressClusterProxyCredential'']\<rparr>"

definition schema_pkg_apis_proxy_v1alpha1_ClusterGatewayTrafficEgressClusterProxyCredential :: "(string \<Rightarrow> 'r) \<Rightarrow> 'r OpenAPIDefinition" where
  "schema_pkg_apis_proxy_v1alpha1_ClusterGatewayTrafficEgressClusterProxyCredential ref =
     \<lparr>def_Schema = object_of [(''namespace'', typed [''string''] '''' (Some (JStr ''''))),
           (''proxyClientSecretName'', typed [''string''] '''' (Some (JStr ''''))),
           (''proxyClientCASecretName'', typed [''string''] '''' (Some (JStr '''')))]
          [''namespace'', ''proxyClientSecretName'', ''proxyClientCASecretName''],
      def_Dependencies = []\<rparr>"

definition schema_pkg_apis_proxy_v1alpha1_SecretManagementManagedServiceAccount :: "(string \<Rightarrow> 'r) \<Rightarrow> 'r OpenAPIDefinition" where
  "schema_pkg_apis_proxy_v1alpha1_SecretManagementManagedServiceAccount ref =
     \<lparr>def_Schema = object_of [(''name'', typed [''string''] '''' (Some (JStr '''')))]
          [],
      def_Dependencies = []\<rparr>"

lemmas own_schemas =
  schema_pkg_apis_cluster_v1alpha1_ClientIdentityExchangeRule_def
  schema_pkg_apis_cluster_v1alpha1_ClientIdentityExchanger_def
  schema_pkg_apis_cluster_v1alpha1_ClusterAccess_def
  schema_pkg_apis_cluster_v1alpha1_ClusterAccessCredential_def
  schema_pkg_apis_cluster_v1alpha1_ClusterEndpoint_def
  schema_pkg_apis_cluster_v1alpha1_ClusterEndpointConst_def
  schema_pkg_apis_cluster_v1alpha1_ClusterGateway_def
  schema_pkg_apis_cluster_v1alpha1_ClusterGatewayHealth_def
  schema_pkg_apis_cluster_v1alpha1_ClusterGatewayList_def
  schema_pkg_apis_cluster_v1alpha1_ClusterGatewayProxy_def
  schema_pkg_apis_cluster_v1alpha1_ClusterGatewayProxyConfiguration_def
  schema_pkg_apis_cluster_v1alpha1_ClusterGatewayProxyConfigurationSpec_def
  schema_pkg_apis_cluster_v1alpha1_ClusterGatewayProxyOptions_def
  schema_pkg_apis_cluster_v1alpha1_ClusterGatewaySpec_def
  schema_pkg_apis_cluster_v1alpha1_ClusterGatewayStatus_def
  schema_pkg_apis_cluster_v1alpha1_IdentityExchangerSource_def
  schema_pkg_apis_cluster_v1alpha1_IdentityExchangerTarget_def
  schema_pkg_apis_cluster_v1alpha1_VirtualCluster_def
  schema_pkg_apis_cluster_v1alpha1_VirtualClusterList_def
  schema_pkg_apis_cluster_v1alpha1_VirtualClusterSpec_def
  schema_pkg_apis_cluster_v1alpha1_X509_def
  schema_pkg_apis_cluster_v1alpha1_clusterGatewayProxyRequestEscaper_def
  schema_pkg_apis_cluster_v1alpha1_emptyCredentialTypeClusterSecretError_def
  schema_pkg_apis_cluster_v1alpha1_emptyEndpointClusterSecretError_def
  schema_pkg_apis_cluster_v1alpha1_invalidManagedClusterError_def
  schema_pkg_apis_cluster_v1alpha1_noSuppressPanicError_def
  schema_pkg_apis_cluster_v1alpha1_proxyResponseWriter_def
  schema_pkg_apis_cluster_v1alpha1_virtualClusterClient_def
  schema_pkg_apis_cluster_v1alpha1_virtualClusterSelector_def
  schema_pkg_apis_proxy_v1alpha1_ClusterGatewayConfiguration_def
  schema_pkg_apis_proxy_v1alpha1_ClusterGatewayConfigurationList_def
  schema_pkg_apis_proxy_v1alpha1_ClusterGatewayConfigurationSpec_def
  schema_pkg_apis_proxy_v1alpha1_ClusterGatewayConfigurationStatus_def
  schema_pkg_apis_proxy_v1alpha1_ClusterGatewaySecretManagement_def
  schema_pkg_apis_proxy_v1alpha1_ClusterGatewayTrafficEgress_def
  schema_pkg_apis_proxy_v1alpha1_ClusterGatewayTrafficEgressClusterProxy_def
  schema_pkg_apis_proxy_v1alpha1_ClusterGatewayTrafficEgressClusterProxyCredential_def
  schema_pkg_apis_proxy_v1alpha1_SecretManagementManagedServiceAccount_def

end
