(* ===== verification/OpenAPI_Meta.thy ===== *)
theory OpenAPI_Meta
  imports OpenAPI_Schema
begin

text \<open>
  The generated definitions of the apimachinery types (\<^verbatim>\<open>pkg/apis/generated/zz_generated.openapi.go\<close>, second part).
\<close>

definition schema_apimachinery_pkg_api_resource_Quantity :: "'r openapi_ops \<Rightarrow> (string \<Rightarrow> 'r) \<Rightarrow> 'r OpenAPIDefinition" where
  "schema_apimachinery_pkg_api_resource_Quantity ops ref =
     EmbedOpenAPIDefinitionIntoV2Extension ops
     (\<lparr>def_Schema = one_of (GenerateOpenAPIV3OneOfSchema ops (Quantity_oneOf_types ops)) (Quantity_format ops),
        def_Dependencies = []\<rparr>)
     (\<lparr>def_Schema = typed (Quantity_type ops) (Quantity_format ops) None,
        def_Dependencies = []\<rparr>)"

definition schema_apimachinery_pkg_api_resource_int64Amount :: "(string \<Rightarrow> 'r) \<Rightarrow> 'r OpenAPIDefinition" where
  "schema_apimachinery_pkg_api_resource_int64Amount ref =
     \<lparr>def_Schema = object_of [(''value'', typed [''integer''] ''int64'' (Some (JInt 0))),
           (''scale'', typed [''integer''] ''int32'' (Some (JInt 0)))]
          [''value'', ''scale''],
      def_Dependencies = []\<rparr>"

definition schema_pkg_apis_meta_v1_APIGroup :: "(string \<Rightarrow> 'r) \<Rightarrow> 'r OpenAPIDefinition" where
  "schema_pkg_apis_meta_v1_APIGroup ref =
     \<lparr>def_Schema = object_of [(''kind'', typed [''string''] '''' None),
           (''apiVersion'', typed [''string''] '''' None),
           (''name'', typed [''string''] '''' (Some (JStr ''''))),
           (''versions'', array_of (refd (Some (JObj [])) (ref (meta_v1 ''GroupVersionForDiscovery'')))),
           (''preferredVersion'', refd (Some (JObj [])) (ref (meta_v1 ''GroupVersionForDiscovery''))),
           (''serverAddressByClientCIDRs'', array_of (refd (Some (JObj [])) (ref (meta_v1 ''ServerAddressByClientCIDR''))))]
          [''name'', ''versions''],
      def_Dependencies = [meta_v1 ''GroupVersionForDiscovery'', meta_v1 ''ServerAddressByClientCIDR'']\<rparr>"

definition schema_pkg_apis_meta_v1_APIGroupList :: "(string \<Rightarrow> 'r) \<Rightarrow> 'r OpenAPIDefinition" where
  "schema_pkg_apis_meta_v1_APIGroupList ref =
     \<lparr>def_Schema = object_of [(''kind'', typed [''string''] '''' None),
           (''apiVersion'', typed [''string''] '''' None),
           (''groups'', array_of (refd (Some (JObj [])) (ref (meta_v1 ''APIGroup''))))]
          [''groups''],
      def_Dependencies = [meta_v1 ''APIGroup'']\<rparr>"

definition schema_pkg_apis_meta_v1_APIResource :: "(string \<Rightarrow> 'r) \<Rightarrow> 'r OpenAPIDefinition" where
  "schema_pkg_apis_meta_v1_APIResource ref =
     \<lparr>def_Schema = object_of [(''name'', typed [''string''] '''' (Some (JStr ''''))),
           (''singularName'', typed [''string''] '''' (Some (JStr ''''))),
           (''namespaced'', typed [''boolean''] '''' (Some (JBool False))),
           (''group'', typed [''string''] '''' None),
           (''version'', typed [''string''] '''' None),
           (''kind'', typed [''string''] '''' (Some (JStr ''''))),
           (''verbs'', array_of (typed [''string''] '''' (Some (JStr '''')))),
           (''shortNames'', array_of (typed [''string''] '''' (Some (JStr '''')))),
           (''categories'', array_of (typed [''string''] '''' (Some (JStr '''')))),
           (''storageVersionHash'', typed [''string''] '''' None)]
          [''name'', ''singularName'', ''namespaced'', ''kind'', ''verbs''],
      def_Dependencies = []\<rparr>"

definition schema_pkg_apis_meta_v1_APIResourceList :: "(string \<Rightarrow> 'r) \<Rightarrow> 'r OpenAPIDefinition" where
  "schema_pkg_apis_meta_v1_APIResourceList ref =
     \<lparr>def_Schema = object_of [(''kind'', typed [''string''] '''' None),
           (''apiVersion'', typed [''string''] '''' None),
           (''groupVersion'', typed [''string''] '''' (Some (JStr ''''))),
           (''resources'', array_of (refd (Some (JObj [])) (ref (meta_v1 ''APIResource''))))]
          [''groupVersion'', ''resources''],
      def_Dependencies = [meta_v1 ''APIResource'']\<rparr>"

definition schema_pkg_apis_meta_v1_APIVersions :: "(string \<Rightarrow> 'r) \<Rightarrow> 'r OpenAPIDefinition" where
  "schema_pkg_apis_meta_v1_APIVersions ref =
     \<lparr>def_Schema = object_of [(''kind'', typed [''string''] '''' None),
           (''apiVersion'', typed [''string''] '''' None),
           (''versions'', array_of (typed [''string''] '''' (Some (JStr '''')))),
           (''serverAddressByClientCIDRs'', array_of (refd (Some (JObj [])) (ref (meta_v1 ''ServerAddressByClientCIDR''))))]
          [''versions'', ''serverAddressByClientCIDRs''],
      def_Dependencies = [meta_v1 ''ServerAddressByClientCIDR'']\<rparr>"

definition schema_pkg_apis_meta_v1_ApplyOptions :: "(string \<Rightarrow> 'r) \<Rightarrow> 'r OpenAPIDefinition" where
  "schema_pkg_apis_meta_v1_ApplyOptions ref =
     \<lparr>def_Schema = object_of [(''kind'', typed [''string''] '''' None),
           (''apiVersion'', typed [''string''] '''' None),
           (''dryRun'', array_of (typed [''string''] '''' (Some (JStr '''')))),
           (''force'', typed [''boolean''] '''' (Some (JBool False))),
           (''fieldManager'', typed [''string''] '''' (Some (JStr '''')))]
          [''force'', ''fieldManager''],
      def_Dependencies = []\<rparr>"

definition schema_pkg_apis_meta_v1_Condition :: "(string \<Rightarrow> 'r) \<Rightarrow> 'r OpenAPIDefinition" where
  "schema_pkg_apis_meta_v1_Condition ref =
     \<lparr>def_Schema = object_of [(''type'', typed [''string''] '''' (Some (JStr ''''))),
           (''status'', typed [''string''] '''' (Some (JStr ''''))),
           (''observedGeneration'', typed [''integer''] ''int64'' None),
           (''lastTransitionTime'', refd None (ref (meta_v1 ''Time''))),
           (''reason'', typed [''string''] '''' (Some (JStr ''''))),
           (''message'', typed [''string''] '''' (Some (JStr '''')))]
          [''type'', ''status'', ''lastTransitionTime'', ''reason'', ''message''],
      def_Dependencies = [meta_v1 ''Time'']\<rparr>"

definition schema_pkg_apis_meta_v1_CreateOptions :: "(string \<Rightarrow> 'r) \<Rightarrow> 'r OpenAPIDefinition" where
  "schema_pkg_apis_meta_v1_CreateOptions ref =
     \<lparr>def_Schema = object_of [(''kind'', typed [''string''] '''' None),
           (''apiVersion'', typed [''string''] '''' None),
           (''dryRun'', array_of (typed [''string''] '''' (Some (JStr '''')))),
           (''fieldManager'', typed [''string''] '''' None),
           (''fieldValidation'', typed [''string''] '''' None)]
          [],
      def_Dependencies = []\<rparr>"

definition schema_pkg_apis_meta_v1_DeleteOptions :: "(string \<Rightarrow> 'r) \<Rightarrow> 'r OpenAPIDefinition" where
  "schema_pkg_apis_meta_v1_DeleteOptions ref =
     \<lparr>def_Schema = object_of [(''kind'', typed [''string''] '''' None),
           (''apiVersion'', typed [''string''] '''' None),
           (''gracePeriodSeconds'', typed [''integer''] ''int64'' None),
           (''preconditions'', refd None (ref (meta_v1 ''Preconditions''))),
           (''orphanDependents'', typed [''boolean''] '''' None),
           (''propagationPolicy'', typed [''string''] '''' None),
           (''dryRun'', array_of (typed [''string''] '''' (Some (JStr ''''))))]
          [],
      def_Dependencies = [meta_v1 ''Preconditions'']\<rparr>"

definition schema_pkg_apis_meta_v1_Duration :: "'r openapi_ops \<Rightarrow> (string \<Rightarrow> 'r) \<Rightarrow> 'r OpenAPIDefinition" where
  "schema_pkg_apis_meta_v1_Duration ops ref =
     \<lparr>def_Schema = typed (Duration_type ops) (Duration_format ops) None,
      def_Dependencies = []\<rparr>"

definition schema_pkg_apis_meta_v1_FieldsV1 :: "(string \<Rightarrow> 'r) \<Rightarrow> 'r OpenAPIDefinition" where
  "schema_pkg_apis_meta_v1_FieldsV1 ref =
     \<lparr>def_Schema = object_of []
          [],
      def_Dependencies = []\<rparr>"

definition schema_pkg_apis_meta_v1_GetOptions :: "(string \<Rightarrow> 'r) \<Rightarrow> 'r OpenAPIDefinition" where
  "schema_pkg_apis_meta_v1_GetOptions ref =
     \<lparr>def_Schema = object_of [(''kind'', typed [''string''] '''' None),
           (''apiVersion'', typed [''string''] '''' None),
           (''resourceVersion'', typed [''string''] '''' None)]
          [],
      def_Dependencies = []\<rparr>"

definition schema_pkg_apis_meta_v1_GroupKind :: "(string \<Rightarrow> 'r) \<Rightarrow> 'r OpenAPIDefinition" where
  "schema_pkg_apis_meta_v1_GroupKind ref =
     \<lparr>def_Schema = object_of [(''group'', typed [''string''] '''' (Some (JStr ''''))),
           (''kind'', typed [''string''] '''' (Some (JStr '''')))]
          [''group'', ''kind''],
      def_Dependencies = []\<rparr>"

definition schema_pkg_apis_meta_v1_GroupResource :: "(string \<Rightarrow> 'r) \<Rightarrow> 'r OpenAPIDefinition" where
  "schema_pkg_apis_meta_v1_GroupResource ref =
     \<lparr>def_Schema = object_of [(''group'', typed [''string''] '''' (Some (JStr ''''))),
           (''resource'', typed [''string''] '''' (Some (JStr '''')))]
          [''group'', ''resource''],
      def_Dependencies = []\<rparr>"

definition schema_pkg_apis_meta_v1_GroupVersion :: "(string \<Rightarrow> 'r) \<Rightarrow> 'r OpenAPIDefinition" where
  "schema_pkg_apis_meta_v1_GroupVersion ref =
     \<lparr>def_Schema = object_of [(''group'', typed [''string''] '''' (Some (JStr ''''))),
           (''version'', typed [''string''] '''' (Some (JStr '''')))]
          [''group'', ''version''],
      def_Dependencies = []\<rparr>"

definition schema_pkg_apis_meta_v1_GroupVersionForDiscovery :: "(string \<Rightarrow> 'r) \<Rightarrow> 'r OpenAPIDefinition" where
  "schema_pkg_apis_meta_v1_GroupVersionForDiscovery ref =
     \<lparr>def_Schema = object_of [(''groupVersion'', typed [''string''] '''' (Some (JStr ''''))),
           (''version'', typed [''string''] '''' (Some (JStr '''')))]
          [''groupVersion'', ''version''],
      def_Dependencies = []\<rparr>"

definition schema_pkg_apis_meta_v1_GroupVersionKind :: "(string \<Rightarrow> 'r) \<Rightarrow> 'r OpenAPIDefinition" where
  "schema_pkg_apis_meta_v1_GroupVersionKind ref =
     \<lparr>def_Schema = object_of [(''group'', typed [''string''] '''' (Some (JStr ''''))),
           (''version'', typed [''string''] '''' (Some (JStr ''''))),
           (''kind'', typed [''string''] '''' (Some (JStr '''')))]
          [''group'', ''version'', ''kind''],
      def_Dependencies = []\<rparr>"

definition schema_pkg_apis_meta_v1_GroupVersionResource :: "(string \<Rightarrow> 'r) \<Rightarrow> 'r OpenAPIDefinition" where
  "schema_pkg_apis_meta_v1_GroupVersionResource ref =
     \<lparr>def_Schema = object_of [(''group'', typed [''string''] '''' (Some (JStr ''''))),
           (''version'', typed [''string''] '''' (Some (JStr ''''))),
           (''resource'', typed [''string''] '''' (Some (JStr '''')))]
          [''group'', ''version'', ''resource''],
      def_Dependencies = []\<rparr>"

definition schema_pkg_apis_meta_v1_InternalEvent :: "(string \<Rightarrow> 'r) \<Rightarrow> 'r OpenAPIDefinition" where
  "schema_pkg_apis_meta_v1_InternalEvent ref =
     \<lparr>def_Schema = object_of [(''Type'', typed [''string''] '''' (Some (JStr ''''))),
           (''Object'', refd None (ref (runtime_pkg ''Object'')))]
          [''Type'', ''Object''],
      def_Dependencies = [runtime_pkg ''Object'']\<rparr>"

definition schema_pkg_apis_meta_v1_LabelSelector :: "(string \<Rightarrow> 'r) \<Rightarrow> 'r OpenAPIDefinition" where
  "schema_pkg_apis_meta_v1_LabelSelector ref =
     \<lparr>def_Schema = with_extensions [(''x-kubernetes-map-type'', JStr ''atomic'')]
        (object_of [(''matchLabels'', map_schema (typed [''string''] '''' (Some (JStr '''')))),
           (''matchExpressions'', array_of (refd (Some (JObj [])) (ref (meta_v1 ''LabelSelectorRequirement''))))]
          []),
      def_Dependencies = [meta_v1 ''LabelSelectorRequirement'']\<rparr>"

definition schema_pkg_apis_meta_v1_LabelSelectorRequirement :: "(string \<Rightarrow> 'r) \<Rightarrow> 'r OpenAPIDefinition" where
  "schema_pkg_apis_meta_v1_LabelSelectorRequirement ref =
     \<lparr>def_Schema = object_of [(''key'', typed [''string''] '''' (Some (JStr ''''))),
           (''operator'', typed [''string''] '''' (Some (JStr ''''))),
           (''values'', array_of (typed [''string''] '''' (Some (JStr ''''))))]
          [''key'', ''operator''],
      def_Dependencies = []\<rparr>"

definition schema_pkg_apis_meta_v1_List :: "(string \<Rightarrow> 'r) \<Rightarrow> 'r OpenAPIDefinition" where
  "schema_pkg_apis_meta_v1_List ref =
     \<lparr>def_Schema = object_of [(''kind'', typed [''string''] '''' None),
           (''apiVersion'', typed [''string''] '''' None),
           (''metadata'', refd (Some (JObj [])) (ref (meta_v1 ''ListMeta''))),
           (''items'', array_of (refd None (ref (runtime_pkg ''RawExtension''))))]
          [''items''],
      def_Dependencies = [meta_v1 ''ListMeta'', runtime_pkg ''RawExtension'']\<rparr>"

definition schema_pkg_apis_meta_v1_ListMeta :: "(string \<Rightarrow> 'r) \<Rightarrow> 'r OpenAPIDefinition" where
  "schema_pkg_apis_meta_v1_ListMeta ref =
     \<lparr>def_Schema = object_of [(''selfLink'', typed [''string''] '''' None),
           (''resourceVersion'', typed [''string''] '''' None),
           (''continue'', typed [''string''] '''' None),
           (''remainingItemCount'', typed [''integer''] ''int64'' None)]
          [],
      def_Dependencies = []\<rparr>"

definition schema_pkg_apis_meta_v1_ListOptions :: "(string \<Rightarrow> 'r) \<Rightarrow> 'r OpenAPIDefinition" where
  "schema_pkg_apis_meta_v1_ListOptions ref =
     \<lparr>def_Schema = object_of [(''kind'', typed [''string''] '''' None),
           (''apiVersion'', typed [''string''] '''' None),
           (''labelSelector'', typed [''string''] '''' None),
           (''fieldSelector'', typed [''string''] '''' None),
           (''watch'', typed [''boolean''] '''' None),
           (''allowWatchBookmarks'', typed [''boolean''] '''' None),
           (''resourceVersion'', typed [''string''] '''' None),
           (''resourceVersionMatch'', typed [''string''] '''' None),
           (''timeoutSeconds'', typed [''integer''] ''int64'' None),
           (''limit'', typed [''integer''] ''int64'' None),
           (''continue'', typed [''string''] '''' None),
           (''sendInitialEvents'', typed [''boolean''] '''' None)]
          [],
      def_Dependencies = []\<rparr>"

definition schema_pkg_apis_meta_v1_ManagedFieldsEntry :: "(string \<Rightarrow> 'r) \<Rightarrow> 'r OpenAPIDefinition" where
  "schema_pkg_apis_meta_v1_ManagedFieldsEntry ref =
     \<lparr>def_Schema = object_of [(''manager'', typed [''string''] '''' None),
           (''operation'', typed [''string''] '''' None),
           (''apiVersion'', typed [''string''] '''' None),
           (''time'', refd None (ref (meta_v1 ''Time''))),
           (''fieldsType'', typed [''string''] '''' None),
           (''fieldsV1'', refd None (ref (meta_v1 ''FieldsV1''))),
           (''subresource'', typed [''string''] '''' None)]
          [],
      def_Dependencies = [meta_v1 ''FieldsV1'', meta_v1 ''Time'']\<rparr>"

definition schema_pkg_apis_meta_v1_MicroTime :: "'r openapi_ops \<Rightarrow> (string \<Rightarrow> 'r) \<Rightarrow> 'r OpenAPIDefinition" where
  "schema_pkg_apis_meta_v1_MicroTime ops ref =
     \<lparr>def_Schema = typed (MicroTime_type ops) (MicroTime_format ops) None,
      def_Dependencies = []\<rparr>"

definition schema_pkg_apis_meta_v1_ObjectMeta :: "(string \<Rightarrow> 'r) \<Rightarrow> 'r OpenAPIDefinition" where
  "schema_pkg_apis_meta_v1_ObjectMeta ref =
     \<lparr>def_Schema = object_of [(''name'', typed [''string''] '''' None),
           (''generateName'', typed [''string''] '''' None),
           (''namespace'', typed [''string''] '''' None),
           (''selfLink'', typed [''string''] '''' None),
           (''uid'', typed [''string''] '''' None),
           (''resourceVersion'', typed [''string''] '''' None),
           (''generation'', typed [''integer''] ''int64'' None),
           (''creationTimestamp'', refd None (ref (meta_v1 ''Time''))),
           (''deletionTimestamp'', refd None (ref (meta_v1 ''Time''))),
           (''deletionGracePeriodSeconds'', typed [''integer''] ''int64'' None),
           (''labels'', map_schema (typed [''string''] '''' (Some (JStr '''')))),
           (''annotations'', map_schema (typed [''string''] '''' (Some (JStr '''')))),
           (''ownerReferences'', with_extensions [(''x-kubernetes-patch-merge-key'', JStr ''uid''), (''x-kubernetes-patch-strategy'', JStr ''merge'')]
             (array_of (refd (Some (JObj [])) (ref (meta_v1 ''OwnerReference''))))),
           (''finalizers'', with_extensions [(''x-kubernetes-patch-strategy'', JStr ''merge'')]
             (array_of (typed [''string''] '''' (Some (JStr ''''))))),
           (''managedFields'', array_of (refd (Some (JObj [])) (ref (meta_v1 ''ManagedFieldsEntry''))))]
          [],
      def_Dependencies = [meta_v1 ''ManagedFieldsEntry'', meta_v1 ''OwnerReference'', meta_v1 ''Time'']\<rparr>"

definition schema_pkg_apis_meta_v1_OwnerReference :: "(string \<Rightarrow> 'r) \<Rightarrow> 'r OpenAPIDefinition" where
  "schema_pkg_apis_meta_v1_OwnerReference ref =
     \<lparr>def_Schema = with_extensions [(''x-kubernetes-map-type'', JStr ''atomic'')]
        (object_of [(''apiVersion'', typed [''string''] '''' (Some (JStr ''''))),
           (''kind'', typed [''string''] '''' (Some (JStr ''''))),
           (''name'', typed [''string''] '''' (Some (JStr ''''))),
           (''uid'', typed [''string''] '''' (Some (JStr ''''))),
           (''controller'', typed [''boolean''] '''' None),
           (''blockOwnerDeletion'', typed [''boolean''] '''' None)]
          [''apiVersion'', ''kind'', ''name'', ''uid'']),
      def_Dependencies = []\<rparr>"

definition schema_pkg_apis_meta_v1_PartialObjectMetadata :: "(string \<Rightarrow> 'r) \<Rightarrow> 'r OpenAPIDefinition" where
  "schema_pkg_apis_meta_v1_PartialObjectMetadata ref =
     \<lparr>def_Schema = object_of [(''kind'', typed [''string''] '''' None),
           (''apiVersion'', typed [''string''] '''' None),
           (''metadata'', refd (Some (JObj [])) (ref (meta_v1 ''ObjectMeta'')))]
          [],
      def_Dependencies = [meta_v1 ''ObjectMeta'']\<rparr>"

definition schema_pkg_apis_meta_v1_PartialObjectMetadataList :: "(string \<Rightarrow> 'r) \<Rightarrow> 'r OpenAPIDefinition" where
  "schema_pkg_apis_meta_v1_PartialObjectMetadataList ref =
     \<lparr>def_Schema = object_of [(''kind'', typed [''string''] '''' None),
           (''apiVersion'', typed [''string''] '''' None),
           (''metadata'', refd (Some (JObj [])) (ref (meta_v1 ''ListMeta''))),
           (''items'', array_of (refd (Some (JObj [])) (ref (meta_v1 ''PartialObjectMetadata''))))]
          [''items''],
      def_Dependencies = [meta_v1 ''ListMeta'', meta_v1 ''PartialObjectMetadata'']\<rparr>"

definition schema_pkg_apis_meta_v1_Patch :: "(string \<Rightarrow> 'r) \<Rightarrow> 'r OpenAPIDefinition" where
  "schema_pkg_apis_meta_v1_Patch ref =
     \<lparr>def_Schema = object_of []
          [],
      def_Dependencies = []\<rparr>"

definition schema_pkg_apis_meta_v1_PatchOptions :: "(string \<Rightarrow> 'r) \<Rightarrow> 'r OpenAPIDefinition" where
  "schema_pkg_apis_meta_v1_PatchOptions ref =
     \<lparr>def_Schema = object_of [(''kind'', typed [''string''] '''' None),
           (''apiVersion'', typed [''string''] '''' None),
           (''dryRun'', array_of (typed [''string''] '''' (Some (JStr '''')))),
           (''force'', typed [''boolean''] '''' None),
           (''fieldManager'', typed [''string''] '''' None),
           (''fieldValidation'', typed [''string''] '''' None)]
          [],
      def_Dependencies = []\<rparr>"

definition schema_pkg_apis_meta_v1_Preconditions :: "(string \<Rightarrow> 'r) \<Rightarrow> 'r OpenAPIDefinition" where
  "schema_pkg_apis_meta_v1_Preconditions ref =
     \<lparr>def_Schema = object_of [(''uid'', typed [''string''] '''' None),
           (''resourceVersion'', typed [''string''] '''' None)]
          [],
      def_Dependencies = []\<rparr>"

definition schema_pkg_apis_meta_v1_RootPaths :: "(string \<Rightarrow> 'r) \<Rightarrow> 'r OpenAPIDefinition" where
  "schema_pkg_apis_meta_v1_RootPaths ref =
     \<lparr>def_Schema = object_of [(''paths'', array_of (typed [''string''] '''' (Some (JStr ''''))))]
          [''paths''],
      def_Dependencies = []\<rparr>"

definition schema_pkg_apis_meta_v1_ServerAddressByClientCIDR :: "(string \<Rightarrow> 'r) \<Rightarrow> 'r OpenAPIDefinition" where
  "schema_pkg_apis_meta_v1_ServerAddressByClientCIDR ref =
     \<lparr>def_Schema = object_of [(''clientCIDR'', typed [''string''] '''' (Some (JStr ''''))),
           (''serverAddress'', typed [''string''] '''' (Some (JStr '''')))]
          [''clientCIDR'', ''serverAddress''],
      def_Dependencies = []\<rparr>"

definition schema_pkg_apis_meta_v1_Status :: "(string \<Rightarrow> 'r) \<Rightarrow> 'r OpenAPIDefinition" where
  "schema_pkg_apis_meta_v1_Status ref =
     \<lparr>def_Schema = object_of [(''kind'', typed [''string''] '''' None),
           (''apiVersion'', typed [''string''] '''' None),
           (''metadata'', refd (Some (JObj [])) (ref (meta_v1 ''ListMeta''))),
           (''status'', typed [''string''] '''' None),
           (''message'', typed [''string''] '''' None),
           (''reason'', typed [''string''] '''' None),
           (''details'', refd None (ref (meta_v1 ''StatusDetails''))),
           (''code'', typed [''integer''] ''int32'' None)]
          [],
      def_Dependencies = [meta_v1 ''ListMeta'', meta_v1 ''StatusDetails'']\<rparr>"

definition schema_pkg_apis_meta_v1_StatusCause :: "(string \<Rightarrow> 'r) \<Rightarrow> 'r OpenAPIDefinition" where
  "schema_pkg_apis_meta_v1_StatusCause ref =
     \<lparr>def_Schema = object_of [(''reason'', typed [''string''] '''' None),
           (''message'', typed [''string''] '''' None),
           (''field'', typed [''string''] '''' None)]
          [],
      def_Dependencies = []\<rparr>"

definition schema_pkg_apis_meta_v1_StatusDetails :: "(string \<Rightarrow> 'r) \<Rightarrow> 'r OpenAPIDefinition" where
  "schema_pkg_apis_meta_v1_StatusDetails ref =
     \<lparr>def_Schema = object_of [(''name'', typed [''string''] '''' None),
           (''group'', typed [''string''] '''' None),
           (''kind'', typed [''string''] '''' None),
           (''uid'', typed [''string''] '''' None),
           (''causes'', array_of (refd (Some (JObj [])) (ref (meta_v1 ''StatusCause'')))),
           (''retryAfterSeconds'', typed [''integer''] ''int32'' None)]
          [],
      def_Dependencies = [meta_v1 ''StatusCause'']\<rparr>"

definition schema_pkg_apis_meta_v1_Table :: "(string \<Rightarrow> 'r) \<Rightarrow> 'r OpenAPIDefinition" where
  "schema_pkg_apis_meta_v1_Table ref =
     \<lparr>def_Schema = object_of [(''kind'', typed [''string''] '''' None),
           (''apiVersion'', typed [''string''] '''' None),
           (''metadata'', refd (Some (JObj [])) (ref (meta_v1 ''ListMeta''))),
           (''columnDefinitions'', array_of (refd (Some (JObj [])) (ref (meta_v1 ''TableColumnDefinition'')))),
           (''rows'', array_of (refd (Some (JObj [])) (ref (meta_v1 ''TableRow''))))]
          [''columnDefinitions'', ''rows''],
      def_Dependencies = [meta_v1 ''ListMeta'', meta_v1 ''TableColumnDefinition'', meta_v1 ''TableRow'']\<rparr>"

definition schema_pkg_apis_meta_v1_TableColumnDefinition :: "(string \<Rightarrow> 'r) \<Rightarrow> 'r OpenAPIDefinition" where
  "schema_pkg_apis_meta_v1_TableColumnDefinition ref =
     \<lparr>def_Schema = object_of [(''name'', typed [''string''] '''' (Some (JStr ''''))),
           (''type'', typed [''string''] '''' (Some (JStr ''''))),
           (''format'', typed [''string''] '''' (Some (JStr ''''))),
           (''description'', typed [''string''] '''' (Some (JStr ''''))),
           (''priority'', typed [''integer''] ''int32'' (Some (JInt 0)))]
          [''name'', ''type'', ''format'', ''description'', ''priority''],
      def_Dependencies = []\<rparr>"

definition schema_pkg_apis_meta_v1_TableOptions :: "(string \<Rightarrow> 'r) \<Rightarrow> 'r OpenAPIDefinition" where
  "schema_pkg_apis_meta_v1_TableOptions ref =
     \<lparr>def_Schema = object_of [(''kind'', typed [''string''] '''' None),
           (''apiVersion'', typed [''string''] '''' None),
           (''includeObject'', typed [''string''] '''' None)]
          [],
      def_Dependencies = []\<rparr>"

definition schema_pkg_apis_meta_v1_TableRow :: "(string \<Rightarrow> 'r) \<Rightarrow> 'r OpenAPIDefinition" where
  "schema_pkg_apis_meta_v1_TableRow ref =
     \<lparr>def_Schema = object_of [(''cells'', array_of (typed [''object''] '''' None)),
           (''conditions'', array_of (refd (Some (JObj [])) (ref (meta_v1 ''TableRowCondition'')))),
           (''object'', refd None (ref (runtime_pkg ''RawExtension'')))]
          [''cells''],
      def_Dependencies = [meta_v1 ''TableRowCondition'', runtime_pkg ''RawExtension'']\<rparr>"

definition schema_pkg_apis_meta_v1_TableRowCondition :: "(string \<Rightarrow> 'r) \<Rightarrow> 'r OpenAPIDefinition" where
  "schema_pkg_apis_meta_v1_TableRowCondition ref =
     \<lparr>def_Schema = object_of [(''type'', typed [''string''] '''' (Some (JStr ''''))),
           (''status'', typed [''string''] '''' (Some (JStr ''''))),
           (''reason'', typed [''string''] '''' None),
           (''message'', typed [''string''] '''' None)]
          [''type'', ''status''],
      def_Dependencies = []\<rparr>"

definition schema_pkg_apis_meta_v1_Time :: "'r openapi_ops \<Rightarrow> (string \<Rightarrow> 'r) \<Rightarrow> 'r OpenAPIDefinition" where
  "schema_pkg_apis_meta_v1_Time ops ref =
     \<lparr>def_Schema = typed (Time_type ops) (Time_format ops) None,
      def_Dependencies = []\<rparr>"

definition schema_pkg_apis_meta_v1_Timestamp :: "(string \<Rightarrow> 'r) \<Rightarrow> 'r OpenAPIDefinition" where
  "schema_pkg_apis_meta_v1_Timestamp ref =
     \<lparr>def_Schema = object_of [(''seconds'', typed [''integer''] ''int64'' (Some (JInt 0))),
           (''nanos'', typed [''integer''] ''int32'' (Some (JInt 0)))]
          [''seconds'', ''nanos''],
      def_Dependencies = []\<rparr>"

definition schema_pkg_apis_meta_v1_TypeMeta :: "(string \<Rightarrow> 'r) \<Rightarrow> 'r OpenAPIDefinition" where
  "schema_pkg_apis_meta_v1_TypeMeta ref =
     \<lparr>def_Schema = object_of [(''kind'', typed [''string''] '''' None),
           (''apiVersion'', typed [''string''] '''' None)]
          [],
      def_Dependencies = []\<rparr>"

definition schema_pkg_apis_meta_v1_UpdateOptions :: "(string \<Rightarrow> 'r) \<Rightarrow> 'r OpenAPIDefinition" where
  "schema_pkg_apis_meta_v1_UpdateOptions ref =
     \<lparr>def_Schema = object_of [(''kind'', typed [''string''] '''' None),
           (''apiVersion'', typed [''string''] '''' None),
           (''dryRun'', array_of (typed [''string''] '''' (Some (JStr '''')))),
           (''fieldManager'', typed [''string''] '''' None),
           (''fieldValidation'', typed [''string''] '''' None)]
          [],
      def_Dependencies = []\<rparr>"

definition schema_pkg_apis_meta_v1_WatchEvent :: "(string \<Rightarrow> 'r) \<Rightarrow> 'r OpenAPIDefinition" where
  "schema_pkg_apis_meta_v1_WatchEvent ref =
     \<lparr>def_Schema = object_of [(''type'', typed [''string''] '''' (Some (JStr ''''))),
           (''object'', refd None (ref (runtime_pkg ''RawExtension'')))]
          [''type'', ''object''],
      def_Dependencies = [runtime_pkg ''RawExtension'']\<rparr>"

definition schema_k8sio_apimachinery_pkg_runtime_RawExtension :: "(string \<Rightarrow> 'r) \<Rightarrow> 'r OpenAPIDefinition" where
  "schema_k8sio_apimachinery_pkg_runtime_RawExtension ref =
     \<lparr>def_Schema = object_of []
          [],
      def_Dependencies = []\<rparr>"

definition schema_k8sio_apimachinery_pkg_runtime_TypeMeta :: "(string \<Rightarrow> 'r) \<Rightarrow> 'r OpenAPIDefinition" where
  "schema_k8sio_apimachinery_pkg_runtime_TypeMeta ref =
     \<lparr>def_Schema = object_of [(''apiVersion'', typed [''string''] '''' None),
           (''kind'', typed [''string''] '''' None)]
          [],
      def_Dependencies = []\<rparr>"

definition schema_k8sio_apimachinery_pkg_runtime_Unknown :: "(string \<Rightarrow> 'r) \<Rightarrow> 'r OpenAPIDefinition" where
  "schema_k8sio_apimachinery_pkg_runtime_Unknown ref =
     \<lparr>def_Schema = object_of [(''apiVersion'', typed [''string''] '''' None),
           (''kind'', typed [''string''] '''' None),
           (''ContentEncoding'', typed [''string''] '''' (Some (JStr ''''))),
           (''ContentType'', typed [''string''] '''' (Some (JStr '''')))]
          [''ContentEncoding'', ''ContentType''],
      def_Dependencies = []\<rparr>"

definition schema_k8sio_apimachinery_pkg_version_Info :: "(string \<Rightarrow> 'r) \<Rightarrow> 'r OpenAPIDefinition" where
  "schema_k8sio_apimachinery_pkg_version_Info ref =
     \<lparr>def_Schema = object_of [(''major'', typed [''string''] '''' (Some (JStr ''''))),
           (''minor'', typed [''string''] '''' (Some (JStr ''''))),
           (''gitVersion'', typed [''string''] '''' (Some (JStr ''''))),
           (''gitCommit'', typed [''string''] '''' (Some (JStr ''''))),
           (''gitTreeState'', typed [''string''] '''' (Some (JStr ''''))),
           (''buildDate'', typed [''string''] '''' (Some (JStr ''''))),
           (''goVersion'', typed [''string''] '''' (Some (JStr ''''))),
           (''compiler'', typed [''string''] '''' (Some (JStr ''''))),
           (''platform'', typed [''string''] '''' (Some (JStr '''')))]
          [''major'', ''minor'', ''gitVersion'', ''gitCommit'', ''gitTreeState'', ''buildDate'', ''goVersion'', ''compiler'', ''platform''],
      def_Dependencies = []\<rparr>"

lemmas meta_schemas =
  schema_apimachinery_pkg_api_resource_Quantity_def
  schema_apimachinery_pkg_api_resource_int64Amount_def
  schema_pkg_apis_meta_v1_APIGroup_def
  schema_pkg_apis_meta_v1_APIGroupList_def
  schema_pkg_apis_meta_v1_APIResource_def
  schema_pkg_apis_meta_v1_APIResourceList_def
  schema_pkg_apis_meta_v1_APIVersions_def
  schema_pkg_apis_meta_v1_ApplyOptions_def
  schema_pkg_apis_meta_v1_Condition_def
  schema_pkg_apis_meta_v1_CreateOptions_def
  schema_pkg_apis_meta_v1_DeleteOptions_def
  schema_pkg_apis_meta_v1_Duration_def
  schema_pkg_apis_meta_v1_FieldsV1_def
  schema_pkg_apis_meta_v1_GetOptions_def
  schema_pkg_apis_meta_v1_GroupKind_def
  schema_pkg_apis_meta_v1_GroupResource_def
  schema_pkg_apis_meta_v1_GroupVersion_def
  schema_pkg_apis_meta_v1_GroupVersionForDiscovery_def
  schema_pkg_apis_meta_v1_GroupVersionKind_def
  schema_pkg_apis_meta_v1_GroupVersionResource_def
  schema_pkg_apis_meta_v1_InternalEvent_def
  schema_pkg_apis_meta_v1_LabelSelector_def
  schema_pkg_apis_meta_v1_LabelSelectorRequirement_def
  schema_pkg_apis_meta_v1_List_def
  schema_pkg_apis_meta_v1_ListMeta_def
  schema_pkg_apis_meta_v1_ListOptions_def
  schema_pkg_apis_meta_v1_ManagedFieldsEntry_def
  schema_pkg_apis_meta_v1_MicroTime_def
  schema_pkg_apis_meta_v1_ObjectMeta_def
  schema_pkg_apis_meta_v1_OwnerReference_def
  schema_pkg_apis_meta_v1_PartialObjectMetadata_def
  schema_pkg_apis_meta_v1_PartialObjectMetadataList_def
  schema_pkg_apis_meta_v1_Patch_def
  schema_pkg_apis_meta_v1_PatchOptions_def
  schema_pkg_apis_meta_v1_Preconditions_def
  schema_pkg_apis_meta_v1_RootPaths_def
  schema_pkg_apis_meta_v1_ServerAddressByClientCIDR_def
  schema_pkg_apis_meta_v1_Status_def
  schema_pkg_apis_meta_v1_StatusCause_def
  schema_pkg_apis_meta_v1_StatusDetails_def
  schema_pkg_apis_meta_v1_Table_def
  schema_pkg_apis_meta_v1_TableColumnDefinition_def
  schema_pkg_apis_meta_v1_TableOptions_def
  schema_pkg_apis_meta_v1_TableRow_def
  schema_pkg_apis_meta_v1_TableRowCondition_def
  schema_pkg_apis_meta_v1_Time_def
  schema_pkg_apis_meta_v1_Timestamp_def
  schema_pkg_apis_meta_v1_TypeMeta_def
  schema_pkg_apis_meta_v1_UpdateOptions_def
  schema_pkg_apis_meta_v1_WatchEvent_def
  schema_k8sio_apimachinery_pkg_runtime_RawExtension_def
  schema_k8sio_apimachinery_pkg_runtime_TypeMeta_def
  schema_k8sio_apimachinery_pkg_runtime_Unknown_def
  schema_k8sio_apimachinery_pkg_version_Info_def

end
