(* ===== verification/OpenAPI_Definitions.thy ===== *)
theory OpenAPI_Definitions
  imports OpenAPI_Cluster OpenAPI_Meta
begin

text \<open>
  The table of all generated definitions and how they refer to each other: what a definition refers to is what it
  lists as its dependencies, and everything the served kinds need, directly or not, is in the table.
\<close>

section \<open>The table\<close>

definition GetOpenAPIDefinitions :: "'r openapi_ops \<Rightarrow> (string \<Rightarrow> 'r) \<Rightarrow> (string \<times> 'r OpenAPIDefinition) list" where
  "GetOpenAPIDefinitions ops ref =
     [(cluster_v1alpha1 ''ClientIdentityExchangeRule'', schema_pkg_apis_cluster_v1alpha1_ClientIdentityExchangeRule ref),
      (cluster_v1alpha1 ''ClientIdentityExchanger'', schema_pkg_apis_cluster_v1alpha1_ClientIdentityExchanger ref),
      (cluster_v1alpha1 ''ClusterAccess'', schema_pkg_apis_cluster_v1alpha1_ClusterAccess ref),
      (cluster_v1alpha1 ''ClusterAccessCredential'', schema_pkg_apis_cluster_v1alpha1_ClusterAccessCredential ref),
      (cluster_v1alpha1 ''ClusterEndpoint'', schema_pkg_apis_cluster_v1alpha1_ClusterEndpoint ref),
      (cluster_v1alpha1 ''ClusterEndpointConst'', schema_pkg_apis_cluster_v1alpha1_ClusterEndpointConst ref),
      (cluster_v1alpha1 ''ClusterGateway'', schema_pkg_apis_cluster_v1alpha1_ClusterGateway ref),
      (cluster_v1alpha1 ''ClusterGatewayHealth'', schema_pkg_apis_cluster_v1alpha1_ClusterGatewayHealth ref),
      (cluster_v1alpha1 ''ClusterGatewayList'', schema_pkg_apis_cluster_v1alpha1_ClusterGatewayList ref),
      (cluster_v1alpha1 ''ClusterGatewayProxy'', schema_pkg_apis_cluster_v1alpha1_ClusterGatewayProxy ref),
      (cluster_v1alpha1 ''ClusterGatewayProxyConfiguration'', schema_pkg_apis_cluster_v1alpha1_ClusterGatewayProxyConfiguration ref),
      (cluster_v1alpha1 ''ClusterGatewayProxyConfigurationSpec'', schema_pkg_apis_cluster_v1alpha1_ClusterGatewayProxyConfigurationSpec ref),
      (cluster_v1alpha1 ''ClusterGatewayProxyOptions'', schema_pkg_apis_cluster_v1alpha1_ClusterGatewayProxyOptions ref),
      (cluster_v1alpha1 ''ClusterGatewaySpec'', schema_pkg_apis_cluster_v1alpha1_ClusterGatewaySpec ref),
      (cluster_v1alpha1 ''ClusterGatewayStatus'', schema_pkg_apis_cluster_v1alpha1_ClusterGatewayStatus ref),
      (cluster_v1alpha1 ''IdentityExchangerSource'', schema_pkg_apis_cluster_v1alpha1_IdentityExchangerSource ref),
      (cluster_v1alpha1 ''IdentityExchangerTarget'', schema_pkg_apis_cluster_v1alpha1_IdentityExchangerTarget ref),
      (cluster_v1alpha1 ''VirtualCluster'', schema_pkg_apis_cluster_v1alpha1_VirtualCluster ref),
      (cluster_v1alpha1 ''VirtualClusterList'', schema_pkg_apis_cluster_v1alpha1_VirtualClusterList ref),
      (cluster_v1alpha1 ''VirtualClusterSpec'', schema_pkg_apis_cluster_v1alpha1_VirtualClusterSpec ref),
      (cluster_v1alpha1 ''X509'', schema_pkg_apis_cluster_v1alpha1_X509 ref),
      (cluster_v1alpha1 ''clusterGatewayProxyRequestEscaper'', schema_pkg_apis_cluster_v1alpha1_clusterGatewayProxyRequestEscaper ref),
      (cluster_v1alpha1 ''emptyCredentialTypeClusterSecretError'', schema_pkg_apis_cluster_v1alpha1_emptyCredentialTypeClusterSecretError ref),
      (cluster_v1alpha1 ''emptyEndpointClusterSecretError'', schema_pkg_apis_cluster_v1alpha1_emptyEndpointClusterSecretError ref),
      (cluster_v1alpha1 ''invalidManagedClusterError'', schema_pkg_apis_cluster_v1alpha1_invalidManagedClusterError ref),
      (cluster_v1alpha1 ''noSuppressPanicError'', schema_pkg_apis_cluster_v1alpha1_noSuppressPanicError ref),
      (cluster_v1alpha1 ''proxyResponseWriter'', schema_pkg_apis_cluster_v1alpha1_proxyResponseWriter ref),
      (cluster_v1alpha1 ''virtualClusterClient'', schema_pkg_apis_cluster_v1alpha1_virtualClusterClient ref),
      (cluster_v1alpha1 ''virtualClusterSelector'', schema_pkg_apis_cluster_v1alpha1_virtualClusterSelector ref),
      (proxy_v1alpha1 ''ClusterGatewayConfiguration'', schema_pkg_apis_proxy_v1alpha1_ClusterGatewayConfiguration ref),
      (proxy_v1alpha1 ''ClusterGatewayConfigurationList'', schema_pkg_apis_proxy_v1alpha1_ClusterGatewayConfigurationList ref),
      (proxy_v1alpha1 ''ClusterGatewayConfigurationSpec'', schema_pkg_apis_proxy_v1alpha1_ClusterGatewayConfigurationSpec ref),
      (proxy_v1alpha1 ''ClusterGatewayConfigurationStatus'', schema_pkg_apis_proxy_v1alpha1_ClusterGatewayConfigurationStatus ref),
      (proxy_v1alpha1 ''ClusterGatewaySecretManagement'', schema_pkg_apis_proxy_v1alpha1_ClusterGatewaySecretManagement ref),
      (proxy_v1alpha1 ''ClusterGatewayTrafficEgress'', schema_pkg_apis_proxy_v1alpha1_ClusterGatewayTrafficEgress ref),
      (proxy_v1alpha1 ''ClusterGatewayTrafficEgressClusterProxy'', schema_pkg_apis_proxy_v1alpha1_ClusterGatewayTrafficEgressClusterProxy ref),
      (proxy_v1alpha1 ''ClusterGatewayTrafficEgressClusterProxyCredential'', schema_pkg_apis_proxy_v1alpha1_ClusterGatewayTrafficEgressClusterProxyCredential ref),
      (proxy_v1alpha1 ''SecretManagementManagedServiceAccount'', schema_pkg_apis_proxy_v1alpha1_SecretManagementManagedServiceAccount ref),
      (api_resource ''Quantity'', schema_apimachinery_pkg_api_resource_Quantity ops ref),
      (api_resource ''int64Amount'', schema_apimachinery_pkg_api_resource_int64Amount ref),
      (meta_v1 ''APIGroup'', schema_pkg_apis_meta_v1_APIGroup ref),
      (meta_v1 ''APIGroupList'', schema_pkg_apis_meta_v1_APIGroupList ref),
      (meta_v1 ''APIResource'', schema_pkg_apis_meta_v1_APIResource ref),
      (meta_v1 ''APIResourceList'', schema_pkg_apis_meta_v1_APIResourceList ref),
      (meta_v1 ''APIVersions'', schema_pkg_apis_meta_v1_APIVersions ref),
      (meta_v1 ''ApplyOptions'', schema_pkg_apis_meta_v1_ApplyOptions ref),
      (meta_v1 ''Condition'', schema_pkg_apis_meta_v1_Condition ref),
      (meta_v1 ''CreateOptions'', schema_pkg_apis_meta_v1_CreateOptions ref),
      (meta_v1 ''DeleteOptions'', schema_pkg_apis_meta_v1_DeleteOptions ref),
      (meta_v1 ''Duration'', schema_pkg_apis_meta_v1_Duration ops ref),
      (meta_v1 ''FieldsV1'', schema_pkg_apis_meta_v1_FieldsV1 ref),
      (meta_v1 ''GetOptions'', schema_pkg_apis_meta_v1_GetOptions ref),
      (meta_v1 ''GroupKind'', schema_pkg_apis_meta_v1_GroupKind ref),
      (meta_v1 ''GroupResource'', schema_pkg_apis_meta_v1_GroupResource ref),
      (meta_v1 ''GroupVersion'', schema_pkg_apis_meta_v1_GroupVersion ref),
      (meta_v1 ''GroupVersionForDiscovery'', schema_pkg_apis_meta_v1_GroupVersionForDiscovery ref),
      (meta_v1 ''GroupVersionKind'', schema_pkg_apis_meta_v1_GroupVersionKind ref),
      (meta_v1 ''GroupVersionResource'', schema_pkg_apis_meta_v1_GroupVersionResource ref),
      (meta_v1 ''InternalEvent'', schema_pkg_apis_meta_v1_InternalEvent ref),
      (meta_v1 ''LabelSelector'', schema_pkg_apis_meta_v1_LabelSelector ref),
      (meta_v1 ''LabelSelectorRequirement'', schema_pkg_apis_meta_v1_LabelSelectorRequirement ref),
      (meta_v1 ''List'', schema_pkg_apis_meta_v1_List ref),
      (meta_v1 ''ListMeta'', schema_pkg_apis_meta_v1_ListMeta ref),
      (meta_v1 ''ListOptions'', schema_pkg_apis_meta_v1_ListOptions ref),
      (meta_v1 ''ManagedFieldsEntry'', schema_pkg_apis_meta_v1_ManagedFieldsEntry ref),
      (meta_v1 ''MicroTime'', schema_pkg_apis_meta_v1_MicroTime ops ref),
      (meta_v1 ''ObjectMeta'', schema_pkg_apis_meta_v1_ObjectMeta ref),
      (meta_v1 ''OwnerReference'', schema_pkg_apis_meta_v1_OwnerReference ref),
      (meta_v1 ''PartialObjectMetadata'', schema_pkg_apis_meta_v1_PartialObjectMetadata ref),
      (meta_v1 ''PartialObjectMetadataList'', schema_pkg_apis_meta_v1_PartialObjectMetadataList ref),
      (meta_v1 ''Patch'', schema_pkg_apis_meta_v1_Patch ref),
      (meta_v1 ''PatchOptions'', schema_pkg_apis_meta_v1_PatchOptions ref),
      (meta_v1 ''Preconditions'', schema_pkg_apis_meta_v1_Preconditions ref),
      (meta_v1 ''RootPaths'', schema_pkg_apis_meta_v1_RootPaths ref),
      (meta_v1 ''ServerAddressByClientCIDR'', schema_pkg_apis_meta_v1_ServerAddressByClientCIDR ref),
      (meta_v1 ''Status'', schema_pkg_apis_meta_v1_Status ref),
      (meta_v1 ''StatusCause'', schema_pkg_apis_meta_v1_StatusCause ref),
      (meta_v1 ''StatusDetails'', schema_pkg_apis_meta_v1_StatusDetails ref),
      (meta_v1 ''Table'', schema_pkg_apis_meta_v1_Table ref),
      (meta_v1 ''TableColumnDefinition'', schema_pkg_apis_meta_v1_TableColumnDefinition ref),
      (meta_v1 ''TableOptions'', schema_pkg_apis_meta_v1_TableOptions ref),
      (meta_v1 ''TableRow'', schema_pkg_apis_meta_v1_TableRow ref),
      (meta_v1 ''TableRowCondition'', schema_pkg_apis_meta_v1_TableRowCondition ref),
      (meta_v1 ''Time'', schema_pkg_apis_meta_v1_Time ops ref),
      (meta_v1 ''Timestamp'', schema_pkg_apis_meta_v1_Timestamp ref),
      (meta_v1 ''TypeMeta'', schema_pkg_apis_meta_v1_TypeMeta ref),
      (meta_v1 ''UpdateOptions'', schema_pkg_apis_meta_v1_UpdateOptions ref),
      (meta_v1 ''WatchEvent'', schema_pkg_apis_meta_v1_WatchEvent ref),
      (runtime_pkg ''RawExtension'', schema_k8sio_apimachinery_pkg_runtime_RawExtension ref),
      (runtime_pkg ''TypeMeta'', schema_k8sio_apimachinery_pkg_runtime_TypeMeta ref),
      (runtime_pkg ''Unknown'', schema_k8sio_apimachinery_pkg_runtime_Unknown ref),
      (version_pkg ''Info'', schema_k8sio_apimachinery_pkg_version_Info ref)]"

text \<open>The definition of a name.\<close>

abbreviation openapi_defs :: "'r openapi_ops \<Rightarrow> (string \<Rightarrow> 'r) \<Rightarrow> string \<rightharpoonup> 'r OpenAPIDefinition" where
  "openapi_defs ops ref \<equiv> map_of (GetOpenAPIDefinitions ops ref)"

lemma GetOpenAPIDefinitions_distinct: "distinct (map fst (GetOpenAPIDefinitions ops ref))"
  by (simp add: GetOpenAPIDefinitions_def type_names)

section \<open>References\<close>

text \<open>All references of a schema, at any depth: the elements of the datatype.\<close>

abbreviation references :: "'r OpenAPIDefinition \<Rightarrow> 'r set" where
  "references d \<equiv> set_Schema (def_Schema d)"

lemma references_shapes:
  "set_Schema (typed t f d) = {}" "set_Schema (refd d r) = {r}" "set_Schema (array_of s) = set_Schema s" "set_Schema (map_schema s) = set_Schema s"
  "set_Schema (object_of ps req) = (\<Union>(k, s)\<in>set ps. set_Schema s)" "set_Schema (with_extensions es s) = set_Schema s"
  by (auto simp: schema_shapes) (cases s; simp)+

definition depends :: "(string \<rightharpoonup> 'r OpenAPIDefinition) \<Rightarrow> (string \<times> string) set" where
  "depends defs = {(m, n). \<exists>d. defs m = Some d \<and> n \<in> set (def_Dependencies d)}"

text \<open>Definitions that refer to a type without a definition, and the one that kube-openapi assembles.\<close>

definition incomplete :: "string list" where
  "incomplete = [cluster_v1alpha1 ''clusterGatewayProxyRequestEscaper'', cluster_v1alpha1 ''proxyResponseWriter'',
     cluster_v1alpha1 ''virtualClusterClient'', cluster_v1alpha1 ''virtualClusterSelector'', meta_v1 ''InternalEvent'']"

definition assembled :: "string list" where "assembled = [api_resource ''Quantity'']"

text \<open>What all the others depend on.\<close>

definition needed :: "string list" where
  "needed = map cluster_v1alpha1 [''IdentityExchangerSource'', ''IdentityExchangerTarget'', ''ClientIdentityExchangeRule'', ''ClusterAccessCredential'', ''ClusterEndpoint'', ''X509'', ''ClusterEndpointConst'', ''ClusterGatewaySpec'', ''ClusterGatewayStatus'', ''ClusterGateway'', ''ClusterGatewayProxyConfigurationSpec'', ''ClientIdentityExchanger'', ''ClusterAccess'', ''VirtualClusterSpec'', ''VirtualCluster''] @
     map meta_v1 [''ObjectMeta'', ''ListMeta'', ''TypeMeta'', ''Condition'', ''GroupVersionForDiscovery'', ''ServerAddressByClientCIDR'', ''APIGroup'', ''APIResource'', ''Time'', ''Preconditions'', ''LabelSelectorRequirement'', ''FieldsV1'', ''ManagedFieldsEntry'', ''OwnerReference'', ''PartialObjectMetadata'', ''StatusDetails'', ''StatusCause'', ''TableColumnDefinition'', ''TableRow'', ''TableRowCondition''] @
     map proxy_v1alpha1 [''ClusterGatewayConfigurationSpec'', ''ClusterGatewayConfigurationStatus'', ''ClusterGatewayConfiguration'', ''ClusterGatewaySecretManagement'', ''ClusterGatewayTrafficEgress'', ''SecretManagementManagedServiceAccount'', ''ClusterGatewayTrafficEgressClusterProxy'', ''ClusterGatewayTrafficEgressClusterProxyCredential''] @
     map runtime_pkg [''RawExtension'']"

lemma dependencies_exact:
  "list_all (\<lambda>(n, d). n \<in> set assembled \<or> references d = ref ` set (def_Dependencies d)) (GetOpenAPIDefinitions ops ref)"
  by (simp add: GetOpenAPIDefinitions_def own_schemas meta_schemas references_shapes assembled_def insert_commute)

lemma dependencies_needed:
  "list_all (\<lambda>(n, d). n \<in> set incomplete \<or> n \<in> set assembled \<or> set (def_Dependencies d) \<subseteq> set needed) (GetOpenAPIDefinitions ops ref)"
  by (simp add: GetOpenAPIDefinitions_def own_schemas meta_schemas incomplete_def assembled_def type_names needed_def)

lemma needed_defined: "list_all (\<lambda>n. n \<in> set (map fst (GetOpenAPIDefinitions ops ref))) needed"
  by (simp only: GetOpenAPIDefinitions_def list.map fst_conv) (simp add: type_names needed_def)

lemma needed_complete: "list_all (\<lambda>n. n \<notin> set incomplete \<and> n \<notin> set assembled) needed"
  by (simp add: type_names needed_def incomplete_def assembled_def)

lemma needed_reached:
  assumes "(m, n) \<in> (depends (openapi_defs ops ref))\<^sup>*" "m \<in> fst ` set (GetOpenAPIDefinitions ops ref)" "m \<notin> set incomplete \<union> set assembled"
  shows "n \<in> fst ` set (GetOpenAPIDefinitions ops ref) \<and> n \<notin> set incomplete \<union> set assembled"
  using assms
proof (induction rule: rtrancl_induct)
  case (step k n)
  then obtain d where "openapi_defs ops ref k = Some d" "n \<in> set (def_Dependencies d)" by (auto simp: depends_def)
  then have "n \<in> set needed" using dependencies_needed [of ops ref] step.IH [OF step.prems] by (auto simp: list_all_iff dest!: map_of_SomeD)
  then show ?case using needed_defined [of ops ref] needed_complete by (auto simp: list_all_iff)
qed simp

text \<open>Types that have no definition, and what refers to them.\<close>

definition undefined_types :: "string list" where
  "undefined_types = map net_http [''Flusher'', ''Handler'', ''Hijacker'', ''ResponseWriter''] @
     [client_pkg ''Client'', labels_pkg ''Selector'', runtime_pkg ''Object'']"

lemma undefined_types_undefined: "list_all (\<lambda>n. n \<notin> set (map fst (GetOpenAPIDefinitions ops ref))) undefined_types"
  by (simp only: GetOpenAPIDefinitions_def list.map fst_conv) (simp add: type_names undefined_types_def)

lemma incomplete_undefined:
  "list_all (\<lambda>(n, d). n \<notin> set incomplete \<or> list_ex (\<lambda>k. k \<in> set undefined_types) (def_Dependencies d)) (GetOpenAPIDefinitions ops ref)"
  by (simp add: GetOpenAPIDefinitions_def own_schemas meta_schemas incomplete_def type_names undefined_types_def)

text \<open>
  Everything a definition of the table refers to, at whatever depth of its schema, is listed among its dependencies
  and nothing else is. The dependencies are themselves defined except for exactly five definitions, and from any of the others, the served
  kinds among them, every name that is reached through dependencies is defined.
\<close>

theorem references_resolve:
  "(\<forall>n d. openapi_defs ops ref n = Some d \<and> n \<notin> set assembled \<longrightarrow>
      references d = ref ` set (def_Dependencies d) \<and>
      (n \<in> set incomplete \<longleftrightarrow> \<not> set (def_Dependencies d) \<subseteq> dom (openapi_defs ops ref))) \<and>
   (\<forall>m n. m \<in> dom (openapi_defs ops ref) - (set incomplete \<union> set assembled) \<and> (m, n) \<in> (depends (openapi_defs ops ref))\<^sup>* \<longrightarrow>
      n \<in> dom (openapi_defs ops ref))"
proof (rule conjI; intro allI impI)
  fix n d assume a: "openapi_defs ops ref n = Some d \<and> n \<notin> set assembled"
  then have d: "(n, d) \<in> set (GetOpenAPIDefinitions ops ref)" by (auto dest: map_of_SomeD)
  have "references d = ref ` set (def_Dependencies d)"
    using dependencies_exact [of ref ops] d a by (auto simp: list_all_iff)
  moreover have "\<not> set (def_Dependencies d) \<subseteq> dom (openapi_defs ops ref)" if "n \<in> set incomplete"
    using incomplete_undefined [of ops ref] undefined_types_undefined [of ops ref] d that
    by (fastforce simp: list_all_iff list_ex_iff dom_map_of_conv_image_fst)
  moreover have "set (def_Dependencies d) \<subseteq> dom (openapi_defs ops ref)" if "n \<notin> set incomplete"
  proof -
    have "set (def_Dependencies d) \<subseteq> set needed" using dependencies_needed [of ops ref] d that a by (auto simp: list_all_iff)
    then show ?thesis using needed_defined [of ops ref] by (auto simp: list_all_iff dom_map_of_conv_image_fst)
  qed
  ultimately show "references d = ref ` set (def_Dependencies d) \<and>
      (n \<in> set incomplete \<longleftrightarrow> \<not> set (def_Dependencies d) \<subseteq> dom (openapi_defs ops ref))" by blast
next
  fix m n assume "m \<in> dom (openapi_defs ops ref) - (set incomplete \<union> set assembled) \<and> (m, n) \<in> (depends (openapi_defs ops ref))\<^sup>*"
  then show "n \<in> dom (openapi_defs ops ref)" using needed_reached [of m n ops ref] by (simp add: dom_map_of_conv_image_fst)
qed

text \<open>The calls into the libraries, as they answer in a plain build.\<close>

definition demo_openapi_ops :: "'r openapi_ops" where
  "demo_openapi_ops = \<lparr>EmbedOpenAPIDefinitionIntoV2Extension = (\<lambda>main embedded. main),
     GenerateOpenAPIV3OneOfSchema = map (\<lambda>t. typed [t] '''' None), Quantity_oneOf_types = [''string'', ''number''],
     Quantity_type = [''string''], Quantity_format = '''', Duration_type = [''string''], Duration_format = '''',
     MicroTime_type = [''string''], MicroTime_format = ''date-time'', Time_type = [''string''], Time_format = ''date-time''\<rparr>"

lemma ClusterGateway_defined:
  "openapi_defs ops ref (cluster_v1alpha1 ''ClusterGateway'') = Some (schema_pkg_apis_cluster_v1alpha1_ClusterGateway ref)"
  by (simp add: GetOpenAPIDefinitions_def type_names)

theorem references_resolve_witness:
  "references (schema_pkg_apis_cluster_v1alpha1_ClusterGateway (\<lambda>n. n)) =
     {cluster_v1alpha1 ''ClusterGatewaySpec'', cluster_v1alpha1 ''ClusterGatewayStatus'', meta_v1 ''ObjectMeta''} \<and>
   meta_v1 ''Time'' \<in> dom (openapi_defs demo_openapi_ops (\<lambda>n. n))"
proof -
  note facts = references_resolve [of demo_openapi_ops "\<lambda>n. n"]
  have gw: "cluster_v1alpha1 ''ClusterGateway'' \<notin> set assembled" "cluster_v1alpha1 ''ClusterGateway'' \<notin> set incomplete"
    by (simp_all add: assembled_def incomplete_def type_names)
  have "references (schema_pkg_apis_cluster_v1alpha1_ClusterGateway (\<lambda>n. n)) =
      set (def_Dependencies (schema_pkg_apis_cluster_v1alpha1_ClusterGateway (\<lambda>n. n)))"
    using facts [THEN conjunct1, rule_format, OF conjI [OF ClusterGateway_defined gw(1)]] by simp
  moreover have "(cluster_v1alpha1 ''ClusterGateway'', meta_v1 ''ObjectMeta'') \<in> depends (openapi_defs demo_openapi_ops (\<lambda>n. n))"
    unfolding depends_def using ClusterGateway_defined [of demo_openapi_ops "\<lambda>n. n"]
    by (simp add: schema_pkg_apis_cluster_v1alpha1_ClusterGateway_def)
  moreover have "(meta_v1 ''ObjectMeta'', meta_v1 ''Time'') \<in> depends (openapi_defs demo_openapi_ops (\<lambda>n. n))"
    unfolding depends_def
    by (simp add: GetOpenAPIDefinitions_def type_names schema_pkg_apis_meta_v1_ObjectMeta_def)
  ultimately have refs: "references (schema_pkg_apis_cluster_v1alpha1_ClusterGateway (\<lambda>n. n)) =
      set (def_Dependencies (schema_pkg_apis_cluster_v1alpha1_ClusterGateway (\<lambda>n. n)))"
    and reached: "(cluster_v1alpha1 ''ClusterGateway'', meta_v1 ''Time'') \<in> (depends (openapi_defs demo_openapi_ops (\<lambda>n. n)))\<^sup>*"
    by (simp, meson converse_rtrancl_into_rtrancl r_into_rtrancl)
  have "cluster_v1alpha1 ''ClusterGateway'' \<in> dom (openapi_defs demo_openapi_ops (\<lambda>n. n)) - (set incomplete \<union> set assembled)"
    using ClusterGateway_defined gw by blast
  then have "meta_v1 ''Time'' \<in> dom (openapi_defs demo_openapi_ops (\<lambda>n. n))" using facts [THEN conjunct2] reached by blast
  then show ?thesis using refs by (simp add: schema_pkg_apis_cluster_v1alpha1_ClusterGateway_def)
qed

end
