(* ===== verification/OpenAPI_Encoding.thy ===== *)
theory OpenAPI_Encoding
  imports OpenAPI_Definitions Gateway_Secret Virtual_Cluster Addon_Types
begin

text \<open>
  The JSON of the served types, as \<^verbatim>\<open>encoding/json\<close> makes it from the struct tags, against the published definitions. A field tagged
  \<^verbatim>\<open>omitempty\<close> is left out when it is false, zero, empty or nil (a struct never is); a nil pointer or slice that is not
  left out is \<^verbatim>\<open>null\<close>. The encodings of metadata and conditions, which are types of apimachinery, and base64 are the
  record \<open>encoders\<close>.
\<close>

section \<open>Encoding\<close>
































section \<open>Looking up definitions\<close>


named_theorems defined


lemma config_defined [defined]:
  "openapi_defs ops ref (proxy_v1alpha1 ''ClusterGatewayConfigurationSpec'') = Some (schema_pkg_apis_proxy_v1alpha1_ClusterGatewayConfigurationSpec ref)"
  "openapi_defs ops ref (proxy_v1alpha1 ''ClusterGatewayConfigurationStatus'') = Some (schema_pkg_apis_proxy_v1alpha1_ClusterGatewayConfigurationStatus ref)"
  "openapi_defs ops ref (proxy_v1alpha1 ''ClusterGatewaySecretManagement'') = Some (schema_pkg_apis_proxy_v1alpha1_ClusterGatewaySecretManagement ref)"
  "openapi_defs ops ref (proxy_v1alpha1 ''SecretManagementManagedServiceAccount'') = Some (schema_pkg_apis_proxy_v1alpha1_SecretManagementManagedServiceAccount ref)"
  "openapi_defs ops ref (proxy_v1alpha1 ''ClusterGatewayTrafficEgress'') = Some (schema_pkg_apis_proxy_v1alpha1_ClusterGatewayTrafficEgress ref)"
  "openapi_defs ops ref (proxy_v1alpha1 ''ClusterGatewayTrafficEgressClusterProxy'') =
     Some (schema_pkg_apis_proxy_v1alpha1_ClusterGatewayTrafficEgressClusterProxy ref)"
  "openapi_defs ops ref (proxy_v1alpha1 ''ClusterGatewayTrafficEgressClusterProxyCredential'') =
     Some (schema_pkg_apis_proxy_v1alpha1_ClusterGatewayTrafficEgressClusterProxyCredential ref)"
  by (simp_all add: GetOpenAPIDefinitions_def type_names)

lemma meta_defined [defined]:
  "openapi_defs ops ref (meta_v1 ''ObjectMeta'') = Some (schema_pkg_apis_meta_v1_ObjectMeta ref)"
  "openapi_defs ops ref (meta_v1 ''ListMeta'') = Some (schema_pkg_apis_meta_v1_ListMeta ref)"
  "openapi_defs ops ref (meta_v1 ''Condition'') = Some (schema_pkg_apis_meta_v1_Condition ref)"
  by (simp_all add: GetOpenAPIDefinitions_def type_names)

lemmas [defined] = ClusterGateway_defined

section \<open>Conformance\<close>
































section \<open>Properties\<close>






abbreviation "demo_defs \<equiv> openapi_defs demo_openapi_ops (\<lambda>n. n)"





end
