(* ===== verification/Gateway_Clientset.thy ===== *)
theory Gateway_Clientset
  imports Complex_Main MultiCluster_Transport Virtual_Cluster OpenAPI_Definitions
begin

text \<open>
  Registration of the API types (\<^verbatim>\<open>pkg/apis/cluster/v1alpha1/register.go\<close>, \<^verbatim>\<open>pkg/generated/clientset/versioned/scheme\<close>) and the constructors of the
  generated clientset (\<^verbatim>\<open>clientset.go\<close>, \<^verbatim>\<open>typed/cluster/v1alpha1/cluster_client.go\<close>). The runtime scheme of apimachinery and the clients of client-go
  are the records \<open>scheme_ops\<close> and \<open>client_ops\<close>; \<open>scheme_laws\<close> and \<open>limiter_laws\<close> say what is used of them.
\<close>

section \<open>Registering types\<close>

type_synonym group_version = "string \<times> string"

definition SchemeGroupVersion :: group_version where
  "SchemeGroupVersion = (MetaApiGroupName, MetaApiVersionName)"

record 's scheme_ops =
  sch_AddToGroupVersion :: "group_version \<Rightarrow> 's \<Rightarrow> 's"
  sch_AddKnownTypes :: "group_version \<Rightarrow> string list \<Rightarrow> 's \<Rightarrow> 's"
  sch_corev1_AddToScheme :: "'s \<Rightarrow> 's res"
  sch_ocmclusterv1_Install :: "'s \<Rightarrow> 's res"

definition AddToScheme :: "'s scheme_ops \<Rightarrow> 's \<Rightarrow> 's res" where
  "AddToScheme ops scheme =
     (let scheme = sch_AddToGroupVersion ops (MetaApiGroupName, MetaApiVersionName) scheme;
          scheme = sch_AddKnownTypes ops (MetaApiGroupName, MetaApiVersionName) [''ClusterGateway'', ''ClusterGatewayList''] scheme;
          scheme = sch_AddKnownTypes ops (MetaApiGroupName, MetaApiVersionName) [''ClusterGatewayProxyOptions''] scheme;
          scheme = sch_AddKnownTypes ops (MetaApiGroupName, MetaApiVersionName) [''VirtualCluster'', ''VirtualClusterList''] scheme
      in Ret scheme)"

text \<open>The loop of \<^verbatim>\<open>init\<close>: the first error is fatal.\<close>

fun register_loop :: "('s \<Rightarrow> 's res) list \<Rightarrow> 's \<Rightarrow> 's res" where
  "register_loop [] scheme = Ret scheme"
| "register_loop (fn # fns) scheme = (case fn scheme of
     Ret scheme' \<Rightarrow> register_loop fns scheme'
   | Fail e \<Rightarrow> Fail (PlainError ''failed registering core api types'')
   | Panic m \<Rightarrow> Panic m)"

definition register_init :: "'s scheme_ops \<Rightarrow> 's \<Rightarrow> 's res" where
  "register_init ops = register_loop [AddToScheme ops, sch_corev1_AddToScheme ops, sch_ocmclusterv1_Install ops]"

text \<open>The scheme of the clientset: \<^verbatim>\<open>SchemeBuilder.AddToScheme\<close> runs its functions in order, \<^verbatim>\<open>utilruntime.Must\<close> panics on an error.\<close>

fun SchemeBuilder_AddToScheme :: "('s \<Rightarrow> 's res) list \<Rightarrow> 's \<Rightarrow> 's res" where
  "SchemeBuilder_AddToScheme [] scheme = Ret scheme"
| "SchemeBuilder_AddToScheme (fn # fns) scheme = bind_res (fn scheme) (SchemeBuilder_AddToScheme fns)"

definition clientset_AddToScheme :: "'s scheme_ops \<Rightarrow> 's \<Rightarrow> 's res" where
  "clientset_AddToScheme ops = SchemeBuilder_AddToScheme [AddToScheme ops]"

definition clientset_scheme_init :: "'s scheme_ops \<Rightarrow> 's \<Rightarrow> 's res" where
  "clientset_scheme_init ops scheme =
     (case clientset_AddToScheme ops (sch_AddToGroupVersion ops ('''', ''v1'') scheme) of
        Ret s \<Rightarrow> Ret s | Fail e \<Rightarrow> Panic (Error e) | Panic m \<Rightarrow> Panic m)"

text \<open>\<open>known\<close> tells the kinds of a scheme: adding kinds adds exactly those, and nothing is ever taken out.\<close>

definition scheme_laws :: "'s scheme_ops \<Rightarrow> ('s \<Rightarrow> group_version \<Rightarrow> string \<Rightarrow> bool) \<Rightarrow> bool" where
  "scheme_laws ops known \<longleftrightarrow>
     (\<forall>gv ks s gv' k. known (sch_AddKnownTypes ops gv ks s) gv' k \<longleftrightarrow> known s gv' k \<or> gv' = gv \<and> k \<in> set ks) \<and>
     (\<forall>gv s gv' k. known s gv' k \<longrightarrow> known (sch_AddToGroupVersion ops gv s) gv' k) \<and>
     (\<forall>s s' gv k. sch_corev1_AddToScheme ops s = Ret s' \<longrightarrow> known s gv k \<longrightarrow> known s' gv k) \<and>
     (\<forall>s s' gv k. sch_ocmclusterv1_Install ops s = Ret s' \<longrightarrow> known s gv k \<longrightarrow> known s' gv k)"

section \<open>Clients\<close>

text \<open>The fields of \<^verbatim>\<open>rest.Config\<close> the constructors look at; the rest of it is the type variable's.\<close>

record 'l client_config =
  kc_RateLimiter :: "'l option"
  kc_QPS :: rat
  kc_Burst :: int
  kc_GroupVersion :: "group_version option"
  kc_APIPath :: string
  kc_NegotiatedSerializer :: "string option"
  kc_UserAgent :: string

record ('x, 'l, 'r, 'd) client_ops =
  NewTokenBucketRateLimiter :: "rat \<Rightarrow> int \<Rightarrow> ('x, 'l) gom"
  RESTClientFor :: "'l client_config \<Rightarrow> ('x, 'r) gom"
  NewDiscoveryClientForConfig :: "'l client_config \<Rightarrow> ('x, 'd) gom"
  NewDiscoveryClientForConfigOrDie :: "'l client_config \<Rightarrow> ('x, 'd) gom"
  NewDiscoveryClient :: "'r \<Rightarrow> 'd"
  DefaultKubernetesUserAgent :: string
  Codecs_WithoutConversion :: string

definition setConfigDefaults :: "('x, 'l, 'r, 'd) client_ops \<Rightarrow> 'l client_config \<Rightarrow> 'l client_config" where
  "setConfigDefaults ops config =
     (let config = config\<lparr>kc_GroupVersion := Some SchemeGroupVersion, kc_APIPath := ''/apis'',
                          kc_NegotiatedSerializer := Some (Codecs_WithoutConversion ops)\<rparr>
      in if kc_UserAgent config = '''' then config\<lparr>kc_UserAgent := DefaultKubernetesUserAgent ops\<rparr> else config)"

record 'r ClusterV1alpha1Client =
  cv_restClient :: 'r

definition cluster_NewForConfig :: "('x, 'l, 'r, 'd) client_ops \<Rightarrow> 'l client_config \<Rightarrow> ('x, 'r ClusterV1alpha1Client) gom" where
  "cluster_NewForConfig ops c = bindM (RESTClientFor ops (setConfigDefaults ops c)) (\<lambda>client. ret \<lparr>cv_restClient = client\<rparr>)"

definition cluster_NewForConfigOrDie :: "('x, 'l, 'r, 'd) client_ops \<Rightarrow> 'l client_config \<Rightarrow> ('x, 'r ClusterV1alpha1Client) gom" where
  "cluster_NewForConfigOrDie ops c = bindM (attempt (cluster_NewForConfig ops c)) (\<lambda>r. case r of Inl e \<Rightarrow> panic (Error e) | Inr cl \<Rightarrow> ret cl)"

definition cluster_New :: "'r \<Rightarrow> 'r ClusterV1alpha1Client" where
  "cluster_New c = \<lparr>cv_restClient = c\<rparr>"

text \<open>A nil receiver is allowed.\<close>

definition cluster_RESTClient :: "'r ClusterV1alpha1Client option \<Rightarrow> 'r option" where
  "cluster_RESTClient c = (case c of None \<Rightarrow> None | Some cl \<Rightarrow> Some (cv_restClient cl))"

text \<open>\<^verbatim>\<open>newClusterGateways\<close> takes the REST client of its group client.\<close>

definition newClusterGateways :: "'r ClusterV1alpha1Client option \<Rightarrow> 'r option" where
  "newClusterGateways c = cluster_RESTClient c"

definition cluster_ClusterGateways :: "'r ClusterV1alpha1Client option \<Rightarrow> 'r option" where
  "cluster_ClusterGateways c = newClusterGateways c"

record ('r, 'd) Clientset =
  cs_DiscoveryClient :: 'd
  cs_clusterV1alpha1 :: "'r ClusterV1alpha1Client"

definition clientset_NewForConfig :: "('x, 'l, 'r, 'd) client_ops \<Rightarrow> 'l client_config \<Rightarrow> ('x, ('r, 'd) Clientset) gom" where
  "clientset_NewForConfig ops c =
     bindM (if kc_RateLimiter c = None \<and> kc_QPS c > 0 then
              if kc_Burst c \<le> 0
              then fail (PlainError ''burst is required to be greater than 0 when RateLimiter is not set and QPS is set to greater than 0'')
              else bindM (NewTokenBucketRateLimiter ops (kc_QPS c) (kc_Burst c)) (\<lambda>l. ret (c\<lparr>kc_RateLimiter := Some l\<rparr>))
            else ret c) (\<lambda>configShallowCopy.
     bindM (cluster_NewForConfig ops configShallowCopy) (\<lambda>clusterV1alpha1.
     bindM (NewDiscoveryClientForConfig ops configShallowCopy) (\<lambda>discovery.
     ret \<lparr>cs_DiscoveryClient = discovery, cs_clusterV1alpha1 = clusterV1alpha1\<rparr>)))"

definition clientset_NewForConfigOrDie :: "('x, 'l, 'r, 'd) client_ops \<Rightarrow> 'l client_config \<Rightarrow> ('x, ('r, 'd) Clientset) gom" where
  "clientset_NewForConfigOrDie ops c =
     bindM (cluster_NewForConfigOrDie ops c) (\<lambda>clusterV1alpha1.
     bindM (NewDiscoveryClientForConfigOrDie ops c) (\<lambda>discovery.
     ret \<lparr>cs_DiscoveryClient = discovery, cs_clusterV1alpha1 = clusterV1alpha1\<rparr>))"

definition clientset_New :: "('x, 'l, 'r, 'd) client_ops \<Rightarrow> 'r \<Rightarrow> ('r, 'd) Clientset" where
  "clientset_New ops c = \<lparr>cs_DiscoveryClient = NewDiscoveryClient ops c, cs_clusterV1alpha1 = cluster_New c\<rparr>"

definition clientset_ClusterV1alpha1 :: "('r, 'd) Clientset \<Rightarrow> 'r ClusterV1alpha1Client" where
  "clientset_ClusterV1alpha1 c = cs_clusterV1alpha1 c"

definition clientset_Discovery :: "('r, 'd) Clientset option \<Rightarrow> 'd option" where
  "clientset_Discovery c = (case c of None \<Rightarrow> None | Some cs \<Rightarrow> Some (cs_DiscoveryClient cs))"

section \<open>Properties\<close>

text \<open>The kinds that the handlers of this group return: what \<^verbatim>\<open>New\<close>, \<^verbatim>\<open>NewList\<close> and \<^verbatim>\<open>NewConnectOptions\<close> make.\<close>

definition served_kinds :: "string list" where
  "served_kinds = [''ClusterGateway'', ''ClusterGatewayList'', ''ClusterGatewayProxyOptions'', ''VirtualCluster'', ''VirtualClusterList'']"

lemma AddToScheme_known:
  assumes "scheme_laws ops known"
  shows "\<exists>s'. AddToScheme ops s = Ret s' \<and> (\<forall>k\<in>set served_kinds. known s' SchemeGroupVersion k)"
  using assms by (simp add: AddToScheme_def Let_def scheme_laws_def served_kinds_def SchemeGroupVersion_def)

text \<open>
  Server and client know the same kinds, and the server publishes each of them: once the registration has gone through, on the
  server's scheme as on that of the clientset, every kind a handler returns is known under the group version of the API and has
  an OpenAPI definition. The registration of the clientset cannot fail.
\<close>

theorem served_kinds_registered:
  assumes laws: "scheme_laws ops known" and init: "register_init ops s = Ret s'"
  shows "\<exists>cs. clientset_scheme_init ops t = Ret cs \<and> (\<forall>k\<in>set served_kinds. known s' SchemeGroupVersion k \<and> known cs SchemeGroupVersion k \<and>
    openapi_defs api ref (cluster_v1alpha1 k) \<noteq> None)"
proof -
  obtain s1 where s1: "AddToScheme ops s = Ret s1" "\<forall>k\<in>set served_kinds. known s1 SchemeGroupVersion k" using AddToScheme_known [OF laws, of s] by blast
  obtain s2 where s2: "sch_corev1_AddToScheme ops s1 = Ret s2" "sch_ocmclusterv1_Install ops s2 = Ret s'"
    using init s1(1) by (auto simp: register_init_def split: res.splits)
  have kept: "known s2 gv k" "known s' gv k" if "known s1 gv k" for gv k
    using that laws s2 unfolding scheme_laws_def by metis+
  obtain cs where cs: "AddToScheme ops (sch_AddToGroupVersion ops ('''', ''v1'') t) = Ret cs" "\<forall>k\<in>set served_kinds. known cs SchemeGroupVersion k"
    using AddToScheme_known [OF laws] by blast
  have "\<forall>k\<in>set served_kinds. openapi_defs api ref (cluster_v1alpha1 k) \<noteq> None"
    by (simp add: served_kinds_def GetOpenAPIDefinitions_def type_names)
  then show ?thesis using s1(2) kept cs by (auto simp: clientset_scheme_init_def clientset_AddToScheme_def)
qed

text \<open>What is used of client-go: a client made from a configuration with a rate limiter uses that one.\<close>

definition limiter_laws :: "('x, 'l, 'r, 'd) client_ops \<Rightarrow> ('r \<Rightarrow> 'l option) \<Rightarrow> ('d \<Rightarrow> 'l option) \<Rightarrow> bool" where
  "limiter_laws ops rest_limiter discovery_limiter \<longleftrightarrow>
     (\<forall>c l x r x'. kc_RateLimiter c = Some l \<longrightarrow> RESTClientFor ops c x = (Ret r, x') \<longrightarrow> rest_limiter r = Some l) \<and>
     (\<forall>c l x d x'. kc_RateLimiter c = Some l \<longrightarrow> NewDiscoveryClientForConfig ops c x = (Ret d, x') \<longrightarrow> discovery_limiter d = Some l)"

text \<open>
  The clients of one clientset share one rate limit: with a limiter in the configuration, or a positive query rate, the
  typed client and the discovery client of a clientset made by \<^verbatim>\<open>NewForConfig\<close> use the same limiter, the configured one when there is one; without a limiter and with a
  positive rate a burst that is not positive is refused before anything is created.
\<close>

theorem clientset_one_limiter:
  assumes laws: "limiter_laws ops rest_limiter discovery_limiter"
    and limited: "kc_RateLimiter c \<noteq> None \<or> kc_QPS c > 0"
  shows "(\<forall>cs x'. clientset_NewForConfig ops c x = (Ret cs, x') \<longrightarrow>
      (\<exists>l. rest_limiter (cv_restClient (cs_clusterV1alpha1 cs)) = Some l \<and> discovery_limiter (cs_DiscoveryClient cs) = Some l \<and>
        (\<forall>l'. kc_RateLimiter c = Some l' \<longrightarrow> l = l'))) \<and>
    (kc_RateLimiter c = None \<and> kc_Burst c \<le> 0 \<longrightarrow> (\<exists>e. clientset_NewForConfig ops c x = (Fail e, x)))"
proof (intro conjI allI impI)
  fix cs x' assume run: "clientset_NewForConfig ops c x = (Ret cs, x')"
  define finish where "finish = (\<lambda>c'. bindM (cluster_NewForConfig ops c') (\<lambda>cl. bindM (NewDiscoveryClientForConfig ops c') (\<lambda>d.
       ret \<lparr>cs_DiscoveryClient = d, cs_clusterV1alpha1 = cl\<rparr>)))"
  have "\<exists>c' l y. kc_RateLimiter c' = Some l \<and> (\<forall>l'. kc_RateLimiter c = Some l' \<longrightarrow> l = l') \<and> finish c' y = (Ret cs, x')"
  proof (cases "kc_RateLimiter c")
    case None
    then obtain l y where "finish (c\<lparr>kc_RateLimiter := Some l\<rparr>) y = (Ret cs, x')"
      using run limited unfolding clientset_NewForConfig_def finish_def [symmetric]
      by (auto simp: bindM_Ret_iff [of _ finish] bindM_Ret_iff [of "NewTokenBucketRateLimiter _ _ _"] gom_basic split: if_splits)
    then show ?thesis using None by force
  next
    case (Some l)
    then have "finish c x = (Ret cs, x')"
      using run unfolding clientset_NewForConfig_def finish_def by (simp add: run_simps)
    then show ?thesis using Some by force
  qed
  then obtain c' l y where c': "kc_RateLimiter c' = Some l" "\<forall>l'. kc_RateLimiter c = Some l' \<longrightarrow> l = l'" "finish c' y = (Ret cs, x')" by blast
  have rl: "kc_RateLimiter (setConfigDefaults ops c') = Some l" using c'(1) by (simp add: setConfigDefaults_def Let_def)
  obtain r y1 d y2 where run': "RESTClientFor ops (setConfigDefaults ops c') y = (Ret r, y1)" "NewDiscoveryClientForConfig ops c' y1 = (Ret d, y2)"
    "cs = \<lparr>cs_DiscoveryClient = d, cs_clusterV1alpha1 = \<lparr>cv_restClient = r\<rparr>\<rparr>"
    using c'(3) by (auto simp: finish_def cluster_NewForConfig_def bindM_Ret_iff gom_basic)
  have "rest_limiter r = Some l" "discovery_limiter d = Some l"
    using laws rl c'(1) run'(1,2) unfolding limiter_laws_def by blast+
  then show "\<exists>l. rest_limiter (cv_restClient (cs_clusterV1alpha1 cs)) = Some l \<and> discovery_limiter (cs_DiscoveryClient cs) = Some l \<and>
      (\<forall>l'. kc_RateLimiter c = Some l' \<longrightarrow> l = l')"
    using run'(3) c'(2) by simp
next
  assume "kc_RateLimiter c = None \<and> kc_Burst c \<le> 0"
  then show "\<exists>e. clientset_NewForConfig ops c x = (Fail e, x)" using limited by (simp add: clientset_NewForConfig_def run_simps)
qed

text \<open>A scheme as the set of its kinds, and clients that are their own limiter.\<close>

definition demo_scheme_ops :: "(group_version \<times> string) set scheme_ops" where
  "demo_scheme_ops = \<lparr>sch_AddToGroupVersion = (\<lambda>gv s. s), sch_AddKnownTypes = (\<lambda>gv ks s. s \<union> Pair gv ` set ks),
     sch_corev1_AddToScheme = Ret, sch_ocmclusterv1_Install = Ret\<rparr>"

lemma demo_scheme_laws: "scheme_laws demo_scheme_ops (\<lambda>s gv k. (gv, k) \<in> s)"
  by (auto simp: scheme_laws_def demo_scheme_ops_def)

theorem served_kinds_registered_witness:
  "\<exists>s'. register_init demo_scheme_ops {} = Ret s' \<and> (\<forall>k\<in>set served_kinds. (SchemeGroupVersion, k) \<in> s')"
proof -
  obtain s' where s': "register_init demo_scheme_ops {} = Ret s'" by (simp add: register_init_def AddToScheme_def Let_def demo_scheme_ops_def)
  show ?thesis using served_kinds_registered [OF demo_scheme_laws s', of "{}" demo_openapi_ops "\<lambda>n. n"] s' by blast
qed

definition demo_client_ops :: "(unit, rat, rat option, rat option) client_ops" where
  "demo_client_ops = \<lparr>NewTokenBucketRateLimiter = (\<lambda>q b. ret q), RESTClientFor = (\<lambda>c. ret (kc_RateLimiter c)),
     NewDiscoveryClientForConfig = (\<lambda>c. ret (kc_RateLimiter c)), NewDiscoveryClientForConfigOrDie = (\<lambda>c. ret (kc_RateLimiter c)),
     NewDiscoveryClient = (\<lambda>r. r), DefaultKubernetesUserAgent = ''agent'', Codecs_WithoutConversion = ''codecs''\<rparr>"

definition demo_client_config :: "rat client_config" where
  "demo_client_config = \<lparr>kc_RateLimiter = None, kc_QPS = 5, kc_Burst = 10, kc_GroupVersion = None, kc_APIPath = '''',
     kc_NegotiatedSerializer = None, kc_UserAgent = ''''\<rparr>"

theorem clientset_one_limiter_witness:
  "\<exists>cs l. clientset_NewForConfig demo_client_ops demo_client_config () = (Ret cs, ()) \<and>
     cv_restClient (cs_clusterV1alpha1 cs) = Some l \<and> cs_DiscoveryClient cs = Some l"
proof -
  have laws: "limiter_laws demo_client_ops (\<lambda>r. r) (\<lambda>d. d)" by (simp add: limiter_laws_def demo_client_ops_def run_simps)
  have limited: "kc_RateLimiter demo_client_config \<noteq> None \<or> kc_QPS demo_client_config > 0" by (simp add: demo_client_config_def)
  obtain cs where "clientset_NewForConfig demo_client_ops demo_client_config () = (Ret cs, ())"
    by (simp add: clientset_NewForConfig_def cluster_NewForConfig_def demo_client_ops_def demo_client_config_def run_simps)
  then show ?thesis using clientset_one_limiter [OF laws limited, of "()"] by blast
qed

end
